(* ===== verification/Prelude.thy ===== *)
theory Prelude
  imports "HOL-Library.Word" "HOL-Library.State_Monad"
begin

text \<open>
  Shared material of the libradio development.

  \<^item> Machine integers: \<open>u8\<close> is \<^verbatim>\<open>uchar_t\<close>, \<open>u16\<close> is the AVR's 16-bit
    \<^verbatim>\<open>uint_t\<close> and \<^verbatim>\<open>ushort\<close>; \<open>be16\<close>, \<open>hi8\<close> and \<open>lo8\<close> are the
    \<^verbatim>\<open>(h << 8 | l)\<close>, \<^verbatim>\<open>(v >> 8) & 0xff\<close> and \<^verbatim>\<open>v & 0xff\<close> idioms of the code.
  \<^item> Commands of the state monad: \<open>modify\<close>, \<open>gets\<close>, \<open>when_op\<close> and the counting loop
    \<open>for_each\<close>; every C function that touches global state is a value of
    type \<open>('s, 'a) state\<close> written with these.
  \<^item> Proof calculi for such commands: \<open>preserves I m\<close> (an invariant is kept),
    \<open>yields I m P\<close> (it is kept and the result satisfies \<open>P\<close>), \<open>keeps f m\<close> (a view of the state
    is not changed) and \<open>ensures P m Q\<close> (a condition before and one after), with one rule per
    construct, those of the invariants collected in \<open>keep_rules\<close>.
  \<^item> Decimal numerals as \<^verbatim>\<open>printf("%d")\<close> prints them and their reading back.
\<close>

unbundle bit_operations_syntax

type_synonym u8 = "8 word"
type_synonym u16 = "16 word"

named_theorems keep_rules \<open>introduction rules for the preserves and keeps judgements\<close>
named_theorems op_defs \<open>unfolding equations of the modelled operations\<close>

section \<open>Definitions\<close>

subsection \<open>Bytes and 16-bit values\<close>

definition be16 :: "u8 \<Rightarrow> u8 \<Rightarrow> u16" where
  "be16 h l = (push_bit 8 (ucast h) OR ucast l)"

definition hi8 :: "u16 \<Rightarrow> u8" where
  "hi8 v = ucast (drop_bit 8 v)"

definition lo8 :: "u16 \<Rightarrow> u8" where
  "lo8 v = ucast v"

text \<open>The running exclusive-or of a byte sequence, from a start value.\<close>

fun xor_from :: "u8 \<Rightarrow> u8 list \<Rightarrow> u8" where
  "xor_from acc [] = acc"
| "xor_from acc (b # bs) = xor_from (acc XOR b) bs"

subsection \<open>Commands of the state monad\<close>

definition modify :: "('s \<Rightarrow> 's) \<Rightarrow> ('s, unit) state" where
  "modify f = State (\<lambda>s. ((), f s))"

definition gets :: "('s \<Rightarrow> 'a) \<Rightarrow> ('s, 'a) state" where
  "gets f = State (\<lambda>s. (f s, s))"

definition when_op :: "bool \<Rightarrow> ('s, unit) state \<Rightarrow> ('s, unit) state" where
  "when_op b m = (if b then m else State_Monad.return ())"

text \<open>\<^verbatim>\<open>for (i = ...; ...; i++) body(i)\<close> over a list of loop counters.\<close>

fun for_each :: "'i list \<Rightarrow> ('i \<Rightarrow> ('s, unit) state) \<Rightarrow> ('s, unit) state" where
  "for_each [] body = State_Monad.return ()"
| "for_each (i # is) body = do { body i; for_each is body }"

definition preserves :: "('s \<Rightarrow> bool) \<Rightarrow> ('s, 'a) state \<Rightarrow> bool" where
  "preserves I m \<longleftrightarrow> (\<forall>s. I s \<longrightarrow> I (snd (run_state m s)))"

definition keeps :: "('s \<Rightarrow> 'v) \<Rightarrow> ('s, 'a) state \<Rightarrow> bool" where
  "keeps f m \<longleftrightarrow> (\<forall>s. f (snd (run_state m s)) = f s)"

definition yields :: "('s \<Rightarrow> bool) \<Rightarrow> ('s, 'a) state \<Rightarrow> ('a \<Rightarrow> bool) \<Rightarrow> bool" where
  "yields I m P \<longleftrightarrow> (\<forall>s. I s \<longrightarrow> I (snd (run_state m s)) \<and> P (fst (run_state m s)))"

subsection \<open>Decimal numerals\<close>

definition digit_char :: "nat \<Rightarrow> char" where
  "digit_char d = char_of (48 + d)"

fun dec :: "nat \<Rightarrow> string" where
  "dec n = (if n < 10 then [digit_char n] else dec (n div 10) @ [digit_char (n mod 10)])"

declare dec.simps [simp del]

definition dec_int :: "int \<Rightarrow> string" where
  "dec_int i = (if i < 0 then CHR ''-'' # dec (nat (- i)) else dec (nat i))"

text \<open>\<^verbatim>\<open>%x\<close> and \<^verbatim>\<open>%04x\<close>.\<close>

definition hex_char :: "nat \<Rightarrow> char" where
  "hex_char d = (if d < 10 then char_of (48 + d) else char_of (87 + d))"

fun hex :: "nat \<Rightarrow> string" where
  "hex n = (if n < 16 then [hex_char n] else hex (n div 16) @ [hex_char (n mod 16)])"

declare hex.simps [simp del]

definition hex4 :: "nat \<Rightarrow> string" where
  "hex4 n = replicate (4 - length (hex n)) (CHR ''0'') @ hex n"

section \<open>Lemmas on bytes\<close>

lemma xor_from_acc: "xor_from acc bs = acc XOR xor_from 0 bs"
proof (induction bs arbitrary: acc)
  case Nil
  then show ?case by simp
next
  case (Cons b bs)
  from Cons [of "acc XOR b"] Cons [of "0 XOR b"] show ?case
    by (simp add: xor.assoc)
qed

lemma xor_from_append: "xor_from acc (xs @ ys) = xor_from (xor_from acc xs) ys"
  by (induction xs arbitrary: acc) simp_all

lemma xor_from_Cons0: "xor_from 0 (b # bs) = b XOR xor_from 0 bs"
  by (simp add: xor_from_acc [of b])

lemma be16_hi8_lo8 [simp]: "be16 (hi8 v) (lo8 v) = v"
  by (rule bit_word_eqI) (auto simp: be16_def hi8_def lo8_def bit_simps)

lemma hi8_be16 [simp]: "hi8 (be16 h l) = h"
  by (rule bit_word_eqI) (auto simp: be16_def hi8_def bit_simps dest: bit_imp_le_length)

lemma lo8_be16 [simp]: "lo8 (be16 h l) = l"
  by (rule bit_word_eqI) (auto simp: be16_def lo8_def bit_simps)

lemma u8_bound: "unat (x::u8) < 256"
  using unsigned_less [of x] by simp

lemma u16_bound: "unat (x::u16) < 65536"
  using unsigned_less [of x] by simp

lemma unat_ucast_u8 [simp]: "unat (ucast (x::u8) :: u16) = unat x"
  by (simp add: unsigned_ucast_eq take_bit_nat_eq_self_iff u8_bound [THEN less_trans])

lemma unat_add_u8:
  assumes "unat (m::u16) < 65281"
  shows "unat (m + ucast (p::u8)) = unat m + unat p"
proof -
  have "unat p < 256" by (rule u8_bound)
  then have "unat m + unat p < 2 ^ 16" using assms by simp
  then show ?thesis by (simp add: unat_word_ariths)
qed

lemma dvd_sum_le:
  assumes "p dvd (m::nat)" "p dvd M" "m < M"
  shows "m + p \<le> M"
proof -
  from assms(1,2) have "p dvd M - m" by (rule dvd_diff_nat [rotated])
  with assms(3) show ?thesis using dvd_imp_le [of p "M - m"] by simp
qed

section \<open>Lemmas on commands\<close>

lemma run_modify [simp]: "run_state (modify f) s = ((), f s)"
  by (simp add: modify_def)

lemma run_gets [simp]: "run_state (gets f) s = (f s, s)"
  by (simp add: gets_def)

lemma run_when_op [simp]: "run_state (when_op b m) s = (if b then run_state m s else ((), s))"
  by (simp add: when_op_def)

lemma run_for_each_append:
  "run_state (for_each (xs @ ys) body) s =
     run_state (for_each ys body) (snd (run_state (for_each xs body) s))"
  by (induction xs arbitrary: s) (simp_all add: case_prod_beta)

lemma preserves_bind [keep_rules]:
  "preserves I m \<Longrightarrow> (\<And>x. preserves I (f x)) \<Longrightarrow> preserves I (State_Monad.bind m f)"
  by (simp add: preserves_def case_prod_beta)

lemma preserves_return [keep_rules]: "preserves I (State_Monad.return x)"
  by (simp add: preserves_def)

lemma preserves_gets [keep_rules]: "preserves I (gets f)"
  by (simp add: preserves_def)

lemma preserves_modify: "(\<And>s. I s \<Longrightarrow> I (f s)) \<Longrightarrow> preserves I (modify f)"
  by (simp add: preserves_def)

lemma preserves_if [keep_rules]:
  "(b \<Longrightarrow> preserves I m) \<Longrightarrow> (\<not> b \<Longrightarrow> preserves I n) \<Longrightarrow> preserves I (if b then m else n)"
  by simp

lemma preserves_when [keep_rules]: "(b \<Longrightarrow> preserves I m) \<Longrightarrow> preserves I (when_op b m)"
  by (simp add: when_op_def preserves_return)

lemma preserves_for_each [keep_rules]:
  "(\<And>i. preserves I (body i)) \<Longrightarrow> preserves I (for_each is body)"
  by (induction "is") (auto intro: keep_rules)

lemma preserves_prod [keep_rules]:
  "(\<And>a b. preserves I (f a b)) \<Longrightarrow> preserves I (case p of (a, b) \<Rightarrow> f a b)"
  by (simp add: case_prod_beta)

lemma preservesD: "preserves I m \<Longrightarrow> I s \<Longrightarrow> I (snd (run_state m s))"
  by (simp add: preserves_def)

lemma preserves_run: "preserves I m \<Longrightarrow> I s \<Longrightarrow> run_state m s = (a, t) \<Longrightarrow> I t"
  by (auto simp: preserves_def dest: spec [of _ s])

lemma keeps_bind [keep_rules]:
  "keeps f m \<Longrightarrow> (\<And>x. keeps f (g x)) \<Longrightarrow> keeps f (State_Monad.bind m g)"
  by (simp add: keeps_def case_prod_beta)

lemma keeps_return [keep_rules]: "keeps f (State_Monad.return x)"
  by (simp add: keeps_def)

lemma keeps_gets [keep_rules]: "keeps f (gets g)"
  by (simp add: keeps_def)

lemma keeps_modify: "(\<And>s. f (g s) = f s) \<Longrightarrow> keeps f (modify g)"
  by (simp add: keeps_def)

lemma keeps_if [keep_rules]:
  "(b \<Longrightarrow> keeps f m) \<Longrightarrow> (\<not> b \<Longrightarrow> keeps f n) \<Longrightarrow> keeps f (if b then m else n)"
  by simp

lemma keeps_when [keep_rules]: "(b \<Longrightarrow> keeps f m) \<Longrightarrow> keeps f (when_op b m)"
  by (simp add: when_op_def keeps_return)

lemma keeps_for_each [keep_rules]: "(\<And>i. keeps f (body i)) \<Longrightarrow> keeps f (for_each is body)"
  by (induction "is") (auto intro: keep_rules)

lemma keeps_prod [keep_rules]:
  "(\<And>a b. keeps f (g a b)) \<Longrightarrow> keeps f (case p of (a, b) \<Rightarrow> g a b)"
  by (simp add: case_prod_beta)

lemma keepsD: "keeps f m \<Longrightarrow> f (snd (run_state m s)) = f s"
  by (simp add: keeps_def)

lemma keeps_run: "keeps f m \<Longrightarrow> run_state m s = (a, t) \<Longrightarrow> f t = f s"
  by (auto simp: keeps_def dest: spec [of _ s])

section \<open>Lemmas on decimal numerals\<close>

lemma dec_small [simp]: "n < 10 \<Longrightarrow> dec n = [digit_char n]"
  by (subst dec.simps) simp

lemma dec_large: "\<not> n < 10 \<Longrightarrow> dec n = dec (n div 10) @ [digit_char (n mod 10)]"
  by (subst dec.simps) simp

lemma dec_nonempty [simp]: "dec n \<noteq> []"
  by (subst dec.simps) simp

section \<open>Bounded loops\<close>

lemma preserves_for_each_bounded:
  "(\<And>i. i \<in> set is \<Longrightarrow> preserves I (body i)) \<Longrightarrow> preserves I (for_each is body)"
  by (induction "is") (auto intro!: preserves_bind preserves_return)

section \<open>Results of commands under an invariant\<close>

lemma yieldsI: "(\<And>s r t. I s \<Longrightarrow> run_state m s = (r, t) \<Longrightarrow> I t \<and> P r) \<Longrightarrow> yields I m P"
  unfolding yields_def by (metis prod.collapse)

lemma yieldsD: "yields I m P \<Longrightarrow> I s \<Longrightarrow> run_state m s = (r, t) \<Longrightarrow> I t \<and> P r"
  unfolding yields_def by (metis fst_conv snd_conv)

lemma yields_preserves: "yields I m P \<Longrightarrow> preserves I m"
  by (simp add: yields_def preserves_def)

lemma preserves_yields: "preserves I m \<Longrightarrow> yields I m (\<lambda>_. True)"
  by (simp add: yields_def preserves_def)

lemma yields_bind:
  "yields I m P \<Longrightarrow> (\<And>x. P x \<Longrightarrow> yields I (f x) Q) \<Longrightarrow> yields I (State_Monad.bind m f) Q"
  by (simp add: yields_def case_prod_beta)

lemma preserves_bind_yields:
  "yields I m P \<Longrightarrow> (\<And>x. P x \<Longrightarrow> preserves I (f x)) \<Longrightarrow> preserves I (State_Monad.bind m f)"
  by (simp add: yields_def preserves_def case_prod_beta)

lemma yields_bind_preserves:
  "preserves I m \<Longrightarrow> (\<And>x. yields I (f x) Q) \<Longrightarrow> yields I (State_Monad.bind m f) Q"
  by (simp add: yields_def preserves_def case_prod_beta)

lemma yields_return: "P x \<Longrightarrow> yields I (State_Monad.return x) P"
  by (simp add: yields_def)

lemma yields_if: "(b \<Longrightarrow> yields I m P) \<Longrightarrow> (\<not> b \<Longrightarrow> yields I n P) \<Longrightarrow> yields I (if b then m else n) P"
  by simp

lemma yields_weaken: "yields I m P \<Longrightarrow> (\<And>r. P r \<Longrightarrow> Q r) \<Longrightarrow> yields I m Q"
  by (auto simp: yields_def)

lemma unit_run: obtains t where "run_state m s = ((), t)"
  by (metis prod.collapse old.unit.exhaust)

lemma keeps_via: "keeps f m \<Longrightarrow> (\<And>s t. f s = f t \<Longrightarrow> g s = g t) \<Longrightarrow> keeps g m"
  unfolding keeps_def by blast

lemma preserves_True: "preserves (\<lambda>_. True) m"
  by (simp add: preserves_def)

section \<open>Conditions before and after\<close>

definition ensures :: "('s \<Rightarrow> bool) \<Rightarrow> ('s, 'r) state \<Rightarrow> ('r \<Rightarrow> 's \<Rightarrow> bool) \<Rightarrow> bool" where
  "ensures P m Q \<longleftrightarrow> (\<forall>s. P s \<longrightarrow> Q (fst (run_state m s)) (snd (run_state m s)))"

lemma ensures_bind: "ensures P m R \<Longrightarrow> (\<And>x. ensures (R x) (f x) Q) \<Longrightarrow> ensures P (State_Monad.bind m f) Q"
  by (simp add: ensures_def case_prod_beta)

lemma ensures_preserves: "preserves I m \<Longrightarrow> ensures I m (\<lambda>_. I)"
  by (simp add: ensures_def preserves_def)

lemma ensures_unit: "ensures P m (\<lambda>_. Q) \<Longrightarrow> (\<And>s. Q s \<Longrightarrow> R s) \<Longrightarrow> ensures P m (\<lambda>_. R)"
  by (simp add: ensures_def)

lemma ensures_run: "ensures P m Q \<Longrightarrow> P s \<Longrightarrow> run_state m s = (r, t) \<Longrightarrow> Q r t"
  by (auto simp: ensures_def dest: spec [of _ s])

lemma ensures_preserved: "ensures I m (\<lambda>_. I) \<Longrightarrow> preserves I m"
  by (simp add: ensures_def preserves_def)

lemma keeps_preserves: "keeps f m \<Longrightarrow> preserves (\<lambda>w. f w = a) m"
  by (simp add: keeps_def preserves_def)

lemma ensures_if: "(c \<Longrightarrow> ensures P m Q) \<Longrightarrow> (\<not> c \<Longrightarrow> ensures P n Q) \<Longrightarrow> ensures P (if c then m else n) Q"
  by simp

lemma yields_both: "preserves I m \<Longrightarrow> yields (\<lambda>_. True) m P \<Longrightarrow> yields I m P"
  by (simp add: preserves_def yields_def)

lemma ensures_yields: "yields I m P \<Longrightarrow> ensures I m (\<lambda>x s. I s \<and> P x)"
  by (simp add: ensures_def yields_def)

lemma ensures_case: "(P \<Longrightarrow> ensures I m Q) \<Longrightarrow> ensures (\<lambda>s. I s \<and> P) m Q"
  by (auto simp: ensures_def)

lemma ensures_bind_yields:
  "yields I m P \<Longrightarrow> (\<And>x. P x \<Longrightarrow> ensures I (f x) Q) \<Longrightarrow> ensures I (State_Monad.bind m f) Q"
  by (rule ensures_bind [OF ensures_yields]) (auto intro: ensures_case)

lemma ensures_bind_preserves:
  "preserves I m \<Longrightarrow> (\<And>x. ensures I (f x) Q) \<Longrightarrow> ensures I (State_Monad.bind m f) Q"
  by (rule ensures_bind [OF ensures_preserves])

lemma ensures_prod: "(\<And>a b. p = (a, b) \<Longrightarrow> ensures P (f a b) Q) \<Longrightarrow> ensures P (case p of (a, b) \<Rightarrow> f a b) Q"
  by (simp add: case_prod_beta)

lemma preserves_split: "(\<And>a b. p = (a, b) \<Longrightarrow> preserves I (f a b)) \<Longrightarrow> preserves I (case p of (a, b) \<Rightarrow> f a b)"
  by (simp add: case_prod_beta)

end
