(* ===== verification/Mcu.thy ===== *)
theory Mcu
  imports Prelude
begin

text \<open>
  The data model shared by every AVR program of the repository: the constants of
  \<^verbatim>\<open>libradio.h\<close> and \<^verbatim>\<open>lib/internal.h\<close>, \<^verbatim>\<open>struct packet\<close>,
  \<^verbatim>\<open>struct channel\<close>, \<^verbatim>\<open>struct libradio\<close>, and the state of the microcontroller,
  a record that extends \<^verbatim>\<open>struct libradio\<close> (there is one global, \<^verbatim>\<open>radio\<close>) with the other
  globals of \<^verbatim>\<open>lib/\<close>, the I/O registers the code writes, and what the outside sees.

  The state has two type parameters: \<open>'d\<close> is the state of everything beyond the pins (the Si4463
  radio chip, the analogue inputs, the sources of interrupts) and \<open>'a\<close> holds the globals of the
  application that is linked with the library. Code that is not in the repository (the libavr
  functions \<^verbatim>\<open>spi_byte\<close>, \<^verbatim>\<open>analog_read\<close> and \<^verbatim>\<open>_sleep\<close>) is the record \<open>hw\<close>
  of functions on \<open>'d\<close>; the record \<open>env\<close> adds the callbacks an application supplies. An \<open>env\<close> is
  an argument of every operation that uses one of them.

  Three fields have no counterpart in the C: \<open>spi_log\<close> is the sequence of slave-select edges and
  bytes the program puts on the SPI bus, \<open>out\<close> the characters it prints, and \<open>stopped\<close> records the
  first undefined behaviour (an access outside an array, a division by zero), a loop that does not
  end, or a reset. It is never cleared, so a final state with \<open>stopped = None\<close> says that the whole
  run was free of all of these; after a stop the rest of a run means nothing.
\<close>

section \<open>Constants\<close>

abbreviation (input) MAX_PACKET_SIZE :: nat where "MAX_PACKET_SIZE \<equiv> 16"
abbreviation (input) PACKET_HEADER_LEN :: nat where "PACKET_HEADER_LEN \<equiv> 6"
abbreviation (input) MAX_PAYLOAD_SIZE :: nat where "MAX_PAYLOAD_SIZE \<equiv> 10"
abbreviation (input) MAX_SPI_BLOCK :: nat where "MAX_SPI_BLOCK \<equiv> 20"
abbreviation (input) MAX_RESPONSE_SIZE :: nat where "MAX_RESPONSE_SIZE \<equiv> 16"
abbreviation (input) SI4463_PACKET_LEN :: u8 where "SI4463_PACKET_LEN \<equiv> 16"

abbreviation (input) LIBRADIO_STATE_STARTUP :: u8 where "LIBRADIO_STATE_STARTUP \<equiv> 0"
abbreviation (input) LIBRADIO_STATE_ERROR :: u8 where "LIBRADIO_STATE_ERROR \<equiv> 1"
abbreviation (input) LIBRADIO_STATE_LOW_BATTERY :: u8 where "LIBRADIO_STATE_LOW_BATTERY \<equiv> 2"
abbreviation (input) LIBRADIO_STATE_COLD :: u8 where "LIBRADIO_STATE_COLD \<equiv> 3"
abbreviation (input) LIBRADIO_STATE_WARM :: u8 where "LIBRADIO_STATE_WARM \<equiv> 4"
abbreviation (input) LIBRADIO_STATE_LISTEN :: u8 where "LIBRADIO_STATE_LISTEN \<equiv> 5"
abbreviation (input) LIBRADIO_STATE_ACTIVE :: u8 where "LIBRADIO_STATE_ACTIVE \<equiv> 6"

abbreviation (input) RADIO_CMD_NOOP :: u8 where "RADIO_CMD_NOOP \<equiv> 0"
abbreviation (input) RADIO_CMD_FIRMWARE :: u8 where "RADIO_CMD_FIRMWARE \<equiv> 1"
abbreviation (input) RADIO_CMD_STATUS :: u8 where "RADIO_CMD_STATUS \<equiv> 2"
abbreviation (input) RADIO_CMD_ACTIVATE :: u8 where "RADIO_CMD_ACTIVATE \<equiv> 3"
abbreviation (input) RADIO_CMD_DEACTIVATE :: u8 where "RADIO_CMD_DEACTIVATE \<equiv> 4"
abbreviation (input) RADIO_CMD_SET_TIME :: u8 where "RADIO_CMD_SET_TIME \<equiv> 5"
abbreviation (input) RADIO_CMD_SET_DATE :: u8 where "RADIO_CMD_SET_DATE \<equiv> 6"
abbreviation (input) RADIO_CMD_READ_EEPROM :: u8 where "RADIO_CMD_READ_EEPROM \<equiv> 7"
abbreviation (input) RADIO_CMD_WRITE_EEPROM :: u8 where "RADIO_CMD_WRITE_EEPROM \<equiv> 8"
abbreviation (input) RADIO_STATUS_RESPONSE :: u8 where "RADIO_STATUS_RESPONSE \<equiv> 9"
abbreviation (input) RADIO_EEPROM_RESPONSE :: u8 where "RADIO_EEPROM_RESPONSE \<equiv> 10"
abbreviation (input) RADIO_CMD_ADDITIONAL_BASE :: u8 where "RADIO_CMD_ADDITIONAL_BASE \<equiv> 16"

abbreviation (input) RADIO_STATUS_STATIC :: u8 where "RADIO_STATUS_STATIC \<equiv> 0"
abbreviation (input) RADIO_STATUS_DYNAMIC :: u8 where "RADIO_STATUS_DYNAMIC \<equiv> 1"

abbreviation (input) LIBRADIO_CHSTATE_DISABLED :: u8 where "LIBRADIO_CHSTATE_DISABLED \<equiv> 0"
abbreviation (input) LIBRADIO_CHSTATE_READ :: u8 where "LIBRADIO_CHSTATE_READ \<equiv> 1"
abbreviation (input) LIBRADIO_CHSTATE_EMPTY :: u8 where "LIBRADIO_CHSTATE_EMPTY \<equiv> 2"
abbreviation (input) LIBRADIO_CHSTATE_ADDING :: u8 where "LIBRADIO_CHSTATE_ADDING \<equiv> 3"
abbreviation (input) LIBRADIO_CHSTATE_TRANSMIT :: u8 where "LIBRADIO_CHSTATE_TRANSMIT \<equiv> 4"
abbreviation (input) LIBRADIO_CHSTATE_TXRESPOND :: u8 where "LIBRADIO_CHSTATE_TXRESPOND \<equiv> 5"
abbreviation (input) LIBRADIO_CHSTATE_RXRESPONSE1 :: u8 where "LIBRADIO_CHSTATE_RXRESPONSE1 \<equiv> 6"
abbreviation (input) LIBRADIO_CHSTATE_RXRESPONSE4 :: u8 where "LIBRADIO_CHSTATE_RXRESPONSE4 \<equiv> 9"

abbreviation (input) LIBRADIO_WAIT_RXINT :: u8 where "LIBRADIO_WAIT_RXINT \<equiv> 1"
abbreviation (input) LIBRADIO_WAIT_SERIAL :: u8 where "LIBRADIO_WAIT_SERIAL \<equiv> 2"
abbreviation (input) LIBRADIO_WAIT_TIMER :: u8 where "LIBRADIO_WAIT_TIMER \<equiv> 4"

abbreviation (input) SI4463_PART_INFO :: u8 where "SI4463_PART_INFO \<equiv> 0x01"
abbreviation (input) SI4463_FUNC_INFO :: u8 where "SI4463_FUNC_INFO \<equiv> 0x10"
abbreviation (input) SI4463_GET_PROPERTY :: u8 where "SI4463_GET_PROPERTY \<equiv> 0x12"
abbreviation (input) SI4463_FIFO_INFO :: u8 where "SI4463_FIFO_INFO \<equiv> 0x15"
abbreviation (input) SI4463_PACKET_INFO :: u8 where "SI4463_PACKET_INFO \<equiv> 0x16"
abbreviation (input) SI4463_GET_INT_STATUS :: u8 where "SI4463_GET_INT_STATUS \<equiv> 0x20"
abbreviation (input) SI4463_GET_PH_STATUS :: u8 where "SI4463_GET_PH_STATUS \<equiv> 0x21"
abbreviation (input) SI4463_GET_MODEM_STATUS :: u8 where "SI4463_GET_MODEM_STATUS \<equiv> 0x22"
abbreviation (input) SI4463_GET_CHIP_STATUS :: u8 where "SI4463_GET_CHIP_STATUS \<equiv> 0x23"
abbreviation (input) SI4463_START_TX :: u8 where "SI4463_START_TX \<equiv> 0x31"
abbreviation (input) SI4463_START_RX :: u8 where "SI4463_START_RX \<equiv> 0x32"
abbreviation (input) SI4463_REQUEST_DEVICE_STATE :: u8 where "SI4463_REQUEST_DEVICE_STATE \<equiv> 0x33"
abbreviation (input) SI4463_CHANGE_STATE :: u8 where "SI4463_CHANGE_STATE \<equiv> 0x34"
abbreviation (input) SI4463_WRITE_TX_FIFO :: u8 where "SI4463_WRITE_TX_FIFO \<equiv> 0x66"
abbreviation (input) SI4463_READ_RX_FIFO :: u8 where "SI4463_READ_RX_FIFO \<equiv> 0x77"

abbreviation (input) SI4463_STATE_NOCHANGE :: u8 where "SI4463_STATE_NOCHANGE \<equiv> 0"
abbreviation (input) SI4463_STATE_SLEEP :: u8 where "SI4463_STATE_SLEEP \<equiv> 1"
abbreviation (input) SI4463_STATE_READY :: u8 where "SI4463_STATE_READY \<equiv> 3"
abbreviation (input) SI4463_STATE_TX :: u8 where "SI4463_STATE_TX \<equiv> 7"
abbreviation (input) SI4463_STATE_RX :: u8 where "SI4463_STATE_RX \<equiv> 8"

abbreviation (input) SPI_SEND_OK :: u8 where "SPI_SEND_OK \<equiv> 0"
abbreviation (input) SPI_SEND_WRITE_FAIL :: u8 where "SPI_SEND_WRITE_FAIL \<equiv> 1"
abbreviation (input) SPI_SEND_STATUS_FAIL :: u8 where "SPI_SEND_STATUS_FAIL \<equiv> 2"
abbreviation (input) SPI_SEND_ACK_FAIL :: u8 where "SPI_SEND_ACK_FAIL \<equiv> 3"
abbreviation (input) SPI_SEND_READ_FAIL :: u8 where "SPI_SEND_READ_FAIL \<equiv> 4"
abbreviation (input) SPI_SEND_TIMEOUT :: u8 where "SPI_SEND_TIMEOUT \<equiv> 5"

section \<open>Packets and channels\<close>

record packet =
  ticks :: u16
  node :: u8
  cmd :: u8
  len :: u8
  csum :: u8
  data :: "u8 list"

record channel =
  ch_state :: u8
  ch_priority :: u8
  ch_packet :: packet

text \<open>
  The bytes of a \<^verbatim>\<open>struct packet\<close> as a \<^verbatim>\<open>uchar_t *\<close> walks over them: avr-gcc
  packs the members without padding and stores 16-bit values low byte first.
\<close>

definition packet_bytes :: "packet \<Rightarrow> u8 list" where
  "packet_bytes p = [lo8 (ticks p), hi8 (ticks p), node p, cmd p, len p, csum p] @ data p"

definition packet_of_bytes :: "u8 list \<Rightarrow> packet" where
  "packet_of_bytes bs =
     \<lparr>ticks = be16 (bs ! 1) (bs ! 0), node = bs ! 2, cmd = bs ! 3, len = bs ! 4, csum = bs ! 5,
      data = drop 6 bs\<rparr>"

text \<open>Overwriting the first bytes of a packet through such a pointer.\<close>

definition packet_overlay :: "u8 list \<Rightarrow> packet \<Rightarrow> packet" where
  "packet_overlay bs p = packet_of_bytes (bs @ drop (length bs) (packet_bytes p))"

definition zero_packet :: packet where
  "zero_packet = \<lparr>ticks = 0, node = 0, cmd = 0, len = 0, csum = 0, data = replicate 10 0\<rparr>"

definition zero_channel :: channel where
  "zero_channel = \<lparr>ch_state = 0, ch_priority = 0, ch_packet = zero_packet\<rparr>"

definition packet_ok :: "packet \<Rightarrow> bool" where
  "packet_ok p \<longleftrightarrow> length (data p) = MAX_PAYLOAD_SIZE"

definition channel_ok :: "channel \<Rightarrow> bool" where
  "channel_ok ch \<longleftrightarrow> packet_ok (ch_packet ch)"

section \<open>The library's global state\<close>

record libradio =
  r_state :: u8
  r_tens_of_minutes :: u8
  r_ms_ticks :: u16
  r_slow_period :: u8
  r_fast_period :: u8
  r_period :: u8
  r_heart_beat :: u16
  r_date :: u16
  r_timeout :: u16
  r_all_ticks :: u16
  r_main_ticks :: u16
  r_tick_count :: u16
  r_catch_irq :: u8
  r_my_channel :: u8
  r_curr_channel :: u8
  r_my_node_id :: u8
  r_cat1 :: u8
  r_cat2 :: u8
  r_num1 :: u8
  r_num2 :: u8
  r_chip_rev :: u8
  r_part_id :: u16
  r_pbuild :: u8
  r_device_id :: u16
  r_customer :: u8
  r_rom_id :: u8
  r_rev_ext :: u8
  r_rev_branch :: u8
  r_rev_int :: u8
  r_patch :: u16
  r_func :: u8
  r_npacket_rx :: u16
  r_npacket_tx :: u16
  r_curr_state :: u8
  r_radio_active :: u8
  r_rx_fifo :: u8
  r_tx_fifo :: u8
  r_int_pending :: u8
  r_int_status :: u8
  r_ph_pending :: u8
  r_ph_status :: u8
  r_modem_pending :: u8
  r_modem_status :: u8
  r_chip_pending :: u8
  r_chip_status :: u8
  r_cmd_error :: u8
  r_saw_rx :: u8
  r_current_rssi :: u8
  r_latch_rssi :: u8
  r_ant1_rssi :: u8
  r_ant2_rssi :: u8

definition zero_libradio :: libradio where
  "zero_libradio =
     \<lparr>r_state = 0, r_tens_of_minutes = 0, r_ms_ticks = 0, r_slow_period = 0, r_fast_period = 0,
      r_period = 0, r_heart_beat = 0, r_date = 0, r_timeout = 0, r_all_ticks = 0,
      r_main_ticks = 0, r_tick_count = 0, r_catch_irq = 0, r_my_channel = 0, r_curr_channel = 0,
      r_my_node_id = 0, r_cat1 = 0, r_cat2 = 0, r_num1 = 0, r_num2 = 0, r_chip_rev = 0,
      r_part_id = 0, r_pbuild = 0, r_device_id = 0, r_customer = 0, r_rom_id = 0, r_rev_ext = 0,
      r_rev_branch = 0, r_rev_int = 0, r_patch = 0, r_func = 0, r_npacket_rx = 0,
      r_npacket_tx = 0, r_curr_state = 0, r_radio_active = 0, r_rx_fifo = 0, r_tx_fifo = 0,
      r_int_pending = 0, r_int_status = 0, r_ph_pending = 0, r_ph_status = 0,
      r_modem_pending = 0, r_modem_status = 0, r_chip_pending = 0, r_chip_status = 0,
      r_cmd_error = 0, r_saw_rx = 0, r_current_rssi = 0, r_latch_rssi = 0, r_ant1_rssi = 0,
      r_ant2_rssi = 0\<rparr>"

datatype stop = Out_of_bounds | Div_by_zero | Diverges | Rebooted

datatype spi_event = SS bool | Sent u8

record ('d, 'a) mcu = libradio +
  pkt_index :: u8
  pkt_send_len :: u8
  pkt_recv_len :: u8
  pkt_data :: "u8 list"
  hbclock :: u8
  timer_count :: u16
  thread_ok :: u8
  elapsed_second :: u8
  irq_fired :: u8
  rxchan :: channel
  txchan :: channel
  statusbuffer :: "u8 list"
  eeprom :: "u16 \<Rightarrow> u8"
  portb :: u8
  portc :: u8
  portd :: u8
  ddrb :: u8
  ddrc :: u8
  ddrd :: u8
  tcnt1 :: u16
  ocr1a :: u16
  tccr1a :: u8
  tccr1b :: u8
  tccr1c :: u8
  timsk1 :: u8
  eicra :: u8
  eimsk :: u8
  ubrr0 :: u16
  ucsr0b :: u8
  ucsr0c :: u8
  mcusr :: u8
  sio_rxq :: string
  out :: string
  spi_log :: "spi_event list"
  stopped :: "stop option"
  dev :: 'd
  app :: 'a

type_synonym ('d, 'a, 'r) op = "(('d, 'a) mcu, 'r) state"

text \<open>The interrupts of the vector table that do anything: timer 1, the radio's, and the USART's.\<close>

datatype interrupt = Timer1_CompA | Int0 | Usart_Rx char

record 'd hw =
  e_spi_byte :: "u8 \<Rightarrow> 'd \<Rightarrow> int \<times> 'd"
  e_ss :: "bool \<Rightarrow> 'd \<Rightarrow> 'd"
  e_analog_read :: "u8 \<Rightarrow> 'd \<Rightarrow> int \<times> 'd"
  e_sleep :: "'d \<Rightarrow> interrupt list \<times> 'd"

record ('d, 'a) env = "'d hw" +
  e_operate :: "packet \<Rightarrow> ('d, 'a, unit) op"
  e_fetch_status :: "u8 \<Rightarrow> u8 list \<Rightarrow> nat \<Rightarrow> ('d, 'a, int \<times> u8 list) op"
  e_power_mode :: "u8 \<Rightarrow> ('d, 'a, unit) op"

section \<open>Elementary operations\<close>

definition stop_with :: "stop \<Rightarrow> ('d, 'a) mcu \<Rightarrow> ('d, 'a) mcu" where
  "stop_with r w = (case stopped w of None \<Rightarrow> w\<lparr>stopped := Some r\<rparr> | Some _ \<Rightarrow> w)"

definition printf :: "string \<Rightarrow> ('d, 'a, unit) op" where
  "printf s = modify (\<lambda>w. w\<lparr>out := out w @ s\<rparr>)"

text \<open>\<^verbatim>\<open>pkt_data[i] = v\<close>, with the access checked against the array's size.\<close>

definition pkt_store :: "nat \<Rightarrow> u8 \<Rightarrow> ('d, 'a, unit) op" where
  "pkt_store i v = modify (\<lambda>w.
     if i < length (pkt_data w) then w\<lparr>pkt_data := (pkt_data w)[i := v]\<rparr>
     else stop_with Out_of_bounds w)"

section \<open>Well-formed states\<close>

text \<open>The sizes of the C arrays, which no operation changes.\<close>

definition mcu_ok :: "('d, 'a) mcu \<Rightarrow> bool" where
  "mcu_ok w \<longleftrightarrow> length (pkt_data w) = MAX_SPI_BLOCK \<and> channel_ok (rxchan w) \<and>
     channel_ok (txchan w) \<and> length (statusbuffer w) = MAX_RESPONSE_SIZE"

text \<open>A state from which no undefined behaviour has been reached, with usable clock periods.\<close>

definition safe :: "('d, 'a) mcu \<Rightarrow> bool" where
  "safe w \<longleftrightarrow> mcu_ok w \<and> stopped w = None \<and>
     0 < r_fast_period w \<and> 0 < r_slow_period w \<and> 0 < r_period w"

text \<open>The part of the state that an exchange with the radio chip leaves alone.\<close>

definition core_view :: "('d, 'a) mcu \<Rightarrow> _" where
  "core_view w =
     ((r_state w, r_tens_of_minutes w, r_ms_ticks w, r_slow_period w, r_fast_period w, r_period w,
       r_heart_beat w, r_date w, r_timeout w, r_main_ticks w, r_tick_count w),
      (r_my_channel w, r_my_node_id w, r_cat1 w, r_cat2 w, r_num1 w, r_num2 w, r_catch_irq w,
       r_npacket_rx w, r_npacket_tx w, r_radio_active w, r_saw_rx w),
      (hbclock w, timer_count w, thread_ok w, elapsed_second w, irq_fired w, rxchan w, txchan w,
       statusbuffer w, eeprom w, eicra w, eimsk w, sio_rxq w, app w))"

section \<open>Lemmas\<close>

lemma packet_bytes_length [simp]: "packet_ok p \<Longrightarrow> length (packet_bytes p) = 16"
  by (simp add: packet_bytes_def packet_ok_def)

lemma packet_of_bytes_of [simp]: "packet_of_bytes (packet_bytes p) = p"
  by (simp add: packet_of_bytes_def packet_bytes_def)

lemma packet_bytes_of_bytes:
  assumes "6 \<le> length bs"
  shows "packet_bytes (packet_of_bytes bs) = bs"
proof -
  have "bs = take 6 bs @ drop 6 bs" by simp
  also have "take 6 bs = [bs ! 0, bs ! 1, bs ! 2, bs ! 3, bs ! 4, bs ! 5]"
    using assms by (auto simp: list_eq_iff_nth_eq nth_Cons' less_Suc_eq_0_disj numeral_eq_Suc)
  finally show ?thesis
    by (simp add: packet_of_bytes_def packet_bytes_def)
qed

lemma packet_of_bytes_ok: "length bs = 16 \<Longrightarrow> packet_ok (packet_of_bytes bs)"
  by (simp add: packet_ok_def packet_of_bytes_def)

lemma packet_overlay_ok [simp]: "packet_ok p \<Longrightarrow> length bs \<le> 16 \<Longrightarrow> packet_ok (packet_overlay bs p)"
  by (simp add: packet_overlay_def packet_of_bytes_ok)

lemma packet_overlay_full: "packet_ok p \<Longrightarrow> length bs = 16 \<Longrightarrow> packet_overlay bs p = packet_of_bytes bs"
  by (simp add: packet_overlay_def)

lemma core_view_stop [simp]: "core_view (stop_with r w) = core_view w"
  by (simp add: core_view_def stop_with_def split: option.splits)

lemma safe_simps: "safe w \<Longrightarrow> length (pkt_data w) = 20" "safe w \<Longrightarrow> stopped w = None"
  by (simp_all add: safe_def mcu_ok_def)

end
