(* ===== verification/Clock.thy ===== *)
theory Clock
  imports Mcu
begin

text \<open>
  The real-time clock: \<^verbatim>\<open>lib/clock.c\<close>, \<^verbatim>\<open>lib/time.c\<close>, \<^verbatim>\<open>lib/power_mode.c\<close>,
  \<^verbatim>\<open>libradio_set_clock\<close> of \<^verbatim>\<open>lib/init.c\<close> and \<^verbatim>\<open>lib/setled.S\<close>.
  \<open>clocktick\<close> is the timer interrupt's handler; the other operations are called from the main
  thread.

  The lemmas describe the handler field by field, refine the time of day to one counter of 10ms
  units that stops at the reserved value 0xff, show which bit of the pattern the LED shows after each interrupt,
  and give the countdown that wakes the main thread the contract \<open>countdown\<close>, a locale that the
  client loop and the controller use as well.
\<close>

section \<open>Operations\<close>

definition songs :: "u16 list" where
  "songs = [0xffff, 0x3333, 0x0, 0x1, 0xf, 0xff, 0xf7]"

definition setled :: "u8 \<Rightarrow> ('d, 'a, unit) op" where
  "setled v = modify (\<lambda>w.
     if v = 0 then w\<lparr>portd := Bit_Operations.set_bit 3 (portd w)\<rparr>
     else w\<lparr>portd := unset_bit 3 (portd w)\<rparr>)"

text \<open>The start-up of the ports, and the test point.\<close>

definition ioinit :: "('d, 'a, unit) op" where
  "ioinit = modify (\<lambda>w. w\<lparr>portb := 0x02, ddrb := 0xee, portc := 0x00, ddrc := 0x37, portd := 0x00, ddrd := 0xfa\<rparr>)"

definition testpt :: "u8 \<Rightarrow> ('d, 'a, unit) op" where
  "testpt v = modify (\<lambda>w.
     if v \<noteq> 0 then w\<lparr>portc := Bit_Operations.set_bit 5 (portc w)\<rparr>
     else w\<lparr>portc := unset_bit 5 (portc w)\<rparr>)"

definition clocktick :: "('d, 'a, unit) op" where
  "clocktick = do {
     modify (\<lambda>w. w\<lparr>hbclock := hbclock w + r_period w\<rparr>);
     hb \<leftarrow> gets hbclock;
     when_op (hb > 10) (do {
       modify (\<lambda>w. w\<lparr>hbclock := hbclock w - 10\<rparr>);
       song \<leftarrow> gets r_heart_beat;
       let ledf = (if song AND 0x8000 \<noteq> 0 then 1 else 0);
       setled ledf;
       modify (\<lambda>w. w\<lparr>r_heart_beat := push_bit 1 (r_heart_beat w) OR ucast ledf\<rparr>)
     });
     tom \<leftarrow> gets r_tens_of_minutes;
     when_op (tom \<noteq> 0xff) (do {
       modify (\<lambda>w. w\<lparr>r_ms_ticks := r_ms_ticks w + ucast (r_period w)\<rparr>);
       ms \<leftarrow> gets r_ms_ticks;
       when_op (ms \<ge> 60000) (
         modify (\<lambda>w. w\<lparr>r_ms_ticks := 0, r_tens_of_minutes := r_tens_of_minutes w + 1\<rparr>))
     });
     mt \<leftarrow> gets r_main_ticks;
     when_op (mt \<noteq> 0) (do {
       modify (\<lambda>w. w\<lparr>r_main_ticks := r_main_ticks w - 1\<rparr>);
       mt \<leftarrow> gets r_main_ticks;
       when_op (mt = 0) (modify (\<lambda>w. w\<lparr>thread_ok := 1, r_main_ticks := r_tick_count w\<rparr>))
     });
     modify (\<lambda>w. w\<lparr>timer_count := timer_count w + ucast (r_period w)\<rparr>);
     tc \<leftarrow> gets timer_count;
     when_op (tc \<ge> 100) (
       modify (\<lambda>w. w\<lparr>timer_count := timer_count w - 100, elapsed_second := 1\<rparr>));
     modify (\<lambda>w. w\<lparr>r_all_ticks := r_all_ticks w + 1\<rparr>)
   }"

definition libradio_set_delay :: "u16 \<Rightarrow> ('d, 'a, unit) op" where
  "libradio_set_delay delay = do {
     modify (\<lambda>w. w\<lparr>r_tick_count := delay\<rparr>);
     mt \<leftarrow> gets r_main_ticks;
     when_op (mt = 0) (modify (\<lambda>w. w\<lparr>r_main_ticks := delay\<rparr>))
   }"

definition libradio_get_delay :: "('d, 'a, u16) op" where
  "libradio_get_delay = gets r_tick_count"

definition libradio_tick_wait :: "('d, 'a, u8) op" where
  "libradio_tick_wait = do {
     run_ok \<leftarrow> gets thread_ok;
     modify (\<lambda>w. w\<lparr>thread_ok := 0\<rparr>);
     State_Monad.return run_ok
   }"

definition libradio_elapsed_second :: "('d, 'a, u8) op" where
  "libradio_elapsed_second = do {
     old_value \<leftarrow> gets elapsed_second;
     modify (\<lambda>w. w\<lparr>elapsed_second := 0\<rparr>);
     State_Monad.return old_value
   }"

definition libradio_set_song :: "u8 \<Rightarrow> ('d, 'a, unit) op" where
  "libradio_set_song new_state = do {
     let st = (if new_state > LIBRADIO_STATE_ACTIVE then LIBRADIO_STATE_ACTIVE else new_state);
     modify (\<lambda>w. if unat st < length songs then w\<lparr>r_heart_beat := songs ! unat st\<rparr>
                 else stop_with Out_of_bounds w)
   }"

definition libradio_get_ticks :: "('d, 'a, u16) op" where
  "libradio_get_ticks = gets r_ms_ticks"

definition libradio_get_tom :: "('d, 'a, u8) op" where
  "libradio_get_tom = gets r_tens_of_minutes"

text \<open>
  The default of the \<^verbatim>\<open>libradio_power_mode\<close> callback: prescaler 64 or 1024 for timer 1.
\<close>

definition libradio_power_mode :: "u8 \<Rightarrow> ('d, 'a, unit) op" where
  "libradio_power_mode hi_flag = do {
     (if hi_flag \<noteq> 0
      then modify (\<lambda>w. w\<lparr>r_period := r_fast_period w, tccr1b := 0x0b\<rparr>)
      else modify (\<lambda>w. w\<lparr>r_period := r_slow_period w, tccr1b := 0x0d\<rparr>));
     modify (\<lambda>w. w\<lparr>tccr1c := 0, timsk1 := 2\<rparr>)
   }"

definition libradio_set_clock :: "u8 \<Rightarrow> u8 \<Rightarrow> ('d, 'a, unit) op" where
  "libradio_set_clock fast slow = do {
     modify (\<lambda>w. w\<lparr>r_period := fast, r_fast_period := fast\<rparr>);
     modify (\<lambda>w. w\<lparr>r_slow_period := slow\<rparr>)
   }"

text \<open>
  Specification of the time of day: 10ms units since midnight, stopped at the start of the
  reserved period 0xff. \<open>aligned\<close> says that the period divides ten minutes and that the current
  count is a whole number of periods, so that the counter meets the ten-minute boundary exactly.
\<close>

definition parked :: nat where
  "parked = 255 * 60000"

definition time_of :: "('d, 'a) mcu \<Rightarrow> nat" where
  "time_of w = (if r_tens_of_minutes w = 0xff then parked
     else 60000 * unat (r_tens_of_minutes w) + unat (r_ms_ticks w))"

definition aligned :: "('d, 'a) mcu \<Rightarrow> bool" where
  "aligned w \<longleftrightarrow> 0 < r_period w \<and> unat (r_period w) dvd 60000 \<and>
     (r_tens_of_minutes w \<noteq> 0xff \<longrightarrow>
        unat (r_ms_ticks w) < 60000 \<and> unat (r_period w) dvd unat (r_ms_ticks w))"

text \<open>The state after one interrupt.\<close>

definition tick :: "('d, 'a) mcu \<Rightarrow> ('d, 'a) mcu" where
  "tick w = snd (run_state clocktick w)"

text \<open>One turn of the LED pattern.\<close>

definition rot1 :: "u16 \<Rightarrow> u16" where
  "rot1 x = push_bit 1 x OR (if x AND 0x8000 \<noteq> 0 then 1 else 0)"

text \<open>How many seconds a main loop counts that polls once after each of \<open>n\<close> interrupts.\<close>

primrec seconds_polled :: "nat \<Rightarrow> ('d, 'a) mcu \<Rightarrow> nat" where
  "seconds_polled 0 w = 0"
| "seconds_polled (Suc n) w =
     (case run_state (do { clocktick; libradio_elapsed_second }) w of
        (b, w') \<Rightarrow> unat b + seconds_polled n w')"

lemmas clock_ops [op_defs] =
  setled_def clocktick_def libradio_set_delay_def libradio_get_delay_def libradio_tick_wait_def
  libradio_elapsed_second_def libradio_set_song_def libradio_get_ticks_def libradio_get_tom_def
  libradio_power_mode_def libradio_set_clock_def

section \<open>The handler, field by field\<close>

lemma run_clocktick: "run_state clocktick w = ((), tick w)"
  by (simp add: tick_def prod_eq_iff)

lemma tick_ms_ticks:
  "r_ms_ticks (tick w) =
     (if r_tens_of_minutes w = 0xff then r_ms_ticks w
      else if 60000 \<le> r_ms_ticks w + ucast (r_period w) then 0
      else r_ms_ticks w + ucast (r_period w))"
  by (simp add: tick_def clock_ops)

lemma tick_tom:
  "r_tens_of_minutes (tick w) =
     (if r_tens_of_minutes w \<noteq> 0xff \<and> 60000 \<le> r_ms_ticks w + ucast (r_period w)
      then r_tens_of_minutes w + 1 else r_tens_of_minutes w)"
  by (simp add: tick_def clock_ops)

lemma tick_heart_beat:
  "r_heart_beat (tick w) =
     (if hbclock w + r_period w > 10
      then rot1 (r_heart_beat w) else r_heart_beat w)"
  by (simp add: tick_def clock_ops rot1_def)

lemma tick_hbclock:
  "hbclock (tick w) =
     (if hbclock w + r_period w > 10 then hbclock w + r_period w - 10
      else hbclock w + r_period w)"
  by (simp add: tick_def clock_ops)

lemma tick_main_ticks:
  "r_main_ticks (tick w) = (if r_main_ticks w = 1 then r_tick_count w
     else if r_main_ticks w = 0 then 0 else r_main_ticks w - 1)"
  by (simp add: tick_def clock_ops)

lemma tick_thread_ok:
  "thread_ok (tick w) = (if r_main_ticks w = 1 then 1 else thread_ok w)"
  by (simp add: tick_def clock_ops)

lemma tick_timer_count:
  "timer_count (tick w) =
     (let t = timer_count w + ucast (r_period w) in if 100 \<le> t then t - 100 else t)"
  by (simp add: tick_def clock_ops)

lemma tick_elapsed_second:
  "elapsed_second (tick w) =
     (if 100 \<le> timer_count w + ucast (r_period w) then 1 else elapsed_second w)"
  by (simp add: tick_def clock_ops)

lemma keeps_tick_frame:
  "keeps (\<lambda>w. ((r_period w, r_tick_count w, r_state w, r_fast_period w, r_slow_period w),
     (irq_fired w, sio_rxq w, stopped w, dev w, app w, eimsk w), r_timeout w, r_my_channel w)) clocktick"
  unfolding clocktick_def setled_def Let_def
  by (intro keeps_bind keeps_gets keeps_when keeps_modify) simp_all

lemma tick_frame [simp]:
  "r_period (tick w) = r_period w" "r_tick_count (tick w) = r_tick_count w"
  "r_state (tick w) = r_state w" "r_fast_period (tick w) = r_fast_period w"
  "r_slow_period (tick w) = r_slow_period w" "irq_fired (tick w) = irq_fired w"
  "sio_rxq (tick w) = sio_rxq w" "stopped (tick w) = stopped w" "dev (tick w) = dev w"
  "app (tick w) = app w" "eimsk (tick w) = eimsk w"
  "r_timeout (tick w) = r_timeout w" "r_my_channel (tick w) = r_my_channel w"
  using keepsD [OF keeps_tick_frame, of w] by (simp_all add: tick_def)

section \<open>The time of day\<close>

lemma tick_aligned_time:
  assumes a: "aligned w"
  shows "aligned (tick w) \<and> time_of (tick w) = min (time_of w + unat (r_period w)) parked"
proof (cases "r_tens_of_minutes w = 0xff")
  case True
  then show ?thesis using a by (simp add: aligned_def time_of_def tick_tom)
next
  case False
  let ?p = "unat (r_period w)" and ?m = "unat (r_ms_ticks w)" and ?t = "unat (r_tens_of_minutes w)"
  from a False have m: "?m < 60000" "?p dvd ?m" "?p dvd 60000" by (simp_all add: aligned_def)
  have s: "unat (r_ms_ticks w + ucast (r_period w)) = ?m + ?p"
    using m(1) by (intro unat_add_u8) simp
  have le: "?m + ?p \<le> 60000" using m by (intro dvd_sum_le) auto
  have t: "?t < 255"
    using False u8_bound [of "r_tens_of_minutes w"] by (simp add: word_unat_eq_iff)
  then have t1: "unat (r_tens_of_minutes w + 1) = ?t + 1" by (simp add: unat_word_ariths)
  have c: "(60000 \<le> r_ms_ticks w + ucast (r_period w)) = (?m + ?p = 60000)"
    using le s by (auto simp: word_le_nat_alt)
  show ?thesis
    using a False m s le t t1 c
    by (auto simp: aligned_def time_of_def tick_tom tick_ms_ticks parked_def word_unat_eq_iff)
qed

lemma time_of_le_parked: "aligned w \<Longrightarrow> time_of w \<le> parked"
  using u8_bound [of "r_tens_of_minutes w"]
  by (auto simp: time_of_def parked_def aligned_def word_unat_eq_iff)

lemma ticks_time:
  assumes a: "aligned w"
  shows "aligned ((tick ^^ n) w) \<and> r_period ((tick ^^ n) w) = r_period w \<and>
    time_of ((tick ^^ n) w) = min (time_of w + n * unat (r_period w)) parked"
proof (induction n)
  case 0
  show ?case using a time_of_le_parked [OF a] by simp
next
  case (Suc n)
  then show ?case using tick_aligned_time [of "(tick ^^ n) w"] by auto
qed

section \<open>The LED pattern\<close>

lemma and_8000: "(x::u16) AND 0x8000 \<noteq> 0 \<longleftrightarrow> bit x 15"
proof -
  have "(0x8000::u16) = push_bit 15 1" by simp
  then show ?thesis by (simp only: bit_iff_and_push_bit_not_eq_0)
qed

lemma bit_rot1:
  assumes n: "n < 16"
  shows "bit (rot1 x) n = bit x ((n + 15) mod 16)"
proof (cases n)
  case 0
  then show ?thesis by (simp add: rot1_def and_8000 bit_0 even_or_iff)
next
  case (Suc m)
  then have "(n + 15) mod 16 = m" using n by simp
  then show ?thesis using Suc n
    by (auto simp only: rot1_def and_8000 bit_simps split: if_splits) simp_all
qed

lemma bit_rot1_power: "n < 16 \<Longrightarrow> bit ((rot1 ^^ k) x) n = bit x ((n + 15 * k) mod 16)"
proof (induction k arbitrary: n)
  case 0
  then show ?case by simp
next
  case (Suc k)
  have "bit ((rot1 ^^ Suc k) x) n = bit ((rot1 ^^ k) x) ((n + 15) mod 16)"
    using Suc.prems by (simp add: bit_rot1)
  also have "\<dots> = bit x (((n + 15) mod 16 + 15 * k) mod 16)" by (rule Suc.IH) simp
  also have "((n + 15) mod 16 + 15 * k) mod 16 = (n + 15 * Suc k) mod 16"
    by (simp add: mod_simps algebra_simps)
  finally show ?case .
qed

text \<open>The bit that the \<open>q\<close>-th note plays.\<close>

lemma last_note:
  assumes "0 < q"
  shows "15 * q mod 16 = 15 - (q - 1) mod (16::nat)"
proof -
  define k r where "k = (q - 1) div 16" and "r = (q - 1) mod 16"
  have q: "q = Suc (k * 16 + r)" using assms by (simp add: k_def r_def)
  have r: "r \<le> 15" using mod_less_divisor [of 16 "q - 1"] by (simp add: r_def)
  then have "15 * q = (15 - r) + (15 * k + r) * 16" unfolding q by simp
  then have "15 * q mod 16 = (15 - r) mod 16" by (simp only: mod_mult_self1)
  then show ?thesis by (simp add: r_def)
qed

text \<open>At the 10ms period the pattern advances on every tenth interrupt.\<close>

lemma tick_led_idle:
  "r_period w = 1 \<Longrightarrow> unat (hbclock w) < 10 \<Longrightarrow>
     unat (hbclock (tick w)) = Suc (unat (hbclock w)) \<and> r_heart_beat (tick w) = r_heart_beat w"
  by (simp add: tick_hbclock tick_heart_beat word_less_nat_alt unat_word_ariths)

lemma tick_led_advance:
  "r_period w = 1 \<Longrightarrow> hbclock w = 10 \<Longrightarrow>
     hbclock (tick w) = 1 \<and> r_heart_beat (tick w) = rot1 (r_heart_beat w)"
  by (simp add: tick_hbclock tick_heart_beat)

lemma tick_portd:
  "portd (tick w) = (if hbclock w + r_period w > 10
     then (if bit (r_heart_beat w) 15 then unset_bit 3 (portd w) else Bit_Operations.set_bit 3 (portd w)) else portd w)"
  by (simp add: tick_def clock_ops and_8000)

lemma ticks_led_running:
  assumes "r_period w = 1" "0 < hbclock w" "hbclock w \<le> 10"
  shows "r_period ((tick ^^ n) w) = 1 \<and>
     unat (hbclock ((tick ^^ n) w)) = Suc ((unat (hbclock w) + n - 1) mod 10) \<and>
     r_heart_beat ((tick ^^ n) w) = (rot1 ^^ ((unat (hbclock w) + n - 1) div 10)) (r_heart_beat w) \<and>
     (\<forall>i. i \<noteq> 3 \<longrightarrow> bit (portd ((tick ^^ n) w)) i = bit (portd w) i) \<and>
     bit (portd ((tick ^^ n) w)) 3 = (if (unat (hbclock w) + n - 1) div 10 = 0 then bit (portd w) 3
       else \<not> bit (r_heart_beat w) (15 * ((unat (hbclock w) + n - 1) div 10) mod 16))"
proof (induction n)
  case 0
  have "0 < unat (hbclock w)" "unat (hbclock w) \<le> 10" using assms by (simp_all add: word_less_nat_alt word_le_nat_alt)
  then show ?case using assms(1) by simp
next
  case (Suc n)
  let ?v = "(tick ^^ n) w" and ?m = "unat (hbclock w) + n - 1"
  have h: "0 < unat (hbclock w)" using assms by (simp add: word_less_nat_alt)
  have m: "unat (hbclock w) + Suc n - 1 = Suc ?m" using h by simp
  have p: "r_period ?v = 1" and hb: "unat (hbclock ?v) = Suc (?m mod 10)" using Suc by simp_all
  have lt: "?m mod 10 < 10" by simp
  have u: "unat (hbclock ?v + 1) = unat (hbclock ?v) + 1" using hb lt by (simp add: unat_word_ariths)
  show ?case
  proof (cases "?m mod 10 = 9")
    case True
    then have e: "hbclock ?v = 10" using hb by (simp add: word_unat_eq_iff)
    have d: "Suc ?m div 10 = Suc (?m div 10)" "Suc ?m mod 10 = 0" using True by (simp_all add: div_Suc mod_Suc)
    have b15: "bit (r_heart_beat ?v) 15 = bit (r_heart_beat w) (15 * Suc (?m div 10) mod 16)"
      using Suc bit_rot1_power [of 15 "?m div 10" "r_heart_beat w"] by (simp add: algebra_simps)
    show ?thesis unfolding m d using tick_led_advance [OF p e] Suc b15 p e
      by (auto simp: tick_portd bit_simps)
  next
    case False
    then have l: "unat (hbclock ?v) < 10" using hb lt by linarith
    have d: "Suc ?m div 10 = ?m div 10" "Suc ?m mod 10 = Suc (?m mod 10)" using False by (simp_all add: div_Suc mod_Suc)
    have "\<not> 10 < hbclock ?v + 1" using u l by (simp add: word_less_nat_alt)
    then have "portd (tick ?v) = portd ?v" using p by (simp add: tick_portd)
    then show ?thesis unfolding m d using tick_led_idle [OF p l] Suc p by simp
  qed
qed

text \<open>The first note may come one tick later, when the handler starts from zero.\<close>

lemma ticks_led:
  assumes "r_period w = 1" "hbclock w \<le> 10"
  shows "let q = (unat (hbclock w) + n - 1) div 10 in
     r_heart_beat ((tick ^^ n) w) = (rot1 ^^ q) (r_heart_beat w) \<and>
     (\<forall>i. i \<noteq> 3 \<longrightarrow> bit (portd ((tick ^^ n) w)) i = bit (portd w) i) \<and>
     bit (portd ((tick ^^ n) w)) 3 = (if q = 0 then bit (portd w) 3 else \<not> bit (r_heart_beat w) (15 * q mod 16))"
proof (cases "hbclock w = 0")
  case False
  then have "0 < hbclock w" by (simp add: word_greater_zero_iff)
  from ticks_led_running [OF assms(1) this assms(2), of n] show ?thesis by (simp add: Let_def)
next
  case zero: True
  show ?thesis
  proof (cases n)
    case (Suc k)
    have "portd (tick w) = portd w" using assms(1) zero by (simp add: tick_portd)
    moreover have "unat (hbclock (tick w)) = 1" "r_heart_beat (tick w) = r_heart_beat w"
      using tick_led_idle [OF assms(1)] zero by simp_all
    moreover from this have "hbclock (tick w) = 1" by (simp add: word_unat_eq_iff)
    ultimately show ?thesis using ticks_led_running [of "tick w" k] assms(1) Suc zero
      by (simp add: Let_def funpow_swap1 del: funpow.simps(2)) (simp add: funpow_swap1)
  qed (simp add: zero)
qed

section \<open>Counting seconds\<close>

lemma run_elapsed_second:
  "run_state libradio_elapsed_second w = (elapsed_second w, w\<lparr>elapsed_second := 0\<rparr>)"
  by (simp add: libradio_elapsed_second_def)

lemma seconds_polled_count:
  assumes "0 < r_period w" "r_period w \<le> 100" "timer_count w < 100" "elapsed_second w = 0"
  shows "seconds_polled n w = (unat (timer_count w) + n * unat (r_period w)) div 100"
  using assms
proof (induction n arbitrary: w)
  case 0
  then show ?case by (simp add: word_less_nat_alt)
next
  case (Suc n)
  define v where "v = (tick w)\<lparr>elapsed_second := 0\<rparr>"
  let ?t = "unat (timer_count w)" and ?p = "unat (r_period w)"
  from Suc.prems have b: "?t < 100" "?p \<le> 100" "0 < ?p"
    by (simp_all add: word_less_nat_alt word_le_nat_alt)
  then have s: "unat (timer_count w + ucast (r_period w)) = ?t + ?p"
    by (intro unat_add_u8) simp
  have c: "(100 \<le> timer_count w + ucast (r_period w)) = (100 \<le> ?t + ?p)"
    using s by (simp add: word_le_nat_alt)
  have tv: "unat (timer_count v) = (if 100 \<le> ?t + ?p then ?t + ?p - 100 else ?t + ?p)"
    using s c b by (simp add: v_def tick_timer_count Let_def unat_sub word_le_nat_alt)
  have IH: "seconds_polled n v = (unat (timer_count v) + n * ?p) div 100"
    using Suc.IH [of v] Suc.prems b tv
    by (simp add: v_def word_less_nat_alt split: if_splits)
  have e: "unat (elapsed_second (tick w)) = (if 100 \<le> ?t + ?p then 1 else 0)"
    using Suc.prems c by (simp add: tick_elapsed_second)
  have "seconds_polled (Suc n) w = unat (elapsed_second (tick w)) + seconds_polled n v"
    by (simp add: run_clocktick run_elapsed_second v_def)
  then show ?case using IH e tv by (auto simp: algebra_simps)
qed

section \<open>The countdown that wakes the main thread\<close>

text \<open>
  A counter that each step lowers; the step that would take it to zero raises a flag and starts
  it again from a reload value.
\<close>

locale countdown =
  fixes step :: "'s \<Rightarrow> 's" and remaining :: "'s \<Rightarrow> nat" and reload :: "'s \<Rightarrow> nat"
    and fired :: "'s \<Rightarrow> bool"
  assumes step_down: "1 < remaining s \<Longrightarrow> remaining (step s) = remaining s - 1"
    and step_quiet: "1 < remaining s \<Longrightarrow> fired (step s) = fired s"
    and step_fire: "remaining s = 1 \<Longrightarrow> fired (step s) \<and> remaining (step s) = reload s"
    and step_reload: "reload (step s) = reload s"
begin

lemma reload_steps: "reload ((step ^^ k) s) = reload s"
  by (induction k) (simp_all add: step_reload)

lemma running: "k < remaining s \<Longrightarrow>
    remaining ((step ^^ k) s) = remaining s - k \<and> fired ((step ^^ k) s) = fired s"
  by (induction k) (simp_all add: step_down step_quiet)

lemma fires:
  assumes "0 < remaining s"
  shows "fired ((step ^^ remaining s) s) \<and> remaining ((step ^^ remaining s) s) = reload s"
proof -
  obtain k where k: "remaining s = Suc k" using assms by (cases "remaining s") auto
  then have "remaining ((step ^^ k) s) = 1" using running [of k s] by simp
  then show ?thesis using k by (simp add: step_fire reload_steps)
qed

lemma fires_exactly:
  assumes "\<not> fired s" and "0 < remaining s" and "k \<le> remaining s"
  shows "fired ((step ^^ k) s) \<longleftrightarrow> k = remaining s"
  using assms running [of k s] fires [of s] by (cases "k = remaining s") auto

end

lemma tick_main_ticks_nat:
  "unat (r_main_ticks (tick w)) =
     (if unat (r_main_ticks w) = 1 then unat (r_tick_count w) else unat (r_main_ticks w) - 1)"
  by (auto simp: tick_main_ticks unat_minus_one word_unat_eq_iff)

interpretation wake: countdown tick "\<lambda>w. unat (r_main_ticks w)" "\<lambda>w. unat (r_tick_count w)"
  "\<lambda>w. thread_ok w \<noteq> 0"
  by unfold_locales (auto simp: tick_main_ticks_nat tick_thread_ok word_unat_eq_iff)

section \<open>Safety\<close>

lemma songs_in_range: "(x::u8) \<le> 6 \<Longrightarrow> unat x < length songs"
  by (simp add: songs_def word_le_nat_alt)

lemma preserves_safe_song [keep_rules]: "preserves safe (libradio_set_song s)"
  by (auto simp: libradio_set_song_def Let_def songs_in_range safe_def mcu_ok_def not_less
      intro!: keep_rules preserves_modify)

lemma preserves_safe_clock [keep_rules]:
  "preserves safe (libradio_set_delay d)" 
  "preserves safe (libradio_power_mode h)" "preserves safe libradio_tick_wait"
  "preserves safe libradio_elapsed_second" "preserves safe (setled v)"
  by (auto simp: libradio_set_delay_def libradio_power_mode_def libradio_tick_wait_def
     libradio_elapsed_second_def setled_def safe_def mcu_ok_def intro!: keep_rules preserves_modify)

lemma preserves_safe_tick [keep_rules]: "preserves safe clocktick"
  by (auto simp: clocktick_def safe_def mcu_ok_def Let_def intro!: keep_rules preserves_modify)

end
