(* ===== verification/Packet_Io.thy ===== *)
theory Packet_Io
  imports Clock
begin

text \<open>
  The SPI layer, \<^verbatim>\<open>lib/packet.c\<close> with \<^verbatim>\<open>lib/setss.S\<close>: command exchange with
  the radio chip (\<open>pkt_send\<close>) and the transfer of one packet to the TX FIFO and from the RX FIFO.

  \<open>dev_transact\<close> is the specification of a command exchange: what passes between the program and an
  arbitrary device, as a function of the bytes to send: the command, then at most \<open>MAX_COUNT\<close> polls until the chip
  is ready, then the answer. It has the code's polling and limit but works on lists of bytes, without the
  shared buffer and its indices, without the port and without the machine's state.
  \<open>pkt_send_refines\<close> shows that the loops over the shared buffer implement it, and
  \<open>frame\<close> is the specification of the sixteen bytes a packet is on the air.
\<close>

section \<open>Operations\<close>

definition setss :: "('d, 'a) env \<Rightarrow> u8 \<Rightarrow> ('d, 'a, unit) op" where
  "setss E v = modify (\<lambda>w.
     w\<lparr>portb := (if v = 0 then Bit_Operations.set_bit 1 (portb w) else unset_bit 1 (portb w)),
       spi_log := spi_log w @ [SS (v \<noteq> 0)],
       dev := e_ss E (v \<noteq> 0) (dev w)\<rparr>)"

text \<open>A call of libavr's \<^verbatim>\<open>spi_byte\<close>: the device decides the answer.\<close>

definition spi_byte :: "('d, 'a) env \<Rightarrow> u8 \<Rightarrow> ('d, 'a, int) op" where
  "spi_byte E b = State (\<lambda>w. case e_spi_byte E b (dev w) of
     (k, d) \<Rightarrow> (k, w\<lparr>spi_log := spi_log w @ [Sent b], dev := d\<rparr>))"

definition pkt_init :: "('d, 'a, unit) op" where
  "pkt_init = modify (\<lambda>w. w\<lparr>pkt_index := 0, pkt_send_len := 0, pkt_recv_len := 0\<rparr>)"

definition pkt_load :: "nat \<Rightarrow> ('d, 'a, u8) op" where
  "pkt_load i = State (\<lambda>w.
     if i < length (pkt_data w) then (pkt_data w ! i, w) else (0, stop_with Out_of_bounds w))"

fun pkt_write_loop :: "('d, 'a) env \<Rightarrow> nat list \<Rightarrow> ('d, 'a, bool) op" where
  "pkt_write_loop E [] = State_Monad.return True"
| "pkt_write_loop E (i # is) = do {
     b \<leftarrow> pkt_load i;
     k \<leftarrow> spi_byte E b;
     if k = -1 then State_Monad.return False else pkt_write_loop E is
   }"

fun pkt_read_loop :: "('d, 'a) env \<Rightarrow> nat list \<Rightarrow> ('d, 'a, bool) op" where
  "pkt_read_loop E [] = State_Monad.return True"
| "pkt_read_loop E (j # js) = do {
     k \<leftarrow> spi_byte E 0xff;
     if k < 0 then State_Monad.return False
     else do { pkt_store j (word_of_int k); pkt_read_loop E js }
   }"

text \<open>The polling loop, with the number of attempts that are left.\<close>

fun pkt_poll_loop :: "('d, 'a) env \<Rightarrow> u8 \<Rightarrow> nat \<Rightarrow> ('d, 'a, u8) op" where
  "pkt_poll_loop E recv_len 0 = State_Monad.return SPI_SEND_TIMEOUT"
| "pkt_poll_loop E recv_len (Suc n) = do {
     setss E 1;
     k \<leftarrow> spi_byte E 0x44;
     if k < 0 then do { setss E 0; State_Monad.return SPI_SEND_STATUS_FAIL }
     else do {
       k \<leftarrow> spi_byte E 0xff;
       if k < 0 then do { setss E 0; State_Monad.return SPI_SEND_ACK_FAIL }
       else if k = 0xff then do {
         ok \<leftarrow> pkt_read_loop E [0..<unat recv_len];
         setss E 0;
         State_Monad.return (if ok then SPI_SEND_OK else SPI_SEND_READ_FAIL)
       }
       else do { setss E 0; pkt_poll_loop E recv_len n }
     }
   }"

definition MAX_COUNT :: nat where
  "MAX_COUNT = 1000"

definition pkt_send :: "('d, 'a) env \<Rightarrow> u8 \<Rightarrow> u8 \<Rightarrow> ('d, 'a, u8) op" where
  "pkt_send E send_len recv_len = do {
     setss E 1;
     ok \<leftarrow> pkt_write_loop E [0..<unat send_len];
     if \<not> ok then do { setss E 0; State_Monad.return SPI_SEND_WRITE_FAIL }
     else do { setss E 0; pkt_poll_loop E recv_len MAX_COUNT }
   }"

definition pkt_error :: "u8 \<Rightarrow> ('d, 'a, u8) op" where
  "pkt_error i = do {
     printf (''spi error '' @ dec (unat i) @ ''\<newline>'');
     State_Monad.return 0
   }"

fun fifo_read_loop :: "('d, 'a) env \<Rightarrow> nat \<Rightarrow> ('d, 'a, u8 list) op" where
  "fifo_read_loop E 0 = State_Monad.return []"
| "fifo_read_loop E (Suc n) = do {
     k \<leftarrow> spi_byte E 0x00;
     bs \<leftarrow> fifo_read_loop E n;
     State_Monad.return (word_of_int k # bs)
   }"

fun fifo_write_loop :: "('d, 'a) env \<Rightarrow> u8 list \<Rightarrow> ('d, 'a, unit) op" where
  "fifo_write_loop E [] = State_Monad.return ()"
| "fifo_write_loop E (b # bs) = do { k \<leftarrow> spi_byte E b; fifo_write_loop E bs }"

text \<open>The channel is passed by value and returned, with what the code stores through its pointer.\<close>

definition libradio_rxpacket :: "('d, 'a) env \<Rightarrow> channel \<Rightarrow> ('d, 'a, u8 \<times> channel) op" where
  "libradio_rxpacket E ch = do {
     rx_fifo \<leftarrow> gets r_rx_fifo;
     let n = (if unat rx_fifo > MAX_PACKET_SIZE then MAX_PACKET_SIZE else unat rx_fifo);
     setss E 1;
     spi_byte E SI4463_READ_RX_FIFO;
     bs \<leftarrow> fifo_read_loop E n;
     setss E 0;
     let p = packet_overlay bs (ch_packet ch);
     let p = (if unat (len p) > MAX_PAYLOAD_SIZE then p\<lparr>len := 10\<rparr> else p);
     let ch = ch\<lparr>ch_packet := p\<rparr>;
     let sum = xor_from 0 (take (PACKET_HEADER_LEN + unat (len p)) (packet_bytes p));
     if sum \<noteq> 0 then State_Monad.return (0, ch)
     else do {
       when_op (cmd p < RADIO_STATUS_RESPONSE) (modify (\<lambda>w. w\<lparr>r_ms_ticks := ticks p\<rparr>));
       State_Monad.return (1, ch)
     }
   }"

definition libradio_txpacket :: "('d, 'a) env \<Rightarrow> channel \<Rightarrow> ('d, 'a, u8 \<times> channel) op" where
  "libradio_txpacket E ch =
     (if unat (len (ch_packet ch)) > MAX_PAYLOAD_SIZE then State_Monad.return (0, ch)
      else do {
        let n = PACKET_HEADER_LEN + unat (len (ch_packet ch));
        now \<leftarrow> gets r_ms_ticks;
        let p = (ch_packet ch)\<lparr>ticks := now\<rparr>;
        let p = p\<lparr>csum := 0\<rparr>;
        let p = p\<lparr>csum := xor_from 0 (take n (packet_bytes p))\<rparr>;
        setss E 1;
        spi_byte E SI4463_WRITE_TX_FIFO;
        fifo_write_loop E
          (map (\<lambda>i. if i < n then packet_bytes p ! i else 0xff) [0..<unat SI4463_PACKET_LEN]);
        setss E 0;
        State_Monad.return (1, ch\<lparr>ch_packet := p\<rparr>)
      })"

section \<open>Specification\<close>

subsection \<open>A command exchange with a device\<close>

fun dev_write :: "('d, 'a) env \<Rightarrow> u8 list \<Rightarrow> 'd \<Rightarrow> bool \<times> spi_event list \<times> 'd" where
  "dev_write E [] d = (True, [], d)"
| "dev_write E (b # bs) d =
     (case e_spi_byte E b d of (k, d1) \<Rightarrow>
        if k = -1 then (False, [Sent b], d1)
        else (case dev_write E bs d1 of (ok, l, d2) \<Rightarrow> (ok, Sent b # l, d2)))"

fun dev_read :: "('d, 'a) env \<Rightarrow> nat \<Rightarrow> 'd \<Rightarrow> bool \<times> u8 list \<times> spi_event list \<times> 'd" where
  "dev_read E 0 d = (True, [], [], d)"
| "dev_read E (Suc n) d =
     (case e_spi_byte E 0xff d of (k, d1) \<Rightarrow>
        if k < 0 then (False, [], [Sent 0xff], d1)
        else (case dev_read E n d1 of
                (ok, rs, l, d2) \<Rightarrow> (ok, word_of_int k # rs, Sent 0xff # l, d2)))"

fun dev_poll :: "('d, 'a) env \<Rightarrow> nat \<Rightarrow> nat \<Rightarrow> 'd \<Rightarrow> u8 \<times> u8 list \<times> spi_event list \<times> 'd" where
  "dev_poll E rl 0 d = (SPI_SEND_TIMEOUT, [], [], d)"
| "dev_poll E rl (Suc n) d =
     (case e_spi_byte E 0x44 (e_ss E True d) of (k, d1) \<Rightarrow>
        if k < 0 then (SPI_SEND_STATUS_FAIL, [], [SS True, Sent 0x44, SS False], e_ss E False d1)
        else (case e_spi_byte E 0xff d1 of (k, d2) \<Rightarrow>
          if k < 0 then
            (SPI_SEND_ACK_FAIL, [], [SS True, Sent 0x44, Sent 0xff, SS False], e_ss E False d2)
          else if k = 0xff then
            (case dev_read E rl d2 of (ok, rs, l, d3) \<Rightarrow>
               (if ok then SPI_SEND_OK else SPI_SEND_READ_FAIL, rs,
                [SS True, Sent 0x44, Sent 0xff] @ l @ [SS False], e_ss E False d3))
          else (case dev_poll E rl n (e_ss E False d2) of (c, rs, l, d3) \<Rightarrow>
                  (c, rs, [SS True, Sent 0x44, Sent 0xff, SS False] @ l, d3))))"

definition dev_transact ::
  "('d, 'a) env \<Rightarrow> u8 list \<Rightarrow> nat \<Rightarrow> 'd \<Rightarrow> u8 \<times> u8 list \<times> spi_event list \<times> 'd" where
  "dev_transact E bs rl d =
     (case dev_write E bs (e_ss E True d) of (ok, l, d1) \<Rightarrow>
        if \<not> ok then (SPI_SEND_WRITE_FAIL, [], [SS True] @ l @ [SS False], e_ss E False d1)
        else (case dev_poll E rl MAX_COUNT (e_ss E False d1) of (c, rs, l', d2) \<Rightarrow>
                (c, rs, [SS True] @ l @ [SS False] @ l', d2)))"

subsection \<open>The frame of a packet\<close>

definition frame_len :: "packet \<Rightarrow> nat" where
  "frame_len p = PACKET_HEADER_LEN + unat (len p)"

text \<open>The packet as it is sent at time \<open>now\<close>: time stamp and checksum filled in.\<close>

definition stamped :: "u16 \<Rightarrow> packet \<Rightarrow> packet" where
  "stamped now p =
     p\<lparr>ticks := now, csum := xor_from 0 (take (frame_len p) (packet_bytes (p\<lparr>ticks := now, csum := 0\<rparr>)))\<rparr>"

definition frame :: "packet \<Rightarrow> u8 list" where
  "frame p = take (frame_len p) (packet_bytes p) @ replicate (16 - frame_len p) 0xff"

text \<open>The device answers reads of the RX FIFO with the given bytes.\<close>

fun dev_serves :: "('d, 'a) env \<Rightarrow> u8 list \<Rightarrow> 'd \<Rightarrow> bool" where
  "dev_serves E [] d = True"
| "dev_serves E (b # bs) d =
     (case e_spi_byte E 0 d of (k, d1) \<Rightarrow> k = uint b \<and> dev_serves E bs d1)"

text \<open>The outcome of a reception, as a function of the bytes in the FIFO.\<close>

definition received :: "u8 list \<Rightarrow> packet \<Rightarrow> packet" where
  "received bs p =
     (let q = packet_overlay bs p in if unat (len q) > 10 then q\<lparr>len := 10\<rparr> else q)"

definition sum_ok :: "packet \<Rightarrow> bool" where
  "sum_ok p \<longleftrightarrow> xor_from 0 (take (frame_len p) (packet_bytes p)) = 0"

section \<open>The command exchange implements its specification\<close>

lemma run_setss [simp]:
  "run_state (setss E v) w = ((), w\<lparr>portb := (if v = 0 then Bit_Operations.set_bit 1 (portb w) else unset_bit 1 (portb w)),
       spi_log := spi_log w @ [SS (v \<noteq> 0)], dev := e_ss E (v \<noteq> 0) (dev w)\<rparr>)"
  by (simp add: setss_def)

lemma run_spi_byte [simp]:
  "run_state (spi_byte E b) w = (case e_spi_byte E b (dev w) of
     (k, d) \<Rightarrow> (k, w\<lparr>spi_log := spi_log w @ [Sent b], dev := d\<rparr>))"
  by (simp add: spi_byte_def)

lemma run_pkt_store [simp]:
  "i < length (pkt_data w) \<Longrightarrow> run_state (pkt_store i v) w = ((), w\<lparr>pkt_data := (pkt_data w)[i := v]\<rparr>)"
  by (simp add: pkt_store_def)

lemma run_pkt_load [simp]:
  "i < length (pkt_data w) \<Longrightarrow> run_state (pkt_load i) w = (pkt_data w ! i, w)"
  by (simp add: pkt_load_def)

lemma port_bit_last [simp]:
  "Bit_Operations.set_bit n (unset_bit n (x::u8)) = Bit_Operations.set_bit n x"
  "unset_bit n (Bit_Operations.set_bit n (x::u8)) = unset_bit n x"
  "Bit_Operations.set_bit n (Bit_Operations.set_bit n (x::u8)) = Bit_Operations.set_bit n x"
  by (rule bit_word_eqI, auto simp: bit_simps)+

lemma run_pkt_write_loop:
  "(\<And>i. i \<in> set is \<Longrightarrow> i < length (pkt_data w)) \<Longrightarrow>
   run_state (pkt_write_loop E is) w =
     (case dev_write E (map ((!) (pkt_data w)) is) (dev w) of
        (ok, l, d) \<Rightarrow> (ok, w\<lparr>spi_log := spi_log w @ l, dev := d\<rparr>))"
  by (induction "is" arbitrary: w) (simp_all split: prod.splits)

lemma run_pkt_read_loop:
  "j + n \<le> length (pkt_data w) \<Longrightarrow>
   run_state (pkt_read_loop E [j..<j + n]) w =
     (case dev_read E n (dev w) of (ok, rs, l, d) \<Rightarrow>
        (ok, w\<lparr>pkt_data := take j (pkt_data w) @ rs @ drop (j + length rs) (pkt_data w),
               spi_log := spi_log w @ l, dev := d\<rparr>))"
proof (induction n arbitrary: j w)
  case 0
  then show ?case by simp
next
  case (Suc n)
  obtain k d1 where k: "e_spi_byte E 0xff (dev w) = (k, d1)" by fastforce
  have cons: "[j..<j + Suc n] = j # [Suc j..<Suc j + n]" by (simp add: upt_conv_Cons del: upt.simps)
  show ?case
  proof (cases "k < 0")
    case True
    then show ?thesis unfolding cons using k by simp
  next
    case False
    let ?w = "w\<lparr>spi_log := spi_log w @ [Sent 0xff], dev := d1, pkt_data := (pkt_data w)[j := word_of_int k]\<rparr>"
    have "run_state (pkt_read_loop E [Suc j..<Suc j + n]) ?w =
     (case dev_read E n d1 of (ok, rs, l, d) \<Rightarrow>
        (ok, ?w\<lparr>pkt_data := take (Suc j) (pkt_data ?w) @ rs @ drop (Suc j + length rs) (pkt_data ?w),
               spi_log := spi_log ?w @ l, dev := d\<rparr>))"
      using Suc.prems by (subst Suc.IH) simp_all
    moreover have "take (Suc j) ((pkt_data w)[j := x]) = take j (pkt_data w) @ [x]" for x
      using Suc.prems by (simp add: take_Suc_conv_app_nth)
    ultimately show ?thesis unfolding cons using k False Suc.prems
      by (simp del: upt.simps split: prod.splits)
  qed
qed

lemma run_pkt_poll_loop:
  assumes "unat rl \<le> length (pkt_data w)"
  shows "run_state (pkt_poll_loop E rl n) w =
     (case dev_poll E (unat rl) n (dev w) of (c, rs, l, d) \<Rightarrow>
        (c, w\<lparr>pkt_data := rs @ drop (length rs) (pkt_data w),
              portb := (if n = 0 then portb w else Bit_Operations.set_bit 1 (portb w)),
              spi_log := spi_log w @ l, dev := d\<rparr>))"
  using assms
proof (induction n arbitrary: w)
  case 0
  then show ?case by simp
next
  case (Suc n)
  have rd: "run_state (pkt_read_loop E [0..<unat rl]) v =
     (case dev_read E (unat rl) (dev v) of (ok, rs, l, d) \<Rightarrow>
        (ok, v\<lparr>pkt_data := rs @ drop (length rs) (pkt_data v), spi_log := spi_log v @ l, dev := d\<rparr>))"
    if "pkt_data v = pkt_data w" for v
    using run_pkt_read_loop [of 0 "unat rl" v E] Suc.prems that by simp
  obtain k d1 where k: "e_spi_byte E 0x44 (e_ss E True (dev w)) = (k, d1)" by fastforce
  obtain k' d2 where k': "e_spi_byte E 0xff d1 = (k', d2)" by fastforce
  obtain ok rs l d3 where r: "dev_read E (unat rl) d2 = (ok, rs, l, d3)" using prod_cases4 by blast
  obtain c rs' l' d4 where q: "dev_poll E (unat rl) n (e_ss E False d2) = (c, rs', l', d4)"
    using prod_cases4 by blast
  consider "k < 0" | "\<not> k < 0" "k' < 0" | "\<not> k < 0" "k' = 0xff" | "\<not> k < 0" "\<not> k' < 0" "k' \<noteq> 0xff"
    by linarith
  then show ?case
  proof cases
    case 1
    then show ?thesis using k by simp
  next
    case 2
    then show ?thesis using k k' by simp
  next
    case 3
    then show ?thesis using k k' r by (simp add: rd)
  next
    case 4
    then show ?thesis using k k' q Suc.prems by (simp add: Suc.IH)
  qed
qed

lemma pkt_send_refines:
  assumes "unat sl \<le> length (pkt_data w)" "unat rl \<le> length (pkt_data w)"
  shows "run_state (pkt_send E sl rl) w =
     (case dev_transact E (take (unat sl) (pkt_data w)) (unat rl) (dev w) of (c, rs, l, d) \<Rightarrow>
        (c, w\<lparr>pkt_data := rs @ drop (length rs) (pkt_data w),
              portb := Bit_Operations.set_bit 1 (portb w),
              spi_log := spi_log w @ l, dev := d\<rparr>))"
proof -
  define v where "v = w\<lparr>portb := unset_bit 1 (portb w), spi_log := spi_log w @ [SS True],
    dev := e_ss E True (dev w)\<rparr>"
  have t: "map ((!) (pkt_data w)) [0..<unat sl] = take (unat sl) (pkt_data w)"
    using assms(1) by (simp add: list_eq_iff_nth_eq)
  obtain ok l d1 where wr: "dev_write E (take (unat sl) (pkt_data w)) (e_ss E True (dev w)) = (ok, l, d1)"
    using prod_cases3 by blast
  obtain c rs l' d2 where q: "dev_poll E (unat rl) MAX_COUNT (e_ss E False d1) = (c, rs, l', d2)"
    using prod_cases4 by blast
  have v: "run_state (pkt_write_loop E [0..<unat sl]) v =
      (ok, v\<lparr>spi_log := spi_log v @ l, dev := d1\<rparr>)"
    using run_pkt_write_loop [of "[0..<unat sl]" v E] assms(1) t wr by (simp add: v_def)
  have "run_state (setss E 1) w = ((), v)" by (simp add: v_def)
  then show ?thesis
    using v wr q assms(2)
    by (simp add: pkt_send_def dev_transact_def run_pkt_poll_loop MAX_COUNT_def v_def)
qed

section \<open>Packets on the air\<close>

lemma run_fifo_write_loop:
  "\<exists>d. run_state (fifo_write_loop E bs) w =
     ((), w\<lparr>spi_log := spi_log w @ map Sent bs, dev := d\<rparr>)"
proof (induction bs arbitrary: w)
  case Nil
  show ?case by (rule exI [of _ "dev w"]) simp
next
  case (Cons b bs)
  obtain k d1 where "e_spi_byte E b (dev w) = (k, d1)" by fastforce
  then show ?case
    using Cons [of "w\<lparr>spi_log := spi_log w @ [Sent b], dev := d1\<rparr>"] by simp
qed

lemma run_fifo_read_loop:
  "dev_serves E bs (dev w) \<Longrightarrow>
     \<exists>d. run_state (fifo_read_loop E (length bs)) w =
       (bs, w\<lparr>spi_log := spi_log w @ replicate (length bs) (Sent 0), dev := d\<rparr>)"
proof (induction bs arbitrary: w)
  case Nil
  show ?case by (rule exI [of _ "dev w"]) simp
next
  case (Cons b bs)
  obtain d1 where b: "e_spi_byte E 0 (dev w) = (uint b, d1)" and s: "dev_serves E bs d1"
    using Cons.prems by (auto split: prod.splits)
  obtain d where "run_state (fifo_read_loop E (length bs)) (w\<lparr>spi_log := spi_log w @ [Sent 0], dev := d1\<rparr>) =
     (bs, w\<lparr>spi_log := spi_log w @ [Sent 0] @ replicate (length bs) (Sent 0), dev := d\<rparr>)"
    using Cons.IH [of "w\<lparr>spi_log := spi_log w @ [Sent 0], dev := d1\<rparr>"] s by auto
  then show ?case using b by auto
qed

lemma frame_eq_map:
  assumes "packet_ok p" "unat (len p) \<le> 10"
  shows "map (\<lambda>i. if i < frame_len p then packet_bytes p ! i else 0xff) [0..<16] = frame p"
  using assms by (auto simp: frame_def list_eq_iff_nth_eq nth_append frame_len_def)

lemma length_frame [simp]: "packet_ok p \<Longrightarrow> unat (len p) \<le> 10 \<Longrightarrow> length (frame p) = 16"
  by (simp add: frame_def frame_len_def)

lemma stamped_simps [simp]:
  "node (stamped t p) = node p" "cmd (stamped t p) = cmd p" "len (stamped t p) = len p"
  "data (stamped t p) = data p" "ticks (stamped t p) = t" "packet_ok (stamped t p) = packet_ok p"
  "frame_len (stamped t p) = frame_len p"
  by (simp_all add: stamped_def packet_ok_def frame_len_def)

lemma take_packet_bytes:
  "take (6 + n) (packet_bytes p) =
     [lo8 (ticks p), hi8 (ticks p), node p, cmd p, len p, csum p] @ take n (data p)"
  unfolding packet_bytes_def take_append by simp

lemma packet_sum:
  "xor_from 0 (take (6 + n) (packet_bytes p)) =
     csum p XOR (lo8 (ticks p) XOR hi8 (ticks p) XOR node p XOR cmd p XOR len p XOR
       xor_from 0 (take n (data p)))"
proof -
  have "xor_from 0 (take (6 + n) (packet_bytes p)) =
      xor_from (lo8 (ticks p) XOR hi8 (ticks p) XOR node p XOR cmd p XOR len p XOR csum p) (take n (data p))"
    by (simp add: take_packet_bytes xor.assoc)
  then show ?thesis
    by (subst (asm) xor_from_acc) (simp add: xor.assoc xor.commute xor.left_commute)
qed

lemma stamped_sum: "xor_from 0 (take (frame_len p) (packet_bytes (stamped t p))) = 0"
  by (simp add: frame_len_def packet_sum) (simp add: stamped_def frame_len_def packet_sum)

lemma run_txpacket:
  assumes "packet_ok (ch_packet ch)" "unat (len (ch_packet ch)) \<le> 10"
  shows "\<exists>d. run_state (libradio_txpacket E ch) w =
    ((1, ch\<lparr>ch_packet := stamped (r_ms_ticks w) (ch_packet ch)\<rparr>),
     w\<lparr>portb := Bit_Operations.set_bit 1 (portb w),
       spi_log := spi_log w @ [SS True, Sent 0x66] @
         map Sent (frame (stamped (r_ms_ticks w) (ch_packet ch))) @ [SS False], dev := d\<rparr>)"
proof -
  let ?p = "stamped (r_ms_ticks w) (ch_packet ch)"
  have st: "(ch_packet ch)\<lparr>ticks := r_ms_ticks w, csum := xor_from 0 (take (6 + unat (len (ch_packet ch)))
      (packet_bytes ((ch_packet ch)\<lparr>ticks := r_ms_ticks w, csum := 0\<rparr>)))\<rparr> = ?p"
    by (simp add: stamped_def frame_len_def)
  obtain k d1 where k: "e_spi_byte E 0x66 (e_ss E True (dev w)) = (k, d1)" by fastforce
  let ?v = "w\<lparr>portb := unset_bit 1 (portb w), spi_log := spi_log w @ [SS True, Sent 0x66], dev := d1\<rparr>"
  obtain d where "run_state (fifo_write_loop E (frame ?p)) ?v =
     ((), ?v\<lparr>spi_log := spi_log ?v @ map Sent (frame ?p), dev := d\<rparr>)"
    using run_fifo_write_loop [of E "frame ?p" ?v] by (elim exE)
  moreover have "map (\<lambda>i. if i < 6 + unat (len (ch_packet ch)) then packet_bytes ?p ! i else 0xff)
      [0..<16] = frame ?p"
    using frame_eq_map [of ?p] assms by (simp add: frame_len_def)
  ultimately show ?thesis
    using k assms st
    by (intro exI [of _ "e_ss E False d"]) (simp add: libradio_txpacket_def Let_def del: upt_Suc upt_rec_numeral cong: if_cong)
qed

lemma run_rxpacket:
  assumes n: "length bs = min 16 (unat (r_rx_fifo w))"
    and srv: "dev_serves E bs (snd (e_spi_byte E 0x77 (e_ss E True (dev w))))"
  shows "\<exists>d. run_state (libradio_rxpacket E ch) w =
    ((if sum_ok (received bs (ch_packet ch)) then 1 else 0, ch\<lparr>ch_packet := received bs (ch_packet ch)\<rparr>),
     w\<lparr>portb := Bit_Operations.set_bit 1 (portb w),
       spi_log := spi_log w @ [SS True, Sent 0x77] @ replicate (length bs) (Sent 0) @ [SS False], dev := d,
       r_ms_ticks := (if sum_ok (received bs (ch_packet ch)) \<and> cmd (received bs (ch_packet ch)) < 9
          then ticks (received bs (ch_packet ch)) else r_ms_ticks w)\<rparr>)"
proof -
  obtain k d1 where k: "e_spi_byte E 0x77 (e_ss E True (dev w)) = (k, d1)" by fastforce
  let ?v = "w\<lparr>portb := unset_bit 1 (portb w), spi_log := spi_log w @ [SS True, Sent 0x77], dev := d1\<rparr>"
  obtain d where d: "run_state (fifo_read_loop E (length bs)) ?v =
     (bs, ?v\<lparr>spi_log := spi_log ?v @ replicate (length bs) (Sent 0), dev := d\<rparr>)"
    using run_fifo_read_loop [of E bs ?v] srv k by auto
  have n': "(if unat (r_rx_fifo w) > 16 then 16 else unat (r_rx_fifo w)) = length bs"
    using n by simp
  show ?thesis
    using k d by (auto simp: libradio_rxpacket_def Let_def received_def sum_ok_def frame_len_def n')
qed

lemma frame_explicit:
  "frame p = [lo8 (ticks p), hi8 (ticks p), node p, cmd p, len p, csum p] @
     take (unat (len p)) (data p) @ replicate (10 - unat (len p)) 0xff"
  by (simp add: frame_def frame_len_def take_packet_bytes)

lemma received_frame:
  assumes "packet_ok p" "packet_ok q" "unat (len p) \<le> 10"
  shows "received (frame p) q =
     p\<lparr>data := take (unat (len p)) (data p) @ replicate (10 - unat (len p)) 0xff\<rparr>"
proof -
  have "packet_overlay (frame p) q = packet_of_bytes (frame p)"
    using assms by (intro packet_overlay_full) auto
  also have "\<dots> = p\<lparr>data := take (unat (len p)) (data p) @ replicate (10 - unat (len p)) 0xff\<rparr>"
    by (simp add: packet_of_bytes_def frame_explicit)
  finally show ?thesis using assms by (simp add: received_def)
qed

lemma sum_ok_padded:
  "packet_ok p \<Longrightarrow> unat (len p) \<le> 10 \<Longrightarrow> 
   sum_ok (p\<lparr>data := take (unat (len p)) (data p) @ replicate n 0xff\<rparr>) = sum_ok p"
  by (simp add: sum_ok_def frame_len_def packet_sum packet_ok_def)

lemma sum_ok_stamped: "sum_ok (stamped t p)"
  by (simp add: sum_ok_def stamped_sum)

lemma xor_update:
  assumes "i < n" "n \<le> length bs"
  shows "xor_from 0 (take n (bs[i := b])) = xor_from 0 (take n bs) XOR (bs ! i XOR b)"
  using assms
proof (induction bs arbitrary: i n)
  case Nil
  then show ?case by simp
next
  case (Cons c bs)
  then obtain m where m: "n = Suc m" by (cases n) auto
  show ?case
  proof (cases i)
    case 0
    then show ?thesis using m by (simp add: xor_from_acc [of b] xor_from_acc [of c] xor.assoc xor.commute xor.left_commute)
  next
    case (Suc j)
    then have "xor_from 0 (take m (bs[j := b])) = xor_from 0 (take m bs) XOR (bs ! j XOR b)"
      using Cons.prems m by (intro Cons.IH) auto
    then show ?thesis using Suc m by (simp add: xor_from_acc [of c] xor.assoc)
  qed
qed

lemma received_bytes:
  "length bs = 16 \<Longrightarrow> packet_ok q \<Longrightarrow> unat (bs ! 4) \<le> 10 \<Longrightarrow> received bs q = packet_of_bytes bs"
  by (simp add: received_def packet_overlay_full) (simp add: packet_of_bytes_def)

lemma packet_bytes_received_full:
  "length bs = 16 \<Longrightarrow> packet_ok q \<Longrightarrow> unat (bs ! 4) \<le> 10 \<Longrightarrow>
     packet_bytes (received bs q) = bs \<and> len (received bs q) = bs ! 4"
  by (simp add: received_bytes packet_bytes_of_bytes) (simp add: packet_of_bytes_def)

lemma corrupt_rejected:
  assumes l: "length bs = 16" "packet_ok q" "unat (bs ! 4) \<le> 10"
    and ok: "sum_ok (received bs q)"
    and i: "i < 6 + unat (bs ! 4)" "i \<noteq> 4" "b \<noteq> bs ! i"
  shows "\<not> sum_ok (received (bs[i := b]) q)"
proof -
  let ?n = "6 + unat (bs ! 4)"
  have "(bs[i := b]) ! 4 = bs ! 4" using i by simp
  then have r: "packet_bytes (received (bs[i := b]) q) = bs[i := b]" "frame_len (received (bs[i := b]) q) = ?n"
    using packet_bytes_received_full [of "bs[i := b]" q] l by (simp_all add: frame_len_def)
  have s: "packet_bytes (received bs q) = bs" "frame_len (received bs q) = ?n"
    using packet_bytes_received_full [of bs q] l by (simp_all add: frame_len_def)
  have "xor_from 0 (take ?n (bs[i := b])) = bs ! i XOR b"
    using ok s l i by (simp add: sum_ok_def xor_update)
  moreover have "bs ! i XOR b \<noteq> 0" using i(3) by (metis xor_self_eq xor.left_commute xor.right_neutral)
  ultimately show ?thesis using r by (simp add: sum_ok_def)
qed

section \<open>What an exchange with the chip changes\<close>

lemma keeps_core_primitives [keep_rules]:
  "keeps core_view (printf s)" "keeps core_view (pkt_store i v)" "keeps core_view (pkt_load i)"
  "keeps core_view (setss E x)" "keeps core_view (spi_byte E b)"
  by (auto simp: keeps_def printf_def pkt_store_def pkt_load_def core_view_def stop_with_def
      split: prod.splits option.splits)

lemma keeps_core_write [keep_rules]: "keeps core_view (pkt_write_loop E is)"
  by (induction "is") (auto intro!: keep_rules)

lemma keeps_core_read [keep_rules]: "keeps core_view (pkt_read_loop E is)"
  by (induction "is") (auto intro!: keep_rules)

lemma keeps_core_poll [keep_rules]: "keeps core_view (pkt_poll_loop E rl n)"
  by (induction n) (auto intro!: keep_rules)

lemma keeps_core_send [keep_rules]: "keeps core_view (pkt_send E sl rl)"
  by (auto simp: pkt_send_def intro!: keep_rules)

lemma keeps_core_error [keep_rules]: "keeps core_view (pkt_error i)"
  by (auto simp: pkt_error_def intro!: keep_rules)

lemma dev_read_length: "dev_read E n d = (ok, rs, l, d') \<Longrightarrow> length rs \<le> n \<and> (ok \<longrightarrow> length rs = n)"
proof (induction n arbitrary: d ok rs l d')
  case (Suc n)
  then show ?case by (fastforce split: prod.splits if_splits)
qed simp

lemma dev_poll_length: "dev_poll E rl n d = (c, rs, l, d') \<Longrightarrow> length rs \<le> rl \<and> (c = 0 \<longrightarrow> length rs = rl)"
proof (induction n arbitrary: d c rs l d')
  case (Suc n)
  then show ?case by (fastforce split: prod.splits if_splits dest: dev_read_length)
qed simp

lemma dev_transact_length:
  "dev_transact E bs rl d = (c, rs, l, d') \<Longrightarrow> length rs \<le> rl \<and> (c = 0 \<longrightarrow> length rs = rl)"
  by (auto simp: dev_transact_def split: prod.splits if_splits dest: dev_poll_length)

lemma preserves_safe_primitives [keep_rules]:
  "preserves safe (printf s)"
  "i < 20 \<Longrightarrow> preserves safe (pkt_store i v)"
  "i < 20 \<Longrightarrow> preserves safe (pkt_load i)"
  "preserves safe (setss E x)" "preserves safe (spi_byte E b)"
  by (auto simp: preserves_def printf_def pkt_store_def pkt_load_def safe_def mcu_ok_def split: prod.splits)

lemma preserves_safe_send [keep_rules]:
  assumes "unat sl \<le> 20" "unat rl \<le> 20"
  shows "preserves safe (pkt_send E sl rl)"
proof (unfold preserves_def, intro allI impI)
  fix w :: "('a, 'b) mcu" assume w: "safe w"
  obtain c rs l d where t: "dev_transact E (take (unat sl) (pkt_data w)) (unat rl) (dev w) = (c, rs, l, d)"
    using prod_cases4 by blast
  show "safe (snd (run_state (pkt_send E sl rl) w))"
    using w t dev_transact_length [OF t] assms
    by (simp add: pkt_send_refines safe_simps) (simp add: safe_def mcu_ok_def)
qed

lemma preserves_safe_error [keep_rules]: "preserves safe (pkt_error i)"
  by (auto simp: pkt_error_def intro!: keep_rules)

section \<open>The select line\<close>

definition released :: "('d, 'a) mcu \<Rightarrow> bool" where
  "released w \<longleftrightarrow> last (filter (\<lambda>e. e = SS True \<or> e = SS False) (spi_log w)) = SS False \<and> bit (portb w) 1"

lemma released_setss: "released (snd (run_state (setss E 0) w))"
  by (simp add: released_def bit_simps)

text \<open>The ports start with the chip deselected.\<close>

lemma ioinit_deselected: "bit (portb (snd (run_state ioinit w))) 1"
  by (simp add: ioinit_def bit_simps)

lemma released_poll: "preserves released (pkt_poll_loop E rl n)"
proof (induction n)
  case (Suc n)
  have "released (snd (run_state (pkt_poll_loop E rl (Suc n)) w))" for w
    using Suc released_setss unfolding preserves_def
    by (auto simp: case_prod_beta simp del: run_setss run_spi_byte)
  then show ?case by (simp add: preserves_def)
qed (simp add: preserves_return)

section \<open>From one node to another\<close>

lemma air_round_trip:
  assumes "packet_ok (ch_packet ch)" "unat (len (ch_packet ch)) \<le> 10" "packet_ok (ch_packet ch')"
    and "16 \<le> unat (r_rx_fifo v)"
    and "dev_serves E' (frame (stamped now (ch_packet ch))) (snd (e_spi_byte E' 0x77 (e_ss E' True (dev v))))"
    and "run_state (libradio_rxpacket E' ch') v = ((r, got), v')"
  shows "r = 1 \<and> ch_packet got = (stamped now (ch_packet ch))
       \<lparr>data := take (unat (len (ch_packet ch))) (data (ch_packet ch)) @ replicate (10 - unat (len (ch_packet ch))) 0xff\<rparr> \<and>
     (\<exists>b l d. v' = v\<lparr>portb := b, spi_log := l, dev := d,
        r_ms_ticks := (if cmd (ch_packet ch) < 9 then now else r_ms_ticks v)\<rparr>)"
proof -
  let ?p = "stamped now (ch_packet ch)"
  have len: "length (frame ?p) = min 16 (unat (r_rx_fifo v))" using assms by simp
  let ?q = "?p\<lparr>data := take (unat (len ?p)) (data ?p) @ replicate (10 - unat (len ?p)) 0xff\<rparr>"
  have rec: "received (frame ?p) (ch_packet ch') = ?q"
    by (rule received_frame) (use assms in simp_all)
  have sum: "sum_ok ?q" using assms(1,2) by (subst sum_ok_padded) (simp_all add: sum_ok_stamped)
  obtain d where "((r, got), v') = ((1, ch'\<lparr>ch_packet := ?q\<rparr>),
     v\<lparr>portb := Bit_Operations.set_bit 1 (portb v),
       spi_log := spi_log v @ [SS True, Sent 0x77] @ replicate (length (frame ?p)) (Sent 0) @ [SS False], dev := d,
       r_ms_ticks := (if cmd ?q < 9 then ticks ?q else r_ms_ticks v)\<rparr>)"
    using run_rxpacket [OF len assms(5), of ch'] assms(6) sum unfolding rec by auto
  then show ?thesis using assms(1,2) by auto
qed

end
