(* ===== verification/Radio_State.thy ===== *)
theory Radio_State
  imports Packet_Io
begin

text \<open>
  The operating states of a node: \<^verbatim>\<open>lib/state.c\<close>. \<open>libradio_set_state\<close> is the only
  function that changes the state; it also selects the LED pattern, the clock speed and the wake-up
  delay.
\<close>

section \<open>Operations\<close>

definition libradio_get_state :: "('d, 'a, u8) op" where
  "libradio_get_state = gets r_state"

definition libradio_get_my_channel :: "('d, 'a, u8) op" where
  "libradio_get_my_channel = gets r_curr_channel"

text \<open>
  \<^verbatim>\<open>a / radio.f\<close> for a non-negative \<open>a\<close> and an 8-bit field \<open>f\<close>; undefined when the field is
  zero.
\<close>

definition div_by :: "nat \<Rightarrow> (('d, 'a) mcu \<Rightarrow> u8) \<Rightarrow> ('d, 'a, nat) op" where
  "div_by a f = State (\<lambda>w.
     if f w = 0 then (0, stop_with Div_by_zero w) else (a div unat (f w), w))"

definition libradio_set_state :: "('d, 'a) env \<Rightarrow> u8 \<Rightarrow> ('d, 'a, unit) op" where
  "libradio_set_state E new_state = do {
     st \<leftarrow> gets r_state;
     if new_state \<noteq> LIBRADIO_STATE_STARTUP \<and> st = new_state then State_Monad.return ()
     else do {
       libradio_set_song new_state;
       (if new_state = LIBRADIO_STATE_COLD \<or> new_state = LIBRADIO_STATE_WARM then do {
          e_power_mode E 0;
          modify (\<lambda>w. w\<lparr>r_tens_of_minutes := 0xff\<rparr>);
          t \<leftarrow> div_by (if new_state = LIBRADIO_STATE_WARM then 5 * 60 * 100 else 60 * 60 * 100)
                 r_period;
          libradio_set_delay (word_of_nat (if t > 65535 then 65535 else t))
        }
        else if new_state = LIBRADIO_STATE_LISTEN then do {
          st \<leftarrow> gets r_state;
          when_op (st = LIBRADIO_STATE_COLD \<or> st = LIBRADIO_STATE_WARM) (e_power_mode E 1);
          modify (\<lambda>w. w\<lparr>r_my_channel := 0\<rparr>);
          modify (\<lambda>w. w\<lparr>r_saw_rx := 0\<rparr>);
          st \<leftarrow> gets r_state;
          t \<leftarrow> div_by (if st = LIBRADIO_STATE_COLD then 6000 else 12000) r_fast_period;
          modify (\<lambda>w. w\<lparr>r_timeout := word_of_nat t\<rparr>);
          libradio_set_delay 500
        }
        else if new_state = LIBRADIO_STATE_ERROR then do {
          t \<leftarrow> div_by (60 * 100) r_period;
          libradio_set_delay (word_of_nat t)
        }
        else do {
          e_power_mode E 1;
          modify (\<lambda>w. w\<lparr>r_timeout := 6000\<rparr>)
        });
       modify (\<lambda>w. w\<lparr>r_state := new_state\<rparr>)
     }
   }"

text \<open>
  What a change of the clock speed leaves alone, what a change of state leaves alone, and the delay
  of the two sleeping states.
\<close>

definition slow_view :: "('d, 'a) mcu \<Rightarrow> _" where
  "slow_view w = core_view (w\<lparr>r_period := 0\<rparr>)"

definition sleep_delay :: "u8 \<Rightarrow> u8 \<Rightarrow> u16" where
  "sleep_delay st p = word_of_nat (min 65535 ((if st = LIBRADIO_STATE_WARM then 30000 else 360000) div unat p))"

definition ident_view :: "('d, 'a) mcu \<Rightarrow> _" where
  "ident_view w = ((r_my_node_id w, r_cat1 w, r_cat2 w, r_num1 w, r_num2 w, r_date w, r_ms_ticks w,
      r_fast_period w, r_slow_period w), 
     (r_catch_irq w, r_npacket_rx w, r_npacket_tx w, r_radio_active w, hbclock w, timer_count w, 
      thread_ok w, elapsed_second w), (irq_fired w, rxchan w, txchan w, statusbuffer w, eeprom w, eimsk w, sio_rxq w, app w))"

lemmas state_ops [op_defs] =
  libradio_get_state_def libradio_get_my_channel_def div_by_def libradio_set_state_def

section \<open>Safety\<close>

lemma preserves_safe_div [keep_rules]:
  "preserves safe (div_by n r_period)" "preserves safe (div_by n r_fast_period)"
  by (auto simp: preserves_def div_by_def safe_def)

text \<open>
  What the library relies on in an application: its callbacks keep the state well formed and
  \<^verbatim>\<open>fetch_status\<close> stays inside the buffer it is given.
\<close>

locale application =
  fixes E :: "('d, 'a) env"
  assumes power_mode_safe [keep_rules]: "preserves safe (e_power_mode E h)"
    and operate_safe [keep_rules]: "preserves safe (e_operate E p)"
    and fetch_status_safe: "safe w \<Longrightarrow> length buf = 16 \<Longrightarrow>
      run_state (e_fetch_status E t buf 16) w = ((n, buf'), w') \<Longrightarrow> safe w' \<and> length buf' = 16 \<and> n \<le> 16"
begin

lemma set_state_safe [keep_rules]: "preserves safe (libradio_set_state E s)"
  by (auto simp: libradio_set_state_def safe_def mcu_ok_def intro!: keep_rules preserves_modify)

end

section \<open>The state reached\<close>

lemma set_state_state [simp]: "r_state (snd (run_state (libradio_set_state E s) w)) = s"
  by (simp add: libradio_set_state_def case_prod_beta)

lemma set_state_error:
  "r_radio_active (snd (run_state (libradio_set_state E LIBRADIO_STATE_ERROR) w)) = r_radio_active w"
  by (simp add: libradio_set_state_def libradio_set_song_def songs_def div_by_def libradio_set_delay_def stop_with_def
      split: option.splits)

section \<open>Applications that only switch the clock\<close>

text \<open>
  A \<^verbatim>\<open>libradio_power_mode\<close> that changes nothing but the clock, and one that selects the
  slow and the fast period as the default does.
\<close>

locale client = application +
  assumes power_mode_frame: "keeps slow_view (e_power_mode E h)"
begin

lemma slow_view_ident: "slow_view w = slow_view w' \<Longrightarrow> ident_view w = ident_view w'"
  by (simp add: slow_view_def core_view_def ident_view_def)

lemma power_mode_ident [keep_rules]: "keeps ident_view (e_power_mode E h)"
  using power_mode_frame slow_view_ident unfolding keeps_def by blast

lemma set_state_ident [keep_rules]: "keeps ident_view (libradio_set_state E s)"
proof -
  have d: "keeps ident_view (div_by n f)" for n f
    by (auto simp: keeps_def div_by_def stop_with_def ident_view_def split: option.splits)
  have "keeps ident_view (libradio_set_song s)" "keeps ident_view (libradio_set_delay t)" for s t
    by (auto simp: libradio_set_song_def libradio_set_delay_def ident_view_def stop_with_def Let_def
       split: option.splits intro!: keep_rules keeps_modify)
  then show ?thesis unfolding libradio_set_state_def Let_def
    by (intro keep_rules keeps_modify) (auto simp: ident_view_def d)
qed

lemma slow_view_simps:
  assumes "slow_view w = slow_view w'"
  shows "r_tens_of_minutes w = r_tens_of_minutes w'" "r_my_channel w = r_my_channel w'"
    "r_main_ticks w = r_main_ticks w'" "r_tick_count w = r_tick_count w'" "r_state w = r_state w'"
    "r_timeout w = r_timeout w'" "r_saw_rx w = r_saw_rx w'"
  using assms by (simp_all add: slow_view_def core_view_def)

lemma set_state_active:
  assumes "run_state (libradio_set_state E LIBRADIO_STATE_ACTIVE) w = ((), w')"
  shows "r_state w' = LIBRADIO_STATE_ACTIVE \<and> r_my_channel w' = r_my_channel w \<and>
    r_tens_of_minutes w' = r_tens_of_minutes w \<and> (r_state w \<noteq> LIBRADIO_STATE_ACTIVE \<longrightarrow> r_timeout w' = 6000)"
proof (cases "r_state w = 6")
  case False
  let ?v = "w\<lparr>r_heart_beat := 0xf7\<rparr>"
  obtain u where u: "run_state (e_power_mode E 1) ?v = ((), u)" by (rule unit_run)
  note s = slow_view_simps [OF keeps_run [OF power_mode_frame u]]
  have "w' = u\<lparr>r_timeout := 6000, r_state := 6\<rparr>"
    using assms False u by (simp add: libradio_set_state_def libradio_set_song_def songs_def)
  then show ?thesis using s False by simp
qed (use assms in \<open>simp add: libradio_set_state_def\<close>)

lemma set_state_sleep:
  assumes "run_state (libradio_set_state E s) w = ((), w')" "s = LIBRADIO_STATE_COLD \<or> s = LIBRADIO_STATE_WARM"
    "r_state w \<noteq> s"
  shows "r_state w' = s \<and> r_tens_of_minutes w' = 0xff \<and> r_my_channel w' = r_my_channel w"
proof -
  let ?v = "w\<lparr>r_heart_beat := songs ! unat s\<rparr>"
  obtain u where u: "run_state (e_power_mode E 0) ?v = ((), u)" by (rule unit_run)
  note s = slow_view_simps [OF keeps_run [OF power_mode_frame u]]
  show ?thesis using assms u s
   by (auto simp: libradio_set_state_def libradio_set_song_def songs_def div_by_def libradio_set_delay_def stop_with_def 
     split: option.splits if_splits)
qed

end

locale two_speed = client +
  assumes power_mode_speed:
    "r_period (snd (run_state (e_power_mode E h) w)) = (if h \<noteq> 0 then r_fast_period w else r_slow_period w)"
begin

lemma set_state_sleep_speed:
  assumes run: "run_state (libradio_set_state E s) w = ((), w')" and s: "s = LIBRADIO_STATE_COLD \<or> s = LIBRADIO_STATE_WARM"
    and "r_state w \<noteq> s" "0 < r_slow_period w"
  shows "r_period w' = r_slow_period w \<and> r_tick_count w' = sleep_delay s (r_slow_period w) \<and>
    r_main_ticks w' = (if r_main_ticks w = 0 then sleep_delay s (r_slow_period w) else r_main_ticks w)"
proof -
  let ?v = "w\<lparr>r_heart_beat := songs ! unat s\<rparr>"
  obtain u where u: "run_state (e_power_mode E 0) ?v = ((), u)" by (rule unit_run)
  note f = slow_view_simps [OF keeps_run [OF power_mode_frame u]]
  have p: "r_period u = r_slow_period w" using power_mode_speed [of 0 ?v] u by simp
  show ?thesis using run s assms(3,4) u f p
   by (auto simp: libradio_set_state_def libradio_set_song_def songs_def div_by_def libradio_set_delay_def sleep_delay_def min_def
      split: if_splits)
qed

end

end
