(* ===== verification/Radio_Config.thy ===== *)
theory Radio_Config
  imports Mcu
begin

text \<open>
  The configuration of the Si4463, the byte sequences of \<^verbatim>\<open>lib/radio_config.h\<close> under
  their names there, and the array \<open>radio_config\<close> of \<^verbatim>\<open>lib/power.c\<close> that
  \<^verbatim>\<open>libradio_power_up\<close> walks: each block with its length in front, then a zero.
\<close>

definition RF_POWER_UP :: "u8 list" where
  "RF_POWER_UP =
     [0x02, 0x01, 0x00, 0x01, 0x8C, 0xBA, 0x80]"

definition RF_GPIO_PIN_CFG :: "u8 list" where
  "RF_GPIO_PIN_CFG =
     [0x13, 0x60, 0x61, 0x53, 0x54, 0x67, 0x00, 0x00]"

definition RF_GLOBAL_XO_TUNE_2 :: "u8 list" where
  "RF_GLOBAL_XO_TUNE_2 =
     [0x11, 0x00, 0x02, 0x00, 0x52, 0x00]"

definition RF_GLOBAL_CONFIG_1 :: "u8 list" where
  "RF_GLOBAL_CONFIG_1 =
     [0x11, 0x00, 0x01, 0x03, 0x60]"

definition RF_INT_CTL_ENABLE_2 :: "u8 list" where
  "RF_INT_CTL_ENABLE_2 =
     [0x11, 0x01, 0x02, 0x00, 0x01, 0x10]"

definition RF_INT_CTL_CHIP_ENABLE_1 :: "u8 list" where
  "RF_INT_CTL_CHIP_ENABLE_1 =
     [0x11, 0x01, 0x01, 0x03, 0x00]"

definition RF_FRR_CTL_A_MODE_4 :: "u8 list" where
  "RF_FRR_CTL_A_MODE_4 =
     [0x11, 0x02, 0x04, 0x00, 0x09, 0x03, 0x07, 0x01]"

definition RF_PREAMBLE_TX_LENGTH_9 :: "u8 list" where
  "RF_PREAMBLE_TX_LENGTH_9 =
     [0x11, 0x10, 0x09, 0x00, 0x08, 0x14, 0x00, 0x0F, 0x31, 0x00, 0x00, 0x00, 0x00]"

definition RF_SYNC_CONFIG_5 :: "u8 list" where
  "RF_SYNC_CONFIG_5 =
     [0x11, 0x11, 0x05, 0x00, 0x01, 0xB4, 0x2B, 0x00, 0x00]"

definition RF_PKT_CRC_CONFIG_7 :: "u8 list" where
  "RF_PKT_CRC_CONFIG_7 =
     [0x11, 0x12, 0x07, 0x00, 0x84, 0x01, 0x08, 0xFF, 0xFF, 0x00, 0x02]"

definition RF_PKT_LEN_12 :: "u8 list" where
  "RF_PKT_LEN_12 =
     [0x11, 0x12, 0x0C, 0x08, 0x00, 0x00, 0x00, 0x30, 0x30, 0x00, 0x20, 0x04, 0xAA, 0x00, 0x00, 0x00]"

definition RF_PKT_FIELD_2_CRC_CONFIG_12 :: "u8 list" where
  "RF_PKT_FIELD_2_CRC_CONFIG_12 =
     [0x11, 0x12, 0x0C, 0x14, 0x00, 0x00, 0x00, 0x00, 0x00, 0x00, 0x00, 0x00, 0x00, 0x00, 0x00, 0x00]"

definition RF_PKT_FIELD_5_CRC_CONFIG_12 :: "u8 list" where
  "RF_PKT_FIELD_5_CRC_CONFIG_12 =
     [0x11, 0x12, 0x0C, 0x20, 0x00, 0x00, 0x00, 0x00, 0x00, 0x00, 0x00, 0x00, 0x00, 0x00, 0x00, 0x00]"

definition RF_PKT_RX_FIELD_3_CRC_CONFIG_9 :: "u8 list" where
  "RF_PKT_RX_FIELD_3_CRC_CONFIG_9 =
     [0x11, 0x12, 0x09, 0x2C, 0x00, 0x00, 0x00, 0x00, 0x00, 0x00, 0x00, 0x00, 0x00]"

definition RF_MODEM_MOD_TYPE_12 :: "u8 list" where
  "RF_MODEM_MOD_TYPE_12 =
     [0x11, 0x20, 0x0C, 0x00, 0x02, 0x00, 0x07, 0x07, 0xA1, 0x20, 0x01, 0x8C, 0xBA, 0x80, 0x00, 0x06]"

definition RF_MODEM_FREQ_DEV_0_1 :: "u8 list" where
  "RF_MODEM_FREQ_DEV_0_1 =
     [0x11, 0x20, 0x01, 0x0C, 0x4D]"

definition RF_MODEM_TX_RAMP_DELAY_8 :: "u8 list" where
  "RF_MODEM_TX_RAMP_DELAY_8 =
     [0x11, 0x20, 0x08, 0x18, 0x01, 0x00, 0x08, 0x03, 0x80, 0x00, 0x20, 0x20]"

definition RF_MODEM_BCR_OSR_1_9 :: "u8 list" where
  "RF_MODEM_BCR_OSR_1_9 =
     [0x11, 0x20, 0x09, 0x22, 0x00, 0x41, 0x07, 0xE0, 0x7E, 0x07, 0xFF, 0x02, 0x00]"

definition RF_MODEM_AFC_GEAR_7 :: "u8 list" where
  "RF_MODEM_AFC_GEAR_7 =
     [0x11, 0x20, 0x07, 0x2C, 0x00, 0x12, 0x81, 0xF8, 0x01, 0xBA, 0xA0]"

definition RF_MODEM_AGC_CONTROL_1 :: "u8 list" where
  "RF_MODEM_AGC_CONTROL_1 =
     [0x11, 0x20, 0x01, 0x35, 0xE2]"

definition RF_MODEM_AGC_WINDOW_SIZE_9 :: "u8 list" where
  "RF_MODEM_AGC_WINDOW_SIZE_9 =
     [0x11, 0x20, 0x09, 0x38, 0x11, 0x0E, 0x0E, 0x00, 0x02, 0x33, 0x33, 0x00, 0x28]"

definition RF_MODEM_OOK_CNT1_9 :: "u8 list" where
  "RF_MODEM_OOK_CNT1_9 =
     [0x11, 0x20, 0x09, 0x42, 0xA4, 0x03, 0xD6, 0x03, 0x01, 0x89, 0x01, 0x80, 0xFF]"

definition RF_MODEM_RSSI_CONTROL_1 :: "u8 list" where
  "RF_MODEM_RSSI_CONTROL_1 =
     [0x11, 0x20, 0x01, 0x4C, 0x02]"

definition RF_MODEM_RSSI_COMP_1 :: "u8 list" where
  "RF_MODEM_RSSI_COMP_1 =
     [0x11, 0x20, 0x01, 0x4E, 0x40]"

definition RF_MODEM_CLKGEN_BAND_1 :: "u8 list" where
  "RF_MODEM_CLKGEN_BAND_1 =
     [0x11, 0x20, 0x01, 0x51, 0x0A]"

definition RF_MODEM_CHFLT_RX1_CHFLT_COE13_7_0_12 :: "u8 list" where
  "RF_MODEM_CHFLT_RX1_CHFLT_COE13_7_0_12 =
     [0x11, 0x21, 0x0C, 0x00, 0xFF, 0xBA, 0x0F, 0x51, 0xCF, 0xA9, 0xC9, 0xFC, 0x1B, 0x1E, 0x0F, 0x01]"

definition RF_MODEM_CHFLT_RX1_CHFLT_COE1_7_0_12 :: "u8 list" where
  "RF_MODEM_CHFLT_RX1_CHFLT_COE1_7_0_12 =
     [0x11, 0x21, 0x0C, 0x0C, 0xFC, 0xFD, 0x15, 0xFF, 0x00, 0x0F, 0xFF, 0xBA, 0x0F, 0x51, 0xCF, 0xA9]"

definition RF_MODEM_CHFLT_RX2_CHFLT_COE7_7_0_12 :: "u8 list" where
  "RF_MODEM_CHFLT_RX2_CHFLT_COE7_7_0_12 =
     [0x11, 0x21, 0x0C, 0x18, 0xC9, 0xFC, 0x1B, 0x1E, 0x0F, 0x01, 0xFC, 0xFD, 0x15, 0xFF, 0x00, 0x0F]"

definition RF_PA_MODE_4 :: "u8 list" where
  "RF_PA_MODE_4 =
     [0x11, 0x22, 0x04, 0x00, 0x08, 0x7F, 0x00, 0x3D]"

definition RF_SYNTH_PFDCP_CPFF_7 :: "u8 list" where
  "RF_SYNTH_PFDCP_CPFF_7 =
     [0x11, 0x23, 0x07, 0x00, 0x2C, 0x0E, 0x0B, 0x04, 0x0C, 0x73, 0x03]"

definition RF_MATCH_VALUE_1_12 :: "u8 list" where
  "RF_MATCH_VALUE_1_12 =
     [0x11, 0x30, 0x0C, 0x00, 0x00, 0x00, 0x00, 0x00, 0x00, 0x00, 0x00, 0x00, 0x00, 0x00, 0x00, 0x00]"

definition RF_FREQ_CONTROL_INTE_8 :: "u8 list" where
  "RF_FREQ_CONTROL_INTE_8 =
     [0x11, 0x40, 0x08, 0x00, 0x41, 0x0E, 0x27, 0x62, 0x4E, 0xC5, 0x20, 0xFE]"

definition radio_config :: "u8 list" where
  "radio_config =
     (0x07 # RF_POWER_UP) @
     (0x08 # RF_GPIO_PIN_CFG) @
     (0x06 # RF_GLOBAL_XO_TUNE_2) @
     (0x05 # RF_GLOBAL_CONFIG_1) @
     (0x06 # RF_INT_CTL_ENABLE_2) @
     (0x05 # RF_INT_CTL_CHIP_ENABLE_1) @
     (0x08 # RF_FRR_CTL_A_MODE_4) @
     (0x0D # RF_PREAMBLE_TX_LENGTH_9) @
     (0x09 # RF_SYNC_CONFIG_5) @
     (0x0B # RF_PKT_CRC_CONFIG_7) @
     (0x10 # RF_PKT_LEN_12) @
     (0x10 # RF_PKT_FIELD_2_CRC_CONFIG_12) @
     (0x10 # RF_PKT_FIELD_5_CRC_CONFIG_12) @
     (0x0D # RF_PKT_RX_FIELD_3_CRC_CONFIG_9) @
     (0x10 # RF_MODEM_MOD_TYPE_12) @
     (0x05 # RF_MODEM_FREQ_DEV_0_1) @
     (0x0C # RF_MODEM_TX_RAMP_DELAY_8) @
     (0x0D # RF_MODEM_BCR_OSR_1_9) @
     (0x0B # RF_MODEM_AFC_GEAR_7) @
     (0x05 # RF_MODEM_AGC_CONTROL_1) @
     (0x0D # RF_MODEM_AGC_WINDOW_SIZE_9) @
     (0x0D # RF_MODEM_OOK_CNT1_9) @
     (0x05 # RF_MODEM_RSSI_CONTROL_1) @
     (0x05 # RF_MODEM_RSSI_COMP_1) @
     (0x05 # RF_MODEM_CLKGEN_BAND_1) @
     (0x10 # RF_MODEM_CHFLT_RX1_CHFLT_COE13_7_0_12) @
     (0x10 # RF_MODEM_CHFLT_RX1_CHFLT_COE1_7_0_12) @
     (0x10 # RF_MODEM_CHFLT_RX2_CHFLT_COE7_7_0_12) @
     (0x08 # RF_PA_MODE_4) @
     (0x0B # RF_SYNTH_PFDCP_CPFF_7) @
     (0x10 # RF_MATCH_VALUE_1_12) @
     (0x0C # RF_FREQ_CONTROL_INTE_8) @
     [0x00]"

lemmas rf_defs =
  RF_POWER_UP_def RF_GPIO_PIN_CFG_def RF_GLOBAL_XO_TUNE_2_def RF_GLOBAL_CONFIG_1_def RF_INT_CTL_ENABLE_2_def RF_INT_CTL_CHIP_ENABLE_1_def RF_FRR_CTL_A_MODE_4_def RF_PREAMBLE_TX_LENGTH_9_def RF_SYNC_CONFIG_5_def RF_PKT_CRC_CONFIG_7_def RF_PKT_LEN_12_def RF_PKT_FIELD_2_CRC_CONFIG_12_def RF_PKT_FIELD_5_CRC_CONFIG_12_def RF_PKT_RX_FIELD_3_CRC_CONFIG_9_def RF_MODEM_MOD_TYPE_12_def RF_MODEM_FREQ_DEV_0_1_def RF_MODEM_TX_RAMP_DELAY_8_def RF_MODEM_BCR_OSR_1_9_def RF_MODEM_AFC_GEAR_7_def RF_MODEM_AGC_CONTROL_1_def RF_MODEM_AGC_WINDOW_SIZE_9_def RF_MODEM_OOK_CNT1_9_def RF_MODEM_RSSI_CONTROL_1_def RF_MODEM_RSSI_COMP_1_def RF_MODEM_CLKGEN_BAND_1_def RF_MODEM_CHFLT_RX1_CHFLT_COE13_7_0_12_def RF_MODEM_CHFLT_RX1_CHFLT_COE1_7_0_12_def RF_MODEM_CHFLT_RX2_CHFLT_COE7_7_0_12_def RF_PA_MODE_4_def RF_SYNTH_PFDCP_CPFF_7_def RF_MATCH_VALUE_1_12_def RF_FREQ_CONTROL_INTE_8_def

end
