(* ===== verification/Radio_Chip.thy ===== *)
theory Radio_Chip
  imports Radio_State Radio_Config
begin

text \<open>
  The commands of the radio chip, \<^verbatim>\<open>lib/radio.c\<close>, its configuration at power-up,
  \<^verbatim>\<open>lib/power.c\<close>, and the initialisation of the library, \<^verbatim>\<open>lib/init.c\<close>.
\<close>

section \<open>Operations\<close>

definition libradio_request_device_status :: "('d, 'a) env \<Rightarrow> ('d, 'a, int) op" where
  "libradio_request_device_status E = do {
     pkt_store 0 SI4463_REQUEST_DEVICE_STATE;
     i \<leftarrow> pkt_send E 1 2;
     if i \<noteq> SPI_SEND_OK then do { pkt_error i; State_Monad.return (-1) }
     else do {
       b1 \<leftarrow> pkt_load 1;
       modify (\<lambda>w. w\<lparr>r_curr_channel := b1\<rparr>);
       b0 \<leftarrow> pkt_load 0;
       modify (\<lambda>w. w\<lparr>r_curr_state := b0\<rparr>);
       State_Monad.return (uint b0)
     }
   }"

definition libradio_get_property :: "('d, 'a) env \<Rightarrow> u16 \<Rightarrow> u8 \<Rightarrow> ('d, 'a, unit) op" where
  "libradio_get_property E start_prop nprops = do {
     printf (''>>> Get property: '' @ hex (unat start_prop) @ '' ('' @ dec (unat nprops) @ '')\<newline>'');
     pkt_store 0 SI4463_GET_PROPERTY;
     pkt_store 1 (hi8 start_prop);
     pkt_store 2 nprops;
     pkt_store 3 (lo8 start_prop);
     i \<leftarrow> pkt_send E 4 (nprops + 2);
     if i \<noteq> SPI_SEND_OK then do { pkt_error i; State_Monad.return () }
     else for_each [0..<unat nprops + 2] (\<lambda>i. do {
       b \<leftarrow> pkt_load i;
       printf (''PROP-'' @ hex4 (unat (start_prop + word_of_nat i)) @ '' = '' @ hex (unat b) @ ''\<newline>'')
     })
   }"

definition libradio_set_property :: "('d, 'a, unit) op" where
  "libradio_set_property = State_Monad.return ()"

definition libradio_get_part_info :: "('d, 'a) env \<Rightarrow> ('d, 'a, unit) op" where
  "libradio_get_part_info E = do {
     pkt_store 0 SI4463_PART_INFO;
     i \<leftarrow> pkt_send E 1 8;
     when_op (i = SPI_SEND_OK) (do {
       b0 \<leftarrow> pkt_load 0; b1 \<leftarrow> pkt_load 1; b2 \<leftarrow> pkt_load 2; b3 \<leftarrow> pkt_load 3;
       b4 \<leftarrow> pkt_load 4; b5 \<leftarrow> pkt_load 5; b6 \<leftarrow> pkt_load 6; b7 \<leftarrow> pkt_load 7;
       modify (\<lambda>w. w\<lparr>r_chip_rev := b0, r_part_id := be16 b1 b2, r_pbuild := b3,
         r_device_id := be16 b4 b5, r_customer := b6, r_rom_id := b7\<rparr>)
     })
   }"

definition libradio_get_func_info :: "('d, 'a) env \<Rightarrow> ('d, 'a, unit) op" where
  "libradio_get_func_info E = do {
     pkt_store 0 SI4463_FUNC_INFO;
     i \<leftarrow> pkt_send E 1 6;
     when_op (i = SPI_SEND_OK) (do {
       b0 \<leftarrow> pkt_load 0; b1 \<leftarrow> pkt_load 1; b2 \<leftarrow> pkt_load 2;
       b3 \<leftarrow> pkt_load 3; b4 \<leftarrow> pkt_load 4; b5 \<leftarrow> pkt_load 5;
       modify (\<lambda>w. w\<lparr>r_rev_ext := b0, r_rev_branch := b1, r_rev_int := b2,
         r_patch := be16 b3 b4, r_func := b5\<rparr>)
     })
   }"

definition libradio_get_packet_info :: "('d, 'a) env \<Rightarrow> ('d, 'a, int) op" where
  "libradio_get_packet_info E = do {
     pkt_store 0 SI4463_PACKET_INFO;
     i \<leftarrow> pkt_send E 1 2;
     if i \<noteq> SPI_SEND_OK then State_Monad.return (-1)
     else do {
       b0 \<leftarrow> pkt_load 0; b1 \<leftarrow> pkt_load 1;
       State_Monad.return (sint (be16 b0 b1))
     }
   }"

definition libradio_ircal :: "('d, 'a, unit) op" where
  "libradio_ircal = State_Monad.return ()"

definition libradio_protocol_cfg :: "('d, 'a, unit) op" where
  "libradio_protocol_cfg = State_Monad.return ()"

definition libradio_get_ph_status :: "('d, 'a) env \<Rightarrow> ('d, 'a, unit) op" where
  "libradio_get_ph_status E = do {
     pkt_store 0 SI4463_GET_PH_STATUS;
     pkt_store 1 0xff;
     i \<leftarrow> pkt_send E 2 2;
     when_op (i = SPI_SEND_OK) (do {
       b0 \<leftarrow> pkt_load 0; b1 \<leftarrow> pkt_load 1;
       modify (\<lambda>w. w\<lparr>r_ph_pending := b0, r_ph_status := b1\<rparr>)
     })
   }"

definition libradio_get_modem_status :: "('d, 'a) env \<Rightarrow> ('d, 'a, unit) op" where
  "libradio_get_modem_status E = do {
     pkt_store 0 SI4463_GET_MODEM_STATUS;
     i \<leftarrow> pkt_send E 1 6;
     when_op (i = SPI_SEND_OK) (do {
       b0 \<leftarrow> pkt_load 0; b1 \<leftarrow> pkt_load 1; b2 \<leftarrow> pkt_load 2;
       b3 \<leftarrow> pkt_load 3; b4 \<leftarrow> pkt_load 4; b5 \<leftarrow> pkt_load 5;
       modify (\<lambda>w. w\<lparr>r_modem_pending := b0, r_modem_status := b1, r_current_rssi := b2,
         r_latch_rssi := b3, r_ant1_rssi := b4, r_ant2_rssi := b5\<rparr>)
     })
   }"

definition libradio_get_chip_status :: "('d, 'a) env \<Rightarrow> ('d, 'a, unit) op" where
  "libradio_get_chip_status E = do {
     pkt_store 0 SI4463_GET_CHIP_STATUS;
     pkt_store 1 0x7f;
     i \<leftarrow> pkt_send E 2 3;
     when_op (i = SPI_SEND_OK) (do {
       b0 \<leftarrow> pkt_load 0; b1 \<leftarrow> pkt_load 1; b2 \<leftarrow> pkt_load 2;
       modify (\<lambda>w. w\<lparr>r_chip_pending := b0, r_chip_status := b1, r_cmd_error := b2\<rparr>)
     })
   }"

definition libradio_change_radio_state :: "('d, 'a) env \<Rightarrow> u8 \<Rightarrow> ('d, 'a, unit) op" where
  "libradio_change_radio_state E new_state = do {
     pkt_store 0 SI4463_CHANGE_STATE;
     pkt_store 1 (new_state AND 0xf);
     pkt_send E 2 0;
     modify (\<lambda>w. w\<lparr>r_curr_state := new_state\<rparr>)
   }"

definition libradio_get_fifo_info :: "('d, 'a) env \<Rightarrow> u8 \<Rightarrow> ('d, 'a, u8) op" where
  "libradio_get_fifo_info E clrf = do {
     pkt_store 0 SI4463_FIFO_INFO;
     pkt_store 1 clrf;
     i \<leftarrow> pkt_send E 2 2;
     if i \<noteq> SPI_SEND_OK then State_Monad.return 0
     else do {
       b1 \<leftarrow> pkt_load 1;
       modify (\<lambda>w. w\<lparr>r_tx_fifo := b1\<rparr>);
       b0 \<leftarrow> pkt_load 0;
       modify (\<lambda>w. w\<lparr>r_rx_fifo := b0\<rparr>);
       State_Monad.return b0
     }
   }"

definition libradio_get_int_status :: "('d, 'a) env \<Rightarrow> ('d, 'a, unit) op" where
  "libradio_get_int_status E = do {
     pkt_store 0 SI4463_GET_INT_STATUS;
     pkt_store 3 0; pkt_store 2 0; pkt_store 1 0;
     i \<leftarrow> pkt_send E 4 8;
     when_op (i = SPI_SEND_OK) (do {
       b0 \<leftarrow> pkt_load 0; b1 \<leftarrow> pkt_load 1; b2 \<leftarrow> pkt_load 2; b3 \<leftarrow> pkt_load 3;
       b4 \<leftarrow> pkt_load 4; b5 \<leftarrow> pkt_load 5; b6 \<leftarrow> pkt_load 6; b7 \<leftarrow> pkt_load 7;
       modify (\<lambda>w. w\<lparr>r_int_pending := b0, r_int_status := b1, r_ph_pending := b2,
         r_ph_status := b3, r_modem_pending := b4, r_modem_status := b5, r_chip_pending := b6,
         r_chip_status := b7\<rparr>)
     })
   }"

text \<open>The loop of \<open>libradio_power_up\<close> over the configuration, from a position in the array.\<close>

function config_loop :: "('d, 'a) env \<Rightarrow> u8 list \<Rightarrow> ('d, 'a, int) op" where
  "config_loop E [] = do { modify (stop_with Out_of_bounds); State_Monad.return 0 }"
| "config_loop E (n # rest) =
     (if n = 0 then State_Monad.return 0
      else if unat n > length rest then do { modify (stop_with Out_of_bounds); State_Monad.return 0 }
      else do {
        for_each [0..<unat n] (\<lambda>i. pkt_store i (rest ! i));
        c \<leftarrow> pkt_send E n 0;
        if c \<noteq> SPI_SEND_OK then do {
          pkt_error c;
          libradio_set_state E LIBRADIO_STATE_ERROR;
          State_Monad.return (-1)
        }
        else config_loop E (drop (unat n) rest)
      })"
  by pat_completeness auto
termination
  by (relation "measure (\<lambda>(E, c). length c)") auto

text \<open>Every block of a configuration fits the array and the SPI buffer, and a zero ends it.\<close>

function config_ok :: "u8 list \<Rightarrow> bool" where
  "config_ok [] = False"
| "config_ok (n # rest) =
     (n = 0 \<or> (unat n \<le> length rest \<and> unat n \<le> 20 \<and> config_ok (drop (unat n) rest)))"
  by pat_completeness auto
termination
  by (relation "measure length") auto

definition libradio_power_up :: "('d, 'a) env \<Rightarrow> ('d, 'a, int) op" where
  "libradio_power_up E = do {
     active \<leftarrow> gets r_radio_active;
     if active \<noteq> 0 then State_Monad.return 0
     else do {
       printf ''PowerUp!\<newline>'';
       r \<leftarrow> config_loop E radio_config;
       if r < 0 then State_Monad.return (-1)
       else do {
         libradio_get_chip_status E;
         libradio_get_part_info E;
         libradio_get_func_info E;
         libradio_get_int_status E;
         libradio_ircal;
         libradio_request_device_status E;
         libradio_get_fifo_info E 3;
         printf ''Radio Active\<newline>'';
         modify (\<lambda>w. w\<lparr>r_radio_active := 1\<rparr>);
         State_Monad.return 0
       }
     }
   }"

definition libradio_power_down :: "('d, 'a, unit) op" where
  "libradio_power_down = modify (\<lambda>w. w\<lparr>r_radio_active := 0\<rparr>)"

definition libradio_init :: "('d, 'a) env \<Rightarrow> u8 \<Rightarrow> u8 \<Rightarrow> u8 \<Rightarrow> u8 \<Rightarrow> ('d, 'a, unit) op" where
  "libradio_init E c1 c2 n1 n2 = do {
     modify (\<lambda>w. libradio.extend zero_libradio (libradio.more w));
     libradio_set_state E LIBRADIO_STATE_STARTUP;
     libradio_set_clock 1 16;
     modify (\<lambda>w. w\<lparr>r_period := r_fast_period w\<rparr>);
     modify (\<lambda>w. w\<lparr>r_tens_of_minutes := 0xff\<rparr>);
     modify (\<lambda>w. w\<lparr>r_tick_count := 5, r_main_ticks := 5\<rparr>);
     modify (\<lambda>w. w\<lparr>r_curr_state := SI4463_STATE_SLEEP\<rparr>);
     modify (\<lambda>w. w\<lparr>r_cat1 := c1, r_cat2 := c2, r_num1 := n1, r_num2 := n2\<rparr>);
     pkt_init;
     libradio_get_fifo_info E 3;
     State_Monad.return ()
   }"

lemmas chip_ops = libradio_request_device_status_def libradio_get_part_info_def libradio_get_func_info_def
  libradio_get_packet_info_def libradio_get_ph_status_def libradio_get_modem_status_def
  libradio_get_chip_status_def libradio_change_radio_state_def libradio_get_fifo_info_def
  libradio_get_int_status_def libradio_ircal_def

lemma core_view_chip_fields [simp]:
  "core_view (w\<lparr>r_curr_channel := a\<rparr>) = core_view w"
  "core_view (w\<lparr>r_curr_state := a\<rparr>) = core_view w"
  "core_view (w\<lparr>r_tx_fifo := a\<rparr>) = core_view w"
  "core_view (w\<lparr>r_rx_fifo := a\<rparr>) = core_view w"
  by (simp_all add: core_view_def)

lemma keeps_core_chip [keep_rules]:
  "keeps core_view (libradio_request_device_status E)"
  "keeps core_view (libradio_get_part_info E)"
  "keeps core_view (libradio_get_func_info E)"
  "keeps core_view (libradio_get_packet_info E)"
  "keeps core_view (libradio_get_ph_status E)"
  "keeps core_view (libradio_get_modem_status E)"
  "keeps core_view (libradio_get_chip_status E)"
  "keeps core_view (libradio_change_radio_state E s)"
  "keeps core_view (libradio_get_fifo_info E c)"
  "keeps core_view (libradio_get_int_status E)"
  "keeps core_view libradio_ircal"
  by (auto simp: chip_ops core_view_def intro!: keep_rules keeps_modify)

section \<open>Safety\<close>

lemma preserves_safe_chip [keep_rules]:
  "preserves safe (libradio_request_device_status E)"
  "preserves safe (libradio_get_part_info E)"
  "preserves safe (libradio_get_func_info E)"
  "preserves safe (libradio_get_packet_info E)"
  "preserves safe (libradio_get_ph_status E)"
  "preserves safe (libradio_get_modem_status E)"
  "preserves safe (libradio_get_chip_status E)"
  "preserves safe (libradio_change_radio_state E s)"
  "preserves safe (libradio_get_fifo_info E c)"
  "preserves safe (libradio_get_int_status E)"
  "preserves safe libradio_ircal"
  by (auto simp: chip_ops safe_def mcu_ok_def intro!: keep_rules preserves_modify)

lemma radio_config_ok: "config_ok radio_config"
  by (simp add: radio_config_def rf_defs)

context application
begin

lemma config_loop_safe: "config_ok c \<Longrightarrow> preserves safe (config_loop E c)"
proof (induction c rule: config_ok.induct)
  case (2 n rest)
  show ?case
  proof (cases "n = 0")
    case False
    then have "unat n \<le> length rest" "unat n \<le> 20" "config_ok (drop (unat n) rest)"
      using "2.prems" by simp_all
    then show ?thesis using False "2.IH" 
      by (auto intro!: keep_rules preserves_for_each_bounded)
  qed (auto intro!: keep_rules)
qed simp

lemma power_up_safe [keep_rules]: "preserves safe (libradio_power_up E)"
  using config_loop_safe [OF radio_config_ok]
  by (auto simp: libradio_power_up_def safe_def mcu_ok_def intro!: keep_rules preserves_modify)
end

section \<open>Outcome of the power-up sequence\<close>

lemma config_loop_outcome:
  "run_state (config_loop E c) w = (r, w') \<Longrightarrow>
     (r = 0 \<and> core_view w' = core_view w) \<or>
     (r = -1 \<and> r_state w' = LIBRADIO_STATE_ERROR \<and> r_radio_active w' = r_radio_active w)"
proof (induction E c arbitrary: w r w' rule: config_loop.induct)
  case (1 E)
  then show ?case by auto
next
  case (2 E n rest)
  show ?case
  proof (cases "n = 0 \<or> unat n > length rest")
    case True
    then show ?thesis using "2.prems" by (auto split: if_splits)
  next
    case False
    obtain c v where v: "run_state (do { for_each [0..<unat n] (\<lambda>i. pkt_store i (rest ! i)); pkt_send E n 0 }) w = (c, v)"
      by fastforce
    have cv: "core_view v = core_view w"
      by (rule keeps_run [OF _ v]) (auto intro!: keep_rules)
    show ?thesis
    proof (cases "c = 0")
      case True
      then have "run_state (config_loop E (drop (unat n) rest)) v = (r, w')"
        using "2.prems" False v by (auto simp: case_prod_beta)
      from "2.IH" [OF _ _ _ this] show ?thesis using False True cv by (auto simp: core_view_def)
    next
      case c: False
      then have "r = -1" "w' = snd (run_state (libradio_set_state E 1) (snd (run_state (pkt_error c) v)))"
        using "2.prems" False v by (auto simp: case_prod_beta)
      then show ?thesis using cv keepsD [OF keeps_core_error, of c v]
        by (simp add: set_state_error) (simp add: core_view_def)
    qed
  qed
qed

lemma power_up_outcome:
  assumes "run_state (libradio_power_up E) w = (r, w')"
  shows "(r = 0 \<and> r_radio_active w' \<noteq> 0 \<and>
      core_view (w'\<lparr>r_radio_active := 0\<rparr>) = core_view (w\<lparr>r_radio_active := 0\<rparr>)) \<or>
    (r = -1 \<and> r_radio_active w' = 0 \<and> r_state w' = LIBRADIO_STATE_ERROR)"
proof (cases "r_radio_active w = 0")
  case False
  then show ?thesis using assms by (simp add: libradio_power_up_def)
next
  case True
  obtain w1 where p: "run_state (printf ''PowerUp!\<newline>'') w = ((), w1)" and c1: "core_view w1 = core_view w"
    using keepsD [OF keeps_core_primitives(1)] by (metis prod.collapse old.unit.exhaust)
  obtain r2 w2 where c: "run_state (config_loop E radio_config) w1 = (r2, w2)" by fastforce
  have act: "r_radio_active w1 = 0" "r_state w1 = r_state w" using c1 True by (simp_all add: core_view_def)
  from config_loop_outcome [OF c] show ?thesis
  proof (elim disjE conjE)
    assume r2: "r2 = 0" "core_view w2 = core_view w1"
    let ?m = "do { libradio_get_chip_status E; libradio_get_part_info E; libradio_get_func_info E;
      libradio_get_int_status E; libradio_ircal; libradio_request_device_status E;
      libradio_get_fifo_info E 3; printf ''Radio Active\<newline>'' }"
    have "core_view (snd (run_state ?m w2)) = core_view w2"
      by (rule keepsD) (intro keep_rules)
    then have s: "core_view ((snd (run_state ?m w2))\<lparr>r_radio_active := 0\<rparr>) = core_view (w\<lparr>r_radio_active := 0\<rparr>)"
      using r2 c1 by (simp add: core_view_def)
    have "run_state (libradio_power_up E) w = (0, (snd (run_state ?m w2))\<lparr>r_radio_active := 1\<rparr>)"
      using True p c r2 by (simp add: libradio_power_up_def case_prod_beta)
    then show ?thesis using assms s by (auto simp: core_view_def)
  next
    assume "r2 = -1" "r_state w2 = LIBRADIO_STATE_ERROR" "r_radio_active w2 = r_radio_active w1"
    then show ?thesis using assms True p c act by (simp add: libradio_power_up_def)
  qed
qed

end
