(* ===== verification/Rxtx.thy ===== *)
theory Rxtx
  imports Radio_Chip
begin

text \<open>
  Receiving and transmitting: \<^verbatim>\<open>lib/rxtx.c\<close>, with the switch for the radio's interrupt,
  \<^verbatim>\<open>libradio_irq_enable\<close> of \<^verbatim>\<open>lib/wait.c\<close>, which \<open>libradio_recv\<close> calls.

  A \<^verbatim>\<open>struct channel *\<close> argument is passed by value and the channel with the stores made
  through the pointer is returned with the result. The lemmas say what each operation leaves alone,
  that it keeps the state safe, and what is on the SPI bus when a transmission is reported.
\<close>

section \<open>Operations\<close>

definition libradio_irq_enable :: "u8 \<Rightarrow> ('d, 'a, unit) op" where
  "libradio_irq_enable flag = do {
     modify (\<lambda>w. w\<lparr>eicra := eicra w AND NOT 3\<rparr>);
     modify (\<lambda>w. w\<lparr>eicra := eicra w OR 2\<rparr>);
     modify (\<lambda>w. w\<lparr>r_catch_irq := flag\<rparr>);
     if flag = 0 then do {
       modify (\<lambda>w. w\<lparr>eimsk := eimsk w AND NOT 1\<rparr>);
       modify (\<lambda>w. w\<lparr>irq_fired := 0\<rparr>)
     }
     else do {
       modify (\<lambda>w. w\<lparr>irq_fired := 0\<rparr>);
       modify (\<lambda>w. w\<lparr>eimsk := eimsk w OR 1\<rparr>)
     }
   }"

definition libradio_check_rx :: "('d, 'a) env \<Rightarrow> ('d, 'a, bool) op" where
  "libradio_check_rx E = do {
     n \<leftarrow> libradio_get_fifo_info E 0;
     State_Monad.return (n \<ge> SI4463_PACKET_LEN)
   }"

definition libradio_check_tx :: "('d, 'a) env \<Rightarrow> ('d, 'a, bool) op" where
  "libradio_check_tx E = do {
     libradio_get_fifo_info E 0;
     n \<leftarrow> gets r_tx_fifo;
     State_Monad.return (n \<ge> SI4463_PACKET_LEN)
   }"

definition libradio_set_rx :: "('d, 'a) env \<Rightarrow> u8 \<Rightarrow> ('d, 'a, unit) op" where
  "libradio_set_rx E channo = do {
     pkt_store 0 SI4463_START_RX;
     pkt_store 1 channo;
     pkt_store 2 0;
     pkt_store 3 0;
     pkt_store 4 SI4463_PACKET_LEN;
     pkt_store 5 SI4463_STATE_NOCHANGE;
     pkt_store 6 SI4463_STATE_READY;
     pkt_store 7 SI4463_STATE_READY;
     i \<leftarrow> pkt_send E 8 0;
     (if i \<noteq> SPI_SEND_OK then do { pkt_error i; State_Monad.return () }
      else State_Monad.return ());
     modify (\<lambda>w. w\<lparr>r_curr_channel := channo\<rparr>)
   }"

definition libradio_recv_start :: "('d, 'a) env \<Rightarrow> ('d, 'a, u8) op" where
  "libradio_recv_start E = do {
     active \<leftarrow> gets r_radio_active;
     r \<leftarrow> (if active = 0 then libradio_power_up E else State_Monad.return 0);
     if r < 0 then State_Monad.return 0
     else do {
       modify (\<lambda>w. w\<lparr>r_catch_irq := 1\<rparr>);
       channo \<leftarrow> gets r_my_channel;
       libradio_set_rx E channo;
       State_Monad.return 1
     }
   }"

definition libradio_recv :: "('d, 'a) env \<Rightarrow> channel \<Rightarrow> u8 \<Rightarrow> ('d, 'a, u8 \<times> channel) op" where
  "libradio_recv E ch channo = do {
     avail \<leftarrow> libradio_check_rx E;
     (ret, ch) \<leftarrow>
       (if avail then do {
          (ret, ch) \<leftarrow> libradio_rxpacket E ch;
          (if ret = 0 then do { libradio_get_fifo_info E 2; State_Monad.return () }
           else modify (\<lambda>w. w\<lparr>r_npacket_rx := r_npacket_rx w + 1, r_saw_rx := 1\<rparr>));
          catch \<leftarrow> gets r_catch_irq;
          when_op (catch \<noteq> 0) (libradio_irq_enable 1);
          State_Monad.return (ret, ch)
        }
        else State_Monad.return (0, ch));
     st \<leftarrow> libradio_request_device_status E;
     cur \<leftarrow> gets r_curr_channel;
     when_op (st \<noteq> uint SI4463_STATE_RX \<or> cur \<noteq> channo) (libradio_set_rx E channo);
     State_Monad.return (ret, ch)
   }"

definition libradio_send :: "('d, 'a) env \<Rightarrow> channel \<Rightarrow> u8 \<Rightarrow> ('d, 'a, u8 \<times> channel) op" where
  "libradio_send E ch channo = do {
     active \<leftarrow> gets r_radio_active;
     r \<leftarrow> (if active = 0 then libradio_power_up E else State_Monad.return 0);
     if r < 0 then State_Monad.return (0, ch)
     else do {
       libradio_request_device_status E;
       st \<leftarrow> gets r_curr_state;
       if st \<noteq> SI4463_STATE_READY \<and> st \<noteq> SI4463_STATE_RX then State_Monad.return (0, ch)
       else do {
         room \<leftarrow> libradio_check_tx E;
         if \<not> room then State_Monad.return (0, ch)
         else do {
           (ok, ch) \<leftarrow> libradio_txpacket E ch;
           if ok = 0 then State_Monad.return (0, ch)
           else do {
             pkt_store 0 SI4463_START_TX;
             pkt_store 1 channo;
             let i = (if ch_state ch > LIBRADIO_CHSTATE_TRANSMIT then SI4463_STATE_RX
                      else SI4463_STATE_READY);
             pkt_store 2 (push_bit 4 i);
             pkt_store 3 0;
             pkt_store 4 SI4463_PACKET_LEN;
             i \<leftarrow> pkt_send E 5 0;
             if i \<noteq> SPI_SEND_OK then do { r \<leftarrow> pkt_error i; State_Monad.return (r, ch) }
             else do {
               modify (\<lambda>w. w\<lparr>r_npacket_tx := r_npacket_tx w + 1\<rparr>);
               State_Monad.return (1, ch)
             }
           }
         }
       }
     }
   }"

text \<open>The traffic of one transmission: the frame into the FIFO, then the start command.\<close>

definition tx_events :: "packet \<Rightarrow> u8 \<Rightarrow> u8 \<Rightarrow> spi_event list" where
  "tx_events p channo after =
     [SS True, Sent 0x66] @ map Sent (frame p) @ [SS False] @
     [SS True, Sent 0x31, Sent channo, Sent (push_bit 4 after), Sent 0, Sent 16, SS False]"

lemmas rxtx_ops [op_defs] = libradio_irq_enable_def libradio_check_rx_def libradio_check_tx_def
  libradio_set_rx_def libradio_recv_start_def libradio_recv_def libradio_send_def

section \<open>What the operations leave alone\<close>

lemma keeps_core_fifo_read [keep_rules]: "keeps core_view (fifo_read_loop E n)"
  by (induction n) (auto intro!: keep_rules)

lemma keeps_core_fifo_write [keep_rules]: "keeps core_view (fifo_write_loop E bs)"
  by (induction bs) (auto intro!: keep_rules)

lemma keeps_core_txpacket [keep_rules]: "keeps core_view (libradio_txpacket E ch)"
  by (auto simp: libradio_txpacket_def Let_def intro!: keep_rules)

lemma keeps_core_rxtx [keep_rules]:
  "keeps core_view (libradio_check_rx E)" "keeps core_view (libradio_check_tx E)"
  "keeps core_view (libradio_set_rx E c)"
  by (auto simp: rxtx_ops intro!: keep_rules keeps_modify)

section \<open>Safety\<close>

lemma fifo_read_yields: "yields safe (fifo_read_loop E n) (\<lambda>bs. length bs = n)"
proof (induction n)
  case (Suc n)
  show ?case
    by (auto intro!: yields_bind_preserves [OF preserves_safe_primitives(5)]
        yields_bind [OF Suc] yields_return)
qed (simp add: yields_return)

lemma preserves_safe_fifo_write [keep_rules]: "preserves safe (fifo_write_loop E bs)"
  by (induction bs) (auto intro!: keep_rules)

lemma rxpacket_yields:
  assumes "channel_ok ch"
  shows "yields safe (libradio_rxpacket E ch) (\<lambda>(r, ch'). channel_ok ch' \<and> r \<le> 1 \<and>
    unat (len (ch_packet ch')) \<le> 10 \<and> (r \<noteq> 0 \<longrightarrow> sum_ok (ch_packet ch')))"
  unfolding libradio_rxpacket_def Let_def
  by (intro yields_bind_preserves [OF preserves_gets] yields_bind_preserves [OF preserves_safe_primitives(4)]
      yields_bind_preserves [OF preserves_safe_primitives(5)] yields_bind [OF fifo_read_yields] yields_if
      yields_return yields_bind_preserves [OF preserves_when [OF preserves_modify]])
    (use assms in \<open>auto simp: channel_ok_def packet_ok_def sum_ok_def frame_len_def safe_def mcu_ok_def
      intro: packet_overlay_ok [unfolded packet_ok_def]\<close>)

lemma txpacket_yields:
  assumes "channel_ok ch"
  shows "yields safe (libradio_txpacket E ch) (\<lambda>(r, ch'). channel_ok ch')"
  unfolding libradio_txpacket_def Let_def
  by (intro yields_bind_preserves [OF preserves_gets] yields_bind_preserves [OF preserves_safe_primitives(4)]
      yields_bind_preserves [OF preserves_safe_primitives(5)] yields_if
      yields_bind_preserves [OF preserves_safe_fifo_write] yields_return)
   (use assms in \<open>auto simp: channel_ok_def packet_ok_def\<close>)

lemma preserves_safe_rxtx [keep_rules]:
  "preserves safe (libradio_check_rx E)" "preserves safe (libradio_check_tx E)"
  "preserves safe (libradio_set_rx E c)" "preserves safe (libradio_irq_enable f)"
  by (auto simp: rxtx_ops safe_def mcu_ok_def intro!: keep_rules preserves_modify)

lemma recv_yields:
  assumes ch: "channel_ok ch"
  shows "yields safe (libradio_recv E ch channo) (\<lambda>(r, ch'). channel_ok ch' \<and>
    (r \<noteq> 0 \<longrightarrow> unat (len (ch_packet ch')) \<le> 10 \<and> sum_ok (ch_packet ch')))"
  (is "yields safe _ ?P")
proof -
  let ?get = "do { (ret, ch) \<leftarrow> libradio_rxpacket E ch;
          (if ret = 0 then do { libradio_get_fifo_info E 2; State_Monad.return () }
           else modify (\<lambda>w. w\<lparr>r_npacket_rx := r_npacket_rx w + 1, r_saw_rx := 1\<rparr>));
          catch \<leftarrow> gets r_catch_irq;
          when_op (catch \<noteq> 0) (libradio_irq_enable 1);
          State_Monad.return (ret, ch) }"
  have mid: "preserves safe (if ret = 0 then do { libradio_get_fifo_info E 2; State_Monad.return () }
     else modify (\<lambda>w. w\<lparr>r_npacket_rx := r_npacket_rx w + 1, r_saw_rx := 1\<rparr>))" for ret :: u8
    by (auto simp: safe_def mcu_ok_def intro!: keep_rules preserves_modify)
  have "yields safe ?get ?P"
    by (rule yields_bind [OF rxpacket_yields [OF ch]])
      (auto intro!: yields_bind_preserves [OF mid] yields_bind_preserves [OF preserves_gets]
        yields_bind_preserves [OF preserves_when [OF preserves_safe_rxtx(4)]] yields_return)
  then have b: "yields safe (if avail then ?get else State_Monad.return (0, ch)) ?P" for avail
    using ch by (auto intro: yields_return)
  show ?thesis unfolding libradio_recv_def
    by (rule yields_bind_preserves [OF preserves_safe_rxtx(1)], rule yields_bind [OF b])
      (auto intro!: yields_bind_preserves [OF preserves_safe_chip(1)] yields_bind_preserves [OF preserves_gets]
        yields_bind_preserves [OF preserves_when [OF preserves_safe_rxtx(3)]] yields_return)
qed

context application
begin

lemma recv_start_safe [keep_rules]: "preserves safe (libradio_recv_start E)"
  by (auto simp: libradio_recv_start_def safe_def mcu_ok_def intro!: keep_rules preserves_modify)

lemma send_yields:
  assumes ch: "channel_ok ch"
  shows "yields safe (libradio_send E ch channo) (\<lambda>(r, ch'). channel_ok ch')"
proof -
  have pu: "preserves safe (if a = 0 then libradio_power_up E else State_Monad.return 0)" for a :: u8
    by (auto intro: keep_rules)
  have st: "preserves safe (pkt_store 0 x)" "preserves safe (pkt_store (Suc 0) x)" "preserves safe (pkt_store 2 x)"
    "preserves safe (pkt_store 3 x)" "preserves safe (pkt_store 4 x)" "preserves safe (pkt_send E 5 0)" 
    "preserves safe (modify (\<lambda>w. w\<lparr>r_npacket_tx := r_npacket_tx w + 1\<rparr>))" for x
    by (auto simp: safe_def mcu_ok_def intro!: keep_rules preserves_modify)
  show ?thesis unfolding libradio_send_def Let_def
    by (intro yields_bind_preserves [OF preserves_gets] yields_bind_preserves [OF pu] yields_if
       yields_bind_preserves [OF preserves_safe_chip(1)] yields_bind_preserves [OF preserves_safe_rxtx(2)] 
       yields_return yields_bind [OF txpacket_yields [OF ch]])
     (use ch in \<open>auto intro!: yields_return yields_bind_preserves [OF st(1)] yields_bind_preserves [OF st(2)]
       yields_bind_preserves [OF st(3)] yields_bind_preserves [OF st(4)] yields_bind_preserves [OF st(5)]
       yields_bind_preserves [OF st(6)] yields_bind_preserves [OF st(7)] yields_bind_preserves [OF preserves_safe_error]\<close>)
qed

end

section \<open>The size of the SPI buffer\<close>

abbreviation pkt_room :: "('d, 'a) mcu \<Rightarrow> nat" where
  "pkt_room w \<equiv> length (pkt_data w)"

lemma pkt_room_stop [simp]: "pkt_data (stop_with r w) = pkt_data w"
  by (simp add: stop_with_def split: option.splits)

lemma keeps_room_primitives [keep_rules]:
  "keeps pkt_room (printf s)" "keeps pkt_room (pkt_store i v)" "keeps pkt_room (pkt_load i)"
  "keeps pkt_room (setss E x)" "keeps pkt_room (spi_byte E b)" "keeps pkt_room (div_by n f)"
  "keeps pkt_room (libradio_set_delay d)" "keeps pkt_room (libradio_set_song ns)"
  by (auto simp: keeps_def printf_def pkt_store_def pkt_load_def div_by_def libradio_set_delay_def
      libradio_set_song_def split: prod.splits)

lemma keeps_room_write [keep_rules]: "keeps pkt_room (pkt_write_loop E is)"
  by (induction "is") (auto intro!: keep_rules)

lemma keeps_room_read [keep_rules]: "keeps pkt_room (pkt_read_loop E is)"
  by (induction "is") (auto intro!: keep_rules)

lemma keeps_room_poll [keep_rules]: "keeps pkt_room (pkt_poll_loop E rl n)"
  by (induction n) (auto intro!: keep_rules)

lemma keeps_room_send [keep_rules]: "keeps pkt_room (pkt_send E sl rl)"
  by (auto simp: pkt_send_def intro!: keep_rules)

lemma keeps_room_error [keep_rules]: "keeps pkt_room (pkt_error i)"
  by (auto simp: pkt_error_def intro!: keep_rules)

lemma keeps_room_chip [keep_rules]:
  "keeps pkt_room (libradio_request_device_status E)"
  "keeps pkt_room (libradio_get_part_info E)"
  "keeps pkt_room (libradio_get_func_info E)"
  "keeps pkt_room (libradio_get_chip_status E)"
  "keeps pkt_room (libradio_get_fifo_info E c)"
  "keeps pkt_room (libradio_get_int_status E)"
  "keeps pkt_room libradio_ircal"
  by (auto simp: chip_ops intro!: keep_rules keeps_modify)

lemma keeps_room_set_error: "keeps pkt_room (libradio_set_state E LIBRADIO_STATE_ERROR)"
  by (auto simp: libradio_set_state_def intro!: keep_rules keeps_modify)

lemma keeps_room_config [keep_rules]: "keeps pkt_room (config_loop E c)"
proof (induction E c rule: config_loop.induct)
  case (2 E n rest)
  then show ?case using keeps_room_set_error [of E]
    by (auto intro!: keep_rules keeps_modify)
qed (auto intro!: keep_rules keeps_modify)

lemma keeps_room_power_up [keep_rules]: "keeps pkt_room (libradio_power_up E)"
  by (auto simp: libradio_power_up_def intro!: keep_rules keeps_modify)

lemma keeps_room_check_tx [keep_rules]: "keeps pkt_room (libradio_check_tx E)"
  by (auto simp: libradio_check_tx_def intro!: keep_rules)

lemma keeps_room_fifo_write [keep_rules]: "keeps pkt_room (fifo_write_loop E bs)"
  by (induction bs) (auto intro!: keep_rules)

lemma keeps_room_txpacket [keep_rules]: "keeps pkt_room (libradio_txpacket E ch)"
  by (auto simp: libradio_txpacket_def Let_def intro!: keep_rules)

section \<open>A reported transmission is on the bus\<close>

lemma dev_write_ok: "dev_write E bs d = (True, l, d') \<Longrightarrow> l = map Sent bs"
  by (induction bs arbitrary: d l) (auto split: prod.splits if_splits)

lemma dev_transact_ok:
  "dev_transact E bs rl d = (0, rs, l, d') \<Longrightarrow> \<exists>l'. l = [SS True] @ map Sent bs @ [SS False] @ l'"
  by (auto simp: dev_transact_def split: prod.splits if_splits dest!: dev_write_ok)

lemma start_tx_log:
  assumes "run_state (do { pkt_store 0 a; pkt_store (Suc 0) b; pkt_store 2 c; pkt_store 3 d; pkt_store 4 e;
     pkt_send E 5 0 }) w = (0, w')" and len: "length (pkt_data w) = 20"
  shows "\<exists>l. spi_log w' = spi_log w @ [SS True, Sent a, Sent b, Sent c, Sent d, Sent e, SS False] @ l"
proof -
  let ?w = "w\<lparr>pkt_data := (pkt_data w)[0 := a, 1 := b, 2 := c, 3 := d, 4 := e]\<rparr>"
  obtain x0 x1 x2 x3 x4 xs where "pkt_data w = x0 # x1 # x2 # x3 # x4 # xs"
    using len by (auto simp: numeral_eq_Suc length_Suc_conv)
  then have t: "take 5 (pkt_data ?w) = [a, b, c, d, e]" by (simp add: numeral_eq_Suc)
  obtain st rs l dv where tr: "dev_transact E [a, b, c, d, e] 0 (dev w) = (st, rs, l, dv)"
    using prod_cases4 by blast
  have "run_state (pkt_send E 5 0) ?w = (0, w')" using assms by simp
  then have "st = 0" "spi_log w' = spi_log w @ l"
    using tr t len pkt_send_refines [of 5 ?w 0 E] by auto
  with dev_transact_ok [of E "[a, b, c, d, e]" 0 "dev w" rs l dv] tr show ?thesis by auto
qed

lemma send_too_long:
  assumes "10 < unat (len (ch_packet ch))"
  shows "fst (run_state (libradio_send E ch channo) w) = (0, ch)"
  using assms by (simp add: libradio_send_def libradio_txpacket_def case_prod_beta)

section \<open>Receiving\<close>

lemma check_rx_fifo:
  assumes "run_state (libradio_check_rx E) v = (True, v1)"
  shows "16 \<le> unat (r_rx_fifo v1)"
  using assms by (auto simp: libradio_check_rx_def libradio_get_fifo_info_def word_le_nat_alt split: prod.splits if_splits)

text \<open>What a received packet may change of the clock and the address of a node.\<close>

definition clock_view :: "('d, 'a) mcu \<Rightarrow> _" where
  "clock_view w = (r_state w, r_tens_of_minutes w, r_ms_ticks w, r_my_node_id w)"

lemma keeps_clock_core: "keeps core_view m \<Longrightarrow> keeps clock_view m"
  by (auto simp: keeps_def core_view_def clock_view_def)

lemma keeps_clock_irq: "keeps clock_view (libradio_irq_enable f)"
  by (auto simp: libradio_irq_enable_def clock_view_def intro!: keep_rules keeps_modify)

lemma recv_clock:
  assumes avail: "run_state (libradio_check_rx E) v = (True, v1)"
    and rx: "run_state (libradio_rxpacket E ch) v1 = ((1, got), v2)"
    and run: "run_state (libradio_recv E ch channo) v = ((ret, ch'), v')"
  shows "ret = 1 \<and> ch' = got \<and> clock_view v' = clock_view v2"
proof -
  have k1: "keeps clock_view (do { c \<leftarrow> gets r_catch_irq; when_op (c \<noteq> 0) (libradio_irq_enable 1) })"
    by (intro keep_rules keeps_clock_irq)
  have k2: "keeps clock_view (do { st \<leftarrow> libradio_request_device_status E; cur \<leftarrow> gets r_curr_channel;
     when_op (st \<noteq> uint SI4463_STATE_RX \<or> cur \<noteq> channo) (libradio_set_rx E channo) })"
    by (intro keeps_clock_core) (intro keep_rules)
  let ?u = "v2\<lparr>r_npacket_rx := r_npacket_rx v2 + 1, r_saw_rx := 1\<rparr>"
  obtain a where a: "run_state (do { c \<leftarrow> gets r_catch_irq; when_op (c \<noteq> 0) (libradio_irq_enable 1) }) ?u = ((), a)" by (rule unit_run)
  obtain b where b: "run_state (do { st \<leftarrow> libradio_request_device_status E; cur \<leftarrow> gets r_curr_channel;
     when_op (st \<noteq> uint SI4463_STATE_RX \<or> cur \<noteq> channo) (libradio_set_rx E channo) }) a = ((), b)" by (rule unit_run)
  have "((ret, ch'), v') = ((1, got), b)"
    using run avail rx a b by (simp add: libradio_recv_def split: prod.splits)
  moreover have "clock_view b = clock_view ?u" using keeps_run [OF k1 a] keeps_run [OF k2 b] by simp
  ultimately show ?thesis by (simp add: clock_view_def)
qed

end
