(* ===== verification/Frames.thy ===== *)
theory Frames
  imports Rxtx
begin

text \<open>
  Two more frame conditions of the library's operations: the traffic on the SPI bus and a stop are
  never taken back (\<open>past\<close>, with which follows what the bus has carried when \<open>libradio_send\<close> reports success),
  and the packet buffers, the EEPROM and the application's variables are
  not touched by the exchanges with the chip (\<open>buffers\<close>).
\<close>

definition past :: "spi_event list \<Rightarrow> stop option \<Rightarrow> ('d, 'a) mcu \<Rightarrow> bool" where
  "past L r w \<longleftrightarrow> (\<exists>l. spi_log w = L @ l) \<and> (r \<noteq> None \<longrightarrow> stopped w = r)"

definition buffers :: "('d, 'a) mcu \<Rightarrow> _" where
  "buffers w = (rxchan w, txchan w, statusbuffer w, eeprom w, sio_rxq w, app w)"

section \<open>History\<close>

lemma past_stop [simp]: "past L r w \<Longrightarrow> past L r (stop_with x w)"
  by (auto simp: past_def stop_with_def split: option.splits)

lemma past_refl: "past (spi_log w) (stopped w) w"
  by (simp add: past_def)

lemma past_primitives [keep_rules]:
  "preserves (past L r) (printf s)" "preserves (past L r) (pkt_store i v)" "preserves (past L r) (pkt_load i)"
  "preserves (past L r) (setss E x)" "preserves (past L r) (spi_byte E b)" "preserves (past L r) (div_by n f)"
  "preserves (past L r) (libradio_set_delay d)" "preserves (past L r) (libradio_set_song ns)"
  by (auto simp: preserves_def printf_def pkt_store_def pkt_load_def div_by_def libradio_set_delay_def
      libradio_set_song_def split: prod.splits) (auto simp: past_def)

lemma past_write [keep_rules]: "preserves (past L r) (pkt_write_loop E is)"
  by (induction "is") (auto intro!: keep_rules)

lemma past_read [keep_rules]: "preserves (past L r) (pkt_read_loop E is)"
  by (induction "is") (auto intro!: keep_rules)

lemma past_poll [keep_rules]: "preserves (past L r) (pkt_poll_loop E rl n)"
  by (induction n) (auto intro!: keep_rules)

lemma past_send [keep_rules]: "preserves (past L r) (pkt_send E sl rl)"
  by (auto simp: pkt_send_def intro!: keep_rules)

lemma past_error [keep_rules]: "preserves (past L r) (pkt_error i)"
  by (auto simp: pkt_error_def intro!: keep_rules)

lemma past_fields:
  "past L r w \<Longrightarrow> past L r (w\<lparr>r_curr_channel := a\<rparr>)" "past L r w \<Longrightarrow> past L r (w\<lparr>r_curr_state := a\<rparr>)"
  "past L r w \<Longrightarrow> past L r (w\<lparr>r_tx_fifo := a\<rparr>)" "past L r w \<Longrightarrow> past L r (w\<lparr>r_rx_fifo := a\<rparr>)"
  "past L r w \<Longrightarrow> past L r (w\<lparr>r_radio_active := a\<rparr>)" "past L r w \<Longrightarrow> past L r (w\<lparr>r_catch_irq := a\<rparr>)"
  "past L r w \<Longrightarrow> past L r (w\<lparr>r_npacket_tx := x\<rparr>)" "past L r w \<Longrightarrow> past L r (w\<lparr>txchan := ch\<rparr>)"
  "past L r w \<Longrightarrow> past L r (w\<lparr>r_state := a\<rparr>)"
  by (simp_all add: past_def)

lemma past_chip [keep_rules]:
  "preserves (past L r) (libradio_request_device_status E)"
  "preserves (past L r) (libradio_get_part_info E)"
  "preserves (past L r) (libradio_get_func_info E)"
  "preserves (past L r) (libradio_get_chip_status E)"
  "preserves (past L r) (libradio_get_fifo_info E c)"
  "preserves (past L r) (libradio_get_int_status E)"
  "preserves (past L r) libradio_ircal"
  unfolding chip_ops by (intro keep_rules preserves_modify past_fields; simp add: past_def)+

lemma past_set_error: "preserves (past L r) (libradio_set_state E LIBRADIO_STATE_ERROR)"
  by (auto simp: libradio_set_state_def intro!: keep_rules preserves_modify past_fields)

lemma past_config [keep_rules]: "preserves (past L r) (config_loop E c)"
proof (induction E c rule: config_loop.induct)
  case (2 E n rest)
  then show ?case using past_set_error [of L r E]
    by (auto intro!: keep_rules preserves_modify)
qed (auto intro!: keep_rules preserves_modify)

lemma past_power_up [keep_rules]: "preserves (past L r) (libradio_power_up E)"
  by (auto simp: libradio_power_up_def intro!: keep_rules preserves_modify past_fields)

lemma past_fifo_write [keep_rules]: "preserves (past L r) (fifo_write_loop E bs)"
  by (induction bs) (auto intro!: keep_rules)

lemma past_txpacket [keep_rules]: "preserves (past L r) (libradio_txpacket E ch)"
  by (auto simp: libradio_txpacket_def Let_def intro!: keep_rules)

lemma past_rxtx [keep_rules]:
  "preserves (past L r) (libradio_check_tx E)" "preserves (past L r) (libradio_set_rx E c)"
  by (auto simp: libradio_check_tx_def libradio_set_rx_def intro!: keep_rules preserves_modify past_fields)

lemma past_recv_start [keep_rules]: "preserves (past L r) (libradio_recv_start E)"
  by (auto simp: libradio_recv_start_def intro!: keep_rules preserves_modify past_fields)

lemma past_libradio_send [keep_rules]: "preserves (past L r) (libradio_send E ch c)"
  by (auto simp: libradio_send_def Let_def intro!: keep_rules preserves_modify past_fields)

section \<open>Buffers\<close>

lemma core_buffers: "core_view s = core_view t \<Longrightarrow> buffers s = buffers t"
  by (simp add: core_view_def buffers_def)

lemma keeps_buffers: "keeps core_view m \<Longrightarrow> keeps buffers m"
  by (erule keeps_via) (rule core_buffers)

lemmas keeps_buffers_chip [keep_rules] = keeps_core_primitives [THEN keeps_buffers]
  keeps_core_send [THEN keeps_buffers] keeps_core_error [THEN keeps_buffers]
  keeps_core_chip [THEN keeps_buffers] keeps_core_rxtx [THEN keeps_buffers]
  keeps_core_txpacket [THEN keeps_buffers]

lemma buffers_stop [simp]: "buffers (stop_with r w) = buffers w"
  by (rule core_buffers) simp

lemma buffers_fields [simp]:
  "buffers (w\<lparr>r_radio_active := a\<rparr>) = buffers w" "buffers (w\<lparr>r_catch_irq := a\<rparr>) = buffers w"
  "buffers (w\<lparr>r_npacket_tx := x\<rparr>) = buffers w"
  by (simp_all add: buffers_def)

lemma keeps_buffers_set_error: "keeps buffers (libradio_set_state E LIBRADIO_STATE_ERROR)"
  unfolding keeps_def
  by (simp add: libradio_set_state_def libradio_set_song_def div_by_def libradio_set_delay_def stop_with_def
     songs_def buffers_def split: option.splits)

lemma keeps_buffers_config [keep_rules]: "keeps buffers (config_loop E c)"
proof (induction E c rule: config_loop.induct)
  case (2 E n rest)
  then show ?case using keeps_buffers_set_error [of E]
    by (auto intro!: keep_rules keeps_modify)
qed (auto intro!: keep_rules keeps_modify)

lemma keeps_buffers_power_up [keep_rules]: "keeps buffers (libradio_power_up E)"
  by (auto simp: libradio_power_up_def intro!: keep_rules keeps_modify)

lemma keeps_buffers_recv_start: "keeps buffers (libradio_recv_start E)"
  by (auto simp: libradio_recv_start_def intro!: keep_rules keeps_modify)

lemma keeps_buffers_send: "keeps buffers (libradio_send E ch c)"
  by (auto simp: libradio_send_def Let_def intro!: keep_rules keeps_modify)

section \<open>What a reported transmission has put on the bus\<close>

text \<open>Before it looks at the packet, \<open>libradio_send\<close> powers the radio up and asks for its state.\<close>

lemma send_prepares:
  assumes p: "run_state (do { a \<leftarrow> gets r_radio_active;
       if a = 0 then libradio_power_up E else State_Monad.return 0 }) w = (r, w1)" "\<not> r < 0"
    and s: "run_state (libradio_request_device_status E) w1 = (s, w2)"
    and t: "run_state (libradio_check_tx E) w2 = (room, w3)"
  shows "r_ms_ticks w3 = r_ms_ticks w \<and> pkt_room w3 = pkt_room w \<and> (\<exists>l. spi_log w3 = spi_log w @ l)"
proof -
  let ?m = "do { a \<leftarrow> gets r_radio_active; if a = 0 then libradio_power_up E else State_Monad.return 0 }"
  have "r_ms_ticks w1 = r_ms_ticks w"
    using p power_up_outcome [of E w r w1] by (auto simp: core_view_def split: if_splits)
  then have "r_ms_ticks w3 = r_ms_ticks w"
    using keeps_run [OF keeps_core_chip(1) s] keeps_run [OF keeps_core_rxtx(2) t] by (simp add: core_view_def)
  moreover have "keeps pkt_room ?m" by (intro keep_rules)
  then have "pkt_room w3 = pkt_room w"
    using keeps_run [OF _ p(1)] keeps_run [OF keeps_room_chip(1) s] keeps_run [OF keeps_room_check_tx t] by simp
  moreover have "preserves (past (spi_log w) None) ?m" by (intro keep_rules)
  then have "past (spi_log w) None w1" by (rule preserves_run [OF _ _ p(1)]) (simp add: past_def)
  then have "past (spi_log w) None w2" by (rule preserves_run [OF past_chip(1) _ s])
  then have "past (spi_log w) None w3" by (rule preserves_run [OF past_rxtx(1) _ t])
  ultimately show ?thesis by (simp add: past_def)
qed

lemma send_reports:
  assumes run: "run_state (libradio_send E ch channo) w = ((r, ch'), w')" and r: "r \<noteq> 0"
    and ok: "channel_ok ch" "length (pkt_data w) = 20"
  shows "unat (len (ch_packet ch)) \<le> 10 \<and>
    ch' = ch\<lparr>ch_packet := stamped (r_ms_ticks w) (ch_packet ch)\<rparr> \<and>
    (\<exists>pre post. spi_log w' = spi_log w @ pre @ tx_events (ch_packet ch') channo (if ch_state ch > 4 then 8 else 3) @ post)"
proof -
  obtain r1 w1 where p: "run_state (do { a \<leftarrow> gets r_radio_active;
       if a = 0 then libradio_power_up E else State_Monad.return 0 }) w = (r1, w1)" by fastforce
  obtain s2 w2 where s: "run_state (libradio_request_device_status E) w1 = (s2, w2)" by fastforce
  obtain room w3 where t: "run_state (libradio_check_tx E) w2 = (room, w3)" by fastforce
  obtain okk ch4 w4 where x: "run_state (libradio_txpacket E ch) w3 = ((okk, ch4), w4)" by (metis prod.collapse)
  let ?start = "do { pkt_store 0 0x31; pkt_store (Suc 0) channo;
       pkt_store 2 (push_bit 4 (if ch_state ch4 > 4 then 8 else 3)); pkt_store 3 0; pkt_store 4 16;
       pkt_send E 5 0 }"
  obtain c w5 where y: "run_state ?start w4 = (c, w5)" by fastforce
  have g: "\<not> r1 < 0" "room" "okk \<noteq> 0" "c = 0" "ch' = ch4" "w' = w5\<lparr>r_npacket_tx := r_npacket_tx w5 + 1\<rparr>"
    using run r p s t x y
    by (auto simp: libradio_send_def pkt_error_def Let_def split: if_splits prod.splits)
  note before = send_prepares [OF p g(1) s t]
  have room: "pkt_room w4 = 20" using before keeps_run [OF keeps_room_txpacket x] ok by simp
  have now: "r_ms_ticks w3 = r_ms_ticks w" using before by simp
  have len: "unat (len (ch_packet ch)) \<le> 10"
    using x g(3) by (auto simp: libradio_txpacket_def split: if_splits)
  obtain d where ch4: "ch4 = ch\<lparr>ch_packet := stamped (r_ms_ticks w) (ch_packet ch)\<rparr>" and
    l4: "spi_log w4 = spi_log w3 @ [SS True, Sent 0x66] @ map Sent (frame (ch_packet ch4)) @ [SS False]"
    using run_txpacket [of ch E w3] ok(1) len x now by (auto simp: channel_ok_def)
  obtain l where "spi_log w5 = spi_log w4 @ [SS True, Sent 0x31, Sent channo,
      Sent (push_bit 4 (if ch_state ch4 > 4 then 8 else 3)), Sent 0, Sent 16, SS False] @ l"
    using start_tx_log [OF y [unfolded g(4)] room] by blast
  then have "spi_log w' = spi_log w3 @ tx_events (ch_packet ch') channo (if ch_state ch > 4 then 8 else 3) @ l"
    using l4 g(5,6) ch4 by (simp add: tx_events_def)
  moreover obtain k where "spi_log w3 = spi_log w @ k" using before by blast
  ultimately have "spi_log w' = spi_log w @ k @ tx_events (ch_packet ch') channo (if ch_state ch > 4 then 8 else 3) @ l"
    by simp
  then show ?thesis using len ch4 g(5) by blast
qed

lemma send_on_bus:
  assumes "run_state (libradio_send E ch channo) w = ((r, ch'), w')" "r \<noteq> 0" "channel_ok ch" "length (pkt_data w) = 20"
    and "ch_state ch \<le> LIBRADIO_CHSTATE_TRANSMIT"
  shows "\<exists>pre post. spi_log w' = spi_log w @ pre @ tx_events (stamped (r_ms_ticks w) (ch_packet ch)) channo SI4463_STATE_READY @ post"
proof -
  have "\<not> 4 < ch_state ch" using assms(5) by (simp add: not_less)
  with send_reports [OF assms(1-4)] show ?thesis by fastforce
qed

end
