(* ===== verification/Command.thy ===== *)
theory Command
  imports Frames
begin

text \<open>
  Commands received over the air: \<^verbatim>\<open>lib/command.c\<close> and \<^verbatim>\<open>lib/handle.c\<close>.
  \<^verbatim>\<open>int\<close> is the AVR's 16-bit integer; EEPROM addresses are kept as \<open>u16\<close>.
\<close>

section \<open>Operations\<close>

text \<open>\<^verbatim>\<open>pp->data[i]\<close>, with the access checked against the array's size.\<close>

definition data_at :: "packet \<Rightarrow> nat \<Rightarrow> ('d, 'a, u8) op" where
  "data_at p i = State (\<lambda>w.
     if i < length (data p) then (data p ! i, w) else (0, stop_with Out_of_bounds w))"

text \<open>\<^verbatim>\<open>statusbuffer[i] = v\<close>, checked.\<close>

definition status_store :: "nat \<Rightarrow> u8 \<Rightarrow> ('d, 'a, unit) op" where
  "status_store i v = modify (\<lambda>w.
     if i < length (statusbuffer w) then w\<lparr>statusbuffer := (statusbuffer w)[i := v]\<rparr>
     else stop_with Out_of_bounds w)"

definition eeprom_read_byte :: "u16 \<Rightarrow> ('d, 'a, u8) op" where
  "eeprom_read_byte a = gets (\<lambda>w. eeprom w a)"

definition eeprom_write_byte :: "u16 \<Rightarrow> u8 \<Rightarrow> ('d, 'a, unit) op" where
  "eeprom_write_byte a v = modify (\<lambda>w. w\<lparr>eeprom := (eeprom w)(a := v)\<rparr>)"

text \<open>
  The busy-wait for the end of a transmission. It has no bound: \<open>None\<close> is the loop that never
  leaves the \<^verbatim>\<open>SI4463_STATE_TX\<close> state.
\<close>

partial_function (option) tx_busy_wait :: "('d, 'a) env \<Rightarrow> ('d, 'a) mcu \<Rightarrow> ('d, 'a) mcu option" where
  "tx_busy_wait E w =
     (case run_state (libradio_request_device_status E) w of
        (s, w') \<Rightarrow> if s = uint SI4463_STATE_TX then tx_busy_wait E w' else Some w')"

declare tx_busy_wait.simps [code]

definition await_tx_end :: "('d, 'a) env \<Rightarrow> ('d, 'a, unit) op" where
  "await_tx_end E = modify (\<lambda>w.
     case tx_busy_wait E w of Some w' \<Rightarrow> w' | None \<Rightarrow> stop_with Diverges w)"

definition libradio_send_response ::
  "('d, 'a) env \<Rightarrow> u8 \<Rightarrow> u8 \<Rightarrow> u8 \<Rightarrow> u8 \<Rightarrow> u8 list \<Rightarrow> ('d, 'a, unit) op" where
  "libradio_send_response E cm chan addr ln buffer = do {
     modify (\<lambda>w. w\<lparr>txchan := (txchan w)\<lparr>ch_state := LIBRADIO_CHSTATE_TRANSMIT,
       ch_priority := 10,
       ch_packet := (ch_packet (txchan w))\<lparr>node := addr, len := ln, cmd := cm\<rparr>\<rparr>\<rparr>);
     let n = (if unat ln > MAX_PAYLOAD_SIZE then MAX_PAYLOAD_SIZE else unat ln);
     for_each [0..<n] (\<lambda>i. modify (\<lambda>w.
       if i < length buffer \<and> i < length (data (ch_packet (txchan w)))
       then w\<lparr>txchan := (txchan w)\<lparr>ch_packet := (ch_packet (txchan w))
              \<lparr>data := (data (ch_packet (txchan w)))[i := buffer ! i]\<rparr>\<rparr>\<rparr>
       else stop_with Out_of_bounds w));
     ch \<leftarrow> gets txchan;
     (sent, ch) \<leftarrow> libradio_send E ch chan;
     modify (\<lambda>w. w\<lparr>txchan := ch\<rparr>);
     when_op (sent \<noteq> 0) (modify (\<lambda>w.
       w\<lparr>txchan := (txchan w)\<lparr>ch_state := LIBRADIO_CHSTATE_EMPTY, ch_priority := 0\<rparr>\<rparr>));
     await_tx_end E;
     libradio_recv_start E;
     State_Monad.return ()
   }"

definition libradio_command :: "('d, 'a) env \<Rightarrow> packet \<Rightarrow> ('d, 'a, unit) op" where
  "libradio_command E pp = do {
     st \<leftarrow> gets r_state;
     if cmd pp \<noteq> RADIO_CMD_ACTIVATE \<and> st < LIBRADIO_STATE_ACTIVE then State_Monad.return ()
     else if cmd pp = RADIO_CMD_NOOP \<or> cmd pp = RADIO_STATUS_RESPONSE \<or>
             cmd pp = RADIO_EEPROM_RESPONSE then State_Monad.return ()
     else if cmd pp = RADIO_CMD_FIRMWARE then State_Monad.return ()
     else if cmd pp = RADIO_CMD_STATUS then
       (if len pp \<noteq> 3 then State_Monad.return ()
        else do {
          rchan \<leftarrow> data_at pp 0;
          addr \<leftarrow> data_at pp 1;
          i \<leftarrow> data_at pp 2;
          buf \<leftarrow> gets statusbuffer;
          (n, buf) \<leftarrow> e_fetch_status E i buf MAX_RESPONSE_SIZE;
          modify (\<lambda>w. w\<lparr>statusbuffer := buf\<rparr>);
          when_op (n > 0) (do {
            printf (''Sending status of '' @ dec_int n @ '' to '' @ dec (unat rchan) @ ''\<newline>'');
            libradio_send_response E RADIO_STATUS_RESPONSE rchan addr (word_of_int n) buf
          })
        })
     else if cmd pp = RADIO_CMD_ACTIVATE then
       (if len pp \<noteq> 6 then State_Monad.return ()
        else do {
          d2 \<leftarrow> data_at pp 2; d3 \<leftarrow> data_at pp 3; d4 \<leftarrow> data_at pp 4; d5 \<leftarrow> data_at pp 5;
          printf (''>> Activate! '' @ dec (unat d2) @ ''/'' @ dec (unat d3) @ ''/'' @
            dec (unat d4) @ ''/'' @ dec (unat d5) @ ''\<newline>'');
          (c1, c2, n1, n2) \<leftarrow> gets (\<lambda>w. (r_cat1 w, r_cat2 w, r_num1 w, r_num2 w));
          printf (''>> ME: '' @ dec (unat c1) @ ''/'' @ dec (unat c2) @ ''/'' @
            dec (unat n1) @ ''/'' @ dec (unat n2) @ ''\<newline>'');
          if d2 \<noteq> c1 \<or> d3 \<noteq> c2 \<or> d4 \<noteq> n1 \<or> d5 \<noteq> n2 then State_Monad.return ()
          else do {
            d0 \<leftarrow> data_at pp 0;
            modify (\<lambda>w. w\<lparr>r_my_channel := d0\<rparr>);
            d1 \<leftarrow> data_at pp 1;
            modify (\<lambda>w. w\<lparr>r_my_node_id := d1\<rparr>);
            printf (''ACTVD! [C'' @ dec (unat d0) @ ''N'' @ dec (unat d1) @ '']\<newline>'');
            libradio_set_state E LIBRADIO_STATE_ACTIVE
          }
        })
     else if cmd pp = RADIO_CMD_DEACTIVATE then
       (if len pp \<noteq> 0 then State_Monad.return ()
        else do {
          printf ''>> DeACTVD\<newline>'';
          modify (\<lambda>w. w\<lparr>r_my_channel := 0, r_my_node_id := 0\<rparr>);
          libradio_set_state E LIBRADIO_STATE_WARM
        })
     else if cmd pp = RADIO_CMD_SET_TIME then
       (if len pp \<noteq> 1 then State_Monad.return ()
        else do {
          d0 \<leftarrow> data_at pp 0;
          modify (\<lambda>w. w\<lparr>r_tens_of_minutes := d0\<rparr>);
          printf (''>> Set Time: '' @ dec (unat d0) @ ''\<newline>'')
        })
     else if cmd pp = RADIO_CMD_SET_DATE then
       (if len pp \<noteq> 2 then State_Monad.return ()
        else do {
          d0 \<leftarrow> data_at pp 0;
          d1 \<leftarrow> data_at pp 1;
          modify (\<lambda>w. w\<lparr>r_date := be16 d0 d1\<rparr>);
          printf (''>> Set Date: '' @ dec (unat (be16 d0 d1)) @ ''\<newline>'')
        })
     else if cmd pp = RADIO_CMD_READ_EEPROM then
       (if len pp \<noteq> 4 then State_Monad.return ()
        else do {
          printf ''>> Read EEPROM\<newline>'';
          rchan \<leftarrow> data_at pp 0;
          ln \<leftarrow> data_at pp 1;
          d2 \<leftarrow> data_at pp 2;
          d3 \<leftarrow> data_at pp 3;
          let addr = be16 d2 d3;
          printf (''RChan '' @ dec (unat rchan) @ '', len:'' @ dec (unat ln) @ '', addr:'' @
            dec_int (sint addr) @ ''\<newline>'');
          for_each [0..<unat ln] (\<lambda>i. do {
            b \<leftarrow> eeprom_read_byte (addr + word_of_nat i);
            status_store i b
          });
          buf \<leftarrow> gets statusbuffer;
          libradio_send_response E RADIO_EEPROM_RESPONSE rchan (lo8 (addr + ucast ln)) ln buf
        })
     else if cmd pp = RADIO_CMD_WRITE_EEPROM then
       (if len pp < 3 \<or> len pp > 22 then State_Monad.return ()
        else do {
          printf (''>> Write EEPROM ('' @ dec (unat (len pp) - 2) @ ''b)\<newline>'');
          d0 \<leftarrow> data_at pp 0;
          d1 \<leftarrow> data_at pp 1;
          let addr = be16 d0 d1;
          printf (''Addr: '' @ dec_int (sint addr) @ ''\<newline>'');
          for_each [0..<unat (len pp) - 2] (\<lambda>i. do {
            b \<leftarrow> data_at pp (i + 3);
            eeprom_write_byte (addr + word_of_nat i) b
          })
        })
     else e_operate E pp
   }"

definition libradio_handle_packet :: "('d, 'a) env \<Rightarrow> ('d, 'a, unit) op" where
  "libradio_handle_packet E = do {
     ch \<leftarrow> gets rxchan;
     channo \<leftarrow> gets r_my_channel;
     (ret, ch) \<leftarrow> libradio_recv E ch channo;
     modify (\<lambda>w. w\<lparr>rxchan := ch\<rparr>);
     me \<leftarrow> gets r_my_node_id;
     when_op (ret \<noteq> 0 \<and> (node (ch_packet ch) = 0 \<or> node (ch_packet ch) = me))
       (libradio_command E (ch_packet ch))
   }"

text \<open>The radio always leaves the transmit state, so the busy-wait ends.\<close>

definition tx_ends :: "('d, 'a) env \<Rightarrow> bool" where
  "tx_ends E \<longleftrightarrow> (\<forall>w. safe w \<longrightarrow> tx_busy_wait E w \<noteq> None)"

text \<open>A request that stays inside \<^verbatim>\<open>statusbuffer\<close> and the payload.\<close>

definition request_fits :: "packet \<Rightarrow> bool" where
  "request_fits p \<longleftrightarrow>
     (cmd p = RADIO_CMD_READ_EEPROM \<and> len p = 4 \<longrightarrow> unat (data p ! 1) \<le> MAX_RESPONSE_SIZE) \<and>
     (cmd p = RADIO_CMD_WRITE_EEPROM \<longrightarrow> unat (len p) < MAX_PAYLOAD_SIZE)"

text \<open>An activation that names this node, and a built-in command whose length is not the right one.\<close>

definition addressed :: "packet \<Rightarrow> ('d, 'a) mcu \<Rightarrow> bool" where
  "addressed pp w \<longleftrightarrow> len pp = 6 \<and> data pp ! 2 = r_cat1 w \<and> data pp ! 3 = r_cat2 w \<and>
     data pp ! 4 = r_num1 w \<and> data pp ! 5 = r_num2 w"

definition wrong_length :: "packet \<Rightarrow> bool" where
  "wrong_length pp \<longleftrightarrow>
     (cmd pp = RADIO_CMD_STATUS \<and> len pp \<noteq> 3) \<or> (cmd pp = RADIO_CMD_ACTIVATE \<and> len pp \<noteq> 6) \<or>
     (cmd pp = RADIO_CMD_DEACTIVATE \<and> len pp \<noteq> 0) \<or> (cmd pp = RADIO_CMD_SET_TIME \<and> len pp \<noteq> 1) \<or>
     (cmd pp = RADIO_CMD_SET_DATE \<and> len pp \<noteq> 2) \<or> (cmd pp = RADIO_CMD_READ_EEPROM \<and> len pp \<noteq> 4) \<or>
     (cmd pp = RADIO_CMD_WRITE_EEPROM \<and> (len pp < 3 \<or> len pp > 22))"

text \<open>Storing bytes at consecutive addresses.\<close>

fun eeprom_put :: "u16 \<Rightarrow> u8 list \<Rightarrow> (u16 \<Rightarrow> u8) \<Rightarrow> u16 \<Rightarrow> u8" where
  "eeprom_put a [] e = e"
| "eeprom_put a (b # bs) e = eeprom_put (a + 1) bs (e(a := b))"

definition eeprom_get :: "u16 \<Rightarrow> nat \<Rightarrow> (u16 \<Rightarrow> u8) \<Rightarrow> u8 list" where
  "eeprom_get a n e = map (\<lambda>i. e (a + word_of_nat i)) [0..<n]"

text \<open>The channel a response is sent from.\<close>

definition response_set :: "u8 \<Rightarrow> u8 \<Rightarrow> u8 \<Rightarrow> u8 list \<Rightarrow> channel \<Rightarrow> channel" where
  "response_set c a n buf ch = ch\<lparr>ch_state := LIBRADIO_CHSTATE_TRANSMIT, ch_priority := 10,
     ch_packet := (ch_packet ch)\<lparr>node := a, len := n, cmd := c,
       data := take (min 10 (unat n)) buf @ drop (min 10 (unat n)) (data (ch_packet ch))\<rparr>\<rparr>"

lemmas command_ops [op_defs] = data_at_def status_store_def eeprom_read_byte_def
  eeprom_write_byte_def await_tx_end_def libradio_send_response_def libradio_handle_packet_def

section \<open>Array accesses\<close>

lemma run_data_at [simp]: "i < length (data p) \<Longrightarrow> run_state (data_at p i) w = (data p ! i, w)"
  by (simp add: data_at_def)

lemma preserves_data_at [keep_rules]: "i < length (data p) \<Longrightarrow> preserves I (data_at p i)"
  by (simp add: preserves_def)

lemma run_data_at_out: "\<not> i < length (data p) \<Longrightarrow> run_state (data_at p i) w = (0, stop_with Out_of_bounds w)"
  by (simp add: data_at_def)

lemma stopped_stop_with [simp]: "stopped (stop_with r w) = (case stopped w of None \<Rightarrow> Some r | x \<Rightarrow> x)"
  by (auto simp: stop_with_def split: option.splits)

lemma preserves_safe_store [keep_rules]:
  "i < 16 \<Longrightarrow> preserves safe (status_store i v)" "preserves safe (eeprom_read_byte a)"
  "preserves safe (eeprom_write_byte a v)"
  by (auto simp: command_ops safe_def mcu_ok_def intro!: keep_rules preserves_modify)

section \<open>The wait for the end of a transmission\<close>

lemma tx_busy_wait_ends:
  assumes down: "\<And>v v'. safe v \<Longrightarrow>
      run_state (libradio_request_device_status E) v = (uint SI4463_STATE_TX, v') \<Longrightarrow> \<mu> v' < (\<mu> v :: nat)"
  shows "safe w \<Longrightarrow> tx_busy_wait E w \<noteq> None"
proof (induction "\<mu> w" arbitrary: w rule: less_induct)
  case less
  obtain s w' where r: "run_state (libradio_request_device_status E) w = (s, w')" by fastforce
  have w': "safe w'" by (rule preserves_run [OF preserves_safe_chip(1) less.prems r])
  show ?case
  proof (cases "s = 7")
    case True
    then have "tx_busy_wait E w' \<noteq> None" using r down [OF less.prems] w' by (intro less) simp_all
    then show ?thesis using r True by (subst tx_busy_wait.simps) simp
  next
    case False
    then show ?thesis using r by (subst tx_busy_wait.simps) simp
  qed
qed

lemma tx_busy_wait_keeps:
  assumes step: "\<And>v s v'. run_state (libradio_request_device_status E) v = (s, v') \<Longrightarrow> P v \<Longrightarrow> P v'"
    and "tx_busy_wait E w = Some w'" "P w"
  shows "P w'"
proof -
  have "E = E \<longrightarrow> P w \<longrightarrow> P w'"
    using assms(2)
  proof (rule tx_busy_wait.raw_induct [where P = "\<lambda>F u u'. F = E \<longrightarrow> P u \<longrightarrow> P u'", rotated])
    fix f F u u'
    assume "\<And>F u u'. f F u = Some u' \<Longrightarrow> F = E \<longrightarrow> P u \<longrightarrow> P u'"
      and "(case run_state (libradio_request_device_status F) u of
        (s, v) \<Rightarrow> if s = uint SI4463_STATE_TX then f F v else Some v) = Some u'"
    then show "F = E \<longrightarrow> P u \<longrightarrow> P u'"
      using step by (auto split: prod.splits if_splits)
  qed
  then show ?thesis using assms by blast
qed

context application
begin

lemma await_safe [keep_rules]: "tx_ends E \<Longrightarrow> preserves safe (await_tx_end E)"
proof (unfold preserves_def, intro allI impI)
  fix w :: "('d, 'a) mcu" assume e: "tx_ends E" and w: "safe w"
  obtain w' where t: "tx_busy_wait E w = Some w'" using e w by (auto simp: tx_ends_def)
  have "safe w'"
    by (rule tx_busy_wait_keeps [where P = safe, OF _ t w]) (rule preserves_run [OF preserves_safe_chip(1)])
  then show "safe (snd (run_state (await_tx_end E) w))" using t by (simp add: await_tx_end_def)
qed

lemma send_response_safe [keep_rules]:
  assumes "length buf = 16" "tx_ends E"
  shows "preserves safe (libradio_send_response E c chan addr ln buf)"
proof -
  have m: "preserves safe (modify (\<lambda>w. w\<lparr>txchan := ch\<rparr>))" if "channel_ok ch" for ch
    using that by (auto simp: safe_def mcu_ok_def intro!: preserves_modify)
  have g: "yields safe (gets txchan) channel_ok"
    by (simp add: yields_def safe_def mcu_ok_def)
  have tail: "preserves safe (when_op b (modify (\<lambda>w. w\<lparr>txchan := (txchan w)\<lparr>ch_state := 2, ch_priority := 0\<rparr>\<rparr>)))" for b
    by (auto simp: safe_def mcu_ok_def channel_ok_def intro!: keep_rules preserves_modify)
  have hd: "preserves safe (modify (\<lambda>w. w\<lparr>txchan := (txchan w)\<lparr>ch_state := 4, ch_priority := 10,
       ch_packet := (ch_packet (txchan w))\<lparr>node := addr, len := ln, cmd := c\<rparr>\<rparr>\<rparr>))"
    by (auto simp: safe_def mcu_ok_def channel_ok_def packet_ok_def intro!: preserves_modify)
  have copy: "preserves safe (for_each [0..<n] (\<lambda>i. modify (\<lambda>w.
       if i < length buf \<and> i < length (data (ch_packet (txchan w)))
       then w\<lparr>txchan := (txchan w)\<lparr>ch_packet := (ch_packet (txchan w))
              \<lparr>data := (data (ch_packet (txchan w)))[i := buf ! i]\<rparr>\<rparr>\<rparr>
       else stop_with Out_of_bounds w)))" if "n \<le> 10" for n
    using that assms
    by (intro preserves_for_each_bounded preserves_modify) (auto simp: safe_def mcu_ok_def channel_ok_def packet_ok_def)
  show ?thesis unfolding libradio_send_response_def Let_def
    by (rule preserves_bind [OF hd], rule preserves_bind [OF copy], simp,
      rule preserves_bind_yields [OF g], rule preserves_bind_yields [OF send_yields])
      (use assms in \<open>auto intro!: keep_rules m tail\<close>)
qed

lemma command_safe:
  assumes e: "tx_ends E" and p: "packet_ok pp" "unat (len pp) \<le> 10" "request_fits pp"
  shows "preserves safe (libradio_command E pp)"
proof -
  have f: "yields safe (do { buf \<leftarrow> gets statusbuffer; e_fetch_status E i buf 16 }) (\<lambda>(n, buf). length buf = 16)" for i
  proof (rule yieldsI)
    fix s r t assume "safe s" and r: "run_state (do { buf \<leftarrow> gets statusbuffer; e_fetch_status E i buf 16 }) s = (r, t)"
    then show "safe t \<and> (case r of (n, buf) \<Rightarrow> length buf = 16)"
      using fetch_status_safe [of s "statusbuffer s" i "fst r" "snd r" t] by (auto simp: safe_def mcu_ok_def)
  qed
  have sb: "preserves safe (modify (\<lambda>w. w\<lparr>statusbuffer := buf\<rparr>))" if "length buf = 16" for buf
    using that by (auto simp: safe_def mcu_ok_def intro!: preserves_modify)
  have gf: "preserves safe (do { buf \<leftarrow> gets statusbuffer; x \<leftarrow> e_fetch_status E i buf 16; k x })"
    if "\<And>n buf. length buf = 16 \<Longrightarrow> preserves safe (k (n, buf))" for i and k :: "int \<times> u8 list \<Rightarrow> ('d, 'a, unit) op"
  proof -
    have "preserves safe (do { x \<leftarrow> do { buf \<leftarrow> gets statusbuffer; e_fetch_status E i buf 16 }; k x })"
      using that by (intro preserves_bind_yields [OF f]) auto
    then show ?thesis by simp
  qed
  have gb: "yields safe (gets statusbuffer) (\<lambda>buf. length buf = 16)"
    by (simp add: yields_def safe_def mcu_ok_def)
  have d: "i < 10 \<Longrightarrow> preserves safe (data_at pp i)" for i
    using p(1) by (auto simp: packet_ok_def intro: keep_rules)
  have fits: "cmd pp = 7 \<Longrightarrow> len pp = 4 \<Longrightarrow> unat (data pp ! 1) \<le> 16" "cmd pp = 8 \<Longrightarrow> unat (len pp) < 10"
    using p(3) by (simp_all add: request_fits_def)
  have md: "preserves safe (modify (\<lambda>w. w\<lparr>r_my_channel := x\<rparr>))" "preserves safe (modify (\<lambda>w. w\<lparr>r_my_node_id := x\<rparr>))"
   "preserves safe (modify (\<lambda>w. w\<lparr>r_my_channel := x, r_my_node_id := x\<rparr>))"
   "preserves safe (modify (\<lambda>w. w\<lparr>r_tens_of_minutes := x\<rparr>))" "preserves safe (modify (\<lambda>w. w\<lparr>r_date := y\<rparr>))" for x y
    by (auto simp: safe_def mcu_ok_def intro!: preserves_modify)
  have rd: "cmd pp = 7 \<Longrightarrow> len pp = 4 \<Longrightarrow> preserves safe (do { ln \<leftarrow> data_at pp (Suc 0); k ln })"
    if "\<And>ln. unat ln \<le> 16 \<Longrightarrow> preserves safe (k ln)" for k :: "u8 \<Rightarrow> ('d, 'a, unit) op"
    using fits(1) p(1) that unfolding preserves_def by (simp add: packet_ok_def)
  show ?thesis unfolding libradio_command_def Let_def
    apply (rule preserves_bind [OF preserves_gets])
    apply (intro preserves_if preserves_return)
    subgoal using e by (intro preserves_bind d gf) (auto intro!: keep_rules sb)
    subgoal by (intro preserves_bind d keep_rules md) simp_all
    subgoal by (intro preserves_bind keep_rules md)
    subgoal by (intro preserves_bind d keep_rules md) simp_all
    subgoal by (intro preserves_bind d keep_rules md) simp_all
    subgoal apply (rule preserves_bind [OF preserves_safe_primitives(1)], rule preserves_bind [OF d], simp, simp only: One_nat_def, rule rd)
       using p(1) e by (auto simp: packet_ok_def intro!: d keep_rules preserves_for_each_bounded preserves_bind_yields [OF gb])
    subgoal using fits(2) p(1,2) by (auto simp: packet_ok_def intro!: d keep_rules preserves_for_each_bounded)
    subgoal by (intro keep_rules)
    done
qed

end

lemma run_printf [simp]: "run_state (printf s) w = ((), w\<lparr>out := out w @ s\<rparr>)"
  by (simp add: printf_def)

section \<open>What the commands do\<close>

lemma command_gated:
  "cmd pp \<noteq> RADIO_CMD_ACTIVATE \<Longrightarrow> r_state w < LIBRADIO_STATE_ACTIVE \<Longrightarrow>
     run_state (libradio_command E pp) w = ((), w)"
  by (simp add: libradio_command_def)

lemma command_not_addressed:
  assumes "cmd pp = RADIO_CMD_ACTIVATE" "packet_ok pp" "\<not> addressed pp w"
  shows "\<exists>s. run_state (libradio_command E pp) w = ((), w\<lparr>out := out w @ s\<rparr>)"
proof (cases "len pp = 6")
  case True
  then show ?thesis using assms
    by (auto simp: libradio_command_def packet_ok_def addressed_def printf_def)
next
  case False
  then show ?thesis using assms by (intro exI [of _ "[]"]) (simp add: libradio_command_def)
qed

context client
begin

lemma command_activates:
  assumes c: "cmd pp = RADIO_CMD_ACTIVATE" "packet_ok pp" "addressed pp w"
    and run: "run_state (libradio_command E pp) w = ((), w')"
  shows "r_state w' = LIBRADIO_STATE_ACTIVE \<and> r_my_channel w' = data pp ! 0 \<and>
    r_my_node_id w' = data pp ! 1 \<and> r_tens_of_minutes w' = r_tens_of_minutes w"
proof -
  obtain s where r: "run_state (libradio_set_state E LIBRADIO_STATE_ACTIVE)
     (w\<lparr>r_my_channel := data pp ! 0, r_my_node_id := data pp ! 1, out := s\<rparr>) = ((), w')"
    using run c by (auto simp: libradio_command_def packet_ok_def addressed_def printf_def)
  show ?thesis
    using set_state_active [OF r] keeps_run [OF set_state_ident r] by (simp add: ident_view_def)
qed

lemma command_deactivates:
  assumes "cmd pp = RADIO_CMD_DEACTIVATE" "len pp = 0" "r_state w = LIBRADIO_STATE_ACTIVE"
    and run: "run_state (libradio_command E pp) w = ((), w')"
  shows "r_state w' = LIBRADIO_STATE_WARM \<and> r_my_channel w' = 0 \<and> r_my_node_id w' = 0 \<and>
    r_tens_of_minutes w' = 0xff"
proof -
  obtain s where r: "run_state (libradio_set_state E LIBRADIO_STATE_WARM)
     (w\<lparr>out := s, r_my_channel := 0, r_my_node_id := 0\<rparr>) = ((), w')"
    using run assms by (auto simp: libradio_command_def printf_def)
  show ?thesis
    using set_state_sleep [OF r] keeps_run [OF set_state_ident r] assms by (simp add: ident_view_def)
qed

end

lemma command_set_time:
  assumes "cmd pp = RADIO_CMD_SET_TIME" "packet_ok pp" "r_state w = LIBRADIO_STATE_ACTIVE" "len pp = 1"
  shows "\<exists>s. run_state (libradio_command E pp) w = ((), w\<lparr>r_tens_of_minutes := data pp ! 0, out := s\<rparr>)"
  using assms by (auto simp: libradio_command_def packet_ok_def)

lemma command_set_date:
  assumes "cmd pp = RADIO_CMD_SET_DATE" "packet_ok pp" "r_state w = LIBRADIO_STATE_ACTIVE" "len pp = 2"
  shows "\<exists>s. run_state (libradio_command E pp) w =
     ((), w\<lparr>r_date := be16 (data pp ! 0) (data pp ! 1), out := s\<rparr>)"
  using assms by (auto simp: libradio_command_def packet_ok_def)

lemma command_wrong_length: "wrong_length pp \<Longrightarrow> run_state (libradio_command E pp) w = ((), w)"
  unfolding wrong_length_def by (elim disjE conjE) (simp_all add: libradio_command_def)

lemma eeprom_put_snoc:
  "eeprom_put a (bs @ [b]) e = (eeprom_put a bs e)(a + word_of_nat (length bs) := b)"
  by (induction bs arbitrary: a e) (simp_all add: add.assoc)

lemma run_eeprom_write: "run_state (eeprom_write_byte a v) w = ((), w\<lparr>eeprom := (eeprom w)(a := v)\<rparr>)"
  by (simp add: eeprom_write_byte_def)

lemma run_write_loop:
  "n + 3 \<le> length (data pp) \<Longrightarrow>
   run_state (for_each [0..<n] (\<lambda>i. do { b \<leftarrow> data_at pp (i + 3);
      eeprom_write_byte (addr + word_of_nat i) b })) w =
     ((), w\<lparr>eeprom := eeprom_put addr (take n (drop 3 (data pp))) (eeprom w)\<rparr>)"
proof (induction n)
  case (Suc n)
  let ?e = "eeprom_put addr (take n (drop 3 (data pp))) (eeprom w)"
  have t: "take (Suc n) (drop 3 (data pp)) = take n (drop 3 (data pp)) @ [data pp ! (n + 3)]"
    "length (take n (drop 3 (data pp))) = n"
    using Suc.prems by (simp_all add: take_Suc_conv_app_nth add.commute)
  have "run_state (for_each [0..<Suc n] (\<lambda>i. do { b \<leftarrow> data_at pp (i + 3);
      eeprom_write_byte (addr + word_of_nat i) b })) w =
      ((), w\<lparr>eeprom := ?e(addr + word_of_nat n := data pp ! (n + 3))\<rparr>)"
    using Suc by (simp add: run_for_each_append run_eeprom_write)
  then show ?case by (simp only: t eeprom_put_snoc)
qed simp

lemma run_command_write:
  assumes "cmd pp = RADIO_CMD_WRITE_EEPROM" "packet_ok pp" "r_state w = LIBRADIO_STATE_ACTIVE"
    and "\<not> len pp < 3" "\<not> 22 < len pp"
  obtains s where "run_state (libradio_command E pp) w =
    run_state (for_each [0..<unat (len pp) - 2] (\<lambda>i. do { b \<leftarrow> data_at pp (i + 3);
      eeprom_write_byte (be16 (data pp ! 0) (data pp ! 1) + word_of_nat i) b })) (w\<lparr>out := s\<rparr>)"
  using assms by (simp add: libradio_command_def packet_ok_def Let_def)

lemma command_write_eeprom:
  assumes "cmd pp = RADIO_CMD_WRITE_EEPROM" "packet_ok pp" "r_state w = LIBRADIO_STATE_ACTIVE"
    and "3 \<le> unat (len pp)" "unat (len pp) < 10"
  shows "\<exists>s. run_state (libradio_command E pp) w = ((), w\<lparr>out := s, eeprom :=
      eeprom_put (be16 (data pp ! 0) (data pp ! 1)) (take (unat (len pp) - 2) (drop 3 (data pp))) (eeprom w)\<rparr>)"
proof -
  have l: "\<not> len pp < 3" "\<not> 22 < len pp" using assms by (simp_all add: word_less_nat_alt)
  have "unat (len pp) - 2 + 3 \<le> length (data pp)" using assms by (simp add: packet_ok_def)
  note loop = run_write_loop [OF this]
  obtain s where "run_state (libradio_command E pp) w =
    run_state (for_each [0..<unat (len pp) - 2] (\<lambda>i. do { b \<leftarrow> data_at pp (i + 3);
      eeprom_write_byte (be16 (data pp ! 0) (data pp ! 1) + word_of_nat i) b })) (w\<lparr>out := s\<rparr>)"
    by (rule run_command_write [OF assms(1-3) l])
  then show ?thesis by (simp only: loop) auto
qed

lemma command_write_eeprom_full:
  assumes "cmd pp = RADIO_CMD_WRITE_EEPROM" "packet_ok pp" "r_state w = LIBRADIO_STATE_ACTIVE"
    and "len pp = 10" "stopped w = None"
  shows "stopped (snd (run_state (libradio_command E pp) w)) = Some Out_of_bounds"
proof -
  let ?m = "\<lambda>i. do { b \<leftarrow> data_at pp (i + 3); eeprom_write_byte (be16 (data pp ! 0) (data pp ! 1) + word_of_nat i) b }"
  have up: "[0..<8] = [0..<7] @ [7::nat]" by (simp add: numeral_eq_Suc)
  obtain s where "run_state (libradio_command E pp) w = run_state (for_each [0..<8] ?m) (w\<lparr>out := s\<rparr>)"
    using run_command_write [OF assms(1-3), of E] assms(4) by auto
  also have "\<dots> = run_state (?m 7) (snd (run_state (for_each [0..<7] ?m) (w\<lparr>out := s\<rparr>)))"
    by (simp only: up run_for_each_append) (simp add: case_prod_beta)
  also have "stopped (snd \<dots>) = Some Out_of_bounds"
    using assms by (subst run_write_loop)
      (simp_all add: run_data_at_out packet_ok_def eeprom_write_byte_def)
  finally show ?thesis .
qed

section \<open>History and buffers\<close>

lemma past_await [keep_rules]: "preserves (past L r) (await_tx_end E)"
proof (unfold preserves_def, intro allI impI)
  fix w :: "('a, 'b) mcu" assume w: "past L r w"
  show "past L r (snd (run_state (await_tx_end E) w))"
  proof (cases "tx_busy_wait E w")
    case (Some w')
    then have "past L r w'"
      using tx_busy_wait_keeps [where P = "past L r", OF _ Some w] preserves_run [OF past_chip(1)] by blast
    then show ?thesis using Some by (simp add: await_tx_end_def)
  qed (use w in \<open>simp add: await_tx_end_def\<close>)
qed

lemma past_send_response: "preserves (past L r) (libradio_send_response E c ch a n buf)"
  by (auto simp: libradio_send_response_def Let_def intro!: keep_rules preserves_modify past_fields)

lemma keeps_buffers_await: "keeps buffers (await_tx_end E)"
proof (unfold keeps_def, intro allI)
  fix w :: "('a, 'b) mcu"
  show "buffers (snd (run_state (await_tx_end E) w)) = buffers w"
  proof (cases "tx_busy_wait E w")
    case None
    then show ?thesis by (simp add: await_tx_end_def buffers_def stop_with_def split: option.splits)
  next
    case (Some w')
    have "buffers w' = buffers w"
      by (rule tx_busy_wait_keeps [where P = "\<lambda>v. buffers v = buffers w", OF _ Some refl])
        (use keeps_run [OF keeps_core_chip(1)] core_buffers in metis)
    then show ?thesis using Some by (simp add: await_tx_end_def)
  qed
qed

section \<open>Responses\<close>

lemma run_copy_loop:
  assumes "n \<le> length buf" "n \<le> length (data (ch_packet (txchan w)))"
  shows "run_state (for_each [0..<n] (\<lambda>i. modify (\<lambda>w.
       if i < length buf \<and> i < length (data (ch_packet (txchan w)))
       then w\<lparr>txchan := (txchan w)\<lparr>ch_packet := (ch_packet (txchan w))
              \<lparr>data := (data (ch_packet (txchan w)))[i := buf ! i]\<rparr>\<rparr>\<rparr>
       else stop_with Out_of_bounds w))) w =
   ((), w\<lparr>txchan := (txchan w)\<lparr>ch_packet := (ch_packet (txchan w))
      \<lparr>data := take n buf @ drop n (data (ch_packet (txchan w)))\<rparr>\<rparr>\<rparr>)"
  using assms
proof (induction n)
  case (Suc n)
  let ?d = "data (ch_packet (txchan w))"
  have "(take n buf @ drop n ?d)[n := buf ! n] = take (Suc n) buf @ drop (Suc n) ?d"
    using Suc.prems by (simp add: list_update_append take_Suc_conv_app_nth Cons_nth_drop_Suc [symmetric])
  then show ?case using Suc by (simp add: run_for_each_append)
qed simp

lemma response_set_len [simp]: "len (ch_packet (response_set c a n buf ch)) = n"
  by (simp add: response_set_def)

lemma txpacket_channel_state: "yields (\<lambda>_. True) (libradio_txpacket E ch) (\<lambda>(r, ch'). ch_state ch' = ch_state ch)"
  unfolding libradio_txpacket_def Let_def
  by (intro yields_if yields_return yields_bind_preserves [OF preserves_True]) simp_all

lemma send_channel_state: "yields (\<lambda>_. True) (libradio_send E ch chan) (\<lambda>(r, ch'). ch_state ch' = ch_state ch)"
  unfolding libradio_send_def Let_def
  by (intro yields_bind_preserves [OF preserves_True] yields_if yields_return
      yields_bind [OF txpacket_channel_state])
    (auto intro!: yields_bind_preserves [OF preserves_True] yields_return)

lemma run_send_response:
  assumes "mcu_ok w" "length buf = 16"
    and s: "run_state (libradio_send E (response_set c a n buf (txchan w)) chan)
       (w\<lparr>txchan := response_set c a n buf (txchan w)\<rparr>) = ((r, ch), v)"
  shows "run_state (libradio_send_response E c chan a n buf) w =
    run_state (do { await_tx_end E; libradio_recv_start E; State_Monad.return () })
      (v\<lparr>txchan := (if r \<noteq> 0 then ch\<lparr>ch_state := 2, ch_priority := 0\<rparr> else ch)\<rparr>)"
proof -
  let ?w = "w\<lparr>txchan := (txchan w)\<lparr>ch_state := 4, ch_priority := 10,
       ch_packet := (ch_packet (txchan w))\<lparr>node := a, len := n, cmd := c\<rparr>\<rparr>\<rparr>"
  have l: "min 10 (unat n) \<le> length buf" "min 10 (unat n) \<le> length (data (ch_packet (txchan ?w)))"
    using assms by (simp_all add: mcu_ok_def channel_ok_def packet_ok_def)
  have m: "(if unat n > 10 then 10 else unat n) = min 10 (unat n)" by (simp add: min_def)
  have "(txchan ?w)\<lparr>ch_packet := (ch_packet (txchan ?w))\<lparr>data := take (min 10 (unat n)) buf @
      drop (min 10 (unat n)) (data (ch_packet (txchan ?w)))\<rparr>\<rparr> = response_set c a n buf (txchan w)"
    by (simp add: response_set_def)
  note loop = run_copy_loop [OF l, unfolded this]
  show ?thesis
    unfolding libradio_send_response_def Let_def m
    by (simp del: for_each.simps add: loop s)
qed

lemma send_response_sent:
  assumes ok: "mcu_ok w" "length buf = 16"
    and run: "run_state (libradio_send_response E c chan a n buf) w = ((), w')"
    and empty: "ch_state (txchan w') = LIBRADIO_CHSTATE_EMPTY"
  shows "unat n \<le> 10 \<and> (\<exists>pre post. spi_log w' = spi_log w @ pre @
    tx_events (stamped (r_ms_ticks w) (ch_packet (response_set c a n buf (txchan w)))) chan SI4463_STATE_READY @ post)"
proof -
  let ?ch = "response_set c a n buf (txchan w)"
  obtain r ch v where s: "run_state (libradio_send E ?ch chan) (w\<lparr>txchan := ?ch\<rparr>) = ((r, ch), v)"
    by (metis prod.collapse)
  let ?m = "do { await_tx_end E; libradio_recv_start E; State_Monad.return () }"
  let ?v = "v\<lparr>txchan := (if r \<noteq> 0 then ch\<lparr>ch_state := 2, ch_priority := 0\<rparr> else ch)\<rparr>"
  have m: "run_state ?m ?v = ((), w')" using run run_send_response [OF ok s] by simp
  have "keeps buffers ?m" by (intro keep_rules keeps_buffers_await keeps_buffers_recv_start)
  from keeps_run [OF this m] have tx: "txchan w' = txchan ?v" by (simp add: buffers_def)
  have past: "past (spi_log v) None w'"
  proof (rule preserves_run [OF _ _ m])
    show "preserves (past (spi_log v) None) ?m" by (intro keep_rules)
    show "past (spi_log v) None ?v" by (simp add: past_def)
  qed
  have cok: "channel_ok ?ch" "length (pkt_data (w\<lparr>txchan := ?ch\<rparr>)) = 20"
    using ok by (simp_all add: response_set_def mcu_ok_def channel_ok_def packet_ok_def)
  have r: "r \<noteq> 0"
  proof
    assume "r = 0"
    then have "ch_state ch = 2" using tx empty by simp
    then show False using yieldsD [OF send_channel_state _ s] by (simp add: response_set_def)
  qed
  from send_reports [OF s this cok] show ?thesis
    using past by (fastforce simp: response_set_def past_def)
qed

section \<open>Reading the EEPROM\<close>

lemma run_read_loop:
  "n \<le> length (statusbuffer w) \<Longrightarrow>
   run_state (for_each [0..<n] (\<lambda>i. do { b \<leftarrow> eeprom_read_byte (addr + word_of_nat i); status_store i b })) w =
     ((), w\<lparr>statusbuffer := eeprom_get addr n (eeprom w) @ drop n (statusbuffer w)\<rparr>)"
proof (induction n)
  case 0
  show ?case by (simp add: eeprom_get_def)
next
  case (Suc n)
  let ?l = "eeprom_get addr n (eeprom w) @ drop n (statusbuffer w)"
  let ?b = "eeprom w (addr + word_of_nat n)"
  have u: "?l[n := ?b] = eeprom_get addr (Suc n) (eeprom w) @ drop (Suc n) (statusbuffer w)" "n < length ?l"
    using Suc.prems by (simp_all add: eeprom_get_def list_update_append Cons_nth_drop_Suc [symmetric])
  then show ?case using Suc
    by (simp add: run_for_each_append eeprom_read_byte_def status_store_def)
qed

lemma run_command_read:
  assumes "cmd pp = RADIO_CMD_READ_EEPROM" "packet_ok pp" "r_state w = LIBRADIO_STATE_ACTIVE" "len pp = 4"
  obtains s where "run_state (libradio_command E pp) w =
    run_state (do {
      for_each [0..<unat (data pp ! 1)] (\<lambda>i. do { b \<leftarrow> eeprom_read_byte (be16 (data pp ! 2) (data pp ! 3) + word_of_nat i);
        status_store i b });
      buf \<leftarrow> gets statusbuffer;
      libradio_send_response E RADIO_EEPROM_RESPONSE (data pp ! 0)
        (lo8 (be16 (data pp ! 2) (data pp ! 3) + ucast (data pp ! 1))) (data pp ! 1) buf })
     (w\<lparr>out := s\<rparr>)"
  using assms by (simp add: libradio_command_def packet_ok_def Let_def)

lemma past_read_loop:
  "preserves (past L r) (for_each is (\<lambda>i. do { b \<leftarrow> eeprom_read_byte (f i); status_store i b }))"
  by (intro keep_rules) (auto simp: command_ops past_def stop_with_def split: option.splits intro!: keep_rules preserves_modify)

lemma command_read_eeprom_overflow:
  assumes c: "cmd pp = RADIO_CMD_READ_EEPROM" "packet_ok pp" "r_state w = LIBRADIO_STATE_ACTIVE" "len pp = 4"
    and n: "16 < unat (data pp ! 1)" and w: "mcu_ok w" "stopped w = None"
  shows "stopped (snd (run_state (libradio_command E pp) w)) = Some Out_of_bounds"
proof -
  let ?f = "\<lambda>i. be16 (data pp ! 2) (data pp ! 3) + word_of_nat i"
  let ?m = "\<lambda>i. do { b \<leftarrow> eeprom_read_byte (?f i); status_store i b }"
  let ?n = "unat (data pp ! 1)"
  let ?k = "do { buf \<leftarrow> gets statusbuffer;
      libradio_send_response E RADIO_EEPROM_RESPONSE (data pp ! 0)
        (lo8 (be16 (data pp ! 2) (data pp ! 3) + ucast (data pp ! 1))) (data pp ! 1) buf }"
  obtain s where s: "run_state (libradio_command E pp) w = run_state (do { for_each [0..<?n] ?m; ?k }) (w\<lparr>out := s\<rparr>)"
    by (rule run_command_read [OF c])
  have up: "[0..<?n] = [0..<16] @ 16 # [17..<?n]"
    using n upt_add_eq_append [of 0 16 "?n - 16"] by (simp add: upt_conv_Cons del: upt.simps)
  define v where "v = snd (run_state (for_each [0..<16] ?m) (w\<lparr>out := s\<rparr>))"
  have v: "stopped v = None" "length (statusbuffer v) = 16"
    using w by (simp_all add: v_def run_read_loop mcu_ok_def eeprom_get_def)
  define u where "u = snd (run_state (?m 16) v)"
  have "stopped u = Some Out_of_bounds"
    using v by (simp add: u_def eeprom_read_byte_def status_store_def)
  then have "past [] (Some Out_of_bounds) u" by (simp add: past_def)
  moreover have "run_state (do { for_each [0..<?n] ?m; ?k }) (w\<lparr>out := s\<rparr>) =
      run_state (do { for_each [17..<?n] ?m; ?k }) u"
    unfolding up by (simp add: run_for_each_append u_def v_def case_prod_beta)
  moreover have "preserves (past [] (Some Out_of_bounds)) (do { for_each [17..<?n] ?m; ?k })"
    by (intro keep_rules past_read_loop past_send_response)
  ultimately show ?thesis using s preservesD by (fastforce simp: past_def)
qed

lemma send_response_outcome:
  assumes ok: "mcu_ok w" "length buf = 16"
    and run: "run_state (libradio_send_response E c chan a n buf) w = ((), w')"
  shows "ch_state (txchan w') =
    (if fst (fst (run_state (libradio_send E (response_set c a n buf (txchan w)) chan)
       (w\<lparr>txchan := response_set c a n buf (txchan w)\<rparr>))) = 0 then 4 else 2)"
proof -
  let ?ch = "response_set c a n buf (txchan w)"
  obtain r ch v where s: "run_state (libradio_send E ?ch chan) (w\<lparr>txchan := ?ch\<rparr>) = ((r, ch), v)"
    by (metis prod.collapse)
  let ?m = "do { await_tx_end E; libradio_recv_start E; State_Monad.return () }"
  let ?v = "v\<lparr>txchan := (if r \<noteq> 0 then ch\<lparr>ch_state := 2, ch_priority := 0\<rparr> else ch)\<rparr>"
  have m: "run_state ?m ?v = ((), w')" using run run_send_response [OF ok s] by simp
  have "keeps buffers ?m" by (intro keep_rules keeps_buffers_await keeps_buffers_recv_start)
  from keeps_run [OF this m] have "txchan w' = txchan ?v" by (simp add: buffers_def)
  then show ?thesis using yieldsD [OF send_channel_state _ s] s by (simp add: response_set_def)
qed

end
