(* ===== verification/Client_Loop.thy ===== *)
theory Client_Loop
  imports Command
begin

text \<open>
  The main loop of a client: interrupts and sleeping (\<^verbatim>\<open>lib/wait.c\<close>,
  \<^verbatim>\<open>lib/radio_irq.S\<close>, the vector table of \<^verbatim>\<open>lib/locore.S\<close>), the state machine
  \<^verbatim>\<open>libradio_rxloop\<close> (\<^verbatim>\<open>lib/loop.c\<close>) and the console \<^verbatim>\<open>libradio_debug\<close>
  (\<^verbatim>\<open>lib/debug.c\<close>).

  Interrupts are taken where the program sleeps: \<open>e_sleep\<close> gives the interrupts that ended one
  \<^verbatim>\<open>_sleep()\<close>, in order. The handler of the USART is libavr's; its effect here is that the
  character is in the input queue.

  The lemmas show that the wait ends, that one turn of the loop keeps the client's invariant
  (clock speed and time of day agree with the state, a wake-up is always pending), and that the
  states of a client are only those the invariant lists; and that a listening client which the radio does not interrupt
  goes on listening.
\<close>

section \<open>Operations\<close>

definition radio_irq :: "('d, 'a, unit) op" where
  "radio_irq = modify (\<lambda>w. w\<lparr>irq_fired := irq_fired w + 1, eimsk := unset_bit 0 (eimsk w)\<rparr>)"

text \<open>The handler of an interrupt; that of the radio runs only while it is enabled.\<close>

definition isr :: "interrupt \<Rightarrow> ('d, 'a, unit) op" where
  "isr i = (case i of
     Timer1_CompA \<Rightarrow> clocktick
   | Int0 \<Rightarrow> do { m \<leftarrow> gets eimsk; when_op (bit m 0) radio_irq }
   | Usart_Rx c \<Rightarrow> modify (\<lambda>w. w\<lparr>sio_rxq := sio_rxq w @ [c]\<rparr>))"

definition sleep_once :: "('d, 'a) env \<Rightarrow> ('d, 'a, unit) op" where
  "sleep_once E = do {
     is \<leftarrow> State (\<lambda>w. case e_sleep E (dev w) of (is, d) \<Rightarrow> (is, w\<lparr>dev := d\<rparr>));
     for_each is isr
   }"

text \<open>The body of the loop in \<open>libradio_wait\<close> up to the test of the status.\<close>

definition wait_status :: "('d, 'a, u8) op" where
  "wait_status = do {
     f \<leftarrow> gets irq_fired;
     t \<leftarrow> libradio_tick_wait;
     q \<leftarrow> gets sio_rxq;
     State_Monad.return ((if f \<noteq> 0 then LIBRADIO_WAIT_RXINT else 0) OR
       (if t \<noteq> 0 then LIBRADIO_WAIT_TIMER else 0) OR
       (if q \<noteq> [] then LIBRADIO_WAIT_SERIAL else 0))
   }"

partial_function (option) wait_loop :: "('d, 'a) env \<Rightarrow> ('d, 'a) mcu \<Rightarrow> (u8 \<times> ('d, 'a) mcu) option" where
  "wait_loop E w =
     (case run_state wait_status w of (status, w1) \<Rightarrow>
        if status \<noteq> 0 then Some (status, w1)
        else wait_loop E (snd (run_state (sleep_once E) w1)))"

declare wait_loop.simps [code]

definition libradio_wait :: "('d, 'a) env \<Rightarrow> ('d, 'a, u8) op" where
  "libradio_wait E = State (\<lambda>w.
     case wait_loop E w of Some r \<Rightarrow> r | None \<Rightarrow> (0, stop_with Diverges w))"

definition libradio_irq_fired :: "('d, 'a, u8) op" where
  "libradio_irq_fired = gets irq_fired"

definition libradio_rxloop :: "('d, 'a) env \<Rightarrow> ('d, 'a, unit) op" where
  "libradio_rxloop E = do {
     status \<leftarrow> libradio_wait E;
     when_op (status AND LIBRADIO_WAIT_RXINT \<noteq> 0) (do {
       libradio_set_delay 5;
       libradio_handle_packet E;
       libradio_get_int_status E;
       libradio_irq_enable 1
     });
     st \<leftarrow> gets r_state;
     if st = LIBRADIO_STATE_ERROR then libradio_set_state E LIBRADIO_STATE_WARM
     else if st = LIBRADIO_STATE_STARTUP \<or> st = LIBRADIO_STATE_COLD \<or> st = LIBRADIO_STATE_WARM
     then libradio_set_state E LIBRADIO_STATE_LISTEN
     else if st = LIBRADIO_STATE_LISTEN then State_Monad.return ()
     else do {
       saw \<leftarrow> gets r_saw_rx;
       when_op (saw \<noteq> 0) (modify (\<lambda>w. w\<lparr>r_timeout := 60000, r_saw_rx := 0\<rparr>));
       modify (\<lambda>w. w\<lparr>r_timeout := r_timeout w - 1\<rparr>);
       t \<leftarrow> gets r_timeout;
       when_op (t = 0) (libradio_set_state E LIBRADIO_STATE_WARM)
     }
   }"

text \<open>
  The console. \<^verbatim>\<open>getchar\<close> waits for input, so it does not return when the queue is empty.
\<close>

definition getchar :: "('d, 'a, char) op" where
  "getchar = State (\<lambda>w. case sio_rxq w of
     [] \<Rightarrow> (CHR ''\<newline>'', stop_with Diverges w)
   | c # cs \<Rightarrow> (c, w\<lparr>sio_rxq := cs\<rparr>))"

definition libradio_debug :: "('d, 'a) env \<Rightarrow> ('d, 'a, unit) op" where
  "libradio_debug E = do {
     ch \<leftarrow> getchar;
     if ch = CHR ''\<newline>'' \<or> ch = char_of (13::nat) then printf ''\<newline>''
     else do {
       f \<leftarrow> libradio_irq_fired;
       printf (dec (unat f) @ ''>'');
       if 48 \<le> (of_char ch :: nat) \<and> (of_char ch :: nat) \<le> 57 then do {
         let n = (of_char ch :: nat) - 48;
         printf (''-> '' @ dec n @ ''\<newline>'');
         modify (\<lambda>w. w\<lparr>r_my_channel := word_of_nat n\<rparr>)
       }
       else if ch = CHR ''r'' then modify (stop_with Rebooted)
       else if ch = CHR ''i'' then do { libradio_irq_enable 1; printf ''IRQ-ena\<newline>'' }
       else if ch = CHR ''o'' then do { libradio_irq_enable 0; printf ''IRQ-dis\<newline>'' }
       else if ch = CHR ''h'' then do { libradio_handle_packet E; printf ''handle packet\<newline>'' }
       else if ch = CHR ''p'' then do {
         libradio_get_part_info E;
         s \<leftarrow> gets (\<lambda>w. ''PART: '' @ dec (unat (r_chip_rev w)) @ ''/'' @ dec_int (sint (r_part_id w)) @
           ''/'' @ dec (unat (r_pbuild w)) @ ''/'' @ dec_int (sint (r_device_id w)) @ ''/'' @
           dec (unat (r_customer w)) @ ''/'' @ dec (unat (r_rom_id w)) @ ''\<newline>'');
         printf s
       }
       else if ch = CHR ''f'' then do {
         libradio_get_func_info E;
         s \<leftarrow> gets (\<lambda>w. ''FUNC: '' @ dec (unat (r_rev_ext w)) @ ''/'' @ dec (unat (r_rev_branch w)) @
           ''/'' @ dec (unat (r_rev_int w)) @ ''/'' @ dec_int (sint (r_patch w)) @ ''/'' @
           dec (unat (r_func w)) @ ''\<newline>'');
         printf s
       }
       else if ch = CHR ''c'' then do {
         libradio_get_chip_status E;
         s \<leftarrow> gets (\<lambda>w. ''CHIP:'' @ hex (unat (r_chip_pending w)) @ ''/'' @
           hex (unat (r_chip_status w)) @ ''/'' @ hex (unat (r_cmd_error w)) @ ''\<newline>'');
         printf s
       }
       else if ch = CHR ''d'' then do {
         libradio_request_device_status E;
         s \<leftarrow> gets (\<lambda>w. ''DEVST:'' @ dec (unat (r_curr_state w)) @ '',CH'' @
           dec (unat (r_curr_channel w)) @ ''\<newline>'');
         printf s
       }
       else if ch = CHR ''s'' then do {
         libradio_get_int_status E;
         s \<leftarrow> gets (\<lambda>w. ''INTST:I'' @ hex (unat (r_int_pending w)) @ ''/'' @ hex (unat (r_int_status w)) @
           '',P'' @ hex (unat (r_ph_pending w)) @ ''/'' @ hex (unat (r_ph_status w)) @ '',M'' @
           hex (unat (r_modem_pending w)) @ ''/'' @ hex (unat (r_modem_status w)) @ '',C'' @
           hex (unat (r_chip_pending w)) @ ''/'' @ hex (unat (r_chip_status w)) @ ''\<newline>'');
         printf s
       }
       else if ch = CHR ''G'' \<or> ch = CHR ''g'' then do {
         when_op (ch = CHR ''G'') (do { libradio_get_fifo_info E 3; State_Monad.return () });
         libradio_get_fifo_info E 0;
         s \<leftarrow> gets (\<lambda>w. ''FIFO RX:'' @ dec (unat (r_rx_fifo w)) @ '',TX:'' @
           dec (unat (r_tx_fifo w)) @ ''\<newline>'');
         printf s
       }
       else if ch = CHR ''z'' then libradio_ircal
       else if ch = CHR ''P'' then libradio_get_property E 0x100 4
       else printf ''\<newline>''
     }
   }"

text \<open>
  The invariant of a client: the state is one of those the loop can be in, the clock runs at the
  speed that belongs to it, the time of day is unknown after a sleep, and a wake-up is pending.
\<close>

definition client_inv :: "('d, 'a) mcu \<Rightarrow> bool" where
  "client_inv w \<longleftrightarrow>
     r_state w \<in> {LIBRADIO_STATE_STARTUP, LIBRADIO_STATE_ERROR, LIBRADIO_STATE_WARM,
       LIBRADIO_STATE_LISTEN, LIBRADIO_STATE_ACTIVE} \<and>
     (r_state w = LIBRADIO_STATE_WARM \<longrightarrow>
        r_tens_of_minutes w = 0xff \<and> r_period w = r_slow_period w) \<and>
     (r_state w \<in> {LIBRADIO_STATE_STARTUP, LIBRADIO_STATE_LISTEN, LIBRADIO_STATE_ACTIVE} \<longrightarrow>
        r_period w = r_fast_period w) \<and>
     r_period w \<in> {r_fast_period w, r_slow_period w} \<and>
     0 < r_fast_period w \<and> 0 < r_slow_period w \<and> 0 < r_tick_count w \<and> 0 < r_main_ticks w"

text \<open>The turns of the client's loop, from a state that satisfies a start condition.\<close>

inductive client_run :: "('d, 'a) env \<Rightarrow> (('d, 'a) mcu \<Rightarrow> bool) \<Rightarrow> ('d, 'a) mcu \<Rightarrow> bool"
  for E and Init where
  client_init: "Init w \<Longrightarrow> client_run E Init w"
| client_turn: "client_run E Init w \<Longrightarrow> run_state (libradio_rxloop E) w = ((), w') \<Longrightarrow>
    client_run E Init w'"

text \<open>The number of timer interrupts until the wait ends, if nothing else ends it.\<close>

definition due :: "('d, 'a) mcu \<Rightarrow> nat" where
  "due w = (if thread_ok w \<noteq> 0 then 0 else unat (r_main_ticks w))"

definition armed :: "('d, 'a) mcu \<Rightarrow> bool" where
  "armed w \<longleftrightarrow> thread_ok w \<noteq> 0 \<or> r_main_ticks w \<noteq> 0"

text \<open>
  The timer does not stop while the program sleeps: it is among the interrupts that end a sleep,
  or it has come closer.
\<close>

definition timer_runs :: "('d, 'a) env \<Rightarrow> ('d \<Rightarrow> nat) \<Rightarrow> bool" where
  "timer_runs E rank \<longleftrightarrow> (\<forall>d is d'. e_sleep E d = (is, d') \<longrightarrow>
     Timer1_CompA \<in> set is \<or> rank d' < rank d)"

text \<open>A client that listens and has heard nothing, and hardware whose radio does not interrupt.\<close>

definition listening :: "u16 \<Rightarrow> u8 \<Rightarrow> ('d, 'a) mcu \<Rightarrow> bool" where
  "listening t c w \<longleftrightarrow> client_inv w \<and> r_state w = LIBRADIO_STATE_LISTEN \<and> r_timeout w = t \<and> r_my_channel w = c \<and>
     irq_fired w = 0 \<and> stopped w = None"

definition radio_silent :: "('d, 'a) env \<Rightarrow> bool" where
  "radio_silent E \<longleftrightarrow> (\<forall>d. Int0 \<notin> set (fst (e_sleep E d)))"

lemmas loop_ops [op_defs] = radio_irq_def isr_def sleep_once_def wait_status_def libradio_wait_def
  libradio_irq_fired_def libradio_rxloop_def getchar_def

section \<open>Waiting\<close>

lemma wait_loop_yields:
  assumes st: "yields P wait_status Q" and sl: "preserves P (sleep_once E)"
    and w: "wait_loop E w = Some (s, w')"
  shows "s \<noteq> 0 \<and> (P w \<longrightarrow> P w' \<and> Q s)"
proof -
  let ?R = "\<lambda>u r. fst r \<noteq> 0 \<and> (P u \<longrightarrow> P (snd r) \<and> Q (fst r))"
  have "E = E \<longrightarrow> ?R w (s, w')"
    using w
  proof (rule wait_loop.raw_induct [where P = "\<lambda>F u r. F = E \<longrightarrow> ?R u r", rotated])
    fix f F u r
    assume f: "\<And>F u r. f F u = Some r \<Longrightarrow> F = E \<longrightarrow> ?R u r"
      and b: "(case run_state wait_status u of (status, w1) \<Rightarrow>
        if status \<noteq> 0 then Some (status, w1)
        else f F (snd (run_state (sleep_once F) w1))) = Some r"
    obtain a w1 where a: "run_state wait_status u = (a, w1)" by fastforce
    show "F = E \<longrightarrow> ?R u r"
    proof (cases "a = 0")
      case True
      then have "f F (snd (run_state (sleep_once F) w1)) = Some r" using a b by simp
      from f [OF this] show ?thesis
        using yieldsD [OF st _ a] preservesD [OF sl, of w1] by blast
    next
      case False
      then have "r = (a, w1)" using a b by simp
      then show ?thesis using False yieldsD [OF st _ a] by simp
    qed
  qed
  then show ?thesis by simp
qed

lemma wait_loop_rule:
  "preserves P wait_status \<Longrightarrow> preserves P (sleep_once E) \<Longrightarrow> wait_loop E w = Some (s, w') \<Longrightarrow> s \<noteq> 0 \<and> (P w \<longrightarrow> P w')"
  using wait_loop_yields [OF preserves_yields] by blast

lemma preserves_wait:
  assumes "preserves P wait_status" "preserves P (sleep_once E)" "\<And>w. P w \<Longrightarrow> P (stop_with Diverges w)"
  shows "preserves P (libradio_wait E)"
  unfolding preserves_def
proof (intro allI impI)
  fix w assume w: "P w"
  show "P (snd (run_state (libradio_wait E) w))"
  proof (cases "wait_loop E w")
    case (Some r)
    then show ?thesis using wait_loop_rule [OF assms(1,2), of w "fst r" "snd r"] w by (simp add: libradio_wait_def)
  qed (use w assms(3) in \<open>simp add: libradio_wait_def\<close>)
qed

lemma due_dev [simp]: "armed (w\<lparr>dev := d\<rparr>) = armed w" "due (w\<lparr>dev := d\<rparr>) = due w"
  by (simp_all add: armed_def due_def)

lemma isr_due:
  "armed w \<Longrightarrow> armed (snd (run_state (isr i) w)) \<and> due (snd (run_state (isr i) w)) \<le> due w \<and>
     (i = Timer1_CompA \<and> 0 < due w \<longrightarrow> due (snd (run_state (isr i) w)) < due w) \<and>
     dev (snd (run_state (isr i) w)) = dev w"
  by (cases i)
    (auto simp: isr_def radio_irq_def run_clocktick armed_def due_def tick_thread_ok tick_main_ticks
      unat_minus_one word_unat_eq_iff)

lemma isrs_due:
  "armed w \<Longrightarrow> run_state (for_each is isr) w = ((), w') \<Longrightarrow> armed w' \<and> due w' \<le> due w \<and>
     (Timer1_CompA \<in> set is \<and> 0 < due w \<longrightarrow> due w' < due w) \<and> dev w' = dev w"
proof (induction "is" arbitrary: w)
  case (Cons i "is")
  let ?v = "snd (run_state (isr i) w)"
  have "run_state (for_each is isr) ?v = ((), w')" using Cons.prems(2) by (simp add: case_prod_beta)
  from Cons.IH [OF _ this] isr_due [OF Cons.prems(1), of i] show ?case by fastforce
qed simp

lemma wait_loop_returns:
  assumes timer: "timer_runs E rank"
  shows "armed w \<Longrightarrow> \<exists>s w'. wait_loop E w = Some (s, w') \<and> s \<noteq> 0"
proof (induction "(due w, rank (dev w))" arbitrary: w rule: wf_induct_rule [OF wf_lex_prod [OF wf_less_than wf_less_than]])
  case (1 w)
  obtain s w1 where s: "run_state wait_status w = (s, w1)" by fastforce
  show ?case
  proof (cases "s = 0")
    case False
    then show ?thesis using s by (subst wait_loop.simps) simp
  next
    case True
    then have w1: "armed w1" "due w1 = due w" "dev w1 = dev w" "0 < due w"
      using s "1.prems" by (auto simp: wait_status_def libradio_tick_wait_def armed_def due_def
        unat_gt_0 split: if_splits)
    obtain "is" d' where e: "e_sleep E (dev w1) = (is, d')" by fastforce
    obtain w2 where r: "run_state (for_each is isr) (w1\<lparr>dev := d'\<rparr>) = ((), w2)" by (rule unit_run)
    have sl: "run_state (sleep_once E) w1 = ((), w2)" using e r by (simp add: sleep_once_def)
    have "armed (w1\<lparr>dev := d'\<rparr>)" "due (w1\<lparr>dev := d'\<rparr>) = due w" using w1 by simp_all
    note d = isrs_due [OF this(1) r] this(2)
    have "((due w2, rank (dev w2)), due w, rank (dev w)) \<in> less_than <*lex*> less_than"
    proof (cases "Timer1_CompA \<in> set is")
      case True
      then have "due w2 < due w" using d w1 by simp
      then show ?thesis by simp
    next
      case False
      then have "rank (dev w2) < rank (dev w)" "due w2 \<le> due w" using d w1 e timer by (auto simp: timer_runs_def)
      then show ?thesis by (simp add: le_less)
    qed
    from "1.hyps" [OF this] d show ?thesis
      using s True sl by (subst wait_loop.simps) simp
  qed
qed

section \<open>The invariant of a client\<close>

lemma core_client_inv: "core_view s = core_view t \<Longrightarrow> client_inv s = client_inv t"
  by (simp add: core_view_def client_inv_def)

lemma preserves_client_inv: "keeps core_view m \<Longrightarrow> preserves client_inv m"
  unfolding keeps_def preserves_def using core_client_inv by metis

lemmas client_inv_chip [keep_rules] = keeps_core_primitives [THEN preserves_client_inv]
  keeps_core_send [THEN preserves_client_inv] keeps_core_error [THEN preserves_client_inv]
  keeps_core_chip [THEN preserves_client_inv] keeps_core_rxtx [THEN preserves_client_inv]
  keeps_core_txpacket [THEN preserves_client_inv] keeps_core_fifo_read [THEN preserves_client_inv]

lemma client_inv_fields:
  "client_inv (w\<lparr>r_ms_ticks := x\<rparr>) = client_inv w" "client_inv (w\<lparr>r_npacket_rx := x\<rparr>) = client_inv w"
  "client_inv (w\<lparr>r_npacket_tx := x\<rparr>) = client_inv w" "client_inv (w\<lparr>r_saw_rx := a\<rparr>) = client_inv w"
  "client_inv (w\<lparr>r_catch_irq := a\<rparr>) = client_inv w" "client_inv (w\<lparr>irq_fired := a\<rparr>) = client_inv w"
  "client_inv (w\<lparr>eimsk := a\<rparr>) = client_inv w" "client_inv (w\<lparr>eicra := a\<rparr>) = client_inv w"
  "client_inv (w\<lparr>r_radio_active := a\<rparr>) = client_inv w" "client_inv (w\<lparr>txchan := ch\<rparr>) = client_inv w"
  "client_inv (w\<lparr>rxchan := ch\<rparr>) = client_inv w" "client_inv (w\<lparr>statusbuffer := b\<rparr>) = client_inv w"
  "client_inv (w\<lparr>eeprom := e\<rparr>) = client_inv w" "client_inv (w\<lparr>r_my_channel := a\<rparr>) = client_inv w"
  "client_inv (w\<lparr>r_my_node_id := a\<rparr>) = client_inv w" "client_inv (w\<lparr>r_date := x\<rparr>) = client_inv w"
  "client_inv (w\<lparr>r_timeout := x\<rparr>) = client_inv w" "client_inv (w\<lparr>thread_ok := a\<rparr>) = client_inv w"
  "client_inv (w\<lparr>sio_rxq := q\<rparr>) = client_inv w" "client_inv (w\<lparr>dev := d\<rparr>) = client_inv w"
  "client_inv (stop_with r w) = client_inv w"
  by (simp_all add: client_inv_def stop_with_def split: option.splits)

lemma client_inv_delay [keep_rules]: "0 < d \<Longrightarrow> preserves client_inv (libradio_set_delay d)"
  by (auto simp: preserves_def libradio_set_delay_def client_inv_def word_greater_zero_iff)

lemma client_inv_tick: "client_inv w \<Longrightarrow> client_inv (tick w)"
  by (auto simp: client_inv_def tick_tom tick_main_ticks word_greater_zero_iff)

lemma client_inv_isr [keep_rules]: "preserves client_inv (isr i)"
  by (cases i) (auto simp: preserves_def isr_def radio_irq_def run_clocktick client_inv_fields client_inv_tick)

lemma client_inv_wait [keep_rules]: "preserves client_inv (libradio_wait E)"
proof (rule preserves_wait)
  show "preserves client_inv wait_status"
    by (auto simp: wait_status_def libradio_tick_wait_def client_inv_fields intro!: keep_rules preserves_modify)
  have "preserves client_inv (State (\<lambda>w. case e_sleep E (dev w) of (is, d) \<Rightarrow> (is, w\<lparr>dev := d\<rparr>)))"
    by (auto simp: preserves_def client_inv_fields split: prod.splits)
  then show "preserves client_inv (sleep_once E)"
    by (auto simp: sleep_once_def intro!: keep_rules)
qed (simp add: client_inv_fields)

lemma client_inv_irq [keep_rules]: "preserves client_inv (libradio_irq_enable f)"
  by (auto simp: libradio_irq_enable_def client_inv_fields intro!: keep_rules preserves_modify)

lemma client_inv_error: "preserves client_inv (libradio_set_state E LIBRADIO_STATE_ERROR)"
proof (unfold preserves_def, intro allI impI)
  fix w :: "('a, 'b) mcu" assume w: "client_inv w"
  have p: "0 < unat (r_period w)" "r_period w \<noteq> 0" using w by (auto simp: client_inv_def word_greater_zero_iff unat_gt_0)
  have d: "0 < (word_of_nat (6000 div unat (r_period w)) :: u16)"
  proof -
    let ?q = "6000 div unat (r_period w)"
    have "0 < ?q" "?q < 65536"
      using p u8_bound [of "r_period w"] by (simp_all add: div_greater_zero_iff le_less_trans [OF div_le_dividend])
    then show ?thesis by (simp add: word_greater_zero_iff word_of_nat_eq_0_iff nat_dvd_not_less)
  qed
  show "client_inv (snd (run_state (libradio_set_state E LIBRADIO_STATE_ERROR) w))"
    using w p d by (auto simp: libradio_set_state_def libradio_set_song_def songs_def div_by_def libradio_set_delay_def
      client_inv_def)
qed

lemma client_inv_config [keep_rules]: "preserves client_inv (config_loop E c)"
proof (induction E c rule: config_loop.induct)
  case (2 E n rest)
  then show ?case using client_inv_error [of E]
    by (auto simp: client_inv_fields intro!: keep_rules preserves_modify)
qed (auto simp: client_inv_fields intro!: keep_rules preserves_modify)

lemma client_inv_power_up [keep_rules]: "preserves client_inv (libradio_power_up E)"
  by (auto simp: libradio_power_up_def client_inv_fields intro!: keep_rules preserves_modify)

lemma client_inv_recv_start [keep_rules]: "preserves client_inv (libradio_recv_start E)"
  by (auto simp: libradio_recv_start_def client_inv_fields intro!: keep_rules preserves_modify)

lemma client_inv_rxpacket [keep_rules]: "preserves client_inv (libradio_rxpacket E ch)"
  by (auto simp: libradio_rxpacket_def Let_def client_inv_fields intro!: keep_rules preserves_modify)

lemma client_inv_recv [keep_rules]: "preserves client_inv (libradio_recv E ch c)"
  by (auto simp: libradio_recv_def client_inv_fields intro!: keep_rules preserves_modify)

lemma client_inv_send [keep_rules]: "preserves client_inv (libradio_send E ch c)"
  by (auto simp: libradio_send_def Let_def client_inv_fields intro!: keep_rules preserves_modify)

lemma client_inv_await [keep_rules]: "preserves client_inv (await_tx_end E)"
proof (unfold preserves_def, intro allI impI)
  fix w :: "('a, 'b) mcu" assume w: "client_inv w"
  show "client_inv (snd (run_state (await_tx_end E) w))"
  proof (cases "tx_busy_wait E w")
    case (Some w')
    then have "client_inv w'"
      using tx_busy_wait_keeps [where P = client_inv, OF _ Some w] preserves_run [OF preserves_client_inv [OF keeps_core_chip(1)]] by blast
    then show ?thesis using Some by (simp add: await_tx_end_def)
  qed (use w in \<open>simp add: await_tx_end_def client_inv_fields\<close>)
qed

lemma client_inv_send_response [keep_rules]: "preserves client_inv (libradio_send_response E c ch a n buf)"
  by (auto simp: libradio_send_response_def Let_def client_inv_fields intro!: keep_rules preserves_modify)

lemma client_inv_data [keep_rules]: "preserves client_inv (data_at p i)" "preserves client_inv (status_store i b)"
  "preserves client_inv (eeprom_read_byte a)" "preserves client_inv (eeprom_write_byte a b)"
  by (auto simp: preserves_def command_ops client_inv_fields)

text \<open>Nothing ends the listening but the radio.\<close>

lemma listening_isr: "i \<noteq> Int0 \<Longrightarrow> preserves (listening t c) (isr i)"
  by (cases i) (simp_all add: preserves_def isr_def listening_def run_clocktick client_inv_tick client_inv_fields)

lemma listening_status: "yields (listening t c) wait_status (\<lambda>s. s AND LIBRADIO_WAIT_RXINT = 0)"
  by (simp add: yields_def wait_status_def libradio_tick_wait_def listening_def client_inv_fields)

lemma listening_sleep:
  fixes E :: "('d, 'a) env"
  assumes "radio_silent E"
  shows "preserves (listening t c) (sleep_once E)"
  unfolding preserves_def
proof (intro allI impI)
  fix w :: "('d, 'a) mcu" assume w: "listening t c w"
  obtain "is" d where e: "e_sleep E (dev w) = (is, d)" by fastforce
  have "Int0 \<notin> set (fst (e_sleep E (dev w)))" using assms unfolding radio_silent_def by blast
  then have "Int0 \<notin> set is" by (simp add: e)
  then have p: "preserves (listening t c) (for_each is isr)"
    by (induction "is") (auto intro!: keep_rules listening_isr)
  have "listening t c (w\<lparr>dev := d\<rparr>)" using w by (simp add: listening_def client_inv_fields)
  from preservesD [OF p this] show "listening t c (snd (run_state (sleep_once E) w))" using e by (simp add: sleep_once_def)
qed

lemma listening_turn:
  assumes "radio_silent E" "timer_runs E rank" "listening t c w"
  shows "listening t c (snd (run_state (libradio_rxloop E) w))"
proof -
  have "armed w" using assms(3) by (auto simp: listening_def client_inv_def armed_def)
  then obtain s w' where r: "wait_loop E w = Some (s, w')" using wait_loop_returns [OF assms(2)] by blast
  then have w: "run_state (libradio_wait E) w = (s, w')" by (simp add: libradio_wait_def)
  have "listening t c w'" "s AND 1 = 0"
    using wait_loop_yields [OF listening_status listening_sleep [OF assms(1)] r] assms(3) by auto
  then show ?thesis using w by (simp add: libradio_rxloop_def listening_def)
qed

lemma listening_turns:
  assumes "radio_silent E" "timer_runs E rank" "listening t c w"
  shows "listening t c (((\<lambda>v. snd (run_state (libradio_rxloop E) v)) ^^ n) w)"
  using assms(3) by (induction n) (simp_all add: listening_turn [OF assms(1,2)])

locale passive_client = two_speed +
  assumes operate_frame: "keeps core_view (e_operate E p)"
    and fetch_status_frame: "keeps core_view (e_fetch_status E t buf n)"
begin

lemma client_inv_set_active [keep_rules]: "preserves client_inv (libradio_set_state E LIBRADIO_STATE_ACTIVE)"
proof (unfold preserves_def, intro allI impI)
  fix w :: "('a, 'b) mcu" assume w: "client_inv w"
  let ?v = "w\<lparr>r_heart_beat := 0xf7\<rparr>"
  obtain u where u: "run_state (e_power_mode E 1) ?v = ((), u)" by (rule unit_run)
  have f: "slow_view u = slow_view ?v" by (rule keeps_run [OF power_mode_frame u])
  then have "r_fast_period u = r_fast_period w" "r_slow_period u = r_slow_period w"
    "r_tick_count u = r_tick_count w" "r_main_ticks u = r_main_ticks w"
    by (simp_all add: slow_view_def core_view_def)
  moreover have "r_period u = r_fast_period w" using power_mode_speed [of 1 ?v] u by simp
  ultimately show "client_inv (snd (run_state (libradio_set_state E LIBRADIO_STATE_ACTIVE) w))"
    using w u by (auto simp: libradio_set_state_def libradio_set_song_def songs_def client_inv_def)
qed

lemma sleep_delay_pos: "0 < p \<Longrightarrow> 0 < sleep_delay s p"
proof -
  assume p: "0 < p"
  let ?q = "(if s = LIBRADIO_STATE_WARM then 30000 else 360000) div unat p"
  have "0 < ?q"
    using p u8_bound [of p] by (simp add: div_greater_zero_iff unat_gt_0 word_greater_zero_iff)
  then have "0 < min 65535 ?q" "min 65535 ?q < 65536" by simp_all
  then show ?thesis by (simp add: sleep_delay_def word_greater_zero_iff word_of_nat_eq_0_iff nat_dvd_not_less)
qed

lemma client_inv_set_warm [keep_rules]: "preserves client_inv (libradio_set_state E LIBRADIO_STATE_WARM)"
proof (unfold preserves_def, intro allI impI)
  fix w :: "('a, 'b) mcu" assume w: "client_inv w"
  obtain w' where r: "run_state (libradio_set_state E LIBRADIO_STATE_WARM) w = ((), w')" by (rule unit_run)
  have i: "ident_view w' = ident_view w" by (rule keeps_run [OF set_state_ident r])
  show "client_inv (snd (run_state (libradio_set_state E LIBRADIO_STATE_WARM) w))"
  proof (cases "r_state w = LIBRADIO_STATE_WARM")
    case True
    then show ?thesis using w by (simp add: libradio_set_state_def)
  next
    case False
    have p: "0 < r_slow_period w" using w by (simp add: client_inv_def)
    show ?thesis
      using set_state_sleep [OF r] set_state_sleep_speed [OF r _ False p] False i w sleep_delay_pos [OF p] r
      by (auto simp: client_inv_def ident_view_def)
  qed
qed

lemma client_inv_listen:
  assumes w: "client_inv w" "r_state w \<noteq> LIBRADIO_STATE_ERROR"
  shows "client_inv (snd (run_state (libradio_set_state E LIBRADIO_STATE_LISTEN) w))"
proof (cases "r_state w = LIBRADIO_STATE_LISTEN")
  case True
  then show ?thesis using w by (simp add: libradio_set_state_def)
next
  case False
  let ?v = "w\<lparr>r_heart_beat := 0xff\<rparr>"
  let ?sleeping = "r_state w = LIBRADIO_STATE_COLD \<or> r_state w = LIBRADIO_STATE_WARM"
  obtain u where u: "run_state (when_op ?sleeping (e_power_mode E 1)) ?v = ((), u)" by (rule unit_run)
  have k: "keeps slow_view (when_op ?sleeping (e_power_mode E 1))"
    by (intro keeps_when power_mode_frame)
  have f: "r_fast_period u = r_fast_period w" "r_slow_period u = r_slow_period w" "r_state u = r_state w"
    "r_tick_count u = r_tick_count w" "r_main_ticks u = r_main_ticks w"
    using keeps_run [OF k u] by (simp_all add: slow_view_def core_view_def)
  have p: "r_period u = r_fast_period w"
    using u w False power_mode_speed [of 1 ?v] by (auto simp: client_inv_def split: if_splits)
  have nz: "r_fast_period u \<noteq> 0" "r_main_ticks u \<noteq> 0"
    using w f by (auto simp: client_inv_def)
  have "run_state (libradio_set_state E LIBRADIO_STATE_LISTEN) w = run_state (do {
       modify (\<lambda>w. w\<lparr>r_my_channel := 0\<rparr>);
       modify (\<lambda>w. w\<lparr>r_saw_rx := 0\<rparr>);
       st \<leftarrow> gets r_state;
       t \<leftarrow> div_by (if st = LIBRADIO_STATE_COLD then 6000 else 12000) r_fast_period;
       modify (\<lambda>w. w\<lparr>r_timeout := word_of_nat t\<rparr>);
       libradio_set_delay 500;
       modify (\<lambda>w. w\<lparr>r_state := 5\<rparr>) }) u"
    using False u unfolding libradio_set_state_def libradio_set_song_def songs_def
    by (simp del: run_when_op)
  also have "client_inv (snd \<dots>)"
    using w f p nz by (simp add: div_by_def libradio_set_delay_def client_inv_def)
  finally show ?thesis .
qed

lemma client_inv_set_time:
  assumes "cmd pp = RADIO_CMD_SET_TIME"
  shows "preserves client_inv (libradio_command E pp)"
proof (unfold preserves_def, intro allI impI)
  fix w :: "('a, 'b) mcu" assume w: "client_inv w"
  show "client_inv (snd (run_state (libradio_command E pp) w))"
  proof (cases "r_state w < LIBRADIO_STATE_ACTIVE")
    case True
    then show ?thesis using assms w by (simp add: command_gated)
  next
    case False
    then have "r_state w = LIBRADIO_STATE_ACTIVE" using w by (auto simp: client_inv_def)
    then show ?thesis using assms w
      by (simp add: libradio_command_def data_at_def client_inv_def stop_with_def split: option.splits)
  qed
qed

lemma client_inv_command [keep_rules]: "preserves client_inv (libradio_command E pp)"
proof (cases "cmd pp = RADIO_CMD_SET_TIME")
  case False
  have two: "client_inv (w\<lparr>r_my_channel := a, r_my_node_id := b\<rparr>) = client_inv w" for w :: "('a, 'b) mcu" and a b
    by (simp add: client_inv_def)
  note r = preserves_bind preserves_gets preserves_return preserves_if preserves_when preserves_prod preserves_for_each
    client_inv_data client_inv_chip(1) client_inv_send_response client_inv_set_active client_inv_set_warm
    preserves_client_inv [OF operate_frame] preserves_client_inv [OF fetch_status_frame] preserves_modify
  show ?thesis unfolding libradio_command_def Let_def
    by (intro r) (simp_all only: client_inv_fields two False simp_thms)
qed (rule client_inv_set_time)

lemma client_inv_handle_packet [keep_rules]: "preserves client_inv (libradio_handle_packet E)"
  by (auto simp: libradio_handle_packet_def client_inv_fields intro!: keep_rules preserves_modify)

lemma rxloop_client_inv: "preserves client_inv (libradio_rxloop E)"
proof -
  let ?tail = "\<lambda>st. if st = LIBRADIO_STATE_ERROR then libradio_set_state E LIBRADIO_STATE_WARM
     else if st = LIBRADIO_STATE_STARTUP \<or> st = LIBRADIO_STATE_COLD \<or> st = LIBRADIO_STATE_WARM
     then libradio_set_state E LIBRADIO_STATE_LISTEN
     else if st = LIBRADIO_STATE_LISTEN then State_Monad.return ()
     else do {
       saw \<leftarrow> gets r_saw_rx;
       when_op (saw \<noteq> 0) (modify (\<lambda>w. w\<lparr>r_timeout := 60000, r_saw_rx := 0\<rparr>));
       modify (\<lambda>w. w\<lparr>r_timeout := r_timeout w - 1\<rparr>);
       t \<leftarrow> gets r_timeout;
       when_op (t = 0) (libradio_set_state E LIBRADIO_STATE_WARM)
     }"
  have other: "preserves client_inv (?tail st)" if "st \<notin> {0, 3, 4}" for st
    using that by (auto simp: client_inv_fields intro!: keep_rules preserves_modify)
  have tail: "preserves client_inv (do { st \<leftarrow> gets r_state; ?tail st })"
  proof (unfold preserves_def, intro allI impI)
    fix w :: "('a, 'b) mcu" assume w: "client_inv w"
    show "client_inv (snd (run_state (do { st \<leftarrow> gets r_state; ?tail st }) w))"
    proof (cases "r_state w \<in> {0, 3, 4}")
      case True
      then have "run_state (do { st \<leftarrow> gets r_state; ?tail st }) w = run_state (libradio_set_state E LIBRADIO_STATE_LISTEN) w"
        by auto
      then show ?thesis using client_inv_listen [OF w] True by auto
    next
      case False
      then show ?thesis using preservesD [OF other [OF False] w] by simp
    qed
  qed
  show ?thesis unfolding libradio_rxloop_def
    by (rule preserves_bind [OF client_inv_wait], rule preserves_bind [OF _ tail])
      (auto intro!: keep_rules)
qed

lemma client_run_inv: "client_run E Init w \<Longrightarrow> (\<And>v. Init v \<Longrightarrow> client_inv v) \<Longrightarrow> client_inv w"
proof (induction rule: client_run.induct)
  case (client_turn w w')
  then show ?case using preserves_run [OF rxloop_client_inv] by blast
qed

end

end
