(* ===== verification/Oiltank.thy ===== *)
theory Oiltank
  imports Client_Loop
begin

text \<open>
  The oil tank monitor, \<^verbatim>\<open>examples/oiltank.c\<close>: a client application with its callbacks.
  \<open>oiltank_env\<close> links the application with the library: its \<^verbatim>\<open>operate\<close> and
  \<^verbatim>\<open>fetch_status\<close>, and the library's default \<^verbatim>\<open>libradio_power_mode\<close>. The
  interpretation \<open>tank\<close> shows that it keeps the contracts \<open>passive_client\<close> of the client loop, for
  any hardware.
\<close>

section \<open>State and operations\<close>

record oiltank =
  mynum1 :: u8
  mynum2 :: u8
  battery_voltage :: u16
  oil_level :: u16
  tlsecs :: u16

abbreviation (input) OILTANK_CAT1 :: u8 where "OILTANK_CAT1 \<equiv> 0x7f"
abbreviation (input) OILTANK_CAT2 :: u8 where "OILTANK_CAT2 \<equiv> 0x01"
abbreviation (input) TANK_VERSION_H :: u8 where "TANK_VERSION_H \<equiv> 1"
abbreviation (input) TANK_VERSION_L :: u8 where "TANK_VERSION_L \<equiv> 5"

text \<open>Writing a variable of the application.\<close>

definition modify_app :: "('a \<Rightarrow> 'a) \<Rightarrow> ('d, 'a, unit) op" where
  "modify_app f = modify (\<lambda>w. w\<lparr>app := f (app w)\<rparr>)"

definition oiltank_operate :: "packet \<Rightarrow> ('d, oiltank, unit) op" where
  "oiltank_operate pp = do {
     printf ''Oil Tank OPERATE function.\<newline>'';
     printf (''Command: '' @ dec (unat (cmd pp)) @ '', len: '' @ dec (unat (len pp)) @ ''\<newline>'')
   }"

text \<open>
  \<^verbatim>\<open>status[i] = v\<close> for the first bytes of the buffer, whose size has been compared with 7.
\<close>

definition oiltank_fetch_status :: "u8 \<Rightarrow> u8 list \<Rightarrow> nat \<Rightarrow> ('d, oiltank, int \<times> u8 list) op" where
  "oiltank_fetch_status status_type status maxlen =
     (if maxlen < 7 then State_Monad.return (0, status)
      else do {
        let status = status[0 := status_type];
        if status_type = RADIO_STATUS_STATIC then do {
          a \<leftarrow> gets app;
          State_Monad.return (7, status[1 := OILTANK_CAT1, 2 := OILTANK_CAT2, 3 := mynum1 a,
            4 := mynum2 a, 5 := TANK_VERSION_H, 6 := TANK_VERSION_L])
        }
        else if status_type = RADIO_STATUS_DYNAMIC then do {
          st \<leftarrow> libradio_get_state;
          a \<leftarrow> gets app;
          State_Monad.return (6, status[1 := st, 2 := hi8 (battery_voltage a),
            3 := lo8 (battery_voltage a), 4 := hi8 (oil_level a), 5 := lo8 (oil_level a)])
        }
        else State_Monad.return (0, status)
      })"

definition oiltank_env :: "'d hw \<Rightarrow> ('d, oiltank) env" where
  "oiltank_env H = hw.extend H
     (env.fields oiltank_operate oiltank_fetch_status libradio_power_mode)"

definition get_battery_voltage :: "('d, oiltank) env \<Rightarrow> ('d, oiltank, unit) op" where
  "get_battery_voltage E = do {
     v \<leftarrow> State (\<lambda>w. case e_analog_read E 3 (dev w) of (v, d) \<Rightarrow> (v, w\<lparr>dev := d\<rparr>));
     modify_app (\<lambda>a. a\<lparr>battery_voltage := word_of_int v\<rparr>)
   }"

definition get_oil_level :: "('d, oiltank, unit) op" where
  "get_oil_level = do {
     modify_app (\<lambda>a. a\<lparr>oil_level := 800\<rparr>);
     a \<leftarrow> gets app;
     printf (''Oil='' @ dec_int (sint (oil_level a)) @ ''\<newline>'')
   }"

text \<open>\<^verbatim>\<open>main\<close> up to its loop.\<close>

definition oiltank_start :: "('d, oiltank) env \<Rightarrow> ('d, oiltank, unit) op" where
  "oiltank_start E = do {
     setled 1;
     modify (\<lambda>w. w\<lparr>tcnt1 := 0, ocr1a := 24999, tccr1a := 0, tccr1b := 0x0b, tccr1c := 0,
       timsk1 := 2\<rparr>);
     modify (\<lambda>w. w\<lparr>ubrr0 := 25, ucsr0b := 0x98, ucsr0c := 6\<rparr>);
     setled 0;
     printf (''\<newline>\<newline>Oil tank monitor v'' @ dec (unat TANK_VERSION_H) @ ''.'' @
       dec (unat TANK_VERSION_L) @ ''.\<newline>'');
     n1 \<leftarrow> eeprom_read_byte 0;
     n2 \<leftarrow> eeprom_read_byte 1;
     modify_app (\<lambda>a. a\<lparr>mynum1 := n1, mynum2 := n2\<rparr>);
     when_op (n1 = 0xff \<or> n2 = 0xff) (do {
       modify_app (\<lambda>a. a\<lparr>mynum1 := 0, mynum2 := 1\<rparr>);
       eeprom_write_byte 0 0;
       eeprom_write_byte 1 1
     });
     a \<leftarrow> gets app;
     printf (''IDENT '' @ dec (unat OILTANK_CAT1) @ ''/'' @ dec (unat OILTANK_CAT2) @ ''/'' @
       dec (unat (mynum1 a)) @ ''/'' @ dec (unat (mynum2 a)) @ ''\<newline>'');
     libradio_init E OILTANK_CAT1 OILTANK_CAT2 (mynum1 a) (mynum2 a);
     libradio_set_clock 10 160;
     libradio_recv_start E;
     libradio_irq_enable 1;
     modify_app (\<lambda>a. a\<lparr>tlsecs := 0\<rparr>);
     get_battery_voltage E;
     get_oil_level
   }"

text \<open>One turn of the loop of \<^verbatim>\<open>main\<close>.\<close>

definition oiltank_turn :: "('d, oiltank) env \<Rightarrow> ('d, oiltank, unit) op" where
  "oiltank_turn E = do {
     libradio_rxloop E;
     sec \<leftarrow> libradio_elapsed_second;
     when_op (sec \<noteq> 0) (do {
       modify_app (\<lambda>a. a\<lparr>tlsecs := tlsecs a + 1\<rparr>);
       a \<leftarrow> gets app;
       when_op (sint (tlsecs a) \<ge> 300) (do {
         get_battery_voltage E;
         get_oil_level;
         modify_app (\<lambda>a. a\<lparr>tlsecs := 0\<rparr>)
       })
     })
   }"

text \<open>The runs of the program from any contents of memory that has the right shape.\<close>

inductive oiltank_run :: "'d hw \<Rightarrow> ('d, oiltank) mcu \<Rightarrow> bool" for H where
  oiltank_boot: "mcu_ok w \<Longrightarrow> stopped w = None \<Longrightarrow>
    run_state (oiltank_start (oiltank_env H)) w = ((), w') \<Longrightarrow> oiltank_run H w'"
| oiltank_loop: "oiltank_run H w \<Longrightarrow> run_state (oiltank_turn (oiltank_env H)) w = ((), w') \<Longrightarrow>
    oiltank_run H w'"

lemmas oiltank_ops [op_defs] = modify_app_def oiltank_operate_def oiltank_fetch_status_def
  get_battery_voltage_def get_oil_level_def oiltank_start_def oiltank_turn_def

section \<open>The callbacks keep the library's contracts\<close>

lemma oiltank_env_sel [simp]:
  "e_operate (oiltank_env H) = oiltank_operate"
  "e_fetch_status (oiltank_env H) = oiltank_fetch_status"
  "e_power_mode (oiltank_env H) = libradio_power_mode"
  by (simp_all add: oiltank_env_def hw.defs env.defs)

lemma snd_oiltank_fetch [simp]: "snd (run_state (oiltank_fetch_status t buf n) w) = w"
  by (simp add: oiltank_fetch_status_def libradio_get_state_def Let_def)

interpretation tank: passive_client "oiltank_env H" for H :: "'d hw"
proof unfold_locales
  fix h :: u8 and p :: packet and t :: u8 and n :: nat and buf :: "u8 list" and w w' :: "('d, oiltank) mcu"
    and i :: int and buf' :: "u8 list"
  show "preserves safe (e_power_mode (oiltank_env H) h)" by (auto intro: keep_rules)
  show "preserves safe (e_operate (oiltank_env H) p)"
    by (auto simp: oiltank_operate_def intro!: keep_rules)
  show "safe w' \<and> length buf' = 16 \<and> i \<le> 16"
    if "safe w" "length buf = 16" "run_state (e_fetch_status (oiltank_env H) t buf 16) w = ((i, buf'), w')"
    using that snd_oiltank_fetch [of t buf 16 w]
    by (auto simp: oiltank_fetch_status_def libradio_get_state_def Let_def split: if_splits)
  show "keeps slow_view (e_power_mode (oiltank_env H) h)"
    by (auto simp: libradio_power_mode_def slow_view_def core_view_def intro!: keep_rules keeps_modify)
  show "r_period (snd (run_state (e_power_mode (oiltank_env H) h) w)) =
      (if h \<noteq> 0 then r_fast_period w else r_slow_period w)"
    by (simp add: libradio_power_mode_def)
  show "keeps core_view (e_operate (oiltank_env H) p)"
    by (auto simp: oiltank_operate_def intro!: keep_rules)
  show "keeps core_view (e_fetch_status (oiltank_env H) t buf n)"
    by (simp add: keeps_def)
qed

section \<open>Runs of the program\<close>

lemma init_state:
  assumes "run_state (libradio_init (oiltank_env H) c1 c2 n1 n2) w = ((), w')"
  shows "r_state w' = LIBRADIO_STATE_STARTUP \<and> r_tick_count w' = 5 \<and> r_main_ticks w' = 5 \<and>
    r_tens_of_minutes w' = 0xff \<and> (r_cat1 w', r_cat2 w', r_num1 w', r_num2 w') = (c1, c2, n1, n2) \<and>
    r_my_channel w' = 0 \<and> r_my_node_id w' = 0 \<and> r_radio_active w' = 0"
proof -
  let ?first = "do {
     modify (\<lambda>w. libradio.extend zero_libradio (libradio.more w));
     libradio_set_state (oiltank_env H) LIBRADIO_STATE_STARTUP;
     libradio_set_clock 1 16;
     modify (\<lambda>w. w\<lparr>r_period := r_fast_period w\<rparr>);
     modify (\<lambda>w. w\<lparr>r_tens_of_minutes := 0xff\<rparr>);
     modify (\<lambda>w. w\<lparr>r_tick_count := 5, r_main_ticks := 5\<rparr>);
     modify (\<lambda>w. w\<lparr>r_curr_state := SI4463_STATE_SLEEP\<rparr>);
     modify (\<lambda>w. w\<lparr>r_cat1 := c1, r_cat2 := c2, r_num1 := n1, r_num2 := n2\<rparr>);
     pkt_init }"
  obtain v where v: "run_state ?first w = ((), v)" by (rule unit_run)
  have run: "run_state (do { libradio_get_fifo_info (oiltank_env H) 3; State_Monad.return () }) v = ((), w')"
    using assms v by (auto simp: libradio_init_def split: prod.splits)
  have "keeps core_view (do { libradio_get_fifo_info (oiltank_env H) 3; State_Monad.return () })"
    by (intro keep_rules)
  from keeps_run [OF this run] have "core_view w' = core_view v" .
  moreover have "r_state v = 0 \<and> r_tick_count v = 5 \<and> r_main_ticks v = 5 \<and> r_tens_of_minutes v = 0xff \<and>
    (r_cat1 v, r_cat2 v, r_num1 v, r_num2 v) = (c1, c2, n1, n2) \<and> r_my_channel v = 0 \<and> r_my_node_id v = 0 \<and>
    r_radio_active v = 0"
    using v by (auto simp: libradio_set_state_def libradio_set_song_def songs_def libradio_power_mode_def
      libradio_set_clock_def pkt_init_def libradio.defs zero_libradio_def)
  ultimately show ?thesis by (simp add: core_view_def)
qed


lemma client_inv_app [keep_rules]: "preserves client_inv (modify_app f)"
  by (simp add: preserves_def modify_app_def client_inv_def)

lemma client_inv_sensors [keep_rules]:
  "preserves client_inv (get_battery_voltage E)" "preserves client_inv get_oil_level"
proof -
  have "preserves client_inv (State (\<lambda>w. case e_analog_read E 3 (dev w) of (v, d) \<Rightarrow> (v, w\<lparr>dev := d\<rparr>)))"
    by (auto simp: preserves_def client_inv_fields split: prod.splits)
  then show "preserves client_inv (get_battery_voltage E)"
    by (auto simp: get_battery_voltage_def intro!: keep_rules)
  show "preserves client_inv get_oil_level" by (auto simp: get_oil_level_def intro!: keep_rules)
qed

lemma client_inv_second [keep_rules]: "preserves client_inv libradio_elapsed_second"
  by (auto simp: preserves_def libradio_elapsed_second_def client_inv_def)

lemma start_client_inv:
  assumes "run_state (oiltank_start (oiltank_env H)) w = ((), w')"
  shows "client_inv w'"
proof -
  let ?E = "oiltank_env H"
  let ?tail = "do { libradio_recv_start ?E; libradio_irq_enable 1; modify_app (\<lambda>a. a\<lparr>tlsecs := 0\<rparr>);
     get_battery_voltage ?E; get_oil_level }"
  obtain n1 n2 u where "run_state (do { libradio_init ?E 0x7f 1 n1 n2; libradio_set_clock 10 160; ?tail }) u = ((), w')"
    using assms by (auto simp: oiltank_start_def setled_def modify_app_def eeprom_read_byte_def eeprom_write_byte_def
        split: prod.splits if_splits)
  then obtain v where v: "run_state (libradio_init ?E 0x7f 1 n1 n2) u = ((), v)" and
     t: "run_state ?tail (v\<lparr>r_period := 10, r_fast_period := 10, r_slow_period := 160\<rparr>) = ((), w')"
    by (auto simp: libradio_set_clock_def split: prod.splits)
  have i: "client_inv (v\<lparr>r_period := 10, r_fast_period := 10, r_slow_period := 160\<rparr>)"
    using init_state [OF v] by (simp add: client_inv_def)
  have "preserves client_inv ?tail" by (intro keep_rules)
  from preserves_run [OF this i t] show ?thesis .
qed

lemma turn_client_inv: "preserves client_inv (oiltank_turn (oiltank_env H))"
  by (auto simp: oiltank_turn_def intro!: keep_rules tank.rxloop_client_inv)

lemma oiltank_run_inv: "oiltank_run H w \<Longrightarrow> client_inv w"
proof (induction rule: oiltank_run.induct)
  case (oiltank_loop w w')
  then show ?case using preserves_run [OF turn_client_inv] by blast
qed (rule start_client_inv)

end
