(* ===== verification/Monitor.thy ===== *)
theory Monitor
  imports Client_Loop
begin

text \<open>
  The channel monitor, \<^verbatim>\<open>monitor/monitor.c\<close>: a client that prints every packet it hears.
  Its variable \<^verbatim>\<open>recvchan\<close> is the application state. Its \<^verbatim>\<open>libradio_power_mode\<close>
  keeps the clock at full speed, so it meets the contract \<open>client\<close> but not \<open>two_speed\<close>.
\<close>

section \<open>Operations\<close>

definition monitor_env :: "'d hw \<Rightarrow> ('d, channel) env" where
  "monitor_env H = hw.extend H
     (env.fields (\<lambda>pp. State_Monad.return ()) (\<lambda>status_type status maxlen. State_Monad.return (0, status))
        (\<lambda>hi_flag. State_Monad.return ()))"

definition hexdigit :: "nat \<Rightarrow> ('d, 'a, unit) op" where
  "hexdigit ch = printf [char_of ((if ch > 9 then ch + 7 else ch) + 48)]"

definition display_packet :: "channel \<Rightarrow> ('d, 'a, unit) op" where
  "display_packet ch = do {
     s \<leftarrow> gets (\<lambda>w. ''RX'' @ dec (unat (r_my_channel w)) @ '','' @ dec (unat (r_current_rssi w)) @ ''/'' @
       dec (unat (r_latch_rssi w)) @ '':'');
     printf s;
     when_op (node (ch_packet ch) > 5) (printf ''N?'');
     when_op (cmd (ch_packet ch) > 16) (printf ''C?'');
     when_op (unat (len (ch_packet ch)) > MAX_PAYLOAD_SIZE) (printf ''L?'');
     let n = PACKET_HEADER_LEN + (if unat (len (ch_packet ch)) > MAX_PAYLOAD_SIZE
       then MAX_PAYLOAD_SIZE else unat (len (ch_packet ch)));
     for_each [0..<n] (\<lambda>i. do {
       let value = packet_bytes (ch_packet ch) ! i;
       printf [if i = 6 then CHR ''.'' else CHR '' ''];
       hexdigit (unat (drop_bit 4 value AND 15));
       hexdigit (unat (value AND 15))
     });
     printf ''\<newline>''
   }"

definition monitor_start :: "('d, channel) env \<Rightarrow> ('d, channel, unit) op" where
  "monitor_start E = do {
     setled 1;
     modify (\<lambda>w. w\<lparr>tcnt1 := 0, ocr1a := 2499, tccr1a := 0, tccr1b := 0x0b, tccr1c := 0,
       timsk1 := 2\<rparr>);
     modify (\<lambda>w. w\<lparr>ubrr0 := 25, ucsr0b := 0x98, ucsr0c := 6\<rparr>);
     setled 0;
     printf ''\<newline>\<newline>Radio monitor v0.1.\<newline>'';
     libradio_init E 0 0 0 0;
     libradio_set_clock 1 1;
     libradio_irq_enable 1;
     modify (\<lambda>w. w\<lparr>r_curr_channel := 0, r_my_channel := 0\<rparr>);
     libradio_recv_start E;
     modify (\<lambda>w. w\<lparr>r_my_node_id := 0\<rparr>);
     libradio_set_state E LIBRADIO_STATE_ACTIVE;
     libradio_set_delay 100;
     c \<leftarrow> gets r_my_channel;
     printf (''Listening on channel '' @ dec (unat c) @ ''.\<newline>'')
   }"

text \<open>The inner loop of \<^verbatim>\<open>main\<close>: it runs while the radio reports a packet.\<close>

definition monitor_drain_step :: "('d, channel) env \<Rightarrow> ('d, channel, unit) op" where
  "monitor_drain_step E = do {
     ch \<leftarrow> gets app;
     c \<leftarrow> gets r_my_channel;
     (r, ch) \<leftarrow> libradio_recv E ch c;
     modify (\<lambda>w. w\<lparr>app := ch\<rparr>);
     when_op (r \<noteq> 0) (display_packet ch);
     libradio_get_fifo_info E 0;
     State_Monad.return ()
   }"

partial_function (option) monitor_drain ::
  "('d, channel) env \<Rightarrow> ('d, channel) mcu \<Rightarrow> ('d, channel) mcu option" where
  "monitor_drain E w =
     (if r_rx_fifo w \<ge> SI4463_PACKET_LEN
      then monitor_drain E (snd (run_state (monitor_drain_step E) w)) else Some w)"

declare monitor_drain.simps [code]

definition monitor_turn :: "('d, channel) env \<Rightarrow> ('d, channel, unit) op" where
  "monitor_turn E = do {
     irqf \<leftarrow> libradio_wait E;
     q \<leftarrow> gets sio_rxq;
     when_op (q \<noteq> []) (libradio_debug E);
     sec \<leftarrow> libradio_elapsed_second;
     tom \<leftarrow> gets r_tens_of_minutes;
     when_op (sec \<noteq> 0 \<and> tom > 143) (modify (\<lambda>w. w\<lparr>r_tens_of_minutes := 0\<rparr>));
     when_op (irqf \<noteq> 0) (do {
       libradio_get_fifo_info E 0;
       libradio_get_int_status E;
       libradio_get_modem_status E;
       libradio_irq_enable 1
     });
     modify (\<lambda>w. case monitor_drain E w of Some w' \<Rightarrow> w' | None \<Rightarrow> stop_with Diverges w)
   }"

lemmas monitor_ops [op_defs] = hexdigit_def display_packet_def monitor_start_def
  monitor_drain_step_def monitor_turn_def

section \<open>The callbacks keep the library's contracts\<close>

lemma monitor_env_sel [simp]:
  "e_operate (monitor_env H) = (\<lambda>pp. State_Monad.return ())"
  "e_fetch_status (monitor_env H) = (\<lambda>t b n. State_Monad.return (0, b))"
  "e_power_mode (monitor_env H) = (\<lambda>h. State_Monad.return ())"
  by (simp_all add: monitor_env_def hw.defs env.defs)

interpretation mon: client "monitor_env H" for H :: "'d hw"
  by unfold_locales (auto intro: keep_rules)

section \<open>The display\<close>

text \<open>The hexadecimal form of a byte, and its reading.\<close>

definition hex_byte :: "u8 \<Rightarrow> string" where
  "hex_byte b = map (\<lambda>d. char_of ((if d > 9 then d + 7 else d) + 48))
     [unat (drop_bit 4 b AND 15), unat (b AND 15)]"

definition unhex :: "char \<Rightarrow> nat" where
  "unhex c = (let n = of_char c :: nat in if n > 57 then n - 55 else n - 48)"

definition display_bytes :: "packet \<Rightarrow> string" where
  "display_bytes p = concat (map (\<lambda>i. (if i = 6 then CHR ''.'' else CHR '' '') # hex_byte (packet_bytes p ! i))
     [0..<frame_len p])"

lemma unhex_digit: "d < 16 \<Longrightarrow> unhex (char_of ((if d > 9 then d + 7 else d) + 48)) = d"
  by (auto simp: unhex_def Let_def)

lemma unhex_hex_byte: "16 * unhex (hex_byte b ! 0) + unhex (hex_byte b ! 1) = unat b"
proof -
  have n: "unat (drop_bit 4 b AND 15) = unat b div 16" "unat (b AND 15) = unat b mod 16"
  proof -
    have m: "(15::u8) = mask 4" by (simp add: mask_eq_exp_minus_1)
    show "unat (b AND 15) = unat b mod 16"
      by (simp only: m take_bit_eq_mask [symmetric] unsigned_take_bit_eq) (simp add: take_bit_eq_mod)
    have "unat b div 16 < 16" using u8_bound [of b] by simp
    then show "unat (drop_bit 4 b AND 15) = unat b div 16"
      by (simp only: m take_bit_eq_mask [symmetric] unsigned_take_bit_eq unsigned_drop_bit_eq)
        (simp add: take_bit_eq_mod drop_bit_eq_div)
  qed
  have "unat b div 16 < 16" using u8_bound [of b] by simp
  then show ?thesis by (simp add: hex_byte_def n unhex_digit del: char_of_nat)
qed

end
