(* ===== verification/Bench.thy ===== *)
theory Bench
  imports Oiltank Monitor
begin

text \<open>
  A concrete node for the witnesses: the memory as the C start-up code leaves it, and a radio chip
  that answers from a script and then with \<^verbatim>\<open>0xff\<close>.
\<close>

definition bench_hw :: "int list hw" where
  "bench_hw = \<lparr>e_spi_byte = (\<lambda>b d. case d of [] \<Rightarrow> (255, []) | k # ks \<Rightarrow> (k, ks)),
     e_ss = (\<lambda>_ d. d), e_analog_read = (\<lambda>_ d. (512, d)), e_sleep = (\<lambda>d. ([Timer1_CompA], d))\<rparr>"

definition bench :: "(int list, oiltank) env" where
  "bench = oiltank_env bench_hw"

definition cleared :: "'d \<Rightarrow> 'a \<Rightarrow> ('d, 'a) mcu" where
  "cleared d a = libradio.extend zero_libradio
     \<lparr>pkt_index = 0, pkt_send_len = 0, pkt_recv_len = 0, pkt_data = replicate 20 0, hbclock = 0,
      timer_count = 0, thread_ok = 0, elapsed_second = 0, irq_fired = 0, rxchan = zero_channel,
      txchan = zero_channel, statusbuffer = replicate 16 0, eeprom = (\<lambda>_. 0xff), portb = 2,
      portc = 0, portd = 0, ddrb = 0xee, ddrc = 0x37, ddrd = 0xfa, tcnt1 = 0, ocr1a = 0,
      tccr1a = 0, tccr1b = 0, tccr1c = 0, timsk1 = 0, eicra = 0, eimsk = 0, ubrr0 = 0,
      ucsr0b = 0, ucsr0c = 0, mcusr = 0, sio_rxq = [], out = [], spi_log = [], stopped = None,
      dev = d, app = a\<rparr>"

definition bench_state :: "int list \<Rightarrow> (int list, oiltank) mcu" where
  "bench_state d = (cleared d \<lparr>mynum1 = 0, mynum2 = 1, battery_voltage = 512, oil_level = 800, tlsecs = 0\<rparr>)
     \<lparr>r_state := 6, r_slow_period := 16, r_fast_period := 1, r_period := 1, r_tick_count := 5,
      r_main_ticks := 5, r_radio_active := 1, r_my_channel := 2, r_my_node_id := 7, r_cat1 := 0x7f,
      r_cat2 := 1, r_num2 := 1\<rparr>"

definition bench_packet :: "u8 \<Rightarrow> u8 list \<Rightarrow> packet" where
  "bench_packet c bs = \<lparr>ticks = 0, node = 7, cmd = c, len = word_of_nat (length bs), csum = 0,
     data = bs @ replicate (10 - length bs) 0\<rparr>"

text \<open>The answers of a chip that is ready, has room, and takes a packet and the start command.\<close>

definition ready_chip :: "int list" where
  "ready_chip = [0, 0, 255, 3, 2] @ [0, 0, 0, 255, 0, 64] @ replicate 17 0 @ replicate 5 0 @ [0, 255]"

lemmas bench_defs = bench_hw_def bench_def cleared_def bench_state_def bench_packet_def
  oiltank_env_def libradio.defs hw.defs env.defs zero_libradio_def zero_channel_def zero_packet_def

section \<open>Lemmas\<close>

lemma bench_serves: "dev_serves bench bs (map uint bs @ ks)"
  by (induction bs) (simp_all add: bench_defs)

lemma bench_sel [simp]:
  "e_spi_byte bench b (k # ks) = (k, ks)" "e_spi_byte bench b [] = (255, [])" "e_ss bench x d = d"
  "e_sleep bench d = ([Timer1_CompA], d)" "e_analog_read bench c d = (512, d)"
  by (simp_all add: bench_defs)

lemma bench_state_sel [simp]:
  "dev (bench_state d) = d" "stopped (bench_state d) = None" "r_state (bench_state d) = 6"
  "mcu_ok (bench_state d)" "r_ms_ticks (bench_state d) = 0"
  by (simp_all add: bench_defs mcu_ok_def channel_ok_def packet_ok_def)

lemma bench_safe: "safe (bench_state d)"
  by (simp add: safe_def) (simp add: bench_defs)

lemma bench_packet_ok: "length bs \<le> 10 \<Longrightarrow> packet_ok (bench_packet c bs)"
  by (simp add: bench_packet_def packet_ok_def)

text \<open>The script of the bench is finite, so its radio leaves the transmit state.\<close>

definition script_le :: "nat \<Rightarrow> (int list, 'a) mcu \<Rightarrow> bool" where
  "script_le n w \<longleftrightarrow> length (dev w) \<le> n"

lemma bench_spi_dev: "dev (snd (run_state (spi_byte bench b) w)) = tl (dev w)"
  by (cases "dev w") simp_all

lemma script_le_primitives [keep_rules]:
  "preserves (script_le n) (pkt_store i v)" "preserves (script_le n) (pkt_load i)"
  "preserves (script_le n) (setss bench x)" "preserves (script_le n) (spi_byte bench b)"
  "preserves (script_le n) (pkt_error c)"
proof -
  show "preserves (script_le n) (spi_byte bench b)"
    by (auto simp: preserves_def script_le_def bench_spi_dev simp del: run_spi_byte)
qed (auto simp: preserves_def script_le_def pkt_store_def pkt_load_def pkt_error_def stop_with_def split: option.splits)

lemma script_le_loops [keep_rules]:
  "preserves (script_le n) (pkt_write_loop bench is)" "preserves (script_le n) (pkt_read_loop bench js)"
proof -
  show "preserves (script_le n) (pkt_write_loop bench is)" by (induction "is") (auto intro!: keep_rules)
  show "preserves (script_le n) (pkt_read_loop bench js)" by (induction js) (auto intro!: keep_rules)
qed

lemma script_le_poll [keep_rules]: "preserves (script_le n) (pkt_poll_loop bench rl k)"
  by (induction k) (auto intro!: keep_rules)

lemma bench_exhausted:
  assumes "safe w" "dev w = []"
  shows "fst (run_state (libradio_request_device_status bench) w) = 255"
proof -
  let ?w = "w\<lparr>pkt_data := (pkt_data w)[0 := 0x33]\<rparr>"
  have l: "length (pkt_data w) = 20" using assms by (simp add: safe_simps)
  have n: "unat (2::u8) = Suc (Suc 0)" by simp
  have m: "MAX_COUNT = Suc 999" by (simp add: MAX_COUNT_def)
  have wr: "fst (dev_write bench bs []) \<and> snd (snd (dev_write bench bs [])) = []" for bs
    by (induction bs) (auto split: prod.splits)
  obtain lg where "dev_write bench (take (unat (1::u8)) (pkt_data ?w)) [] = (True, lg, [])"
    using wr by (metis prod.collapse)
  then have "\<exists>l. dev_transact bench (take (unat (1::u8)) (pkt_data ?w)) (unat (2::u8)) [] = (0, [255, 255], l, [])"
    unfolding dev_transact_def m dev_poll.simps n by simp
  then show ?thesis
    using pkt_send_refines [of 1 ?w 2 bench] l assms
    by (auto simp: libradio_request_device_status_def)
qed

text \<open>A command of one byte: after the first byte the device decides how it goes on.\<close>

lemma run_send_one:
  assumes "0 < length (pkt_data w)"
  shows "run_state (pkt_send E 1 rl) w =
    (let v = snd (run_state (setss E 1) w); k = run_state (spi_byte E (pkt_data w ! 0)) v in
      run_state (if fst k = -1 then do { setss E 0; State_Monad.return SPI_SEND_WRITE_FAIL }
        else do { setss E 0; pkt_poll_loop E rl MAX_COUNT }) (snd k))"
proof -
  have u: "unat (1::u8) = Suc 0" by simp
  show ?thesis using assms unfolding pkt_send_def u Let_def
    by (simp add: pkt_load_def case_prod_beta)
qed

lemma bench_tx_ends: "tx_ends bench"
  unfolding tx_ends_def
proof (intro allI impI tx_busy_wait_ends [where \<mu> = "\<lambda>v. length (dev v)"])
  fix v v' :: "(int list, oiltank) mcu"
  assume s: "safe v" and r: "run_state (libradio_request_device_status bench) v = (uint (7::u8), v')"
  have ne: "dev v \<noteq> []" using bench_exhausted [OF s] r by auto
  have l: "length (pkt_data v) = 20" using s by (simp add: safe_simps)
  let ?v = "snd (run_state (setss bench 1) (v\<lparr>pkt_data := (pkt_data v)[0 := 0x33]\<rparr>))"
  let ?u = "snd (run_state (spi_byte bench 0x33) ?v)"
  let ?K = "\<lambda>i. if i \<noteq> SPI_SEND_OK then do { pkt_error i; State_Monad.return (-1) }
     else do {
       b1 \<leftarrow> pkt_load 1;
       modify (\<lambda>w. w\<lparr>r_curr_channel := b1\<rparr>);
       b0 \<leftarrow> pkt_load 0;
       modify (\<lambda>w. w\<lparr>r_curr_state := b0\<rparr>);
       State_Monad.return (uint b0) }"
  let ?m = "\<lambda>bad. do { i \<leftarrow> (if bad then do { setss bench 0; State_Monad.return SPI_SEND_WRITE_FAIL }
     else do { setss bench 0; pkt_poll_loop bench 2 MAX_COUNT }); ?K i }"
  have d: "pkt_data ?v = (pkt_data v)[0 := 0x33]" "dev ?v = dev v" by simp_all
  have eq: "run_state (libradio_request_device_status bench) v =
      run_state (?m (fst (run_state (spi_byte bench 0x33) ?v) = -1)) ?u"
    using l d unfolding libradio_request_device_status_def
    by (simp add: run_send_one case_prod_beta Let_def del: run_setss run_spi_byte)
  have p: "preserves (script_le (length (dev v) - 1)) (?m bad)" for bad
    by (auto simp: script_le_def intro!: keep_rules preserves_modify)
  have "script_le (length (dev v) - 1) ?u"
    using bench_spi_dev [of "0x33" ?v] d by (simp add: script_le_def del: run_spi_byte run_setss)
  note u = this
  have "v' = snd (run_state (?m (fst (run_state (spi_byte bench 0x33) ?v) = -1)) ?u)"
    unfolding eq [symmetric] r by (rule snd_conv [symmetric])
  then have "script_le (length (dev v) - 1) v'"
    by (simp only: preservesD [OF p u])
  then show "length (dev v') < length (dev v)"
    using ne by (cases "dev v") (simp_all add: script_le_def)
qed

end
