(* ===== verification/Bus_Commands.thy ===== *)
theory Bus_Commands
  imports Command
begin

text \<open>
  Which commands the radio chip is given. \<open>bus_commands\<close> reads them off the record of the SPI bus: the first byte of
  each exchange. A transmission takes two of them, one that fills the transmit FIFO and one that starts
  (\<open>tx_events_commands\<close>); \<open>untransmitted\<close> says that neither was given since a point in the past.

  The lemmas show that the operations that ask the chip for its state, configure it, or make it receive keep
  \<open>untransmitted\<close>, and with that what becomes of a response that is too long.
\<close>

section \<open>The commands on the bus\<close>

text \<open>The commands given to the chip: the first byte of each exchange on the bus.\<close>

fun bus_commands :: "spi_event list \<Rightarrow> u8 list" where
  "bus_commands [] = []"
| "bus_commands (e # l) = (case (e, l) of (SS True, Sent b # _) \<Rightarrow> [b] | _ \<Rightarrow> []) @ bus_commands l"

definition closed :: "spi_event list \<Rightarrow> bool" where
  "closed l \<longleftrightarrow> l = [] \<or> last l \<noteq> SS True"

text \<open>Nothing is put into the transmit FIFO, and no transmission is started.\<close>

definition no_tx :: "spi_event list \<Rightarrow> bool" where
  "no_tx l \<longleftrightarrow> SI4463_WRITE_TX_FIFO \<notin> set (bus_commands l) \<and> SI4463_START_TX \<notin> set (bus_commands l)"

text \<open>Since a point in the past nothing has been transmitted; and a command is in the buffer that does not transmit.\<close>

definition untransmitted :: "spi_event list \<Rightarrow> ('d, 'a) mcu \<Rightarrow> bool" where
  "untransmitted L w \<longleftrightarrow> length (pkt_data w) = 20 \<and> (\<exists>l. spi_log w = L @ l \<and> closed l \<and> no_tx l)"

definition loaded :: "spi_event list \<Rightarrow> ('d, 'a) mcu \<Rightarrow> bool" where
  "loaded L w \<longleftrightarrow> untransmitted L w \<and> pkt_data w ! 0 \<noteq> SI4463_WRITE_TX_FIFO \<and> pkt_data w ! 0 \<noteq> SI4463_START_TX"

text \<open>The configuration has no command that transmits.\<close>

function config_no_tx :: "u8 list \<Rightarrow> bool" where
  "config_no_tx [] = False"
| "config_no_tx (n # rest) =
     (n = 0 \<or> (unat n \<le> length rest \<and> unat n \<le> 20 \<and> rest ! 0 \<noteq> SI4463_WRITE_TX_FIFO \<and> rest ! 0 \<noteq> SI4463_START_TX \<and>
        config_no_tx (drop (unat n) rest)))"
  by pat_completeness auto
termination
  by (relation "measure length") auto

section \<open>One exchange\<close>

lemma bus_commands_Sent [simp]: "bus_commands (map Sent bs @ l) = bus_commands l"
  by (induction bs) simp_all

lemma closed_simps [simp]: "closed []" "closed (l @ [SS False])" "closed (l @ [Sent b])"
  by (simp_all add: closed_def)

lemma bus_commands_append: "closed a \<Longrightarrow> bus_commands (a @ b) = bus_commands a @ bus_commands b"
proof (induction a)
  case (Cons e l)
  show ?case
  proof (cases l)
    case Nil
    then have "e \<noteq> SS True" using Cons.prems by (simp add: closed_def)
    then show ?thesis using Nil by (cases e) simp_all
  next
    case l: (Cons f k)
    then have "closed l" using Cons.prems by (simp add: closed_def)
    then have "bus_commands (l @ b) = bus_commands l @ bus_commands b" by (rule Cons.IH)
    then show ?thesis unfolding append_Cons bus_commands.simps(2) [of e] by (simp add: l del: bus_commands.simps split: spi_event.split bool.split)
  qed
qed simp

lemma closed_append: "closed a \<Longrightarrow> closed b \<Longrightarrow> closed (a @ b)"
  by (cases "b = []") (auto simp: closed_def)

lemma no_tx_append: "closed a \<Longrightarrow> no_tx a \<Longrightarrow> no_tx b \<Longrightarrow> no_tx (a @ b)"
  by (simp add: no_tx_def bus_commands_append)

lemma dev_write_log: "dev_write E bs d = (ok, l, d') \<Longrightarrow> \<exists>n. l = map Sent (take n bs) \<and> (bs \<noteq> [] \<longrightarrow> 0 < n)"
proof (induction bs arbitrary: d ok l d')
  case (Cons b bs)
  obtain k d1 where k: "e_spi_byte E b d = (k, d1)" by fastforce
  obtain ok2 l2 d2 where r: "dev_write E bs d1 = (ok2, l2, d2)" using prod_cases3 by blast
  from Cons.IH [OF r] obtain n where "l2 = map Sent (take n bs)" by blast
  then show ?case using Cons.prems k r by (cases "k = -1") (auto intro: exI [of _ 1] exI [of _ "Suc n"])
qed simp

lemma dev_read_log: "dev_read E n d = (ok, rs, l, d') \<Longrightarrow> \<exists>m. l = map Sent (replicate m 0xff)"
proof (induction n arbitrary: d ok rs l d')
  case (Suc n)
  obtain k d1 where k: "e_spi_byte E 0xff d = (k, d1)" by fastforce
  obtain ok2 rs2 l2 d2 where r: "dev_read E n d1 = (ok2, rs2, l2, d2)" using prod_cases4 by blast
  from Suc.IH [OF r] obtain m where "l2 = map Sent (replicate m 0xff)" by blast
  then show ?case using Suc.prems k r by (cases "k < 0") (auto intro: exI [of _ 1] exI [of _ "Suc m"])
qed simp

lemma dev_poll_log: "dev_poll E rl n d = (c, rs, l, d') \<Longrightarrow> closed l \<and> no_tx l"
proof (induction n arbitrary: d c rs l d')
  case 0
  then show ?case by (simp add: no_tx_def)
next
  case (Suc n)
  obtain k d1 where k: "e_spi_byte E 0x44 (e_ss E True d) = (k, d1)" by fastforce
  obtain k' d2 where k': "e_spi_byte E 0xff d1 = (k', d2)" by fastforce
  obtain ok rs1 l1 d3 where r: "dev_read E rl d2 = (ok, rs1, l1, d3)" using prod_cases4 by blast
  obtain c2 rs2 l2 d4 where q: "dev_poll E rl n (e_ss E False d2) = (c2, rs2, l2, d4)" using prod_cases4 by blast
  from dev_read_log [OF r] obtain m where m: "l1 = map Sent (replicate m 0xff)" by blast
  have one: "closed (SS True # Sent 0x44 # map Sent bs @ [SS False]) \<and> no_tx (SS True # Sent 0x44 # map Sent bs @ [SS False])" for bs
    by (simp add: closed_def no_tx_def)
  have s: "l \<in> {[SS True, Sent 0x44, SS False], [SS True, Sent 0x44, Sent 0xff, SS False],
      [SS True, Sent 0x44, Sent 0xff] @ l1 @ [SS False], [SS True, Sent 0x44, Sent 0xff, SS False] @ l2}"
    using Suc.prems k k' r q by (auto split: if_splits)
  moreover have "closed l2 \<and> no_tx l2" by (rule Suc.IH [OF q])
  ultimately show ?case
    using one [of "[]"] one [of "[0xff]"] one [of "0xff # replicate m 0xff"] closed_append [of "[SS True, Sent 0x44, Sent 0xff, SS False]" l2]
      no_tx_append [of "[SS True, Sent 0x44, Sent 0xff, SS False]" l2] m by auto
qed

lemma dev_transact_log:
  assumes "dev_transact E (b # bs) rl d = (c, rs, l, d')" "b \<noteq> SI4463_WRITE_TX_FIFO" "b \<noteq> SI4463_START_TX"
  shows "closed l \<and> no_tx l"
proof -
  obtain ok l1 d1 where wr: "dev_write E (b # bs) (e_ss E True d) = (ok, l1, d1)" using prod_cases3 by blast
  obtain c2 rs2 l2 d2 where q: "dev_poll E rl MAX_COUNT (e_ss E False d1) = (c2, rs2, l2, d2)" using prod_cases4 by blast
  from dev_write_log [OF wr] obtain n where n: "l1 = map Sent (take n (b # bs))" "0 < n" by blast
  then obtain xs where l1: "l1 = Sent b # map Sent xs" by (cases n) auto
  have "closed ([SS True] @ l1 @ [SS False]) \<and> no_tx ([SS True] @ l1 @ [SS False])"
    using assms(2,3) by (simp add: l1 closed_def no_tx_def)
  moreover have "l = [SS True] @ l1 @ [SS False] \<or> l = ([SS True] @ l1 @ [SS False]) @ l2"
    using assms(1) wr q by (auto simp: dev_transact_def split: if_splits)
  ultimately show ?thesis using dev_poll_log [OF q] closed_append no_tx_append by metis
qed

lemma tx_events_commands: "bus_commands (tx_events p c a) = [SI4463_WRITE_TX_FIFO, SI4463_START_TX]"
  by (simp add: tx_events_def)

section \<open>Operations that do not transmit\<close>

lemma untransmitted_keeps: "keeps (\<lambda>w. (pkt_data w, spi_log w)) m \<Longrightarrow> preserves (untransmitted L) m"
  by (simp add: keeps_def preserves_def untransmitted_def)

lemma load_command: "b \<noteq> SI4463_WRITE_TX_FIFO \<Longrightarrow> b \<noteq> SI4463_START_TX \<Longrightarrow> ensures (untransmitted L) (pkt_store 0 b) (\<lambda>_. loaded L)"
  by (simp add: ensures_def loaded_def untransmitted_def)

lemma load_data: "0 < i \<Longrightarrow> ensures (loaded L) (pkt_store i b) (\<lambda>_. loaded L)"
  by (auto simp: ensures_def loaded_def untransmitted_def pkt_store_def stop_with_def split: option.splits)

lemma loaded_send:
  fixes E :: "('d, 'a) env"
  assumes "0 < unat sl" "unat sl \<le> 20" "unat rl \<le> 20"
  shows "ensures (loaded L) (pkt_send E sl rl) (\<lambda>_. untransmitted L)"
  unfolding ensures_def
proof (intro allI impI)
  fix w :: "('d, 'a) mcu" assume w: "loaded L w"
  then have len: "length (pkt_data w) = 20" by (simp add: loaded_def untransmitted_def)
  then obtain b bs where bs: "take (unat sl) (pkt_data w) = b # bs" "b = pkt_data w ! 0"
    using assms(1) by (cases "pkt_data w"; cases "unat sl") auto
  obtain c rs l d where t: "dev_transact E (b # bs) (unat rl) (dev w) = (c, rs, l, d)" using prod_cases4 by blast
  have "closed l \<and> no_tx l" using dev_transact_log [OF t] w bs by (simp add: loaded_def)
  moreover have "run_state (pkt_send E sl rl) w = (c, w\<lparr>pkt_data := rs @ drop (length rs) (pkt_data w),
      portb := Bit_Operations.set_bit 1 (portb w), spi_log := spi_log w @ l, dev := d\<rparr>)"
    using pkt_send_refines [of sl w rl E] assms len t by (simp add: bs(1))
  moreover have "length (pkt_data (snd (run_state (pkt_send E sl rl) w))) = 20"
    using keepsD [OF keeps_room_send [of E sl rl], of w] len by simp
  ultimately show "untransmitted L (snd (run_state (pkt_send E sl rl) w))"
    using w closed_append no_tx_append by (fastforce simp: loaded_def untransmitted_def)
qed

lemma untransmitted_primitives [keep_rules]:
  "preserves (untransmitted L) (printf s)" "preserves (untransmitted L) (pkt_load i)" "preserves (untransmitted L) (pkt_error c)"
  by (auto simp: preserves_def untransmitted_def pkt_load_def pkt_error_def stop_with_def split: option.splits)

lemma untransmitted_modify:
  "(\<And>w. pkt_data (f w) = pkt_data w \<and> spi_log (f w) = spi_log w) \<Longrightarrow> preserves (untransmitted L) (modify f)"
  by (simp add: preserves_def untransmitted_def)

lemma command_starts:
  "b \<noteq> SI4463_WRITE_TX_FIFO \<Longrightarrow> b \<noteq> SI4463_START_TX \<Longrightarrow> ensures (loaded L) m (\<lambda>_. untransmitted L) \<Longrightarrow>
    preserves (untransmitted L) (do { pkt_store 0 b; m })"
  by (rule ensures_preserved, rule ensures_bind [OF load_command])

lemma command_goes_on:
  "0 < i \<Longrightarrow> ensures (loaded L) m (\<lambda>_. untransmitted L) \<Longrightarrow> ensures (loaded L) (do { pkt_store i b; m }) (\<lambda>_. untransmitted L)"
  by (rule ensures_bind [OF load_data])

lemma command_ends:
  "0 < unat sl \<Longrightarrow> unat sl \<le> 20 \<Longrightarrow> unat rl \<le> 20 \<Longrightarrow> (\<And>i. preserves (untransmitted L) (k i)) \<Longrightarrow>
    ensures (loaded L) (do { i \<leftarrow> pkt_send E sl rl; k i }) (\<lambda>_. untransmitted L)"
  by (rule ensures_bind [OF loaded_send]) (auto intro: ensures_preserves)

lemmas exchange_rules = command_goes_on command_ends keep_rules untransmitted_modify

lemma untransmitted_device_status [keep_rules]: "preserves (untransmitted L) (libradio_request_device_status E)"
  unfolding chip_ops by (rule command_starts) (auto intro!: exchange_rules)

lemma untransmitted_part_info [keep_rules]: "preserves (untransmitted L) (libradio_get_part_info E)"
  unfolding chip_ops by (rule command_starts) (auto intro!: exchange_rules)

lemma untransmitted_func_info [keep_rules]: "preserves (untransmitted L) (libradio_get_func_info E)"
  unfolding chip_ops by (rule command_starts) (auto intro!: exchange_rules)

lemma untransmitted_chip_status [keep_rules]: "preserves (untransmitted L) (libradio_get_chip_status E)"
  unfolding chip_ops by (rule command_starts) (auto intro!: exchange_rules)

lemma untransmitted_fifo_info [keep_rules]: "preserves (untransmitted L) (libradio_get_fifo_info E c)"
  unfolding chip_ops by (rule command_starts) (auto intro!: exchange_rules)

lemma untransmitted_int_status [keep_rules]: "preserves (untransmitted L) (libradio_get_int_status E)"
  unfolding chip_ops by (rule command_starts) (auto intro!: exchange_rules)

lemma untransmitted_set_rx [keep_rules]: "preserves (untransmitted L) (libradio_set_rx E c)"
  unfolding libradio_set_rx_def by (rule command_starts) (auto intro!: exchange_rules)

lemma radio_config_no_tx: "config_no_tx radio_config"
  by (simp add: radio_config_def rf_defs)

lemma untransmitted_config: "config_no_tx c \<Longrightarrow> preserves (untransmitted L) (config_loop E c)"
proof (induction c rule: config_no_tx.induct)
  case (2 n rest)
  show ?case
  proof (cases "n = 0")
    case False
    then have n: "0 < unat n" "unat n \<le> length rest" "unat n \<le> 20" "rest ! 0 \<noteq> 0x66" "rest ! 0 \<noteq> 0x31"
      and IH: "preserves (untransmitted L) (config_loop E (drop (unat n) rest))"
      using 2 by (auto simp: unat_gt_0)
    have err: "preserves (untransmitted L) (libradio_set_state E LIBRADIO_STATE_ERROR)"
      by (rule untransmitted_keeps)
        (auto simp: keeps_def libradio_set_state_def libradio_set_song_def songs_def div_by_def libradio_set_delay_def stop_with_def
          split: option.splits)
    have up: "[0..<unat n] = 0 # [1..<unat n]" using n(1) by (simp add: upt_conv_Cons del: upt.simps)
    have "preserves (loaded L) (for_each [1..<unat n] (\<lambda>i. pkt_store i (rest ! i)))"
      by (rule preserves_for_each_bounded, rule ensures_preserved, rule load_data) simp
    then have fill: "ensures (untransmitted L) (for_each [0..<unat n] (\<lambda>i. pkt_store i (rest ! i))) (\<lambda>_. loaded L)"
      unfolding up for_each.simps using n(4,5) by (intro ensures_bind [OF load_command] ensures_preserves)
    have "(n = 0) = False" "(length rest < unat n) = False" using False n(2) by simp_all
    then show ?thesis unfolding config_loop.simps using n(1,3)
      by (simp only: if_False)
        (rule ensures_preserved, rule ensures_bind [OF fill], rule command_ends; auto intro!: keep_rules IH err)
  qed (auto intro!: keep_rules)
qed simp

lemma untransmitted_power_up [keep_rules]: "preserves (untransmitted L) (libradio_power_up E)"
  unfolding libradio_power_up_def libradio_ircal_def
  by (intro keep_rules untransmitted_config [OF radio_config_no_tx] untransmitted_modify) simp

lemma untransmitted_recv_start [keep_rules]: "preserves (untransmitted L) (libradio_recv_start E)"
  unfolding libradio_recv_start_def by (intro keep_rules untransmitted_modify) simp

lemma untransmitted_await [keep_rules]: "preserves (untransmitted L) (await_tx_end E)"
proof (unfold preserves_def, intro allI impI)
  fix w :: "('a, 'b) mcu" assume w: "untransmitted L w"
  show "untransmitted L (snd (run_state (await_tx_end E) w))"
  proof (cases "tx_busy_wait E w")
    case (Some w')
    have "untransmitted L w'"
      by (rule tx_busy_wait_keeps [where P = "untransmitted L", OF _ Some w]) (rule preserves_run [OF untransmitted_device_status])
    then show ?thesis using Some by (simp add: await_tx_end_def)
  next
    case None
    then show ?thesis using w by (simp add: await_tx_end_def untransmitted_def stop_with_def split: option.splits)
  qed
qed

lemma untransmitted_send:
  assumes "10 < unat (len (ch_packet ch))"
  shows "preserves (untransmitted L) (libradio_send E ch c)"
proof -
  have x: "libradio_txpacket E ch = State_Monad.return (0, ch)" using assms by (simp add: libradio_txpacket_def)
  show ?thesis unfolding libradio_send_def libradio_check_tx_def x
    by (simp only: State_Monad.bind_left_identity prod.case if_True simp_thms) (intro keep_rules)
qed

lemma send_response_too_long:
  assumes ok: "mcu_ok w" "length buf = 16" "10 < unat n"
    and run: "run_state (libradio_send_response E c chan a n buf) w = ((), w')"
  shows "ch_state (txchan w') = LIBRADIO_CHSTATE_TRANSMIT \<and> len (ch_packet (txchan w')) = n \<and>
    (\<exists>l. spi_log w' = spi_log w @ l \<and> no_tx l)"
proof -
  let ?ch = "response_set c a n buf (txchan w)"
  obtain v where s: "run_state (libradio_send E ?ch chan) (w\<lparr>txchan := ?ch\<rparr>) = ((0, ?ch), v)"
    using send_too_long [of ?ch E chan] ok(3) by (metis prod.collapse response_set_len)
  let ?m = "do { await_tx_end E; libradio_recv_start E; State_Monad.return () }"
  have m: "run_state ?m (v\<lparr>txchan := ?ch\<rparr>) = ((), w')"
    using run run_send_response [OF ok(1,2) s] by simp
  have "keeps buffers ?m" by (intro keep_rules keeps_buffers_await keeps_buffers_recv_start)
  from keeps_run [OF this m] have "ch_state (txchan w') = 4" "len (ch_packet (txchan w')) = n"
    by (simp_all add: buffers_def response_set_def)
  moreover have "untransmitted (spi_log w) w'"
  proof (rule preserves_run [OF _ _ m])
    show "preserves (untransmitted (spi_log w)) ?m" by (intro keep_rules)
    have "untransmitted (spi_log w) (w\<lparr>txchan := ?ch\<rparr>)"
      using ok(1) by (simp add: untransmitted_def mcu_ok_def no_tx_def)
    then have "untransmitted (spi_log w) v"
      using preserves_run [OF untransmitted_send _ s] ok(3) by simp
    then show "untransmitted (spi_log w) (v\<lparr>txchan := ?ch\<rparr>)" by (simp add: untransmitted_def)
  qed
  ultimately show ?thesis by (auto simp: untransmitted_def)
qed

end
