(* ===== verification/Library_Theorems.thy ===== *)
theory Library_Theorems
  imports Bench Bus_Commands
begin

text \<open>
  The properties of the client library, \<^verbatim>\<open>lib/\<close>, with their witnesses.
\<close>

section \<open>Packets over the air\<close>

text \<open>C1: A packet that one node hands to \<open>libradio_txpacket\<close> and that another node's FIFO then holds
  is received with the same address, command, length and payload, stamped with the sender's clock;
  it passes the checksum, and unless it is a response it sets the receiver's clock.\<close>

theorem packet_round_trip:
  assumes "packet_ok (ch_packet ch)" "unat (len (ch_packet ch)) \<le> 10" "packet_ok (ch_packet ch')"
    and "run_state (libradio_txpacket E ch) w = ((ok, sent), w')"
    and "16 \<le> unat (r_rx_fifo v)"
    and "dev_serves E' (frame (ch_packet sent)) (snd (e_spi_byte E' 0x77 (e_ss E' True (dev v))))"
    and "run_state (libradio_rxpacket E' ch') v = ((r, got), v')"
  shows "ok = 1 \<and> r = 1 \<and> node (ch_packet got) = node (ch_packet ch) \<and>
     cmd (ch_packet got) = cmd (ch_packet ch) \<and> len (ch_packet got) = len (ch_packet ch) \<and>
     take (unat (len (ch_packet ch))) (data (ch_packet got)) =
       take (unat (len (ch_packet ch))) (data (ch_packet ch)) \<and>
     ticks (ch_packet got) = r_ms_ticks w \<and>
     r_ms_ticks v' = (if cmd (ch_packet ch) < RADIO_STATUS_RESPONSE then r_ms_ticks w else r_ms_ticks v)"
proof -
  let ?p = "stamped (r_ms_ticks w) (ch_packet ch)"
  have s: "ok = 1" "ch_packet sent = ?p"
    using run_txpacket [OF assms(1,2), of E w] assms(4) by auto
  have srv: "dev_serves E' (frame ?p) (snd (e_spi_byte E' 0x77 (e_ss E' True (dev v))))"
    using assms(6) s by simp
  from air_round_trip [OF assms(1-3,5) srv assms(7)] s(1) assms(1,2) show ?thesis
    by (auto simp: packet_ok_def)
qed

lemma packet_round_trip_witness:
  "\<exists>got v'. run_state (libradio_rxpacket bench zero_channel)
       ((bench_state (0 # map uint (frame (stamped 1000 (bench_packet 5 [42])))))\<lparr>r_rx_fifo := 16\<rparr>) = ((1, got), v') \<and>
     cmd (ch_packet got) = 5 \<and> take 1 (data (ch_packet got)) = [42] \<and> r_ms_ticks v' = 1000"
proof -
  let ?ch = "zero_channel\<lparr>ch_packet := bench_packet 5 [42]\<rparr>"
  let ?w = "(bench_state [])\<lparr>r_ms_ticks := 1000\<rparr>"
  let ?v = "(bench_state (0 # map uint (frame (stamped 1000 (bench_packet 5 [42])))))\<lparr>r_rx_fifo := 16\<rparr>"
  have ok: "packet_ok (ch_packet ?ch)" "unat (len (ch_packet ?ch)) \<le> 10" "packet_ok (ch_packet zero_channel)"
    by (simp_all add: bench_packet_ok bench_packet_def packet_ok_def zero_channel_def zero_packet_def)
  obtain w' where tx: "run_state (libradio_txpacket bench ?ch) ?w =
      ((1, ?ch\<lparr>ch_packet := stamped 1000 (bench_packet 5 [42])\<rparr>), w')"
    using run_txpacket [OF ok(1,2), of bench ?w] by auto
  obtain r got v' where rx: "run_state (libradio_rxpacket bench zero_channel) ?v = ((r, got), v')"
    by (metis prod.collapse)
  have fifo: "16 \<le> unat (r_rx_fifo ?v)" by simp
  have srv: "dev_serves bench (frame (ch_packet (?ch\<lparr>ch_packet := stamped 1000 (bench_packet 5 [42])\<rparr>)))
      (snd (e_spi_byte bench 0x77 (e_ss bench True (dev ?v))))"
    using bench_serves [of _ "[]"] by simp
  from packet_round_trip [OF ok tx fifo srv rx] rx show ?thesis
    by (simp add: bench_packet_def)
qed

text \<open>C2: If one byte of a frame other than its length byte is altered on the way, the receiver
  rejects the packet and does not set its clock from it. The rejected packet is left in the buffer as it
  came: its command and its checksum are those of the altered frame.\<close>

theorem corruption_detected:
  assumes "packet_ok p" "unat (len p) \<le> 10" "packet_ok (ch_packet ch)"
    and "i < frame_len p" "i \<noteq> 4" "b \<noteq> frame (stamped now p) ! i"
    and "16 \<le> unat (r_rx_fifo w)"
    and "dev_serves E ((frame (stamped now p))[i := b]) (snd (e_spi_byte E 0x77 (e_ss E True (dev w))))"
    and "run_state (libradio_rxpacket E ch) w = ((r, got), w')"
  shows "r = 0 \<and> r_ms_ticks w' = r_ms_ticks w \<and>
    cmd (ch_packet got) = (frame (stamped now p))[i := b] ! 3 \<and> csum (ch_packet got) = (frame (stamped now p))[i := b] ! 5"
proof -
  let ?p = "stamped now p" and ?bs = "frame (stamped now p)"
  have bs: "length ?bs = 16" "?bs ! 4 = len p"
    using assms(1,2) by (simp, simp add: frame_explicit)
  have rec: "received ?bs (ch_packet ch) =
      ?p\<lparr>data := take (unat (len ?p)) (data ?p) @ replicate (10 - unat (len ?p)) 0xff\<rparr>"
    by (rule received_frame) (use assms in simp_all)
  have "sum_ok (received ?bs (ch_packet ch))"
    unfolding rec using assms(1,2) by (subst sum_ok_padded) (simp_all add: sum_ok_stamped)
  then have "\<not> sum_ok (received (?bs[i := b]) (ch_packet ch))"
    using assms(2-6) bs by (intro corrupt_rejected) (simp_all add: frame_len_def)
  moreover have "length (?bs[i := b]) = min 16 (unat (r_rx_fifo w))" using bs assms(7) by simp
  moreover have "received (?bs[i := b]) (ch_packet ch) = packet_of_bytes (?bs[i := b])"
    using assms(2,3,5) bs by (intro received_bytes) simp_all
  ultimately show ?thesis using run_rxpacket [OF _ assms(8), of ch] assms(9)
    by (auto simp: packet_of_bytes_def)
qed

lemma corruption_detected_witness:
  "\<exists>got v'. run_state (libradio_rxpacket bench zero_channel)
     ((bench_state (0 # map uint ((frame (stamped 1000 (bench_packet 5 [42])))[6 := 43])))\<lparr>r_rx_fifo := 16\<rparr>) = ((0, got), v') \<and>
     cmd (ch_packet got) = 5"
proof -
  let ?bs = "(frame (stamped 1000 (bench_packet 5 [42])))[6 := 43]"
  let ?v = "(bench_state (0 # map uint ?bs))\<lparr>r_rx_fifo := 16\<rparr>"
  obtain r got v' where rx: "run_state (libradio_rxpacket bench zero_channel) ?v = ((r, got), v')"
    by (metis prod.collapse)
  have srv: "dev_serves bench ?bs (snd (e_spi_byte bench 0x77 (e_ss bench True (dev ?v))))"
    using bench_serves [of ?bs "[]"] by simp
  have pok: "packet_ok (bench_packet 5 [42])" by (simp add: bench_packet_ok)
  have l: "unat (len (bench_packet 5 [42])) = 1" by (simp add: bench_packet_def)
  have b: "43 \<noteq> frame (stamped 1000 (bench_packet 5 [42])) ! 6"
    using l by (simp add: frame_explicit) (simp add: bench_packet_def)
  have "r = 0 \<and> cmd (ch_packet got) = ?bs ! 3"
    using corruption_detected [OF pok _ _ _ _ b _ srv rx] l
    by (simp add: frame_len_def packet_ok_def zero_channel_def zero_packet_def)
  moreover have "?bs ! 3 = 5" by (simp add: frame_explicit) (simp add: bench_packet_def)
  ultimately show ?thesis using rx by auto
qed

section \<open>The SPI bus\<close>

text \<open>C3: \<open>pkt_send\<close> over the shared buffer and the port does what the exchange
  \<open>dev_transact\<close> prescribes: it sends the first bytes of the buffer, returns the prescribed status,
  leaves the answer at the start of the buffer, and changes nothing else.\<close>

theorem pkt_send_implements:
  assumes "unat sl \<le> length (pkt_data w)" "unat rl \<le> length (pkt_data w)"
  shows "run_state (pkt_send E sl rl) w =
     (case dev_transact E (take (unat sl) (pkt_data w)) (unat rl) (dev w) of (c, rs, l, d) \<Rightarrow>
        (c, w\<lparr>pkt_data := rs @ drop (length rs) (pkt_data w),
              portb := Bit_Operations.set_bit 1 (portb w),
              spi_log := spi_log w @ l, dev := d\<rparr>))"
  using assms by (rule pkt_send_refines)

lemma pkt_send_implements_witness:
  "fst (run_state (pkt_send bench 1 2) (bench_state [0, 0, 0xff, 3, 7])) = 0 \<and>
   take 2 (pkt_data (snd (run_state (pkt_send bench 1 2) (bench_state [0, 0, 0xff, 3, 7])))) = [3, 7]"
proof -
  have l: "pkt_data (bench_state [0, 0, 0xff, 3, 7]) = replicate 20 0" by (simp add: bench_defs)
  have n: "MAX_COUNT = Suc 999" "unat (2::u8) = Suc (Suc 0)" by (simp_all add: MAX_COUNT_def)
  have "unat (1::u8) \<le> length (pkt_data (bench_state [0, 0, 0xff, 3, 7]))"
    "unat (2::u8) \<le> length (pkt_data (bench_state [0, 0, 0xff, 3, 7]))" by (simp_all add: l)
  from pkt_send_implements [OF this, of bench] show ?thesis
    by (simp only: n dev_transact_def l dev_poll.simps) simp
qed

text \<open>C4: However a command exchange ends, with an answer, an error or a timeout, the radio chip's
  select line is released: the last edge on the bus deselects the chip and the port drives the
  line high.\<close>

theorem slave_select_released:
  "last (filter (\<lambda>e. e = SS True \<or> e = SS False) (spi_log (snd (run_state (pkt_send E sl rl) w)))) = SS False \<and>
   bit (portb (snd (run_state (pkt_send E sl rl) w))) 1"
proof -
  obtain u ok where u: "run_state (do { setss E 1; pkt_write_loop E [0..<unat sl] }) w = (ok, u)" by fastforce
  let ?v = "snd (run_state (setss E 0) u)"
  have "snd (run_state (pkt_send E sl rl) w) = (if ok then snd (run_state (pkt_poll_loop E rl MAX_COUNT) ?v) else ?v)"
    using u by (auto simp: pkt_send_def split: prod.splits if_splits)
  then have "released (snd (run_state (pkt_send E sl rl) w))"
    using released_setss [of E u] preservesD [OF released_poll] by auto
  then show ?thesis by (simp add: released_def)
qed

text \<open>C5: When \<open>libradio_send\<close> reports success, the bus has carried the packet's frame, stamped with
  the clock and with a valid checksum, into the transmit FIFO, and after it the start command for
  the requested channel, which sends the radio to receive mode exactly when a response is expected.\<close>

theorem reported_send_is_on_air:
  assumes "run_state (libradio_send E ch channo) w = ((r, ch'), w')" "r \<noteq> 0"
    and "channel_ok ch" "length (pkt_data w) = 20"
  shows "unat (len (ch_packet ch)) \<le> 10 \<and> sum_ok (ch_packet ch') \<and>
    ch' = ch\<lparr>ch_packet := stamped (r_ms_ticks w) (ch_packet ch)\<rparr> \<and>
    (\<exists>pre post. spi_log w' = spi_log w @ pre @ tx_events (ch_packet ch') channo
       (if ch_state ch > LIBRADIO_CHSTATE_TRANSMIT then SI4463_STATE_RX else SI4463_STATE_READY) @ post)"
proof -
  note s = send_reports [OF assms]
  then have "ch_packet ch' = stamped (r_ms_ticks w) (ch_packet ch)" by auto
  with s show ?thesis by (metis sum_ok_stamped)
qed

lemma reported_send_is_on_air_witness:
  "\<exists>ch' w'. run_state (libradio_send bench (zero_channel\<lparr>ch_packet := bench_packet 5 [42]\<rparr>) 2) (bench_state ready_chip) =
     ((1, ch'), w') \<and> sum_ok (ch_packet ch')"
proof -
  let ?ch = "zero_channel\<lparr>ch_packet := bench_packet 5 [42]\<rparr>"
  obtain r ch' w' where run: "run_state (libradio_send bench ?ch 2) (bench_state ready_chip) = ((r, ch'), w')"
    by (metis prod.collapse)
  have "fst (fst (run_state (libradio_send bench ?ch 2) (bench_state ready_chip))) = 1"
    by code_simp
  with run have r: "r = 1" by simp
  have "length (pkt_data (bench_state ready_chip)) = 20" by (simp add: bench_defs)
  from reported_send_is_on_air [OF run _ _ this] r run show ?thesis
    by (auto simp: channel_ok_def bench_packet_ok)
qed

text \<open>C6: A response of at most ten bytes that the client could hand to the radio (its transmit
  channel is marked empty again) has been on the air as a frame that carries the requested
  address, the command, the length and the bytes of the buffer; the radio was told to return to the
  ready state.\<close>

theorem response_is_sent:
  assumes "mcu_ok w" "length buf = 16"
    and "run_state (libradio_send_response E c chan a n buf) w = ((), w')"
    and "ch_state (txchan w') = LIBRADIO_CHSTATE_EMPTY"
  shows "unat n \<le> 10 \<and> (\<exists>p pre post.
     spi_log w' = spi_log w @ pre @ tx_events p chan SI4463_STATE_READY @ post \<and> sum_ok p \<and>
     node p = a \<and> cmd p = c \<and> len p = n \<and> take (unat n) (data p) = take (unat n) buf)"
proof -
  let ?p = "stamped (r_ms_ticks w) (ch_packet (response_set c a n buf (txchan w)))"
  from send_response_sent [OF assms] have n: "unat n \<le> 10"
    and ex: "\<exists>pre post. spi_log w' = spi_log w @ pre @ tx_events ?p chan SI4463_STATE_READY @ post" by auto
  have "node ?p = a" "cmd ?p = c" "len ?p = n" by (simp_all add: response_set_def)
  moreover have "take (unat n) (data ?p) = take (unat n) buf"
    using n assms(2) by (simp add: response_set_def)
  ultimately show ?thesis using n ex sum_ok_stamped by blast
qed

lemma response_is_sent_witness:
  "unat (2::u8) \<le> 10 \<and> (\<exists>w'. run_state (libradio_send_response bench 9 2 3 2 (replicate 16 1)) (bench_state ready_chip) = ((), w') \<and>
    (\<exists>p pre post. spi_log w' = spi_log (bench_state ready_chip) @ pre @ tx_events p 2 SI4463_STATE_READY @ post \<and> sum_ok p))"
proof -
  obtain w' where run: "run_state (libradio_send_response bench 9 2 3 2 (replicate 16 1)) (bench_state ready_chip) = ((), w')"
    by (rule unit_run)
  have "fst (fst (run_state (libradio_send bench (response_set 9 3 2 (replicate 16 1) (txchan (bench_state ready_chip))) 2)
     ((bench_state ready_chip)\<lparr>txchan := response_set 9 3 2 (replicate 16 1) (txchan (bench_state ready_chip))\<rparr>))) = 1"
    by code_simp
  then have "ch_state (txchan w') = 2"
    using send_response_outcome [OF _ _ run] by simp
  from response_is_sent [OF _ _ run this] run show ?thesis by auto
qed

text \<open>C7: A response longer than the ten bytes of a payload is never sent: among all the commands the chip
  is given meanwhile there is none that puts data into its transmit FIFO and none that starts a transmission. The
  transmit channel stays in the transmit state with the length that was asked for.\<close>

theorem overlong_response_is_stuck:
  assumes "mcu_ok w" "length buf = 16" "10 < unat n"
    and "run_state (libradio_send_response E c chan a n buf) w = ((), w')"
  shows "ch_state (txchan w') = LIBRADIO_CHSTATE_TRANSMIT \<and> len (ch_packet (txchan w')) = n \<and>
    (\<exists>l. spi_log w' = spi_log w @ l \<and>
       SI4463_WRITE_TX_FIFO \<notin> set (bus_commands l) \<and> SI4463_START_TX \<notin> set (bus_commands l))"
  using send_response_too_long [OF assms] by (simp add: no_tx_def)

lemma overlong_response_is_stuck_witness:
  "\<exists>w' l. run_state (libradio_send_response bench 10 2 3 16 (replicate 16 1)) (bench_state ready_chip) = ((), w') \<and>
     ch_state (txchan w') = 4 \<and> spi_log w' = spi_log (bench_state ready_chip) @ l \<and> SI4463_START_TX \<notin> set (bus_commands l)"
proof -
  obtain w' where run: "run_state (libradio_send_response bench 10 2 3 16 (replicate 16 1)) (bench_state ready_chip) = ((), w')"
    by (rule unit_run)
  from overlong_response_is_stuck [OF _ _ _ run] run show ?thesis by auto
qed

section \<open>Commands\<close>

text \<open>C8: For the oil tank application on any hardware whose radio leaves the transmit state, a
  command with a well-formed packet that fits the buffers is executed without an access outside an
  array, a division by zero, an endless loop or a reset, and leaves a well-formed state.\<close>

theorem tank_command_safe:
  assumes "tx_ends (oiltank_env H)" "packet_ok pp" "unat (len pp) \<le> 10" "request_fits pp" "safe w"
  shows "safe (snd (run_state (libradio_command (oiltank_env H) pp) w))"
  using preservesD [OF tank.command_safe [OF assms(1-4)] assms(5)] .

lemma tank_command_safe_witness:
  "safe (snd (run_state (libradio_command bench (bench_packet 2 [1, 2, 0])) (bench_state [])))"
  using tank_command_safe [of bench_hw "bench_packet 2 [1, 2, 0]" "bench_state []", folded bench_def]
  by (simp add: bench_tx_ends bench_safe bench_packet_ok request_fits_def) (simp add: bench_packet_def)

text \<open>C9: A client that is not active ignores every command but an activation. An activation of the
  right length makes the client active on the channel and under the address it carries if it names the
  client's four identification bytes; otherwise it changes nothing but the console output.\<close>

theorem activation_outcome:
  assumes "cmd pp = RADIO_CMD_ACTIVATE \<or> r_state w < LIBRADIO_STATE_ACTIVE" "packet_ok pp"
    and "run_state (libradio_command (oiltank_env H) pp) w = ((), w')"
  shows "if cmd pp \<noteq> RADIO_CMD_ACTIVATE then w' = w
     else if addressed pp w
     then r_state w' = LIBRADIO_STATE_ACTIVE \<and> r_my_channel w' = data pp ! 0 \<and>
       r_my_node_id w' = data pp ! 1 \<and> r_tens_of_minutes w' = r_tens_of_minutes w
     else \<exists>s. w' = w\<lparr>out := out w @ s\<rparr>"
proof (cases "cmd pp = 3")
  case True
  then show ?thesis
    using tank.command_activates [OF True assms(2) _ assms(3)] command_not_addressed [OF True assms(2), of w "oiltank_env H"]
      assms(3) by auto
next
  case False
  then show ?thesis using assms command_gated [OF False, of w "oiltank_env H"] by simp
qed

lemma activation_outcome_witness:
  "r_my_channel (snd (run_state (libradio_command bench (bench_packet 3 [4, 9, 0x7f, 1, 0, 1]))
     ((bench_state [])\<lparr>r_state := 5\<rparr>))) = 4"
proof -
  let ?w = "(bench_state [])\<lparr>r_state := 5\<rparr>" and ?p = "bench_packet 3 [4, 9, 0x7f, 1, 0, 1]"
  obtain w' where run: "run_state (libradio_command (oiltank_env bench_hw) ?p) ?w = ((), w')"
    by (rule unit_run)
  have "addressed ?p ?w" by (simp add: addressed_def bench_defs)
  with activation_outcome [OF _ _ run] run show ?thesis
    by (simp add: bench_packet_ok bench_def) (simp add: bench_packet_def)
qed

text \<open>C10: A deactivation sends an active client to the warm sleep, without channel and address and
  with an unknown time of day, and with the slow clock and the delay that belongs to it.\<close>

theorem deactivation_outcome:
  assumes "cmd pp = RADIO_CMD_DEACTIVATE" "len pp = 0" "r_state w = LIBRADIO_STATE_ACTIVE" "safe w"
    and "run_state (libradio_command (oiltank_env H) pp) w = ((), w')"
  shows "r_state w' = LIBRADIO_STATE_WARM \<and> r_my_channel w' = 0 \<and> r_my_node_id w' = 0 \<and>
    r_tens_of_minutes w' = 0xff \<and> r_period w' = r_slow_period w \<and>
    r_tick_count w' = sleep_delay LIBRADIO_STATE_WARM (r_slow_period w)"
proof -
  obtain s where r: "run_state (libradio_set_state (oiltank_env H) LIBRADIO_STATE_WARM)
     (w\<lparr>out := s, r_my_channel := 0, r_my_node_id := 0\<rparr>) = ((), w')"
    using assms(1-3,5) by (auto simp: libradio_command_def)
  show ?thesis
    using tank.command_deactivates [OF assms(1-3,5)] tank.set_state_sleep_speed [OF r] assms(3,4)
    by (simp add: safe_def)
qed

lemma deactivation_outcome_witness:
  "r_tick_count (snd (run_state (libradio_command bench (bench_packet 4 [])) (bench_state []))) = 1875"
proof -
  obtain w' where run: "run_state (libradio_command (oiltank_env bench_hw) (bench_packet 4 [])) (bench_state []) = ((), w')"
    by (rule unit_run)
  have "r_slow_period (bench_state []) = 16" by (simp add: bench_defs)
  with deactivation_outcome [OF _ _ _ _ run] run show ?thesis
    by (simp add: bench_safe bench_def sleep_delay_def) (simp add: bench_packet_def)
qed

text \<open>C11: A write request with one to seven bytes of data stores at the address it names; what it
  stores is the payload from its fourth byte on, so the first data byte, which follows the two bytes
  of the address, is left out.\<close>

theorem eeprom_write_effect:
  assumes "cmd pp = RADIO_CMD_WRITE_EEPROM" "packet_ok pp" "r_state w = LIBRADIO_STATE_ACTIVE"
    and "3 \<le> unat (len pp)" "unat (len pp) < 10"
  shows "\<exists>s. run_state (libradio_command E pp) w = ((), w\<lparr>out := s, eeprom :=
      eeprom_put (be16 (data pp ! 0) (data pp ! 1)) (take (unat (len pp) - 2) (drop 3 (data pp))) (eeprom w)\<rparr>)"
  using assms by (rule command_write_eeprom)

lemma eeprom_write_effect_witness:
  "eeprom (snd (run_state (libradio_command bench (bench_packet 8 [0, 16, 77])) (bench_state []))) 16 = 0"
proof -
  have "\<exists>s. run_state (libradio_command bench (bench_packet 8 [0, 16, 77])) (bench_state []) = ((), (bench_state [])\<lparr>out := s, eeprom :=
      eeprom_put (be16 (data (bench_packet 8 [0, 16, 77]) ! 0) (data (bench_packet 8 [0, 16, 77]) ! 1))
        (take (unat (len (bench_packet 8 [0, 16, 77])) - 2) (drop 3 (data (bench_packet 8 [0, 16, 77])))) (eeprom (bench_state []))\<rparr>)"
    by (rule eeprom_write_effect) (simp_all add: bench_packet_ok, simp_all add: bench_packet_def)
  then show ?thesis by (auto simp: bench_packet_def be16_def)
qed

text \<open>C12: A write request whose payload is full reads one byte past the end of the payload.\<close>

theorem eeprom_write_full_overruns:
  assumes "cmd pp = RADIO_CMD_WRITE_EEPROM" "packet_ok pp" "r_state w = LIBRADIO_STATE_ACTIVE"
    and "len pp = 10" "stopped w = None"
  shows "stopped (snd (run_state (libradio_command E pp) w)) = Some Out_of_bounds"
  using assms by (rule command_write_eeprom_full)

lemma eeprom_write_full_overruns_witness:
  "stopped (snd (run_state (libradio_command bench (bench_packet 8 (replicate 10 0))) (bench_state []))) = Some Out_of_bounds"
  by (rule eeprom_write_full_overruns) (simp_all add: bench_packet_ok, simp_all add: bench_packet_def)

text \<open>C13: A read request for more than sixteen bytes writes past the end of the status buffer,
  whatever the application and the hardware.\<close>

theorem eeprom_read_overruns:
  assumes "cmd pp = RADIO_CMD_READ_EEPROM" "packet_ok pp" "r_state w = LIBRADIO_STATE_ACTIVE" "len pp = 4"
    and "16 < unat (data pp ! 1)" "mcu_ok w" "stopped w = None"
  shows "stopped (snd (run_state (libradio_command E pp) w)) = Some Out_of_bounds"
  using assms by (rule command_read_eeprom_overflow)

lemma eeprom_read_overruns_witness:
  "stopped (snd (run_state (libradio_command bench (bench_packet 7 [1, 17, 0, 0])) (bench_state []))) = Some Out_of_bounds"
  by (rule eeprom_read_overruns) (simp_all add: bench_packet_ok, simp_all add: bench_packet_def)

section \<open>The client's loop\<close>

text \<open>C14: In every state the oil tank monitor reaches after its start, on any hardware, its
  operating state is start-up, error, warm, listen or active (never cold or low battery), a warm node
  has an unknown time of day and the slow clock, a starting, listening or active node the fast clock,
  and a wake-up by the timer is pending.\<close>

theorem tank_reachable:
  assumes "oiltank_run H w"
  shows "client_inv w"
  using assms by (rule oiltank_run_inv)

lemma tank_reachable_witness:
  "client_inv (snd (run_state (oiltank_start bench) (bench_state [])))"
proof -
  obtain w' where r: "run_state (oiltank_start (oiltank_env bench_hw)) (bench_state []) = ((), w')"
    by (rule unit_run)
  have "oiltank_run bench_hw w'" by (rule oiltank_boot [OF _ _ r]) simp_all
  from tank_reachable [OF this] r show ?thesis by (simp add: bench_def)
qed

text \<open>C15: If the timer interrupt always comes while the program sleeps, then the wait of a client
  with a pending wake-up returns, and with a reason.\<close>

theorem wait_returns:
  assumes "timer_runs E rank" "client_inv w"
  shows "\<exists>s w'. wait_loop E w = Some (s, w') \<and> run_state (libradio_wait E) w = (s, w') \<and> s \<noteq> 0 \<and>
    client_inv w'"
proof -
  have "armed w" using assms(2) by (auto simp: client_inv_def armed_def)
  from wait_loop_returns [OF assms(1) this] obtain s w' where r: "wait_loop E w = Some (s, w')" "s \<noteq> 0" by auto
  then have "run_state (libradio_wait E) w = (s, w')" by (simp add: libradio_wait_def)
  with r preserves_run [OF client_inv_wait assms(2)] show ?thesis by blast
qed

lemma wait_returns_witness:
  "\<exists>s w'. run_state (libradio_wait bench) (bench_state []) = (s, w') \<and> s \<noteq> 0"
proof -
  have t: "timer_runs bench (\<lambda>_. 0)" by (simp add: timer_runs_def)
  have "client_inv (bench_state [])" by (simp add: bench_defs client_inv_def)
  from wait_returns [OF t this] show ?thesis by auto
qed

text \<open>C16: A client that listens and hears nothing listens for ever: however many turns its loop takes, if the
  radio does not interrupt its sleep and the timer runs, it is still in the listen state, on the same channel, and
  the timeout it was given has not been counted down.\<close>

theorem listen_never_times_out:
  assumes "\<forall>d. Int0 \<notin> set (fst (e_sleep E d))" "timer_runs E rank"
    and "client_inv w" "r_state w = LIBRADIO_STATE_LISTEN" "irq_fired w = 0" "stopped w = None"
    and "w' = ((\<lambda>v. snd (run_state (libradio_rxloop E) v)) ^^ n) w"
  shows "r_state w' = LIBRADIO_STATE_LISTEN \<and> r_timeout w' = r_timeout w \<and> r_my_channel w' = r_my_channel w \<and>
    irq_fired w' = 0 \<and> stopped w' = None \<and> client_inv w'"
proof -
  have "listening (r_timeout w) (r_my_channel w) w" using assms by (simp add: listening_def)
  from listening_turns [OF _ assms(2) this, of n] assms(1,7) show ?thesis
    by (simp add: radio_silent_def listening_def)
qed

lemma listen_never_times_out_witness:
  "r_state (((\<lambda>v. snd (run_state (libradio_rxloop bench) v)) ^^ 20000)
     ((bench_state [])\<lparr>r_state := LIBRADIO_STATE_LISTEN, r_timeout := 12000\<rparr>)) = LIBRADIO_STATE_LISTEN"
proof -
  let ?w = "(bench_state [])\<lparr>r_state := LIBRADIO_STATE_LISTEN, r_timeout := 12000\<rparr>"
  have t: "\<forall>d. Int0 \<notin> set (fst (e_sleep bench d))" "timer_runs bench (\<lambda>_. 0)" by (simp_all add: timer_runs_def)
  have "client_inv ?w" "irq_fired ?w = 0" "stopped ?w = None" by (simp_all add: bench_defs client_inv_def)
  from listen_never_times_out [OF t this(1) _ this(2,3) refl, of 20000] show ?thesis by simp
qed

section \<open>The clock\<close>

text \<open>C17: With a period that divides ten minutes, \<open>n\<close> timer interrupts advance the time of day by
  \<open>n\<close> periods; the clock stops when it reaches the reserved value 0xff, and an unknown time of day
  stays unknown.\<close>

theorem time_of_day:
  assumes "aligned w"
  shows "time_of ((tick ^^ n) w) = min (time_of w + n * unat (r_period w)) parked \<and> aligned ((tick ^^ n) w)"
  using ticks_time [OF assms] by simp

lemma time_of_day_witness:
  "time_of ((tick ^^ 7) (bench_state [])) = 7"
  using time_of_day [of "bench_state []" 7] by (simp add: bench_defs aligned_def time_of_def parked_def)

text \<open>C18: A pending wake-up is delivered by exactly the interrupt the countdown stands for, not
  earlier and not later, and the countdown starts again from the delay.\<close>

theorem wake_up_is_exact:
  assumes "thread_ok w = 0" "0 < unat (r_main_ticks w)" "k \<le> unat (r_main_ticks w)"
  shows "(thread_ok ((tick ^^ k) w) \<noteq> 0) = (k = unat (r_main_ticks w)) \<and>
    (k = unat (r_main_ticks w) \<longrightarrow> r_main_ticks ((tick ^^ k) w) = r_tick_count w)"
  using wake.fires_exactly [of w k] wake.fires [of w] assms by (auto simp: word_unat_eq_iff)

lemma wake_up_is_exact_witness:
  "thread_ok ((tick ^^ 5) (bench_state [])) \<noteq> 0 \<and> r_main_ticks ((tick ^^ 5) (bench_state [])) = 5"
proof -
  have "unat (r_main_ticks (bench_state [])) = 5" "thread_ok (bench_state []) = 0" "r_tick_count (bench_state []) = 5"
    by (simp_all add: bench_defs)
  with wake_up_is_exact [of "bench_state []" 5] show ?thesis by simp
qed

text \<open>C19: At the 10ms period the LED plays the pattern of the state, one bit every ten interrupts from the top
  bit down and then again from the top: after \<open>n\<close> interrupts \<open>q\<close> bits have been played, the pin of the LED is low (the
  LED is lit) if the last of them was set and high if it was not, the pattern in memory is rotated by \<open>q\<close> bits, and the
  other pins of the port are left alone.\<close>

theorem led_plays_song:
  assumes "r_period w = 1" "hbclock w \<le> 10" "q = (unat (hbclock w) + n - 1) div 10"
  shows "bit (portd ((tick ^^ n) w)) 3 = (if q = 0 then bit (portd w) 3 else \<not> bit (r_heart_beat w) (15 - (q - 1) mod 16)) \<and>
    (\<forall>i < 16. bit (r_heart_beat ((tick ^^ n) w)) ((i + q) mod 16) = bit (r_heart_beat w) i) \<and>
    (\<forall>i. i \<noteq> 3 \<longrightarrow> bit (portd ((tick ^^ n) w)) i = bit (portd w) i)"
proof -
  note led = ticks_led [OF assms(1,2), of n, folded assms(3), unfolded Let_def]
  have "bit ((rot1 ^^ q) x) ((i + q) mod 16) = bit x i" if "i < 16" for x i
  proof -
    have "((i + q) mod 16 + 15 * q) mod 16 = (i + q * 16) mod 16" by (simp add: mod_simps)
    then have "((i + q) mod 16 + 15 * q) mod 16 = i" using that by (simp only: mod_mult_self1 mod_less)
    then show ?thesis by (simp add: bit_rot1_power)
  qed
  with led show ?thesis by (simp add: last_note)
qed

lemma led_plays_song_witness:
  "bit (portd ((tick ^^ 81) ((bench_state [])\<lparr>hbclock := 0, r_heart_beat := 0xff\<rparr>))) 3 \<and>
   \<not> bit (portd ((tick ^^ 91) ((bench_state [])\<lparr>hbclock := 0, r_heart_beat := 0xff\<rparr>))) 3"
proof -
  let ?w = "(bench_state [])\<lparr>hbclock := 0, r_heart_beat := 0xff\<rparr>"
  have w: "r_period ?w = 1" "hbclock ?w \<le> 10" by (simp_all add: bench_defs)
  have "bit (portd ((tick ^^ 81) ?w)) 3 = (\<not> bit (r_heart_beat ?w) 8)"
    using led_plays_song [OF w, of 8 81] by simp
  moreover have "bit (portd ((tick ^^ 91) ?w)) 3 = (\<not> bit (r_heart_beat ?w) 7)"
    using led_plays_song [OF w, of 9 91] by simp
  ultimately show ?thesis by (simp add: bit_iff_odd)
qed

text \<open>C20: A main loop that asks once per interrupt counts exactly the seconds that have passed, for
  every period up to one second.\<close>

theorem seconds_are_counted:
  assumes "0 < r_period w" "r_period w \<le> 100" "timer_count w < 100" "elapsed_second w = 0"
  shows "seconds_polled n w = (unat (timer_count w) + n * unat (r_period w)) div 100"
  using assms by (rule seconds_polled_count)

lemma seconds_are_counted_witness: "seconds_polled 250 (bench_state []) = 2"
  by (subst seconds_are_counted) (simp_all add: bench_defs)

section \<open>Power-up\<close>

text \<open>C21: Loading the configuration into the radio never leaves the SPI buffer or the configuration
  array, whatever the chip answers, for any application that keeps the library's contract; it either
  succeeds, with the radio active and the rest of the node unchanged, or leaves the node in the error
  state with the radio inactive.\<close>

theorem power_up_outcome_total:
  assumes "safe w" "run_state (libradio_power_up (oiltank_env H)) w = (r, w')"
  shows "safe w' \<and> ((r = 0 \<and> r_radio_active w' \<noteq> 0 \<and>
      core_view (w'\<lparr>r_radio_active := 0\<rparr>) = core_view (w\<lparr>r_radio_active := 0\<rparr>)) \<or>
    (r = -1 \<and> r_radio_active w' = 0 \<and> r_state w' = LIBRADIO_STATE_ERROR))"
  using power_up_outcome [OF assms(2)] preserves_run [OF tank.power_up_safe assms] by blast

lemma power_up_outcome_total_witness:
  "safe (snd (run_state (libradio_power_up bench) ((bench_state [])\<lparr>r_radio_active := 0\<rparr>)))"
proof -
  let ?w = "(bench_state [])\<lparr>r_radio_active := 0\<rparr>"
  have s: "safe ?w" using bench_safe [of "[]"] by (simp add: safe_def mcu_ok_def)
  show ?thesis using power_up_outcome_total [OF s, of bench_hw] by (simp add: bench_def prod_eq_iff)
qed

end
