(* ===== verification/Control_Queue.thy ===== *)
theory Control_Queue
  imports Client_Loop
begin

text \<open>
  The controller's state and its command queue: \<^verbatim>\<open>control/enqueue.c\<close>,
  \<^verbatim>\<open>control/command.c\<close>, \<^verbatim>\<open>control/init.c\<close> and the callbacks of
  \<^verbatim>\<open>control/main.c\<close>. The record \<open>control\<close> holds the globals of \<^verbatim>\<open>control/\<close>; a
  \<^verbatim>\<open>struct channel *\<close> into the array \<^verbatim>\<open>channels\<close> is its index, and \<^verbatim>\<open>NULL\<close> is
  \<open>None\<close>.
\<close>

section \<open>State\<close>

record control =
  channels :: "channel list"
  resp_chp :: "nat option"
  in_state :: u8
  in_value :: u8
  curr_chp :: "nat option"
  last_modulo :: nat

abbreviation (input) MAX_RADIO_CHANNELS :: nat where "MAX_RADIO_CHANNELS \<equiv> 6"

abbreviation (input) RADIO_CTLERR_INVALID_CHANNEL :: u8 where "RADIO_CTLERR_INVALID_CHANNEL \<equiv> 1"
abbreviation (input) RADIO_CTLERR_BUSY :: u8 where "RADIO_CTLERR_BUSY \<equiv> 2"
abbreviation (input) RADIO_CTLERR_TOO_BIG :: u8 where "RADIO_CTLERR_TOO_BIG \<equiv> 4"
abbreviation (input) RADIO_CTLERR_NEWLINE :: u8 where "RADIO_CTLERR_NEWLINE \<equiv> 5"
abbreviation (input) RADIO_CTLERR_NOT_ACTIVE :: u8 where "RADIO_CTLERR_NOT_ACTIVE \<equiv> 6"
abbreviation (input) RADIO_CTLERR_POWER_FAIL :: u8 where "RADIO_CTLERR_POWER_FAIL \<equiv> 7"
abbreviation (input) RADIO_CTLERR_BAD_CMD :: u8 where "RADIO_CTLERR_BAD_CMD \<equiv> 8"
abbreviation (input) RADIO_CMD_SET_CHANNEL :: u8 where "RADIO_CMD_SET_CHANNEL \<equiv> 16"

abbreviation (input) IO_STATE_NEWLINE :: u8 where "IO_STATE_NEWLINE \<equiv> 0"
abbreviation (input) IO_STATE_WAITNL :: u8 where "IO_STATE_WAITNL \<equiv> 1"
abbreviation (input) IO_STATE_WAITCHAN :: u8 where "IO_STATE_WAITCHAN \<equiv> 2"
abbreviation (input) IO_STATE_WAITNODE :: u8 where "IO_STATE_WAITNODE \<equiv> 3"
abbreviation (input) IO_STATE_WAITCMD :: u8 where "IO_STATE_WAITCMD \<equiv> 4"
abbreviation (input) IO_STATE_WAITDATA :: u8 where "IO_STATE_WAITDATA \<equiv> 5"

section \<open>Operations\<close>

text \<open>Assignment to a global of the controller, and access to an element of the array.\<close>

definition modify_ctl :: "(control \<Rightarrow> control) \<Rightarrow> ('d, control, unit) op" where
  "modify_ctl f = modify (\<lambda>w. w\<lparr>app := f (app w)\<rparr>)"

definition chan_get :: "nat \<Rightarrow> ('d, control, channel) op" where
  "chan_get i = State (\<lambda>w.
     if i < length (channels (app w)) then (channels (app w) ! i, w)
     else (zero_channel, stop_with Out_of_bounds w))"

definition chan_update :: "nat \<Rightarrow> (channel \<Rightarrow> channel) \<Rightarrow> ('d, control, unit) op" where
  "chan_update i f = modify (\<lambda>w.
     if i < length (channels (app w))
     then w\<lparr>app := (app w)\<lparr>channels := (channels (app w))[i := f (channels (app w) ! i)]\<rparr>\<rparr>
     else stop_with Out_of_bounds w)"

definition reply :: "u8 \<Rightarrow> ('d, control, unit) op" where
  "reply code = do {
     st \<leftarrow> libradio_get_state;
     (if code = 0 then printf ''<+\<newline>''
      else printf (''<-'' @ dec (unat code) @ ''/'' @ dec (unat st) @ ''\<newline>''));
     modify_ctl (\<lambda>c. c\<lparr>in_state := IO_STATE_WAITNL\<rparr>)
   }"

definition set_channel :: "u8 \<Rightarrow> u8 \<Rightarrow> ('d, control, unit) op" where
  "set_channel channo config =
     (if unat channo \<ge> MAX_RADIO_CHANNELS then State_Monad.return ()
      else do {
        when_op (config < 3) (chan_update (unat channo) (\<lambda>ch. ch\<lparr>ch_state := config\<rparr>));
        chan_update (unat channo) (\<lambda>ch. ch\<lparr>ch_priority := 0\<rparr>)
      })"

text \<open>The values of a status report, and its printed form.\<close>

definition local_status :: "('d, control) env \<Rightarrow> u8 \<Rightarrow> ('d, control, unit) op" where
  "local_status E stype = do {
     status \<leftarrow>
       (if stype = RADIO_STATUS_DYNAMIC then do {
          v \<leftarrow> State (\<lambda>w. case e_analog_read E 3 (dev w) of (v, d) \<Rightarrow> (v, w\<lparr>dev := d\<rparr>));
          let bv = (word_of_int v :: u16);
          gets (\<lambda>w. [r_state w, r_tens_of_minutes w, hi8 bv, lo8 bv, hi8 (r_npacket_rx w),
            lo8 (r_npacket_rx w), hi8 (r_npacket_tx w), lo8 (r_npacket_tx w)])
        }
        else if stype = RADIO_STATUS_STATIC then State_Monad.return [1, 1, 1, 1, 3, 1]
        else State_Monad.return []);
     s \<leftarrow> gets (\<lambda>w. ''<'' @ [char_of (unat (r_my_channel w) + 65)] @ dec (unat (r_my_node_id w)) @ '':'' @
       dec (unat (r_ms_ticks w)) @ '':'' @ dec (unat RADIO_STATUS_RESPONSE) @ '':'' @ dec (unat stype));
     printf s;
     for_each status (\<lambda>b. printf ('','' @ dec (unat b)));
     printf ''\<newline>''
   }"

definition mycommand :: "('d, control) env \<Rightarrow> packet \<Rightarrow> ('d, control, u8) op" where
  "mycommand E pp =
     (if cmd pp \<in> {RADIO_CMD_NOOP, RADIO_CMD_FIRMWARE, RADIO_CMD_DEACTIVATE, RADIO_CMD_SET_DATE,
        RADIO_CMD_WRITE_EEPROM} then do { libradio_command E pp; State_Monad.return 0 }
      else if cmd pp = RADIO_CMD_ACTIVATE then
        (if len pp \<noteq> 3 then State_Monad.return 0
         else do {
           d0 \<leftarrow> data_at pp 0;
           d1 \<leftarrow> data_at pp 1;
           printf (''M-Actvt! ch:'' @ dec (unat d0) @ '',node:'' @ dec (unat d1) @ ''\<newline>'');
           modify (\<lambda>w. w\<lparr>r_my_channel := d0\<rparr>);
           modify (\<lambda>w. w\<lparr>r_my_node_id := d1\<rparr>);
           r \<leftarrow> libradio_power_up E;
           if r = 0 then do {
             printf ''Going to ACTIVE state.\<newline>'';
             libradio_set_state E LIBRADIO_STATE_ACTIVE;
             libradio_set_delay 1;
             e_power_mode E 1;
             State_Monad.return 0
           }
           else do {
             printf ''Radio power-up failed.\<newline>'';
             State_Monad.return RADIO_CTLERR_POWER_FAIL
           }
         })
      else if cmd pp = RADIO_CMD_SET_TIME then
        (if len pp \<noteq> 3 then State_Monad.return 0
         else do {
           d0 \<leftarrow> data_at pp 0;
           d1 \<leftarrow> data_at pp 1;
           d2 \<leftarrow> data_at pp 2;
           modify (\<lambda>w. w\<lparr>r_ms_ticks := be16 d0 d1\<rparr>);
           modify (\<lambda>w. w\<lparr>r_tens_of_minutes := d2\<rparr>);
           printf (''>> Ctlr Time:'' @ dec (unat (be16 d0 d1)) @ ''/'' @ dec (unat d2) @ ''\<newline>'');
           State_Monad.return 0
         })
      else if cmd pp = RADIO_CMD_STATUS then
        (if len pp \<noteq> 3 then State_Monad.return 0
         else do { d2 \<leftarrow> data_at pp 2; local_status E d2; State_Monad.return 0 })
      else if cmd pp = RADIO_CMD_READ_EEPROM then
        (if len pp \<noteq> 5 then State_Monad.return 0
         else do {
           rchan \<leftarrow> data_at pp 0;
           rnode \<leftarrow> data_at pp 1;
           ln \<leftarrow> data_at pp 2;
           d3 \<leftarrow> data_at pp 3;
           d4 \<leftarrow> data_at pp 4;
           let addr = be16 d3 d4;
           printf (''RChan/Node '' @ dec (unat rchan) @ '':'' @ dec (unat rnode) @ '', len:'' @
             dec (unat ln) @ '', addr:'' @ dec_int (sint addr) @ ''\<newline>'');
           printf (''<'' @ [char_of (unat rchan + 65)] @ '':'' @ dec (unat rnode) @ '':'');
           for_each [0..<unat ln] (\<lambda>i. do {
             when_op (i \<noteq> 0) (printf '','');
             b \<leftarrow> eeprom_read_byte (addr + word_of_nat i);
             printf (dec (unat b))
           });
           printf ''\<newline>'';
           State_Monad.return 0
         })
      else if cmd pp = RADIO_CMD_SET_CHANNEL then
        (if len pp \<noteq> 2 then State_Monad.return 0
         else do {
           d0 \<leftarrow> data_at pp 0;
           if unat d0 > MAX_RADIO_CHANNELS then State_Monad.return 0
           else do {
             d1 \<leftarrow> data_at pp 1;
             set_channel d0 d1;
             printf ''CHn:'';
             for_each [0..<MAX_RADIO_CHANNELS] (\<lambda>i. do {
               ch \<leftarrow> chan_get i;
               printf (dec (unat (ch_state ch)) @ ''.'')
             });
             hb \<leftarrow> gets r_heart_beat;
             printf (''..'' @ dec (unat hb) @ ''\<newline>'');
             State_Monad.return 0
           }
         })
      else State_Monad.return RADIO_CTLERR_BAD_CMD)"

text \<open>The two reports of \<open>enqueue\<close>, and the function; \<open>enqueue i\<close> is \<^verbatim>\<open>enqueue(&channels[i])\<close>.\<close>

definition enq_text :: "u8 \<Rightarrow> u8 \<Rightarrow> packet \<Rightarrow> string" where
  "enq_text st me pp = ''ENQ:S'' @ dec (unat st) @ '',N'' @ dec (unat (node pp)) @ '',C'' @ dec (unat (cmd pp)) @
     '',M'' @ dec (unat me) @ ''\<newline>''"

definition queued_text :: "u8 \<Rightarrow> packet \<Rightarrow> string" where
  "queued_text new_state pp = ''CMD:'' @ dec (unat (cmd pp)) @ '' (datalen'' @ dec (unat (len pp)) @ '') S'' @
     dec (unat new_state) @ ''\<newline>''"

definition enqueue :: "('d, control) env \<Rightarrow> nat \<Rightarrow> ('d, control, unit) op" where
  "enqueue E i = do {
     ch \<leftarrow> chan_get i;
     let pp = ch_packet ch;
     (st, me) \<leftarrow> gets (\<lambda>w. (r_state w, r_my_node_id w));
     printf (enq_text st me pp);
     chan_update i (\<lambda>ch. ch\<lparr>ch_state := LIBRADIO_CHSTATE_TRANSMIT\<rparr>);
     if node pp = me \<or> cmd pp = RADIO_CMD_ACTIVATE \<and> st < LIBRADIO_STATE_ACTIVE then do {
       code \<leftarrow> mycommand E pp;
       reply code;
       chan_update i (\<lambda>ch. ch\<lparr>ch_state := LIBRADIO_CHSTATE_EMPTY\<rparr>)
     }
     else if st \<noteq> LIBRADIO_STATE_ACTIVE then do {
       chan_update i (\<lambda>ch. ch\<lparr>ch_state := LIBRADIO_CHSTATE_EMPTY\<rparr>);
       reply RADIO_CTLERR_NOT_ACTIVE
     }
     else do {
       let new_state = (if cmd pp = RADIO_CMD_STATUS then LIBRADIO_CHSTATE_TXRESPOND
         else LIBRADIO_CHSTATE_TRANSMIT);
       chan_update i (\<lambda>ch. ch\<lparr>ch_state := new_state\<rparr>);
       printf (queued_text new_state pp);
       chan_update i (\<lambda>ch. ch\<lparr>ch_priority :=
         (if ch_priority ch = 0 then word_of_nat ((MAX_RADIO_CHANNELS - i) * 8)
          else if ch_priority ch < 0xfc then ch_priority ch + 1 else ch_priority ch)\<rparr>);
       reply 0
     }
   }"

definition clock_init :: "('d, control, unit) op" where
  "clock_init = modify (\<lambda>w. w\<lparr>tcnt1 := 0, ocr1a := 2499, tccr1a := 0, tccr1b := 0x0b,
     tccr1c := 0, timsk1 := 2\<rparr>)"

definition serial_init :: "('d, control, unit) op" where
  "serial_init = modify (\<lambda>w. w\<lparr>ubrr0 := 103, ucsr0b := 0x98, ucsr0c := 6\<rparr>)"

definition control_env :: "'d hw \<Rightarrow> ('d, control) env" where
  "control_env H = hw.extend H
     (env.fields (\<lambda>pp. State_Monad.return ()) (\<lambda>status_type cp maxlen. State_Monad.return (0, cp))
        libradio_power_mode)"

lemmas queue_ops [op_defs] = modify_ctl_def chan_get_def chan_update_def reply_def set_channel_def
  local_status_def mycommand_def enqueue_def clock_init_def serial_init_def

end
