(* ===== verification/Control_Input.thy ===== *)
theory Control_Input
  imports Control_Queue
begin

text \<open>
  The serial command interpreter of the controller, \<^verbatim>\<open>control/input.c\<close>: a state machine that
  is given one character at a time and fills the packet of a channel.
\<close>

section \<open>Operations\<close>

text \<open>\<^verbatim>\<open>curr_chp->...\<close>: the current channel, which must have been set.\<close>

definition with_curr :: "(nat \<Rightarrow> ('d, control, unit) op) \<Rightarrow> ('d, control, unit) op" where
  "with_curr f = do {
     c \<leftarrow> gets (\<lambda>w. curr_chp (app w));
     (case c of None \<Rightarrow> modify (stop_with Out_of_bounds) | Some i \<Rightarrow> f i)
   }"

definition set_in_state :: "u8 \<Rightarrow> ('d, control, unit) op" where
  "set_in_state s = modify_ctl (\<lambda>c. c\<lparr>in_state := s\<rparr>)"

definition set_in_value :: "u8 \<Rightarrow> ('d, control, unit) op" where
  "set_in_value v = modify_ctl (\<lambda>c. c\<lparr>in_value := v\<rparr>)"

definition upd_packet :: "(packet \<Rightarrow> packet) \<Rightarrow> channel \<Rightarrow> channel" where
  "upd_packet f ch = ch\<lparr>ch_packet := f (ch_packet ch)\<rparr>"

text \<open>\<^verbatim>\<open>curr_chp->packet.data[curr_chp->packet.len++] = value\<close>, checked.\<close>

definition push_data :: "nat \<Rightarrow> u8 \<Rightarrow> ('d, control, unit) op" where
  "push_data i v = do {
     ch \<leftarrow> chan_get i;
     let n = unat (len (ch_packet ch));
     (if n < length (data (ch_packet ch)) then State_Monad.return ()
      else modify (stop_with Out_of_bounds));
     chan_update i (upd_packet (\<lambda>p. p\<lparr>data := (data p)[n := v], len := len p + 1\<rparr>))
   }"

text \<open>The letter of a channel after the prompt character.\<close>

definition select_channel :: "nat \<Rightarrow> ('d, control, unit) op" where
  "select_channel i = do {
     set_in_value (word_of_nat i);
     if i \<ge> MAX_RADIO_CHANNELS then reply RADIO_CTLERR_INVALID_CHANNEL
     else do {
       modify_ctl (\<lambda>c. c\<lparr>curr_chp := Some i\<rparr>);
       c \<leftarrow> chan_get i;
       if ch_state c > LIBRADIO_CHSTATE_EMPTY then reply RADIO_CTLERR_BUSY
       else do {
         chan_update i (\<lambda>c. c\<lparr>ch_state := LIBRADIO_CHSTATE_ADDING\<rparr>);
         set_in_state IO_STATE_WAITNODE;
         set_in_value 0
       }
     }
   }"

text \<open>
  The interpreter on a character that has been read, in the state \<open>st\<close> with the value \<open>v\<close> read so
  far; digits and letters by their codes.
\<close>

definition char_step :: "('d, control) env \<Rightarrow> nat \<Rightarrow> u8 \<Rightarrow> u8 \<Rightarrow> ('d, control, unit) op" where
  "char_step E ch st v =
    (if ch = 10 \<or> ch = 13 then do {
       when_op (st \<ge> IO_STATE_WAITCMD) (with_curr (enqueue E));
       set_in_state IO_STATE_NEWLINE
     }
     else if st = IO_STATE_NEWLINE \<and> ch = 62 then set_in_state IO_STATE_WAITCHAN
     else if st = IO_STATE_WAITCHAN \<and> 65 \<le> ch \<and> ch \<le> 72 then select_channel (ch - 65)
     else if st = IO_STATE_WAITCHAN \<and> ch = 82 then modify (stop_with Rebooted)
     else if st = IO_STATE_WAITCHAN \<and> (ch = 83 \<or> ch = 84) then do {
       local_status E (word_of_nat (ch - 83));
       set_in_state IO_STATE_NEWLINE
     }
     else if IO_STATE_WAITNODE \<le> st \<and> st \<le> IO_STATE_WAITDATA \<and> 48 \<le> ch \<and> ch \<le> 57 then
       set_in_value (v * 10 + word_of_nat ch - 48)
     else if st = IO_STATE_WAITNODE \<and> ch = 58 then do {
       set_in_state IO_STATE_WAITCMD;
       with_curr (\<lambda>i. chan_update i (upd_packet (\<lambda>p. p\<lparr>node := v\<rparr>)));
       set_in_value 0
     }
     else if st = IO_STATE_WAITCMD \<and> (ch = 58 \<or> ch = 46) then do {
       with_curr (\<lambda>i. chan_update i (upd_packet (\<lambda>p. p\<lparr>cmd := v, len := 0\<rparr>)));
       set_in_value 0;
       if ch = 46 then do { with_curr (enqueue E); set_in_state IO_STATE_WAITNL }
       else set_in_state IO_STATE_WAITDATA
     }
     else if st = IO_STATE_WAITDATA \<and> (ch = 44 \<or> ch = 46) then
       with_curr (\<lambda>i. do {
         c \<leftarrow> chan_get i;
         if unat (len (ch_packet c)) \<ge> MAX_PAYLOAD_SIZE then reply RADIO_CTLERR_TOO_BIG
         else do {
           push_data i v;
           set_in_value 0;
           when_op (ch = 46) (do { enqueue E i; set_in_state IO_STATE_WAITNL })
         }
       })
     else when_op (st \<noteq> IO_STATE_WAITNL) (reply RADIO_CTLERR_NEWLINE))"

definition process_char :: "('d, control) env \<Rightarrow> nat \<Rightarrow> ('d, control, unit) op" where
  "process_char E ch = do {
     (st, v) \<leftarrow> gets (\<lambda>w. (in_state (app w), in_value (app w)));
     char_step E ch st v
   }"

definition process_input :: "('d, control) env \<Rightarrow> ('d, control, unit) op" where
  "process_input E = do {
     ch \<leftarrow> getchar;
     process_char E (of_char ch)
   }"

lemmas input_ops [op_defs] = with_curr_def set_in_state_def set_in_value_def push_data_def
  select_channel_def char_step_def process_char_def process_input_def

end
