(* ===== verification/Control_Tx.thy ===== *)
theory Control_Tx
  imports Control_Input
begin

text \<open>
  The transmission scheduler and the main loop of the controller: \<^verbatim>\<open>control/transmit.c\<close>,
  \<^verbatim>\<open>control/response.c\<close> and \<^verbatim>\<open>control/main.c\<close>.
\<close>

section \<open>Operations\<close>

definition tx_init :: "('d, control, unit) op" where
  "tx_init = do {
     for_each [0..<MAX_RADIO_CHANNELS] (\<lambda>i.
       chan_update 0 (\<lambda>ch. ch\<lparr>ch_state := LIBRADIO_CHSTATE_DISABLED, ch_priority := 0\<rparr>));
     modify_ctl (\<lambda>c. c\<lparr>resp_chp := None\<rparr>)
   }"

text \<open>
  The search for the channel to transmit on: the loop over the array with the best channel so far.
\<close>

fun pick_loop :: "channel list \<Rightarrow> nat \<Rightarrow> (nat \<times> u8) option \<Rightarrow> (nat \<times> u8) option" where
  "pick_loop [] i best = best"
| "pick_loop (ch # chs) i best =
     (if ch_priority ch = 0 \<or> ch_state ch < LIBRADIO_CHSTATE_TRANSMIT then pick_loop chs (i + 1) best
      else case best of
        None \<Rightarrow> pick_loop chs (i + 1) (Some (i, ch_priority ch))
      | Some (j, p) \<Rightarrow>
          if ch_priority ch > p then pick_loop chs (i + 1) (Some (i, ch_priority ch))
          else pick_loop chs (i + 1) best)"

definition pick_channel :: "channel list \<Rightarrow> nat option" where
  "pick_channel chs = map_option fst (pick_loop chs 0 None)"

definition bump_priority :: "channel \<Rightarrow> channel" where
  "bump_priority ch =
     (if ch_state ch \<ge> LIBRADIO_CHSTATE_TRANSMIT \<and> ch_priority ch < 0xfc
      then ch\<lparr>ch_priority := ch_priority ch + 2\<rparr> else ch)"

text \<open>The part of \<open>tx_check_queues\<close> from the choice of a channel on, with its report.\<close>

definition tx_text :: "nat \<Rightarrow> channel \<Rightarrow> string" where
  "tx_text i ch = ''TX'' @ dec i @ '':chst:'' @ dec (unat (ch_state ch)) @ '',C'' @
     dec (unat (cmd (ch_packet ch))) @ '',len'' @ dec (unat (len (ch_packet ch))) @ ''\<newline>''"

definition tx_channel :: "('d, control) env \<Rightarrow> nat \<Rightarrow> ('d, control, unit) op" where
  "tx_channel E i = do {
     ch \<leftarrow> chan_get i;
     if ch_state ch < LIBRADIO_CHSTATE_EMPTY then State_Monad.return ()
     else do {
       printf (tx_text i ch);
       (sent, ch') \<leftarrow> libradio_send E ch (word_of_nat i);
       chan_update i (\<lambda>_. ch');
       when_op (sent \<noteq> 0) (do {
         (if ch_state ch' = LIBRADIO_CHSTATE_TXRESPOND then do {
            libradio_irq_enable 1;
            chan_update i (\<lambda>ch. ch\<lparr>ch_state := LIBRADIO_CHSTATE_RXRESPONSE1\<rparr>);
            modify_ctl (\<lambda>c. c\<lparr>resp_chp := Some i\<rparr>)
          }
          else chan_update i (\<lambda>ch. ch\<lparr>ch_state := LIBRADIO_CHSTATE_EMPTY\<rparr>));
         chan_update i (\<lambda>ch. ch\<lparr>ch_priority := 0\<rparr>)
       });
       for_each [0..<MAX_RADIO_CHANNELS] (\<lambda>j. chan_update j bump_priority)
     }
   }"

definition tx_check_queues :: "('d, control) env \<Rightarrow> ('d, control, unit) op" where
  "tx_check_queues E = do {
     st \<leftarrow> gets r_state;
     if st < LIBRADIO_STATE_LISTEN then State_Monad.return ()
     else do {
       ms \<leftarrow> gets (\<lambda>w. unat (r_ms_ticks w));
       last \<leftarrow> gets (\<lambda>w. last_modulo (app w));
       let modulo = ms mod 500;
       chp \<leftarrow> (if modulo < last then do {
           let channo = (ms div 500) mod MAX_RADIO_CHANNELS;
           ch \<leftarrow> chan_get channo;
           when_op (ch_state ch = LIBRADIO_CHSTATE_EMPTY) (do {
             printf (''C'' @ dec channo @ ''>state:'' @ dec (unat (ch_state ch)) @ ''\<newline>'');
             tom \<leftarrow> gets r_tens_of_minutes;
             chan_update channo (\<lambda>ch. ch\<lparr>ch_state := LIBRADIO_CHSTATE_TRANSMIT, ch_priority := 0xff,
               ch_packet := (ch_packet ch)\<lparr>node := 0, len := 1, cmd := RADIO_CMD_SET_TIME,
                 data := (data (ch_packet ch))[0 := tom]\<rparr>\<rparr>)
           });
           State_Monad.return (Some channo)
         } else State_Monad.return None);
       modify_ctl (\<lambda>c. c\<lparr>last_modulo := modulo\<rparr>);
       chp \<leftarrow> (case chp of
           Some i \<Rightarrow> State_Monad.return (Some i)
         | None \<Rightarrow> gets (\<lambda>w. pick_channel (channels (app w))));
       (case chp of None \<Rightarrow> State_Monad.return () | Some i \<Rightarrow> tx_channel E i)
     }
   }"

definition txresponse :: "('d, control) env \<Rightarrow> nat \<Rightarrow> ('d, control, unit) op" where
  "txresponse E i = do {
     from_chan \<leftarrow> libradio_get_my_channel;
     ch \<leftarrow> chan_get i;
     let from_node = node (ch_packet ch);
     printf (''RCV from '' @ dec (unat from_node) @ '' on ch'' @ dec (unat from_chan) @ ''\<newline>'');
     (r, ch') \<leftarrow> libradio_recv E ch from_chan;
     chan_update i (\<lambda>_. ch');
     when_op (r \<noteq> 0) (do {
       let pp = ch_packet ch';
       printf (''<'' @ [char_of (unat from_chan + 65)] @ dec (unat from_node) @ '':'' @
         dec (unat (ticks pp)) @ '':'' @ dec (unat (cmd pp)) @ '':'');
       for_each [0..<(if unat (len pp) > MAX_PAYLOAD_SIZE then MAX_PAYLOAD_SIZE else unat (len pp))]
         (\<lambda>j. do {
           when_op (j > 0) (printf '','');
           b \<leftarrow> data_at pp j;
           printf (dec (unat b))
         });
       printf ''\<newline>''
     })
   }"

text \<open>
  The part of the main loop that deals with an expected response: the end of the wait, a turn with
  nothing received, and both together.
\<close>

definition response_end :: "nat \<Rightarrow> ('d, control, unit) op" where
  "response_end i = do {
     chan_update i (\<lambda>ch. ch\<lparr>ch_state := LIBRADIO_CHSTATE_EMPTY\<rparr>);
     modify_ctl (\<lambda>c. c\<lparr>resp_chp := None\<rparr>)
   }"

definition response_missing :: "nat \<Rightarrow> ('d, control, unit) op" where
  "response_missing i = do {
     ch \<leftarrow> chan_get i;
     if ch_state ch = LIBRADIO_CHSTATE_RXRESPONSE4 then do {
       printf ''Response timeout!\<newline>'';
       response_end i
     }
     else chan_update i (\<lambda>ch. ch\<lparr>ch_state := ch_state ch + 1\<rparr>)
   }"

definition response_step :: "('d, control) env \<Rightarrow> ('d, control, unit) op" where
  "response_step E = do {
     rc \<leftarrow> gets (\<lambda>w. resp_chp (app w));
     (case rc of
       None \<Rightarrow> State_Monad.return ()
     | Some i \<Rightarrow> do {
         avail \<leftarrow> libradio_check_rx E;
         if avail then do { txresponse E i; response_end i }
         else response_missing i
       })
   }"

definition control_start :: "('d, control) env \<Rightarrow> ('d, control, unit) op" where
  "control_start E = do {
     setled 1;
     clock_init;
     serial_init;
     m \<leftarrow> gets mcusr;
     printf (''MCUSR'' @ hex (unat m) @ ''\<newline>'');
     modify (\<lambda>w. w\<lparr>mcusr := 0\<rparr>);
     printf ''\<newline>Main radio control system v3.1.\<newline>'';
     local_status E RADIO_STATUS_DYNAMIC;
     local_status E RADIO_STATUS_STATIC;
     libradio_init E 1 1 1 1;
     tx_init;
     libradio_set_state E LIBRADIO_STATE_WARM
   }"

definition control_turn :: "('d, control) env \<Rightarrow> ('d, control, unit) op" where
  "control_turn E = do {
     libradio_wait E;
     response_step E;
     q \<leftarrow> gets sio_rxq;
     when_op (q \<noteq> []) (process_input E);
     rc \<leftarrow> gets (\<lambda>w. resp_chp (app w));
     when_op (rc = None) (tx_check_queues E)
   }"

text \<open>The memory of the controller as the C start-up code leaves it.\<close>

definition zero_control :: control where
  "zero_control = \<lparr>channels = replicate MAX_RADIO_CHANNELS zero_channel, resp_chp = None,
     in_state = IO_STATE_NEWLINE, in_value = 0, curr_chp = None, last_modulo = 0\<rparr>"

inductive control_run :: "'d hw \<Rightarrow> ('d, control) mcu \<Rightarrow> bool" for H where
  control_boot: "mcu_ok w \<Longrightarrow> stopped w = None \<Longrightarrow> app w = zero_control \<Longrightarrow>
    run_state (control_start (control_env H)) w = ((), w') \<Longrightarrow> control_run H w'"
| control_loop: "control_run H w \<Longrightarrow> run_state (control_turn (control_env H)) w = ((), w') \<Longrightarrow>
    control_run H w'"

lemmas tx_ops [op_defs] = tx_init_def bump_priority_def tx_channel_def tx_check_queues_def
  txresponse_def response_end_def response_missing_def response_step_def control_start_def control_turn_def

end
