(* ===== verification/Control_Invariant.thy ===== *)
theory Control_Invariant
  imports Control_Tx
begin

text \<open>
  The invariant of the controller's variables: the array of channels keeps its size, at most the
  channel \<open>resp_chp\<close> is waiting for a response, and the serial interpreter has a current channel
  whenever it writes to one. Every operation of the controller keeps it, whatever the hardware does;
  \<open>control_run_ok\<close> is the induction over the program's runs.
\<close>

section \<open>The library leaves the application's variables alone\<close>

lemma keeps_app: "keeps buffers m \<Longrightarrow> keeps app m"
  by (erule keeps_via) (simp add: buffers_def)

lemmas keeps_app_chip [keep_rules] = keeps_buffers_chip [THEN keeps_app]
  keeps_buffers_power_up [THEN keeps_app] keeps_buffers_recv_start [THEN keeps_app]
  keeps_buffers_send [THEN keeps_app] keeps_buffers_await [THEN keeps_app]
  keeps_core_fifo_read [THEN keeps_buffers, THEN keeps_app]

lemma keeps_app_irq [keep_rules]: "keeps app (libradio_irq_enable f)"
  by (auto simp: libradio_irq_enable_def intro!: keep_rules keeps_modify)

lemma keeps_app_rxpacket [keep_rules]: "keeps app (libradio_rxpacket E ch)"
  by (auto simp: libradio_rxpacket_def Let_def intro!: keep_rules keeps_modify)

lemma keeps_app_recv [keep_rules]: "keeps app (libradio_recv E ch c)"
  by (auto simp: libradio_recv_def intro!: keep_rules keeps_modify)

lemma app_stop [simp]: "app (stop_with r w) = app w"
  by (simp add: stop_with_def split: option.splits)

lemma keeps_app_small [keep_rules]:
  "keeps app (libradio_set_delay d)" "keeps app (libradio_get_state)" "keeps app libradio_get_my_channel"
  "keeps app (data_at p i)" "keeps app (status_store i b)" "keeps app (eeprom_read_byte a)"
  "keeps app (eeprom_write_byte a b)" "keeps app (setled v)" "keeps app getchar"
  "keeps app (libradio_power_mode h)" "keeps app clock_init" "keeps app serial_init" "keeps app (isr irq)"
  "keeps app wait_status" "keeps app (modify (stop_with r))"
proof -
  show "keeps app (isr irq)"
    by (cases irq) (auto simp: keeps_def isr_def radio_irq_def run_clocktick)
  show "keeps app wait_status"
    by (auto simp: wait_status_def libradio_tick_wait_def intro!: keep_rules keeps_modify)
qed (auto simp: keeps_def libradio_set_delay_def libradio_get_state_def libradio_get_my_channel_def
    command_ops setled_def getchar_def libradio_power_mode_def clock_init_def serial_init_def split: list.splits)

lemma keeps_app_send_response [keep_rules]: "keeps app (libradio_send_response E c ch a n buf)"
  by (auto simp: libradio_send_response_def Let_def intro!: keep_rules keeps_modify)

lemma keeps_app_wait [keep_rules]: "keeps app (libradio_wait E)"
proof -
  have "keeps app (State (\<lambda>w. case e_sleep E (dev w) of (is, d) \<Rightarrow> (is, w\<lparr>dev := d\<rparr>)))"
    by (auto simp: keeps_def split: prod.splits)
  then have "keeps app (sleep_once E)" by (auto simp: sleep_once_def intro!: keep_rules)
  then have "preserves (\<lambda>v. app v = a) (libradio_wait E)" for a
    by (intro preserves_wait) (auto intro: keeps_preserves keep_rules)
  then show ?thesis by (auto simp: keeps_def preserves_def)
qed

context client
begin

lemma keeps_app_set_state [keep_rules]: "keeps app (libradio_set_state E s)"
  using set_state_ident by (rule keeps_via) (simp add: ident_view_def)

lemma keeps_app_power_mode [keep_rules]: "keeps app (e_power_mode E h)"
  using power_mode_ident by (rule keeps_via) (simp add: ident_view_def)

end

context passive_client
begin

lemma keeps_app_command [keep_rules]: "keeps app (libradio_command E pp)"
proof -
  have o: "keeps app (e_operate E p)" "keeps app (e_fetch_status E t b n)" for p t b n
    by (rule keeps_via [OF operate_frame] keeps_via [OF fetch_status_frame]; simp add: core_view_def)+
  show ?thesis unfolding libradio_command_def Let_def
    by (intro keep_rules o keeps_modify) simp_all
qed

end

section \<open>The shape of received and sent channels\<close>

lemma fifo_read_any: "yields (\<lambda>_. True) (fifo_read_loop E n) (\<lambda>bs. length bs = n)"
proof (induction n)
  case (Suc n)
  show ?case by (auto intro!: yields_bind_preserves [OF preserves_True] yields_bind [OF Suc] yields_return)
qed (simp add: yields_return)

lemma rxpacket_shape:
  assumes "channel_ok ch"
  shows "yields (\<lambda>_. True) (libradio_rxpacket E ch) (\<lambda>(r, ch'). channel_ok ch' \<and> ch_state ch' = ch_state ch)"
  unfolding libradio_rxpacket_def Let_def
  by (intro yields_bind_preserves [OF preserves_True] yields_bind [OF fifo_read_any] yields_if yields_return)
    (use assms in \<open>auto simp: channel_ok_def packet_ok_def Let_def
      intro: packet_overlay_ok [unfolded packet_ok_def]\<close>)

lemma recv_shape:
  assumes "channel_ok ch"
  shows "yields (\<lambda>_. True) (libradio_recv E ch c) (\<lambda>(r, ch'). channel_ok ch' \<and> ch_state ch' = ch_state ch)"
proof -
  let ?P = "\<lambda>(r :: u8, ch'). channel_ok ch' \<and> ch_state ch' = ch_state ch"
  have a: "yields (\<lambda>_. True) (if avail then do {
          (ret, ch) \<leftarrow> libradio_rxpacket E ch;
          (if ret = 0 then do { libradio_get_fifo_info E 2; State_Monad.return () }
           else modify (\<lambda>w. w\<lparr>r_npacket_rx := r_npacket_rx w + 1, r_saw_rx := 1\<rparr>));
          catch \<leftarrow> gets r_catch_irq;
          when_op (catch \<noteq> 0) (libradio_irq_enable 1);
          State_Monad.return (ret, ch)
        }
        else State_Monad.return (0, ch)) ?P" for avail
    by (rule yields_if, rule yields_bind [OF rxpacket_shape [OF assms]])
      (use assms in \<open>auto intro!: yields_bind_preserves [OF preserves_True] yields_return\<close>)
  show ?thesis unfolding libradio_recv_def
    by (rule yields_bind_preserves [OF preserves_True], rule yields_bind [OF a])
      (auto intro!: yields_bind_preserves [OF preserves_True] yields_return)
qed

lemma send_shape:
  assumes "channel_ok ch"
  shows "yields (\<lambda>_. True) (libradio_send E ch c) (\<lambda>(r, ch'). channel_ok ch' \<and> ch_state ch' = ch_state ch)"
proof -
  have t: "yields (\<lambda>_. True) (libradio_txpacket E ch) (\<lambda>(r, ch'). channel_ok ch' \<and> ch_state ch' = ch_state ch)"
    unfolding libradio_txpacket_def Let_def using assms
    by (intro yields_if yields_return yields_bind_preserves [OF preserves_True]) (auto simp: channel_ok_def packet_ok_def)
  show ?thesis unfolding libradio_send_def Let_def
    by (intro yields_bind_preserves [OF preserves_True] yields_if yields_return yields_bind [OF t])
      (use assms in \<open>auto intro!: yields_bind_preserves [OF preserves_True] yields_return\<close>)
qed

section \<open>The invariant of the controller's variables\<close>

text \<open>
  \<open>ctl_shape R c\<close>: the array has its six elements, no channel but one in \<open>R\<close> is in a state in which
  a response is awaited, and the serial interpreter has a current channel where it writes to one.
\<close>

definition ctl_shape :: "nat set \<Rightarrow> control \<Rightarrow> bool" where
  "ctl_shape R c \<longleftrightarrow> length (channels c) = MAX_RADIO_CHANNELS \<and>
     (\<forall>i < MAX_RADIO_CHANNELS. channel_ok (channels c ! i) \<and> ch_state (channels c ! i) \<le> 9 \<and>
        (i \<notin> R \<longrightarrow> ch_state (channels c ! i) \<le> 5)) \<and>
     (case curr_chp c of None \<Rightarrow> in_state c < 3 | Some i \<Rightarrow> i < MAX_RADIO_CHANNELS) \<and> in_state c \<le> 5"

definition ctl_ok :: "control \<Rightarrow> bool" where
  "ctl_ok c \<longleftrightarrow> ctl_shape (set_option (resp_chp c)) c \<and> (\<forall>i. resp_chp c = Some i \<longrightarrow> i < MAX_RADIO_CHANNELS)"

definition ctl_inv :: "nat option \<Rightarrow> bool \<Rightarrow> ('d, control) mcu \<Rightarrow> bool" where
  "ctl_inv r b w \<longleftrightarrow> ctl_ok (app w) \<and> resp_chp (app w) = r \<and> (b \<longrightarrow> curr_chp (app w) \<noteq> None)"

lemma ctl_inv_app: "app w = app v \<Longrightarrow> ctl_inv r b w \<Longrightarrow> ctl_inv r b v"
  by (simp add: ctl_inv_def)

lemma ctl_keeps: "keeps app m \<Longrightarrow> preserves (ctl_inv r b) m"
  by (simp add: keeps_def preserves_def ctl_inv_def)

lemma ctl_inv_stop [simp]: "ctl_inv r b (stop_with x w) = ctl_inv r b w"
  by (simp add: ctl_inv_def)

lemma ctl_inv_printf [keep_rules]: "preserves (ctl_inv r b) (printf s)"
  by (auto simp: preserves_def printf_def ctl_inv_def)

lemma u8_order [intro]: "(s :: u8) < 3 \<Longrightarrow> s \<le> 5" "(s :: u8) \<le> 5 \<Longrightarrow> s \<le> 9"
  by (simp_all add: word_less_nat_alt word_le_nat_alt)

lemma ctl_okD:
  assumes "ctl_ok c" "i < 6"
  shows "channel_ok (channels c ! i)" "ch_state (channels c ! i) \<le> 9"
    "resp_chp c \<noteq> Some i \<Longrightarrow> ch_state (channels c ! i) \<le> 5"
  using assms by (auto simp: ctl_ok_def ctl_shape_def)

lemma ctl_update:
  assumes "ctl_ok c" "i < 6 \<Longrightarrow> channel_ok (f (channels c ! i))"
    "i < 6 \<Longrightarrow> ch_state (f (channels c ! i)) \<le> 5 \<or> ch_state (f (channels c ! i)) = ch_state (channels c ! i) \<or>
      resp_chp c = Some i \<and> ch_state (f (channels c ! i)) \<le> 9"
  shows "ctl_ok (c\<lparr>channels := (channels c)[i := f (channels c ! i)]\<rparr>)"
proof -
  let ?new = "(channels c)[i := f (channels c ! i)]"
  have "channel_ok (?new ! j) \<and> ch_state (?new ! j) \<le> 9 \<and> (j \<notin> set_option (resp_chp c) \<longrightarrow> ch_state (?new ! j) \<le> 5)"
    if "j < 6" for j
    using assms(2,3) that ctl_okD [OF assms(1) that] assms(1)
    by (cases "j = i") (auto simp: ctl_ok_def ctl_shape_def)
  then show ?thesis using assms(1) by (auto simp: ctl_ok_def ctl_shape_def split: option.splits)
qed

lemma ctl_inv_update:
  assumes "\<And>ch. channel_ok ch \<Longrightarrow> channel_ok (f ch)"
    "\<And>ch. ch_state (f ch) \<le> 5 \<or> ch_state (f ch) = ch_state ch \<or> r = Some i \<and> ch_state (f ch) \<le> 9"
  shows "preserves (ctl_inv r b) (chan_update i f)"
proof -
  have "ctl_ok (c\<lparr>channels := (channels c)[i := f (channels c ! i)]\<rparr>)" if "ctl_ok c" "resp_chp c = r" for c
    using that assms by (intro ctl_update) (auto simp: ctl_ok_def ctl_shape_def)
  then show ?thesis by (simp add: preserves_def chan_update_def ctl_inv_def)
qed

lemma ctl_inv_fields [keep_rules]:
  "s \<le> 5 \<Longrightarrow> preserves (ctl_inv r b) (chan_update i (\<lambda>ch. ch\<lparr>ch_state := s\<rparr>))"
  "preserves (ctl_inv r b) (chan_update i (\<lambda>ch. ch\<lparr>ch_priority := p ch\<rparr>))"
  "s \<le> 5 \<Longrightarrow> preserves (ctl_inv r b) (chan_update i (\<lambda>ch. ch\<lparr>ch_state := s, ch_priority := p ch\<rparr>))"
  "preserves (ctl_inv r b) (chan_update i bump_priority)"
  "(\<And>p. packet_ok p \<Longrightarrow> packet_ok (g p)) \<Longrightarrow> preserves (ctl_inv r b) (chan_update i (upd_packet g))"
  by (rule ctl_inv_update; simp add: channel_ok_def bump_priority_def upd_packet_def)+

lemma ctl_inv_chan_get:
  "yields (ctl_inv r b) (chan_get i) (\<lambda>ch. channel_ok ch \<and> ch_state ch \<le> 9 \<and> (r \<noteq> Some i \<longrightarrow> ch_state ch \<le> 5))"
proof (rule yieldsI)
  fix s t :: "('d, control) mcu" and ch
  assume s: "ctl_inv r b s" "run_state (chan_get i) s = (ch, t)"
  show "ctl_inv r b t \<and> channel_ok ch \<and> ch_state ch \<le> 9 \<and> (r \<noteq> Some i \<longrightarrow> ch_state ch \<le> 5)"
  proof (cases "i < 6")
    case True
    then show ?thesis using s ctl_okD [of "app s" i]
      by (auto simp: chan_get_def ctl_inv_def ctl_ok_def ctl_shape_def)
  next
    case False
    have "length (channels (app s)) = 6" using s by (simp add: ctl_inv_def ctl_ok_def ctl_shape_def)
    then show ?thesis using False s by (auto simp: chan_get_def zero_channel_def zero_packet_def channel_ok_def packet_ok_def)
  qed
qed

lemma ctl_inv_in_state:
  "s < 3 \<or> b \<and> s \<le> 5 \<Longrightarrow> preserves (ctl_inv r b) (modify_ctl (\<lambda>c. c\<lparr>in_state := s\<rparr>))"
  "preserves (ctl_inv r b) (modify_ctl (\<lambda>c. c\<lparr>in_value := v\<rparr>))"
  "preserves (ctl_inv r b) (modify_ctl (\<lambda>c. c\<lparr>last_modulo := n\<rparr>))"
  "i < 6 \<Longrightarrow> preserves (ctl_inv r b) (modify_ctl (\<lambda>c. c\<lparr>curr_chp := Some i\<rparr>))"
  by (auto simp: preserves_def modify_ctl_def ctl_inv_def ctl_ok_def ctl_shape_def split: option.splits)

lemmas ctl_inv_ctl [keep_rules] = ctl_inv_in_state(2-4) ctl_inv_in_state(1) [where s = 0]
  ctl_inv_in_state(1) [where s = 1] ctl_inv_in_state(1) [where s = 2]


section \<open>The controller as an application of the library\<close>

lemma control_env_sel [simp]:
  "e_operate (control_env H) = (\<lambda>pp. State_Monad.return ())"
  "e_fetch_status (control_env H) = (\<lambda>t b n. State_Monad.return (0, b))"
  "e_power_mode (control_env H) = libradio_power_mode"
  by (simp_all add: control_env_def hw.defs env.defs)

interpretation ctl: passive_client "control_env H" for H :: "'d hw"
proof unfold_locales
  fix h :: u8 and p :: packet and t :: u8 and n :: nat and buf :: "u8 list" and w w' :: "('d, control) mcu"
    and i :: int and buf' :: "u8 list"
  show "preserves safe (e_power_mode (control_env H) h)" by (auto intro: keep_rules)
  show "keeps slow_view (e_power_mode (control_env H) h)"
    by (auto simp: libradio_power_mode_def slow_view_def core_view_def intro!: keep_rules keeps_modify)
  show "r_period (snd (run_state (e_power_mode (control_env H) h) w)) =
      (if h \<noteq> 0 then r_fast_period w else r_slow_period w)"
    by (simp add: libradio_power_mode_def)
qed (auto intro: keep_rules)

lemma app_extend: "app (libradio.extend l (libradio.more w)) = app w"
  by (cases w) (simp add: libradio.defs)

lemma keeps_app_init: "keeps app (libradio_init (control_env H) c1 c2 n1 n2)"
  unfolding libradio_init_def
  by (intro keep_rules keeps_modify ctl.keeps_app_set_state) (simp_all add: keeps_def libradio_set_clock_def pkt_init_def app_extend)

lemma ctl_inv_library [keep_rules]:
  "preserves (ctl_inv r b) (libradio_set_delay d)" "preserves (ctl_inv r b) libradio_get_state"
  "preserves (ctl_inv r b) libradio_get_my_channel" "preserves (ctl_inv r b) (data_at p i)"
  "preserves (ctl_inv r b) (eeprom_read_byte a)" "preserves (ctl_inv r b) (setled v)" "preserves (ctl_inv r b) getchar"
  "preserves (ctl_inv r b) (libradio_power_mode h)" "preserves (ctl_inv r b) clock_init"
  "preserves (ctl_inv r b) serial_init" "preserves (ctl_inv r b) (libradio_irq_enable f)"
  "preserves (ctl_inv r b) (libradio_power_up E)" "preserves (ctl_inv r b) (libradio_check_rx E)"
  "preserves (ctl_inv r b) (libradio_recv E ch c)" "preserves (ctl_inv r b) (libradio_send E ch c)"
  "preserves (ctl_inv r b) (libradio_wait E)"
  "preserves (ctl_inv r b) (libradio_set_state (control_env H) s)"
  "preserves (ctl_inv r b) (libradio_command (control_env H) pp)"
  "preserves (ctl_inv r b) (libradio_init (control_env H) c1 c2 n1 n2)"
  by (rule ctl_keeps, rule keep_rules ctl.keeps_app_set_state ctl.keeps_app_command keeps_app_init)+

lemma ctl_inv_modify:
  "(\<And>w. app (f w) = app w) \<Longrightarrow> preserves (ctl_inv r b) (modify f)"
  by (rule ctl_keeps) (simp add: keeps_modify)

lemma ctl_inv_local_status [keep_rules]: "preserves (ctl_inv r b) (local_status E t)"
proof -
  have "keeps app (State (\<lambda>w. case e_analog_read E 3 (dev w) of (v, d) \<Rightarrow> (v, w\<lparr>dev := d\<rparr>)))"
    by (auto simp: keeps_def split: prod.splits)
  then have "preserves (ctl_inv r b) (State (\<lambda>w. case e_analog_read E 3 (dev w) of (v, d) \<Rightarrow> (v, w\<lparr>dev := d\<rparr>)))"
    by (rule ctl_keeps)
  then show ?thesis by (auto simp: local_status_def Let_def intro!: keep_rules)
qed

lemma ctl_inv_reply [keep_rules]: "preserves (ctl_inv r b) (reply c)"
  by (auto simp: reply_def intro!: keep_rules)

lemma ctl_inv_set_channel [keep_rules]: "preserves (ctl_inv r b) (set_channel c v)"
  by (auto simp: set_channel_def intro!: keep_rules)

lemma ctl_inv_chan_read [keep_rules]: "preserves (ctl_inv r b) (chan_get i)"
  by (rule yields_preserves [OF ctl_inv_chan_get])

lemma ctl_inv_mycommand [keep_rules]: "preserves (ctl_inv r b) (mycommand (control_env H) pp)"
  by (auto simp: mycommand_def Let_def intro!: keep_rules ctl_inv_modify)

lemma ctl_inv_enqueue [keep_rules]: "preserves (ctl_inv r b) (enqueue (control_env H) i)"
  by (auto simp: enqueue_def Let_def intro!: keep_rules)


section \<open>The interpreter and the scheduler\<close>

lemma ctl_inv_set_in_state: "s < 3 \<or> b \<and> s \<le> 5 \<Longrightarrow> preserves (ctl_inv r b) (set_in_state s)"
  unfolding set_in_state_def by (rule ctl_inv_in_state)

lemma ctl_inv_set_in_value [keep_rules]: "preserves (ctl_inv r b) (set_in_value v)"
  unfolding set_in_value_def by (rule keep_rules)

lemma ctl_inv_with_curr [keep_rules]:
  "(\<And>i. preserves (ctl_inv r b) (f i)) \<Longrightarrow> preserves (ctl_inv r b) (with_curr f)"
  by (auto simp: with_curr_def intro!: keep_rules preserves_modify split: option.splits)

lemma ctl_inv_push_data [keep_rules]: "preserves (ctl_inv r b) (push_data i v)"
  by (auto simp: push_data_def Let_def packet_ok_def intro!: keep_rules preserves_modify)

lemma ctl_inv_chosen:
  assumes "i < 6"
  shows "ensures (ctl_inv r b) (modify_ctl (\<lambda>c. c\<lparr>curr_chp := Some i\<rparr>)) (\<lambda>_. ctl_inv r True)"
  using assms by (auto simp: ensures_def modify_ctl_def ctl_inv_def ctl_ok_def ctl_shape_def split: option.splits)

lemma ctl_inv_weaken: "ctl_inv r b w \<Longrightarrow> ctl_inv r False w"
  by (simp add: ctl_inv_def)

lemma ctl_inv_ensures: "preserves (ctl_inv r b) m \<Longrightarrow> ensures (ctl_inv r b) m (\<lambda>_. ctl_inv r False)"
  by (auto simp: ensures_def preserves_def intro: ctl_inv_weaken)

lemma ctl_inv_select_channel: "ensures (ctl_inv r b) (select_channel i) (\<lambda>_. ctl_inv r False)"
proof -
  have le: "(3 :: u8) \<le> 5" by simp
  have "ensures (ctl_inv r b) (modify_ctl (\<lambda>c. c\<lparr>curr_chp := Some i\<rparr>)) (\<lambda>_. ctl_inv r True)" if "\<not> 6 \<le> i"
    using that by (intro ctl_inv_chosen) simp
  note chosen = this
  show ?thesis unfolding select_channel_def
    by (rule ensures_bind [OF ensures_preserves [OF ctl_inv_set_in_value]], rule ensures_if,
        rule ctl_inv_ensures, rule keep_rules, rule ensures_bind [OF chosen], assumption, rule ctl_inv_ensures)
      (intro keep_rules ctl_inv_set_in_state; simp)
qed

lemma ctl_inv_halt [keep_rules]: "preserves (ctl_inv r b) (modify (stop_with x))"
  by (simp add: preserves_modify)

lemma ctl_inv_char_step: "ensures (ctl_inv r (3 \<le> st)) (char_step (control_env H) ch st v) (\<lambda>_. ctl_inv r False)"
  unfolding char_step_def
  apply (intro ensures_if ctl_inv_select_channel)
          apply (intro ctl_inv_ensures keep_rules ctl_inv_set_in_state; auto simp: packet_ok_def)+
  done

lemma ctl_inv_process_char [keep_rules]: "preserves (ctl_inv r False) (process_char (control_env H) ch)"
proof (rule ensures_preserved, unfold process_char_def, rule ensures_bind)
  show "ensures (ctl_inv r False) (gets (\<lambda>w. (in_state (app w), in_value (app w))))
      (\<lambda>x. ctl_inv r (3 \<le> fst x))"
    by (auto simp: ensures_def ctl_inv_def ctl_ok_def ctl_shape_def not_less split: option.splits)
qed (auto simp: ctl_inv_char_step split: prod.splits)

lemma ctl_inv_process_input [keep_rules]: "preserves (ctl_inv r False) (process_input (control_env H))"
  by (auto simp: process_input_def intro!: keep_rules)

lemma u8_next: "(x :: u8) \<le> 9 \<Longrightarrow> x \<noteq> 9 \<Longrightarrow> x + 1 \<le> 9"
  by (simp add: word_le_nat_alt unat_word_ariths word_unat_eq_iff)

lemma ctl_inv_forget: "preserves (ctl_inv None b) (modify_ctl (\<lambda>c. c\<lparr>resp_chp := None\<rparr>))"
  by (auto simp: preserves_def modify_ctl_def ctl_inv_def ctl_ok_def ctl_shape_def split: option.splits)

lemma ctl_any: "(\<And>r. preserves (ctl_inv r False) m) \<Longrightarrow> preserves (\<lambda>w. ctl_ok (app w)) m"
  unfolding preserves_def ctl_inv_def by blast

lemma ctl_inv_ok: "preserves (ctl_inv r b) m \<Longrightarrow> ensures (ctl_inv r b) m (\<lambda>_ w. ctl_ok (app w))"
  by (auto simp: ensures_def preserves_def ctl_inv_def)

lemma ctl_ok_await:
  assumes "ctl_ok c" "i < 6" "resp_chp c = None \<or> resp_chp c = Some i" "s \<le> 9"
  shows "ctl_ok (c\<lparr>channels := (channels c)[i := (channels c ! i)\<lparr>ch_state := s\<rparr>], resp_chp := Some i\<rparr>)"
proof -
  let ?new = "(channels c)[i := (channels c ! i)\<lparr>ch_state := s\<rparr>]"
  have "channel_ok (?new ! j) \<and> ch_state (?new ! j) \<le> 9 \<and> (j \<noteq> i \<longrightarrow> ch_state (?new ! j) \<le> 5)" if "j < 6" for j
    using assms(2-4) that ctl_okD [OF assms(1) that] assms(1)
    by (cases "j = i") (auto simp: ctl_ok_def ctl_shape_def channel_ok_def)
  then show ?thesis using assms(1,2) by (auto simp: ctl_ok_def ctl_shape_def split: option.splits)
qed

lemma ctl_ok_done:
  assumes "ctl_ok c" "resp_chp c = Some i" "s \<le> 5"
  shows "ctl_ok (c\<lparr>channels := (channels c)[i := (channels c ! i)\<lparr>ch_state := s\<rparr>], resp_chp := None\<rparr>)"
proof -
  have i: "i < 6" using assms by (simp add: ctl_ok_def)
  let ?new = "(channels c)[i := (channels c ! i)\<lparr>ch_state := s\<rparr>]"
  have "channel_ok (?new ! j) \<and> ch_state (?new ! j) \<le> 9 \<and> ch_state (?new ! j) \<le> 5" if "j < 6" for j
    using assms(2-3) that ctl_okD [OF assms(1) that] assms(1)
    by (cases "j = i") (auto simp: ctl_ok_def ctl_shape_def channel_ok_def)
  then show ?thesis using assms(1) i by (auto simp: ctl_ok_def ctl_shape_def split: option.splits)
qed

lemma ctl_inv_tx_channel:
  assumes i: "i < 6"
  shows "ensures (ctl_inv None False) (tx_channel (control_env H) i) (\<lambda>_ w. ctl_ok (app w))"
proof -
  have tail: "preserves (\<lambda>w. ctl_ok (app w)) (for_each [0..<MAX_RADIO_CHANNELS] (\<lambda>j. chan_update j bump_priority))"
    "preserves (\<lambda>w. ctl_ok (app w)) (chan_update i (\<lambda>ch. ch\<lparr>ch_priority := 0\<rparr>))"
    by (rule ctl_any, intro keep_rules)+
  have put: "preserves (ctl_inv None False) (chan_update i (\<lambda>_. ch'))" if "channel_ok ch'" "ch_state ch' \<le> 5" for ch'
    using that by (intro ctl_inv_update) auto
  have resp: "ensures (ctl_inv None False) (do {
            libradio_irq_enable 1;
            chan_update i (\<lambda>ch. ch\<lparr>ch_state := LIBRADIO_CHSTATE_RXRESPONSE1\<rparr>);
            modify_ctl (\<lambda>c. c\<lparr>resp_chp := Some i\<rparr>)
          }) (\<lambda>_ w. ctl_ok (app w))"
  proof (rule ensures_bind_preserves)
    show "ensures (ctl_inv None False) (do {
            chan_update i (\<lambda>ch. ch\<lparr>ch_state := LIBRADIO_CHSTATE_RXRESPONSE1\<rparr>);
            modify_ctl (\<lambda>c. c\<lparr>resp_chp := Some i\<rparr>)
          }) (\<lambda>_ w. ctl_ok (app w))"
      using i ctl_ok_await [of _ i 6]
      by (auto simp: ensures_def chan_update_def modify_ctl_def ctl_inv_def) (auto simp: ctl_ok_def ctl_shape_def)
  qed (intro keep_rules)
  have sent: "yields (ctl_inv None False) (libradio_send (control_env H) ch c) 
     (\<lambda>(r, ch'). channel_ok ch' \<and> ch_state ch' = ch_state ch)" if "channel_ok ch" for ch c
    by (rule yields_both [OF _ send_shape [OF that]]) (intro keep_rules)
  show ?thesis
    unfolding tx_channel_def when_op_def
    by (rule ensures_bind_yields [OF ctl_inv_chan_get], rule ensures_if, (rule ctl_inv_ok, intro keep_rules)[],
       rule ensures_bind_preserves, (intro keep_rules)[], rule ensures_bind_yields, rule sent, simp, rule ensures_prod,
       rule ensures_bind_preserves, (rule put; simp), rule ensures_bind [OF _ ensures_preserves [OF tail(1)]],
       rule ensures_if, rule ensures_bind [OF _ ensures_preserves [OF tail(2)]], rule ensures_if, rule resp)
      (rule ctl_inv_ok, intro keep_rules; simp)+
qed

lemma pick_loop_step:
  "pick_loop (ch # chs) i best = pick_loop chs (i + 1) best \<or>
   pick_loop (ch # chs) i best = pick_loop chs (i + 1) (Some (i, ch_priority ch))"
  by (cases best) auto

lemma pick_loop_bound:
  "pick_loop chs i best = Some r \<Longrightarrow> (\<And>q. best = Some q \<Longrightarrow> fst q < i) \<Longrightarrow> fst r < i + length chs"
proof (induction chs arbitrary: i best)
  case (Cons ch chs)
  have best: "fst q < i + 1" if "best = Some q" for q using Cons.prems(2) [OF that] by simp
  from pick_loop_step [of ch chs i best] show ?case
  proof
    assume "pick_loop (ch # chs) i best = pick_loop chs (i + 1) best"
    then have "pick_loop chs (i + 1) best = Some r" using Cons.prems(1) by metis
    from Cons.IH [OF this best] show ?thesis by simp
  next
    assume "pick_loop (ch # chs) i best = pick_loop chs (i + 1) (Some (i, ch_priority ch))"
    then have "pick_loop chs (i + 1) (Some (i, ch_priority ch)) = Some r" using Cons.prems(1) by metis
    from Cons.IH [OF this] show ?thesis by fastforce
  qed
next
  case Nil
  then show ?case by simp
qed

lemma pick_channel_bound: "pick_channel chs = Some i \<Longrightarrow> i < length chs"
  using pick_loop_bound [of chs 0 None] by (fastforce simp: pick_channel_def)

lemma ctl_inv_length: "ctl_inv r b w \<Longrightarrow> length (channels (app w)) = 6"
  by (simp add: ctl_inv_def ctl_ok_def ctl_shape_def)

lemma ctl_inv_tx_check_queues:
  "ensures (ctl_inv None False) (tx_check_queues (control_env H)) (\<lambda>_ w. ctl_ok (app w))"
proof -
  have slot: "ensures (ctl_inv None False) (gets (\<lambda>w. pick_channel (channels (app w))))
     (\<lambda>r w. ctl_inv None False w \<and> (\<forall>i. r = Some i \<longrightarrow> i < 6))"
    using ctl_inv_length by (fastforce simp: ensures_def dest: pick_channel_bound)
  have time: "preserves (ctl_inv None False) (chan_update n (\<lambda>ch. ch\<lparr>ch_state := LIBRADIO_CHSTATE_TRANSMIT, ch_priority := 0xff,
               ch_packet := (ch_packet ch)\<lparr>node := 0, len := 1, cmd := RADIO_CMD_SET_TIME,
                 data := (data (ch_packet ch))[0 := tom]\<rparr>\<rparr>))" for n tom
    by (rule ctl_inv_update) (auto simp: channel_ok_def packet_ok_def)
  show ?thesis
    unfolding tx_check_queues_def Let_def
    apply (rule ensures_bind_preserves, (intro keep_rules)[], rule ensures_if, (rule ctl_inv_ok, intro keep_rules)[])
    apply (rule ensures_bind_preserves, (intro keep_rules)[])
    apply (rule ensures_bind_preserves, (intro keep_rules)[])
    apply (rule ensures_bind_yields [where P = "\<lambda>r. \<forall>i. r = Some i \<longrightarrow> i < 6"])
    apply (intro yields_if yields_bind_preserves yields_return keep_rules time; simp)
    apply (rule ensures_bind_preserves, (intro keep_rules)[])
    apply (rule ensures_bind [where R = "\<lambda>r w. ctl_inv None False w \<and> (\<forall>i. r = Some i \<longrightarrow> i < 6)"])
    subgoal for st ms last chp
      using slot by (cases chp) (auto simp: ensures_def)
    subgoal for st ms last chp u chq
      using ctl_inv_tx_channel [where H = H] by (cases chq) (auto simp: ensures_def ctl_inv_def)
    done
qed

lemma ctl_inv_response_end: "ensures (ctl_inv (Some i) False) (response_end i) (\<lambda>_ w. ctl_ok (app w))"
  using ctl_ok_done [of _ i 2]
  by (auto simp: ensures_def response_end_def chan_update_def modify_ctl_def ctl_inv_def) (auto simp: ctl_ok_def ctl_shape_def)

lemma ctl_inv_txresponse: "preserves (ctl_inv (Some i) False) (txresponse (control_env H) i)"
proof -
  have recv: "yields (ctl_inv (Some i) False) (libradio_recv (control_env H) ch c)
     (\<lambda>(r, ch'). channel_ok ch' \<and> ch_state ch' = ch_state ch)" if "channel_ok ch" for ch c
    by (rule yields_both [OF _ recv_shape [OF that]]) (intro keep_rules)
  have put: "preserves (ctl_inv (Some i) False) (chan_update i (\<lambda>_. ch'))" if "channel_ok ch'" "ch_state ch' \<le> 9" for ch'
    using that by (intro ctl_inv_update) auto
  show ?thesis
    unfolding txresponse_def Let_def
    apply (rule preserves_bind, intro keep_rules)
    apply (rule preserves_bind_yields [OF ctl_inv_chan_get])
    apply (rule preserves_bind, intro keep_rules)
    apply (rule preserves_bind_yields, rule recv, simp)
    apply (rule preserves_split, rule preserves_bind, rule put)
    apply (auto intro!: keep_rules)
    done
qed

lemma ctl_inv_response_missing:
  "ensures (ctl_inv (Some i) False) (response_missing i :: ('d, control, unit) op) (\<lambda>_ w. ctl_ok (app w))"
proof (unfold ensures_def, intro allI impI)
  fix w :: "('d, control) mcu"
  assume w: "ctl_inv (Some i) False w"
  let ?ch = "channels (app w) ! i"
  have i: "i < 6" "length (channels (app w)) = 6" "ctl_ok (app w)" "resp_chp (app w) = Some i"
    using w by (auto simp: ctl_inv_def ctl_ok_def ctl_shape_def)
  show "ctl_ok (app (snd (run_state (response_missing i) w)))"
  proof (cases "ch_state ?ch = 9")
    case True
    then show ?thesis using i ctl_ok_done [OF i(3,4), of 2]
      by (simp add: response_missing_def response_end_def chan_get_def chan_update_def modify_ctl_def printf_def)
  next
    case False
    have "ctl_ok ((app w)\<lparr>channels := (channels (app w))[i := ?ch\<lparr>ch_state := ch_state ?ch + 1\<rparr>]\<rparr>)"
      using i ctl_okD [OF i(3,1)] u8_next [OF _ False]
        ctl_update [OF i(3), of i "\<lambda>ch. ch\<lparr>ch_state := ch_state ch + 1\<rparr>"]
      by (simp add: channel_ok_def)
    then show ?thesis using i False by (simp add: response_missing_def chan_get_def chan_update_def)
  qed
qed

lemma ctl_inv_response_step:
  "preserves (\<lambda>w. ctl_ok (app w)) (response_step (control_env H))"
  unfolding response_step_def
  apply (rule ensures_preserved, rule ensures_bind [where R = "\<lambda>r. ctl_inv r False"])
  subgoal by (simp add: ensures_def ctl_inv_def)
  subgoal for rc
    apply (cases rc)
    subgoal by (simp add: ensures_def ctl_inv_def)
    subgoal for i
      apply simp
      apply (rule ensures_bind_preserves, intro keep_rules)
      apply (rule ensures_if, rule ensures_bind_preserves, rule ctl_inv_txresponse, rule ctl_inv_response_end)
      apply (rule ctl_inv_response_missing)
      done
    done
  done


lemma control_turn_ok:
  fixes H :: "'d hw"
  shows "preserves (\<lambda>w. ctl_ok (app w)) (control_turn (control_env H))"
proof -
  have wait: "preserves (\<lambda>w. ctl_ok (app w)) (libradio_wait (control_env H))"
    by (rule ctl_any) (intro keep_rules)
  have input: "preserves (\<lambda>w. ctl_ok (app w)) (when_op b (process_input (control_env H)))" for b
    by (rule ctl_any) (intro keep_rules)
  have queues: "preserves (\<lambda>w. ctl_ok (app w)) (do { rc \<leftarrow> gets (\<lambda>w. resp_chp (app w)); 
      when_op (rc = None) (tx_check_queues (control_env H)) })"
  proof (rule ensures_preserved, rule ensures_bind [where R = "\<lambda>r. ctl_inv r False"])
    show "ensures (ctl_inv rc False) (when_op (rc = None) (tx_check_queues (control_env H))) (\<lambda>_ w. ctl_ok (app w))" for rc
      using ctl_inv_tx_check_queues [where H = H] by (cases rc) (simp_all add: ensures_def ctl_inv_def)
  qed (simp add: ensures_def ctl_inv_def)
  show ?thesis unfolding control_turn_def
    by (rule preserves_bind [OF wait], rule preserves_bind [OF ctl_inv_response_step],
        rule preserves_bind [OF preserves_gets], rule preserves_bind [OF input], rule queues)
qed

lemma control_run_ok: "control_run H w \<Longrightarrow> ctl_ok (app w)"
proof (induction rule: control_run.induct)
  case (control_boot w w')
  have ok: "ctl_inv None False w"
    using control_boot(3)
    by (auto simp: ctl_inv_def ctl_ok_def ctl_shape_def zero_control_def zero_channel_def zero_packet_def channel_ok_def packet_ok_def
      simp del: replicate.simps)
  have "preserves (ctl_inv None False) (control_start (control_env H))"
    unfolding control_start_def tx_init_def
    by (intro keep_rules ctl_inv_modify ctl_inv_forget) simp_all
  from preserves_run [OF this ok control_boot(4)] show ?case by (simp add: ctl_inv_def)
next
  case (control_loop w w')
  from preserves_run [OF control_turn_ok control_loop.IH control_loop(2)] show ?case .
qed

end
