(* ===== verification/Control_Behaviour.thy ===== *)
theory Control_Behaviour
  imports Control_Invariant
begin

text \<open>
  What the operations of the controller do: the serial interpreter on the text of a command
  (\<open>command_text\<close>), the outcomes of \<open>enqueue\<close>, one transmission (\<open>tx_outcome\<close>), the wait for a
  response (an interpretation of \<open>countdown\<close>), the choice of a channel (\<open>picked\<close>), the time slots, and
  commands that were never finished.
\<close>

section \<open>Runs of the elementary operations\<close>

lemma run_chan_get [simp]:
  "i < length (channels (app w)) \<Longrightarrow> run_state (chan_get i) w = (channels (app w) ! i, w)"
  by (simp add: chan_get_def)

lemma run_chan_update [simp]: "i < length (channels (app w)) \<Longrightarrow> run_state (chan_update i f) w =
    ((), w\<lparr>app := (app w)\<lparr>channels := (channels (app w))[i := f (channels (app w) ! i)]\<rparr>\<rparr>)"
  by (simp add: chan_update_def)

lemma run_modify_ctl [simp]: "run_state (modify_ctl f) w = ((), w\<lparr>app := f (app w)\<rparr>)"
  by (simp add: modify_ctl_def)

lemma run_set_in [simp]:
  "run_state (set_in_state s) w = ((), w\<lparr>app := (app w)\<lparr>in_state := s\<rparr>\<rparr>)"
  "run_state (set_in_value v) w = ((), w\<lparr>app := (app w)\<lparr>in_value := v\<rparr>\<rparr>)"
  by (simp_all add: set_in_state_def set_in_value_def)

lemma run_with_curr [simp]: "curr_chp (app w) = Some i \<Longrightarrow> run_state (with_curr f) w = run_state (f i) w"
  by (simp add: with_curr_def)

lemma run_process_char: "run_state (process_char E ch) w = run_state (char_step E ch (in_state (app w)) (in_value (app w))) w"
  by (simp add: process_char_def)

definition add_byte :: "u8 \<Rightarrow> packet \<Rightarrow> packet" where
  "add_byte d p = p\<lparr>data := (data p)[unat (len p) := d], len := len p + 1\<rparr>"

lemma run_push_data [simp]:
  assumes "i < length (channels (app w))" "unat (len (ch_packet (channels (app w) ! i))) < length (data (ch_packet (channels (app w) ! i)))"
  shows "run_state (push_data i v) w = ((), w\<lparr>app := (app w)\<lparr>channels := (channels (app w))[i :=
    upd_packet (add_byte v) (channels (app w) ! i)]\<rparr>\<rparr>)"
  using assms by (simp add: push_data_def upd_packet_def add_byte_def)

section \<open>Feeding a text to the interpreter\<close>

definition feed :: "('d, control) env \<Rightarrow> string \<Rightarrow> ('d, control, unit) op" where
  "feed E s = for_each s (\<lambda>c. process_char E (of_char c))"

lemma feed_append: "run_state (feed E (xs @ ys)) w = run_state (feed E ys) (snd (run_state (feed E xs) w))"
  by (simp add: feed_def run_for_each_append)

lemma feed_Cons: "run_state (feed E (c # xs)) w =
   run_state (feed E xs) (snd (run_state (process_char E (of_char c)) w))"
  by (simp add: feed_def case_prod_beta)

lemma feed_one [simp]: "run_state (feed E [c]) w = run_state (process_char E (of_char c)) w"
  by (simp add: feed_def case_prod_beta prod_eq_iff)

lemma feed_Nil [simp]: "run_state (feed E []) w = ((), w)"
  by (simp add: feed_def)

lemma of_digit [simp]: "d < 10 \<Longrightarrow> of_char (digit_char d) = 48 + d"
  by (simp add: digit_char_def)

lemma digit_step:
  assumes "3 \<le> in_state (app w)" "in_state (app w) \<le> 5" "d < 10"
  shows "run_state (process_char E (48 + d)) w =
    ((), w\<lparr>app := (app w)\<lparr>in_value := in_value (app w) * 10 + word_of_nat d\<rparr>\<rparr>)"
proof -
  have "in_state (app w) \<noteq> 0" "in_state (app w) \<noteq> 2" using assms(1) by auto
  then show ?thesis using assms by (simp add: run_process_char char_step_def)
qed

lemma feed_dec:
  assumes "3 \<le> in_state (app w)" "in_state (app w) \<le> 5" "in_value (app w) = 0"
  shows "run_state (feed E (dec n)) w = ((), w\<lparr>app := (app w)\<lparr>in_value := word_of_nat n\<rparr>\<rparr>)"
  using assms
proof (induction n rule: dec.induct)
  case (1 n)
  show ?case
  proof (cases "n < 10")
    case True
    then show ?thesis using "1.prems" by (simp add: feed_Cons digit_step)
  next
    case False
    have e: "word_of_nat (n div 10) * 10 + word_of_nat (n mod 10) = (word_of_nat n :: u8)"
      by (metis div_mult_mod_eq of_nat_add of_nat_mult of_nat_numeral)
    show ?thesis using "1.IH" [OF False] "1.prems" False
      by (simp add: dec_large feed_append feed_Cons digit_step e)
  qed
qed


section \<open>The text of a command\<close>

fun data_text :: "u8 list \<Rightarrow> string" where
  "data_text [] = []"
| "data_text [d] = dec (unat d) @ ''.''"
| "data_text (d # ds) = dec (unat d) @ '','' @ data_text ds"

definition command_text :: "nat \<Rightarrow> u8 \<Rightarrow> u8 \<Rightarrow> u8 list \<Rightarrow> string" where
  "command_text c n k ds = ''>'' @ [char_of (65 + c)] @ dec (unat n) @ '':'' @ dec (unat k) @
     (if ds = [] then ''.'' else '':'' @ data_text ds)"

definition ctl_set :: "control \<Rightarrow> channel list \<Rightarrow> u8 \<Rightarrow> u8 \<Rightarrow> nat option \<Rightarrow> control" where
  "ctl_set c chs st v cur = c\<lparr>channels := chs, in_state := st, in_value := v, curr_chp := cur\<rparr>"

lemma ctl_set_sel [simp]:
  "channels (ctl_set c chs st v cur) = chs" "in_state (ctl_set c chs st v cur) = st"
  "in_value (ctl_set c chs st v cur) = v" "curr_chp (ctl_set c chs st v cur) = cur"
  "(ctl_set c chs st v cur)\<lparr>channels := chs'\<rparr> = ctl_set c chs' st v cur"
  "(ctl_set c chs st v cur)\<lparr>in_state := st'\<rparr> = ctl_set c chs st' v cur"
  "(ctl_set c chs st v cur)\<lparr>in_value := v'\<rparr> = ctl_set c chs st v' cur"
  "(ctl_set c chs st v cur)\<lparr>curr_chp := cur'\<rparr> = ctl_set c chs st v cur'"
  by (simp_all add: ctl_set_def)

lemma ctl_set_self: "ctl_set c (channels c) (in_state c) (in_value c) (curr_chp c) = c"
  by (simp add: ctl_set_def)

lemma upd_packet_upd [simp]: "upd_packet f (upd_packet g ch) = upd_packet (f \<circ> g) ch"
  by (simp add: upd_packet_def)

lemma ch_packet_upd [simp]: "ch_packet (upd_packet f ch) = f (ch_packet ch)" "ch_state (upd_packet f ch) = ch_state ch"
  by (simp_all add: upd_packet_def)

lemma add_byte_sel [simp]: "length (data (add_byte d p)) = length (data p)" "len (add_byte d p) = len p + 1"
  by (simp_all add: add_byte_def)

lemma data_step:
  assumes a: "app w = ctl_set c chs 5 v (Some i)" and i: "i < length chs" and ch: "ch = 44 \<or> ch = 46"
    and l: "unat (len (ch_packet (chs ! i))) < 10" "length (data (ch_packet (chs ! i))) = 10"
  shows "run_state (process_char E ch) w = run_state (when_op (ch = 46) (do { enqueue E i; set_in_state 1 }))
    (w\<lparr>app := ctl_set c (chs[i := upd_packet (add_byte v) (chs ! i)]) 5 0 (Some i)\<rparr>)"
proof -
  have "char_step E ch 5 v = with_curr (\<lambda>i. do {
         c \<leftarrow> chan_get i;
         if unat (len (ch_packet c)) \<ge> MAX_PAYLOAD_SIZE then reply RADIO_CTLERR_TOO_BIG
         else do {
           push_data i v;
           set_in_value 0;
           when_op (ch = 46) (do { enqueue E i; set_in_state IO_STATE_WAITNL })
         }
       })" using ch unfolding char_step_def by (elim disjE) simp_all
  then show ?thesis using a i l by (simp add: run_process_char)
qed

lemma feed_data:
  assumes "app w = ctl_set c chs 5 0 (Some i)" "i < length chs" "ds \<noteq> []"
    "unat (len (ch_packet (chs ! i))) + length ds \<le> 10" "length (data (ch_packet (chs ! i))) = 10"
  shows "run_state (feed E (data_text ds)) w = run_state (do { enqueue E i; set_in_state 1 })
    (w\<lparr>app := ctl_set c (chs[i := upd_packet (fold add_byte ds) (chs ! i)]) 5 0 (Some i)\<rparr>)"
  using assms
proof (induction ds arbitrary: w chs rule: data_text.induct)
  case (2 d)
  then show ?case
    by (simp add: feed_append feed_dec data_step)
next
  case (3 d e ds)
  let ?chs = "chs[i := upd_packet (add_byte d) (chs ! i)]"
  have "unat (len (ch_packet (chs ! i)) + 1) = unat (len (ch_packet (chs ! i))) + 1"
    using "3.prems"(4) by (simp add: unat_word_ariths)
  then have "run_state (feed E (data_text (e # ds))) (w\<lparr>app := ctl_set c ?chs 5 0 (Some i)\<rparr>) =
     run_state (do { enqueue E i; set_in_state 1 })
      (w\<lparr>app := ctl_set c (?chs[i := upd_packet (fold add_byte (e # ds)) (?chs ! i)]) 5 0 (Some i)\<rparr>)"
    using "3.prems" by (subst "3.IH" [where chs = ?chs]) simp_all
  then show ?case using "3.prems"
    by (simp add: feed_append feed_dec feed_Cons data_step comp_def)
qed simp


lemma fold_add_byte:
  assumes "unat (len p) + length ds \<le> length (data p)" "length (data p) = 10"
  shows "fold add_byte ds p = p\<lparr>len := len p + word_of_nat (length ds),
    data := take (unat (len p)) (data p) @ ds @ drop (unat (len p) + length ds) (data p)\<rparr>"
  using assms
proof (induction ds arbitrary: p)
  case (Cons d ds)
  have u: "unat (len p + 1) = unat (len p) + 1" using Cons.prems by (simp add: unat_word_ariths)
  let ?q = "add_byte d p"
  have "fold add_byte ds ?q = ?q\<lparr>len := len ?q + word_of_nat (length ds),
      data := take (unat (len ?q)) (data ?q) @ ds @ drop (unat (len ?q) + length ds) (data ?q)\<rparr>"
    using Cons.prems by (intro Cons.IH) (simp_all add: u)
  then show ?case using Cons.prems
    by (simp add: u) (simp add: add_byte_def u take_Suc_conv_app_nth)
qed simp

text \<open>What a command text leaves in the channel it names.\<close>

definition filled :: "u8 \<Rightarrow> u8 \<Rightarrow> u8 list \<Rightarrow> channel \<Rightarrow> channel" where
  "filled n k ds ch = ch\<lparr>ch_state := LIBRADIO_CHSTATE_ADDING, ch_packet := (ch_packet ch)\<lparr>node := n, cmd := k,
     len := word_of_nat (length ds), data := ds @ drop (length ds) (data (ch_packet ch))\<rparr>\<rparr>"

lemma select_free:
  assumes c: "c < 6" "length (channels (app w)) = 6" and ch: "ch_state (channels (app w) ! c) \<le> 2"
    and st: "in_state (app w) = 0"
  shows "run_state (feed E (''>'' @ [char_of (65 + c)])) w = ((), w\<lparr>app :=
    ctl_set (app w) ((channels (app w))[c := (channels (app w) ! c)\<lparr>ch_state := 3\<rparr>]) 3 0 (Some c)\<rparr>)"
proof -
  let ?C = "channels (app w)" and ?ch = "channels (app w) ! c"
  have f1: "run_state (feed E ''>'') w = ((), w\<lparr>app := ctl_set (app w) ?C 2 (in_value (app w)) (curr_chp (app w))\<rparr>)"
    using st by (simp add: run_process_char char_step_def ctl_set_def)
  have f2: "run_state (feed E [char_of (65 + c)]) (w\<lparr>app := ctl_set (app w) ?C 2 v cur\<rparr>) =
     ((), w\<lparr>app := ctl_set (app w) (?C[c := ?ch\<lparr>ch_state := 3\<rparr>]) 3 0 (Some c)\<rparr>)" for v cur
  proof -
    have o: "of_char (char_of (65 + c) :: char) = 65 + c" using c by simp
    have "\<not> 2 < ch_state ?ch" using ch by (simp add: not_less)
    then show ?thesis using o c by (simp add: run_process_char char_step_def select_channel_def)
  qed
  show ?thesis by (simp only: feed_append f1 f2 snd_conv)
qed

text \<open>The channel, the node and the command number.\<close>

lemma feed_header:
  assumes c: "c < 6" "length (channels (app w)) = 6" and ch: "ch_state (channels (app w) ! c) \<le> 2" and st: "in_state (app w) = 0"
  shows "run_state (feed E ((''>'' @ [char_of (65 + c)]) @ dec (unat n) @ '':'' @ dec (unat k) @ z)) w =
    run_state (feed E z) (w\<lparr>app := ctl_set (app w)
      ((channels (app w))[c := upd_packet (\<lambda>p. p\<lparr>node := n\<rparr>) ((channels (app w) ! c)\<lparr>ch_state := 3\<rparr>)]) 4 k (Some c)\<rparr>)"
proof -
  let ?C = "channels (app w)" and ?ch = "channels (app w) ! c"
  let ?c1 = "?C[c := ?ch\<lparr>ch_state := 3\<rparr>]"
  let ?c2 = "?C[c := upd_packet (\<lambda>p. p\<lparr>node := n\<rparr>) (?ch\<lparr>ch_state := 3\<rparr>)]"
  have f1: "run_state (feed E (''>'' @ [char_of (65 + c)])) w = ((), w\<lparr>app := ctl_set (app w) ?c1 3 0 (Some c)\<rparr>)"
    using c ch st by (rule select_free)
  have f3: "run_state (feed E (dec (unat n))) (w\<lparr>app := ctl_set (app w) ?c1 3 0 (Some c)\<rparr>) =
     ((), w\<lparr>app := ctl_set (app w) ?c1 3 n (Some c)\<rparr>)"
    by (simp add: feed_dec)
  have f4: "run_state (feed E '':'') (w\<lparr>app := ctl_set (app w) ?c1 3 n (Some c)\<rparr>) =
     ((), w\<lparr>app := ctl_set (app w) ?c2 4 0 (Some c)\<rparr>)"
    using c by (simp add: run_process_char char_step_def)
  have f5: "run_state (feed E (dec (unat k))) (w\<lparr>app := ctl_set (app w) ?c2 4 0 (Some c)\<rparr>) =
     ((), w\<lparr>app := ctl_set (app w) ?c2 4 k (Some c)\<rparr>)"
    using c by (simp add: feed_dec)
  show ?thesis
    unfolding feed_append [of E "''>'' @ [char_of (65 + c)]"] f1 by (simp only: feed_append f3 f4 f5 snd_conv)
qed

text \<open>The data, and what the packet holds after them.\<close>

lemma feed_payload:
  assumes c: "c < 6" "length (channels (app w)) = 6" and ch: "channel_ok (channels (app w) ! c)" and ds: "length ds \<le> 10" "ds \<noteq> []"
  shows "run_state (feed E (data_text ds)) (w\<lparr>app := ctl_set (app w)
       ((channels (app w))[c := upd_packet (\<lambda>p. p\<lparr>node := n, cmd := k, len := 0\<rparr>) ((channels (app w) ! c)\<lparr>ch_state := 3\<rparr>)]) 5 0 (Some c)\<rparr>) =
     run_state (do { enqueue E c; set_in_state 1 }) (w\<lparr>app := ctl_set (app w)
       ((channels (app w))[c := filled n k ds (channels (app w) ! c)]) 5 0 (Some c)\<rparr>)"
proof -
  let ?C = "channels (app w)" and ?ch = "channels (app w) ! c"
  let ?c3 = "?C[c := upd_packet (\<lambda>p. p\<lparr>node := n, cmd := k, len := 0\<rparr>) (?ch\<lparr>ch_state := 3\<rparr>)]"
  have "fold add_byte ds ((ch_packet ?ch)\<lparr>node := n, cmd := k, len := 0\<rparr>) = ch_packet (filled n k ds ?ch)"
    using ch ds by (subst fold_add_byte) (auto simp: channel_ok_def packet_ok_def filled_def)
  then have "upd_packet (\<lambda>p. fold add_byte ds (p\<lparr>node := n, cmd := k, len := 0\<rparr>)) (?ch\<lparr>ch_state := 3\<rparr>) = filled n k ds ?ch"
    by (simp add: upd_packet_def filled_def)
  then show ?thesis using c ch ds
    by (subst feed_data [where c = "app w" and chs = ?c3]) (auto simp: channel_ok_def packet_ok_def comp_def)
qed

lemma feed_command:
  assumes c: "c < 6" "length (channels (app w)) = 6" and ch: "channel_ok (channels (app w) ! c)"
    "ch_state (channels (app w) ! c) \<le> 2" and st: "in_state (app w) = 0" and ds: "length ds \<le> 10"
  shows "run_state (feed E (command_text c n k ds)) w = run_state (do { enqueue E c; set_in_state 1 })
    (w\<lparr>app := ctl_set (app w) ((channels (app w))[c := filled n k ds (channels (app w) ! c)])
       (if ds = [] then 4 else 5) 0 (Some c)\<rparr>)"
proof -
  let ?C = "channels (app w)" and ?ch = "channels (app w) ! c"
  let ?c2 = "?C[c := upd_packet (\<lambda>p. p\<lparr>node := n\<rparr>) (?ch\<lparr>ch_state := 3\<rparr>)]"
  let ?c3 = "?C[c := upd_packet (\<lambda>p. p\<lparr>node := n, cmd := k, len := 0\<rparr>) (?ch\<lparr>ch_state := 3\<rparr>)]"
  have f6: "run_state (feed E '':'') (w\<lparr>app := ctl_set (app w) ?c2 4 k (Some c)\<rparr>) =
     ((), w\<lparr>app := ctl_set (app w) ?c3 5 0 (Some c)\<rparr>)"
    using c by (simp add: run_process_char char_step_def comp_def)
  have f7: "run_state (feed E ''.'') (w\<lparr>app := ctl_set (app w) ?c2 4 k (Some c)\<rparr>) =
     run_state (do { enqueue E c; set_in_state 1 }) (w\<lparr>app := ctl_set (app w) ?c3 4 0 (Some c)\<rparr>)"
    using c by (simp add: run_process_char char_step_def comp_def)
  have f9: "?c3 = ?C[c := filled n k [] ?ch]"
    by (simp add: filled_def upd_packet_def)
  have e: "command_text c n k ds = (''>'' @ [char_of (65 + c)]) @ dec (unat n) @ '':'' @ dec (unat k) @
      (if ds = [] then ''.'' else '':'' @ data_text ds)"
    by (simp only: command_text_def append_assoc)
  show ?thesis
  proof (cases "ds = []")
    case True
    show ?thesis unfolding e feed_header [OF c ch(2) st]
      by (simp only: True f7 f9 if_True simp_thms)
  next
    case False
    show ?thesis unfolding e feed_header [OF c ch(2) st]
      by (simp only: feed_append f6 feed_payload [OF c ch(1) ds False] False snd_conv if_False simp_thms not_False_eq_True)
  qed
qed

section \<open>Replies and the queue\<close>

definition reply_text :: "u8 \<Rightarrow> u8 \<Rightarrow> string" where
  "reply_text code st = (if code = 0 then ''<+\<newline>''
     else ''<-'' @ dec (unat code) @ ''/'' @ dec (unat st) @ ''\<newline>'')"

lemma run_reply [simp]: "run_state (reply code) w =
    ((), w\<lparr>out := out w @ reply_text code (r_state w), app := (app w)\<lparr>in_state := 1\<rparr>\<rparr>)"
  by (simp add: reply_def libradio_get_state_def printf_def reply_text_def)

lemma enqueue_remote:
  fixes w :: "('d, control) mcu"
  assumes "length (channels (app w)) = 6" "i < 6" "r_state w = 6" "node (ch_packet (channels (app w) ! i)) \<noteq> r_my_node_id w"
  shows "run_state (enqueue E i) w = ((), w\<lparr>out := out w @ enq_text 6 (r_my_node_id w) (ch_packet (channels (app w) ! i)) @
       queued_text (if cmd (ch_packet (channels (app w) ! i)) = 2 then 5 else 4) (ch_packet (channels (app w) ! i)) @ ''<+\<newline>'',
     app := (app w)\<lparr>channels := (channels (app w))[i := (channels (app w) ! i)
        \<lparr>ch_state := (if cmd (ch_packet (channels (app w) ! i)) = 2 then 5 else 4),
         ch_priority := (let p = ch_priority (channels (app w) ! i) in
           if p = 0 then word_of_nat ((6 - i) * 8) else if p < 0xfc then p + 1 else p)\<rparr>], in_state := 1\<rparr>\<rparr>)"
  using assms by (simp add: enqueue_def Let_def reply_text_def)

lemma six: "digit_char 6 = CHR ''6''"
  by code_simp

lemma enqueue_inactive:
  fixes w :: "('d, control) mcu"
  assumes "length (channels (app w)) = 6" "i < 6" "r_state w \<noteq> 6" "node (ch_packet (channels (app w) ! i)) \<noteq> r_my_node_id w"
    "cmd (ch_packet (channels (app w) ! i)) = 3 \<Longrightarrow> 6 \<le> r_state w"
  shows "run_state (enqueue E i) w = ((), w\<lparr>out := out w @ enq_text (r_state w) (r_my_node_id w) (ch_packet (channels (app w) ! i)) @ ''<-6/'' @ dec (unat (r_state w)) @ ''\<newline>'',
     app := (app w)\<lparr>channels := (channels (app w))[i := (channels (app w) ! i)\<lparr>ch_state := 2\<rparr>], in_state := 1\<rparr>\<rparr>)"
proof -
  have c: "(node (ch_packet (channels (app w) ! i)) = r_my_node_id w \<or>
      cmd (ch_packet (channels (app w) ! i)) = 3 \<and> r_state w < 6) = False"
    using assms(4,5) by (auto simp: not_less)
  show ?thesis
    by (simp only: enqueue_def Let_def run_state_bind) (simp add: assms(1-3) c reply_text_def six)
qed

section \<open>Transmission\<close>

definition sent_channel :: "u8 \<Rightarrow> channel \<Rightarrow> channel" where
  "sent_channel s ch = (if s = 0 then ch
     else ch\<lparr>ch_state := (if ch_state ch = 5 then 6 else 2), ch_priority := 0\<rparr>)"

lemma run_bump_all:
  assumes "length (channels (app w)) = 6"
  shows "run_state (for_each [0..<MAX_RADIO_CHANNELS] (\<lambda>j. chan_update j bump_priority)) w =
    ((), w\<lparr>app := (app w)\<lparr>channels := map bump_priority (channels (app w))\<rparr>\<rparr>)"
proof -
  obtain a b c d e f where "channels (app w) = [a, b, c, d, e, f]"
    using assms by (auto simp: length_Suc_conv numeral_eq_Suc)
  then show ?thesis by (simp add: upt_rec)
qed


lemma keeps_app_send: "keeps app (libradio_send E ch c)"
  by (intro keep_rules)

lemma app_printed [simp]: "app (w\<lparr>out := s\<rparr>) = app w"
  by simp

lemma tx_outcome:
  assumes "length (channels (app w)) = 6" "i < 6" "2 \<le> ch_state (channels (app w) ! i)"
    and s: "run_state (libradio_send E (channels (app w) ! i) (word_of_nat i))
      (w\<lparr>out := out w @ tx_text i (channels (app w) ! i)\<rparr>) = ((s, ch'), v)"
    and run: "run_state (tx_channel E i) w = ((), w')"
  shows "app w' = (app w)\<lparr>channels := map bump_priority ((channels (app w))[i := sent_channel s ch']),
    resp_chp := (if s \<noteq> 0 \<and> ch_state ch' = 5 then Some i else resp_chp (app w))\<rparr>"
proof -
  have a: "app v = app w"
    using keeps_run [OF keeps_app_send s] by simp
  let ?x = "v\<lparr>app := (app w)\<lparr>channels := (channels (app w))[i := ch']\<rparr>\<rparr>"
  obtain u where u: "run_state (libradio_irq_enable 1) ?x = ((), u)" by (rule unit_run)
  have au: "app u = (app w)\<lparr>channels := (channels (app w))[i := ch']\<rparr>"
    using keeps_run [OF keeps_app_irq u] by simp
  have n: "\<not> ch_state (channels (app w) ! i) < 2" using assms(3) by (simp add: not_less)
  show ?thesis
  proof (cases "s = 0 \<or> ch_state ch' \<noteq> 5")
    case True
    then show ?thesis using run assms(1,2) n s a
      by (cases "s = 0") (auto simp: tx_channel_def run_bump_all sent_channel_def)
  next
    case False
    then show ?thesis using run assms(1,2) n s a u au
      by (auto simp: tx_channel_def run_bump_all sent_channel_def)
  qed
qed

lemma tx_channel_bus:
  assumes len: "length (channels (app w)) = 6" and i: "i < 6" and st: "2 \<le> ch_state (channels (app w) ! i)"
    and send: "run_state (libradio_send E (channels (app w) ! i) (word_of_nat i))
      (w\<lparr>out := out w @ tx_text i (channels (app w) ! i)\<rparr>) = ((s, ch'), v)"
    and run: "run_state (tx_channel E i) w = ((), w')"
  shows "spi_log w' = spi_log v"
proof -
  have a: "app v = app w" using keeps_run [OF keeps_app_send send] by simp
  have "\<not> ch_state (channels (app w) ! i) < 2" using st by simp
  then show ?thesis using run len i send a
    by (cases "s = 0"; cases "ch_state ch' = 5")
      (auto simp: tx_channel_def run_bump_all libradio_irq_enable_def)
qed

lemma bump_priority_grows: "ch_priority ch \<le> ch_priority (bump_priority ch)"
proof (cases "ch_priority ch < 0xfc")
  case True
  then have "unat (ch_priority ch + 2) = unat (ch_priority ch) + 2"
    by (simp add: word_less_nat_alt unat_word_ariths)
  then show ?thesis by (simp add: bump_priority_def word_le_nat_alt)
qed (simp add: bump_priority_def)

section \<open>The wait for a response\<close>

text \<open>
  A turn of the main loop in which nothing was received, on the controller's variables, and the number of
  such turns left.
\<close>

definition quiet_turn :: "control \<Rightarrow> control" where
  "quiet_turn c = (case resp_chp c of None \<Rightarrow> c
   | Some i \<Rightarrow> (if i \<ge> length (channels c) then c
       else if ch_state (channels c ! i) = LIBRADIO_CHSTATE_RXRESPONSE4
       then c\<lparr>channels := (channels c)[i := (channels c ! i)\<lparr>ch_state := LIBRADIO_CHSTATE_EMPTY\<rparr>], resp_chp := None\<rparr>
       else c\<lparr>channels := (channels c)[i := (channels c ! i)\<lparr>ch_state := ch_state (channels c ! i) + 1\<rparr>]\<rparr>))"

definition turns_left :: "control \<Rightarrow> nat" where
  "turns_left c = (case resp_chp c of None \<Rightarrow> 0
   | Some i \<Rightarrow> (if i < length (channels c) \<and> 6 \<le> ch_state (channels c ! i) \<and> ch_state (channels c ! i) \<le> 9
       then 10 - unat (ch_state (channels c ! i)) else 0))"

interpretation await: countdown quiet_turn turns_left "\<lambda>_. 0" "\<lambda>c. resp_chp c = None"
proof unfold_locales
  fix c :: control
  show "1 < turns_left c \<Longrightarrow> turns_left (quiet_turn c) = turns_left c - 1"
  proof -
    assume l: "1 < turns_left c"
    then obtain i where i: "resp_chp c = Some i" "i < length (channels c)" "6 \<le> ch_state (channels c ! i)"
        "unat (ch_state (channels c ! i)) < 9" "turns_left c = 10 - unat (ch_state (channels c ! i))"
      by (auto simp: turns_left_def split: option.splits if_splits)
    then have "unat (ch_state (channels c ! i) + 1) = unat (ch_state (channels c ! i)) + 1"
      by (simp add: unat_word_ariths)
    then show ?thesis using i
      by (auto simp: turns_left_def quiet_turn_def word_le_nat_alt)
  qed
  show "1 < turns_left c \<Longrightarrow> (resp_chp (quiet_turn c) = None) = (resp_chp c = None)"
    by (auto simp: turns_left_def quiet_turn_def split: option.splits if_splits)
  show "turns_left c = 1 \<Longrightarrow> resp_chp (quiet_turn c) = None \<and> turns_left (quiet_turn c) = 0"
    by (auto simp: turns_left_def quiet_turn_def word_unat_eq_iff split: option.splits if_splits)
qed simp

lemma run_response_step:
  assumes "\<not> fst (run_state (libradio_check_rx E) w)" "\<And>i. resp_chp (app w) = Some i \<Longrightarrow> i < length (channels (app w))"
  shows "app (snd (run_state (response_step E) w)) = quiet_turn (app w)"
proof -
  obtain v where v: "run_state (libradio_check_rx E) w = (False, v)"
    using assms(1) by (metis prod.collapse)
  have "keeps app (libradio_check_rx E)" by (intro keep_rules)
  from keeps_run [OF this v] have a: "app v = app w" .
  show ?thesis
    using v a assms(2) by (auto simp: response_step_def response_missing_def response_end_def quiet_turn_def split: option.splits)
qed

text \<open>\<open>k\<close> turns of the main loop's response part.\<close>

definition response_turns :: "('d, control) env \<Rightarrow> nat \<Rightarrow> ('d, control) mcu \<Rightarrow> ('d, control) mcu" where
  "response_turns E k w = ((\<lambda>w. snd (run_state (response_step E) w)) ^^ k) w"

lemma quiet_turn_fields: "length (channels (quiet_turn c)) = length (channels c)"
  "resp_chp (quiet_turn c) = Some i \<Longrightarrow> resp_chp c = Some i"
  by (auto simp: quiet_turn_def split: option.splits if_splits)

lemma run_response_turns:
  assumes "\<And>j. j < k \<Longrightarrow> \<not> fst (run_state (libradio_check_rx E) (response_turns E j w))"
    and "\<And>i. resp_chp (app w) = Some i \<Longrightarrow> i < length (channels (app w))"
  shows "app (response_turns E k w) = (quiet_turn ^^ k) (app w)"
proof -
  have len: "length (channels ((quiet_turn ^^ k) c)) = length (channels c)" for k c
    by (induction k) (simp_all add: quiet_turn_fields(1))
  have resp: "resp_chp ((quiet_turn ^^ k) c) = Some i \<Longrightarrow> resp_chp c = Some i" for k c i
  proof (induction k)
    case (Suc k)
    then show ?case using quiet_turn_fields(2) [of "(quiet_turn ^^ k) c" i] by simp
  qed simp
  show ?thesis using assms(1)
  proof (induction k)
    case (Suc k)
    then have IH: "app (response_turns E k w) = (quiet_turn ^^ k) (app w)" by simp
    have "app (snd (run_state (response_step E) (response_turns E k w))) = quiet_turn (app (response_turns E k w))"
    proof (rule run_response_step)
      fix i assume "resp_chp (app (response_turns E k w)) = Some i"
      then show "i < length (channels (app (response_turns E k w)))"
        unfolding IH len by (rule assms(2) [OF resp])
    qed (rule Suc.prems, rule lessI)
    then show ?case unfolding IH by (simp add: response_turns_def)
  qed (simp add: response_turns_def)
qed

section \<open>The choice of a channel\<close>

definition ready_ch :: "channel \<Rightarrow> bool" where
  "ready_ch ch \<longleftrightarrow> ch_priority ch \<noteq> 0 \<and> LIBRADIO_CHSTATE_TRANSMIT \<le> ch_state ch"

definition picked :: "channel list \<Rightarrow> nat \<Rightarrow> bool" where
  "picked chs i \<longleftrightarrow> i < length chs \<and> ready_ch (chs ! i) \<and>
     (\<forall>j < length chs. ready_ch (chs ! j) \<longrightarrow> ch_priority (chs ! j) \<le> ch_priority (chs ! i)) \<and>
     (\<forall>j < i. ready_ch (chs ! j) \<longrightarrow> ch_priority (chs ! j) < ch_priority (chs ! i))"

lemma pick_loop_snoc: "pick_loop (xs @ [x]) i best =
   (case pick_loop xs i best of
      None \<Rightarrow> (if ready_ch x then Some (i + length xs, ch_priority x) else None)
    | Some (j, p) \<Rightarrow> (if ready_ch x \<and> ch_priority x > p then Some (i + length xs, ch_priority x) else Some (j, p)))"
proof (induction xs arbitrary: i best)
  case (Cons y ys)
  obtain b where step: "\<And>zs. pick_loop (y # zs) i best = pick_loop zs (i + 1) b"
    by (rule that [of "if \<not> ready_ch y then best else case best of None \<Rightarrow> Some (i, ch_priority y)
        | Some (j, p) \<Rightarrow> if ch_priority y > p then Some (i, ch_priority y) else best"])
      (auto simp: ready_ch_def not_le split: option.split)
  show ?case unfolding append_Cons step Cons.IH by (simp only: length_Cons add_Suc_right Suc_eq_plus1 add.assoc add.commute [of 1])
qed (auto simp: ready_ch_def not_le split: option.split)

lemma pick_loop_picked:
  "case pick_loop chs 0 None of None \<Rightarrow> (\<forall>ch \<in> set chs. \<not> ready_ch ch)
   | Some (i, p) \<Rightarrow> picked chs i \<and> p = ch_priority (chs ! i)"
proof (induction chs rule: rev_induct)
  case (snoc x xs)
  show ?case
  proof (cases "pick_loop xs 0 None")
    case None
    then have "\<not> ready_ch (xs ! j)" if "j < length xs" for j using snoc that by simp
    with None show ?thesis using snoc by (auto simp: pick_loop_snoc picked_def nth_append)
  next
    case (Some a)
    obtain j p where a: "a = (j, p)" by fastforce
    then show ?thesis using snoc Some
      by (auto simp: pick_loop_snoc picked_def nth_append not_less less_Suc_eq intro: less_imp_le order_trans le_less_trans)
  qed
qed simp

lemma picked_unique: "picked chs i \<Longrightarrow> picked chs j \<Longrightarrow> i = j"
  unfolding picked_def by (meson leD linorder_neqE_nat)

lemma pick_channel_iff: "pick_channel chs = Some i \<longleftrightarrow> picked chs i"
  using pick_loop_picked [of chs] picked_unique
  by (auto simp: pick_channel_def picked_def split: option.splits)

section \<open>Time slots\<close>

definition time_channel :: "u8 \<Rightarrow> channel \<Rightarrow> channel" where
  "time_channel tom ch = ch\<lparr>ch_state := LIBRADIO_CHSTATE_TRANSMIT, ch_priority := 0xff,
     ch_packet := (ch_packet ch)\<lparr>node := 0, len := 1, cmd := RADIO_CMD_SET_TIME,
       data := (data (ch_packet ch))[0 := tom]\<rparr>\<rparr>"

definition slot_of :: "('d, control) mcu \<Rightarrow> nat" where
  "slot_of w = (unat (r_ms_ticks w) div 500) mod MAX_RADIO_CHANNELS"

definition in_slot :: "('d, control) mcu \<Rightarrow> bool" where
  "in_slot w \<longleftrightarrow> unat (r_ms_ticks w) mod 500 < last_modulo (app w)"

lemma slot_of_less [simp]: "slot_of w < 6"
  by (simp add: slot_of_def)

lemma check_queues_slot:
  fixes w :: "('d, control) mcu"
  assumes "length (channels (app w)) = 6" "5 \<le> r_state w" "in_slot w"
  shows "run_state (tx_check_queues E) w =
    (let c = slot_of w; ch = channels (app w) ! c in
     run_state (tx_channel E c)
       (if ch_state ch = 2
        then w\<lparr>out := out w @ ''C'' @ dec c @ ''>state:2\<newline>'',
           app := (app w)\<lparr>channels := (channels (app w))[c := time_channel (r_tens_of_minutes w) ch],
             last_modulo := unat (r_ms_ticks w) mod 500\<rparr>\<rparr>
        else w\<lparr>app := (app w)\<lparr>last_modulo := unat (r_ms_ticks w) mod 500\<rparr>\<rparr>))"
proof -
  have st: "(r_state w < 5) = False" using assms(2) by (simp add: not_less)
  have l: "unat (r_ms_ticks w) div 500 mod 6 < length (channels (app w))" using assms(1) by simp
  have two: "digit_char 2 = CHR ''2''" by code_simp
  show ?thesis using assms(3) l
    by (simp add: tx_check_queues_def Let_def st slot_of_def in_slot_def time_channel_def two)
qed

lemma check_queues_pick:
  fixes w :: "('d, control) mcu"
  assumes "5 \<le> r_state w" "\<not> in_slot w"
  shows "run_state (tx_check_queues E) w =
    (let v = w\<lparr>app := (app w)\<lparr>last_modulo := unat (r_ms_ticks w) mod 500\<rparr>\<rparr> in
     case pick_channel (channels (app w)) of None \<Rightarrow> ((), v) | Some i \<Rightarrow> run_state (tx_channel E i) v)"
proof -
  have st: "(r_state w < 5) = False" using assms(1) by (simp add: not_less)
  show ?thesis using assms(2)
    by (simp add: tx_check_queues_def Let_def st in_slot_def split: option.splits)
qed

section \<open>Abandoned commands\<close>

lemma select_busy:
  assumes "c < 6" "length (channels (app w)) = 6" "2 < ch_state (channels (app w) ! c)" "in_state (app w) = 0"
  shows "run_state (feed E (''>'' @ [char_of (65 + c)])) w = ((), w\<lparr>out := out w @ reply_text 2 (r_state w),
    app := ctl_set (app w) (channels (app w)) 1 (word_of_nat c) (Some c)\<rparr>)"
proof -
  have o: "of_char (char_of (65 + c) :: char) = 65 + c" using assms(1) by simp
  have f1: "run_state (feed E ''>'') w = ((), w\<lparr>app := ctl_set (app w) (channels (app w)) 2 (in_value (app w)) (curr_chp (app w))\<rparr>)"
    using assms(4) by (simp add: run_process_char char_step_def ctl_set_def)
  have f2: "run_state (feed E [char_of (65 + c)]) (w\<lparr>app := ctl_set (app w) (channels (app w)) 2 v cur\<rparr>) =
     ((), w\<lparr>out := out w @ reply_text 2 (r_state w), app := ctl_set (app w) (channels (app w)) 1 (word_of_nat c) (Some c)\<rparr>)"
    for v cur
    using assms(1-3) o by (simp add: run_process_char char_step_def select_channel_def)
  show ?thesis by (simp only: feed_append f1 f2 snd_conv)
qed

text \<open>Characters that are not part of a node number: the interpreter reports an error and gives up.\<close>

lemma abandon:
  fixes w :: "('d, control) mcu"
  assumes "in_state (app w) = 3" "of_char ch \<notin> {10, 13} \<union> {48..(58::nat)}"
  shows "run_state (feed E [ch, CHR 0x0A]) w = ((), w\<lparr>out := out w @ reply_text 5 (r_state w),
    app := (app w)\<lparr>in_state := 0\<rparr>\<rparr>)"
proof -
  define n :: nat where "n = of_char ch"
  have n: "n \<noteq> 10" "n \<noteq> 13" "\<not> (48 \<le> n \<and> n \<le> 57)" "n \<noteq> 58" using assms(2) by (auto simp: n_def)
  then have "char_step E n 3 v = reply 5" for v
    by (simp only: char_step_def) (simp add: when_op_def)
  then have f: "run_state (process_char E n) w = ((), w\<lparr>out := out w @ reply_text 5 (r_state w), app := (app w)\<lparr>in_state := 1\<rparr>\<rparr>)"
    using assms(1) by (simp add: run_process_char)
  have "run_state (process_char E (of_char (CHR 0x0A :: char))) v = ((), v\<lparr>app := (app v)\<lparr>in_state := 0\<rparr>\<rparr>)"
    if "in_state (app v) = 1" for v :: "('d, control) mcu"
    using that by (simp add: run_process_char char_step_def word_le_nat_alt)
  then show ?thesis by (simp only: feed_Cons n_def [symmetric] f snd_conv feed_Nil) simp
qed

lemma abandoned_blocks:
  fixes w :: "('d, control) mcu"
  assumes c: "c < 6" "length (channels (app w)) = 6" and ch: "ch_state (channels (app w) ! c) \<le> 2"
    and st: "in_state (app w) = 0" and x: "of_char x \<notin> {10, 13} \<union> {48..(58::nat)}"
    and run: "run_state (feed E (''>'' @ [char_of (65 + c)] @ [x, CHR 0x0A] @ ''>'' @ [char_of (65 + c)])) w = ((), w')"
  shows "ch_state (channels (app w') ! c) = LIBRADIO_CHSTATE_ADDING \<and> pick_channel (channels (app w')) \<noteq> Some c \<and>
    out w' = out w @ reply_text RADIO_CTLERR_NEWLINE (r_state w) @ reply_text RADIO_CTLERR_BUSY (r_state w)"
proof -
  let ?C = "(channels (app w))[c := (channels (app w) ! c)\<lparr>ch_state := 3\<rparr>]"
  let ?w1 = "w\<lparr>app := ctl_set (app w) ?C 3 0 (Some c)\<rparr>"
  let ?w2 = "w\<lparr>out := out w @ reply_text 5 (r_state w), app := ctl_set (app w) ?C 0 0 (Some c)\<rparr>"
  have "run_state (feed E ((''>'' @ [char_of (65 + c)]) @ [x, CHR 0x0A])) w = ((), ?w2)"
    using select_free [OF c ch st, of E] abandon [OF _ x, of ?w1 E] by (simp only: feed_append) simp
  moreover have "run_state (feed E (''>'' @ [char_of (65 + c)])) ?w2 =
      ((), ?w2\<lparr>out := out ?w2 @ reply_text 2 (r_state w), app := ctl_set (app ?w2) ?C 1 (word_of_nat c) (Some c)\<rparr>)"
    using c by (subst select_busy) simp_all
  ultimately have "run_state (feed E (((''>'' @ [char_of (65 + c)]) @ [x, CHR 0x0A]) @ (''>'' @ [char_of (65 + c)]))) w =
      ((), ?w2\<lparr>out := out ?w2 @ reply_text 2 (r_state w), app := ctl_set (app ?w2) ?C 1 (word_of_nat c) (Some c)\<rparr>)"
    by (simp only: feed_append snd_conv)
  then have w': "w' = ?w2\<lparr>out := out ?w2 @ reply_text 2 (r_state w), app := ctl_set (app ?w2) ?C 1 (word_of_nat c) (Some c)\<rparr>"
    using run by simp
  have "\<not> picked ?C c" using c by (simp add: picked_def ready_ch_def)
  then show ?thesis using c by (simp add: w' pick_channel_iff)
qed

section \<open>Priorities after a status exchange\<close>

lemma status_sent:
  assumes "length (channels (app w)) = 6" "i < 6" "2 \<le> ch_state (channels (app w) ! i)"
    and "run_state (libradio_send E (channels (app w) ! i) (word_of_nat i))
      (w\<lparr>out := out w @ tx_text i (channels (app w) ! i)\<rparr>) = ((s, ch'), v)" "s \<noteq> 0" "ch_state ch' = 5"
    and "run_state (tx_channel E i) w = ((), w1)"
  shows "channels (app w1) ! i = ch'\<lparr>ch_state := 6, ch_priority := 2\<rparr> \<and> resp_chp (app w1) = Some i \<and>
    length (channels (app w1)) = 6"
  using tx_outcome [OF assms(1-4,7)] assms(1,2,5,6) by (simp add: sent_channel_def bump_priority_def)

lemma run_response_end:
  assumes "i < length (channels (app w))" "run_state (response_end i) w = ((), w')"
  shows "w' = w\<lparr>app := (app w)\<lparr>channels := (channels (app w))[i := (channels (app w) ! i)\<lparr>ch_state := 2\<rparr>], resp_chp := None\<rparr>\<rparr>"
  using assms by (auto simp: response_end_def)

lemma text_priority:
  fixes w :: "('d, control) mcu"
  assumes c: "c < 6" "length (channels (app w)) = 6" and ch: "channel_ok (channels (app w) ! c)"
    "ch_state (channels (app w) ! c) \<le> 2" and st: "in_state (app w) = 0" and ds: "length ds \<le> 10"
    and r: "r_state w = 6" "n \<noteq> r_my_node_id w"
    and run: "run_state (feed E (command_text c n k ds)) w = ((), w')"
  shows "ch_priority (channels (app w') ! c) =
    (let p = ch_priority (channels (app w) ! c) in
     if p = 0 then word_of_nat ((6 - c) * 8) else if p < 0xfc then p + 1 else p)"
  using run c r enqueue_remote [where i = c and E = E and w =
    "w\<lparr>app := ctl_set (app w) ((channels (app w))[c := filled n k ds (channels (app w) ! c)])
       (if ds = [] then 4 else 5) 0 (Some c)\<rparr>"]
  unfolding feed_command [OF c ch st ds]
  by (auto simp: filled_def Let_def split: if_splits)

section \<open>Setting a channel\<close>

lemma run_report_channels:
  "\<forall>i \<in> set is. i < length (channels (app w)) \<Longrightarrow>
    run_state (for_each is (\<lambda>i. do { ch \<leftarrow> chan_get i; printf (f ch) })) w =
      ((), w\<lparr>out := out w @ concat (map (\<lambda>i. f (channels (app w) ! i)) is)\<rparr>)"
  by (induction "is" arbitrary: w) simp_all

lemma set_channel_bounded:
  fixes w :: "('d, control) mcu"
  assumes l: "length (channels (app w)) = 6" and p: "packet_ok pp" "cmd pp = 16" "len pp = 2"
    and run: "run_state (mycommand E pp) w = ((r, w'))"
  shows "r = 0 \<and> stopped w' = stopped w \<and> app w' = (app w)\<lparr>channels :=
    (if unat (data pp ! 0) < 6
     then (channels (app w))[unat (data pp ! 0) := (channels (app w) ! unat (data pp ! 0))
        \<lparr>ch_state := (if data pp ! 1 < 3 then data pp ! 1 else ch_state (channels (app w) ! unat (data pp ! 0))),
         ch_priority := 0\<rparr>]
     else channels (app w))\<rparr>"
proof -
  have d: "run_state (data_at pp 0) v = (data pp ! 0, v)" "run_state (data_at pp (Suc 0)) v = (data pp ! 1, v)" for v :: "('d, control) mcu"
    using p by (simp_all add: run_data_at packet_ok_def)
  define v where "v = snd (run_state (set_channel (data pp ! 0) (data pp ! 1)) w)"
  have v: "stopped v = stopped w" "app v = (app w)\<lparr>channels :=
    (if unat (data pp ! 0) < 6
     then (channels (app w))[unat (data pp ! 0) := (channels (app w) ! unat (data pp ! 0))
        \<lparr>ch_state := (if data pp ! 1 < 3 then data pp ! 1 else ch_state (channels (app w) ! unat (data pp ! 0))),
         ch_priority := 0\<rparr>]
     else channels (app w))\<rparr>"
    using l by (auto simp: v_def set_channel_def not_le)
  have rv: "run_state (set_channel (data pp ! 0) (data pp ! 1)) w = ((), v)"
    by (simp add: v_def prod_eq_iff)
  show ?thesis
  proof (cases "unat (data pp ! 0) > 6")
    case True
    then show ?thesis using run p by (auto simp: mycommand_def d)
  next
    case False
    let ?u = "v\<lparr>out := out v @ ''CHn:''\<rparr>"
    have lv: "length (channels (app v)) = 6" using l by (simp add: v(2))
    obtain s where "run_state (for_each [0..<MAX_RADIO_CHANNELS] (\<lambda>i. do { ch \<leftarrow> chan_get i; printf (dec (unat (ch_state ch)) @ ''.'') })) ?u
        = ((), ?u\<lparr>out := out ?u @ s\<rparr>)"
      using run_report_channels [of "[0..<6]" ?u "\<lambda>ch. dec (unat (ch_state ch)) @ ''.''"] lv by auto
    then show ?thesis using run p False rv v by (auto simp: mycommand_def d)
  qed
qed

section \<open>The time on the air\<close>

text \<open>A client that finds the time packet in its FIFO.\<close>

lemma handle_time:
  assumes p: "channel_ok ch" "r_state v = 6" "packet_ok (ch_packet (rxchan v))"
    and avail: "run_state (libradio_check_rx E) v = (True, v1)"
    and srv: "dev_serves E (frame (stamped now (ch_packet (time_channel tom ch)))) (snd (e_spi_byte E 0x77 (e_ss E True (dev v1))))"
    and run: "run_state (libradio_handle_packet E) v = ((), v')"
  shows "r_ms_ticks v' = now \<and> r_tens_of_minutes v' = tom"
proof -
  let ?ch = "time_channel tom ch"
  have ok: "packet_ok (ch_packet ?ch)" "unat (len (ch_packet ?ch)) \<le> 10"
    using p(1) by (simp_all add: time_channel_def channel_ok_def packet_ok_def)
  have tom: "data (ch_packet ?ch) ! 0 = tom" "0 < length (data (ch_packet ?ch))"
    using p(1) by (simp_all add: time_channel_def channel_ok_def packet_ok_def)
  obtain r got v2 where rx: "run_state (libradio_rxpacket E (rxchan v)) v1 = ((r, got), v2)" by (metis prod.collapse)
  note g = air_round_trip [OF ok p(3) check_rx_fifo [OF avail] srv rx]
  have core: "core_view v1 = core_view v" by (rule keeps_run [OF keeps_core_rxtx(1) avail])
  have c2: "clock_view v2 = (6, r_tens_of_minutes v, now, r_my_node_id v)"
    using g core p(2) by (auto simp: clock_view_def core_view_def time_channel_def)
  let ?q = "ch_packet got"
  have q: "node ?q = 0" "cmd ?q = 5" "len ?q = 1" "packet_ok ?q" "data ?q ! 0 = tom"
    using g tom ok(1) by (auto simp: time_channel_def packet_ok_def nth_append)
  obtain ret ch' v3 where rc: "run_state (libradio_recv E (rxchan v) (r_my_channel v)) v = ((ret, ch'), v3)"
    by (metis prod.collapse)
  have r3: "ret = 1" "ch' = got" "clock_view v3 = clock_view v2"
    using recv_clock [OF avail _ rc, of got v2] rx g by auto
  let ?u = "v3\<lparr>rxchan := got\<rparr>"
  have "r_state ?u = 6" using r3(3) c2 by (simp add: clock_view_def)
  from command_set_time [OF q(2,4) this q(3), of E] obtain s where
    "run_state (libradio_command E ?q) ?u = ((), ?u\<lparr>r_tens_of_minutes := data ?q ! 0, out := s\<rparr>)" by blast
  then have "v' = ?u\<lparr>r_tens_of_minutes := tom, out := s\<rparr>"
    using run rc r3(1,2) q(1,5) by (simp add: libradio_handle_packet_def)
  then show ?thesis using r3(3) c2 by (simp add: clock_view_def)
qed

lemma tx_channel_log:
  assumes "length (channels (app w)) = 6" "i < 6" "ch_state (channels (app w) ! i) = 4" "channel_ok (channels (app w) ! i)"
    "length (pkt_data w) = 20"
    and run: "run_state (tx_channel E i) w = ((), w')" and sent: "ch_state (channels (app w') ! i) = 2"
  shows "\<exists>pre post. spi_log w' = spi_log w @ pre @ tx_events (stamped (r_ms_ticks w) (ch_packet (channels (app w) ! i))) (word_of_nat i) 3 @ post"
proof -
  let ?ch = "channels (app w) ! i" and ?w = "w\<lparr>out := out w @ tx_text i (channels (app w) ! i)\<rparr>"
  obtain s ch' v where s: "run_state (libradio_send E ?ch (word_of_nat i)) ?w = ((s, ch'), v)" by (metis prod.collapse)
  have st: "ch_state ch' = 4" using yieldsD [OF send_channel_state _ s] assms(3) by simp
  have "s \<noteq> 0"
  proof
    assume "s = 0"
    with tx_outcome [OF assms(1,2) _ s run] assms(1-3) st sent show False
      by (simp add: sent_channel_def bump_priority_def word_le_nat_alt split: if_splits)
  qed
  moreover have "spi_log w' = spi_log v"
    by (rule tx_channel_bus [OF assms(1,2) _ s run]) (use assms(3) in \<open>simp add: word_le_nat_alt\<close>)
  ultimately show ?thesis using send_on_bus [OF s _ assms(4)] assms(3,5) by simp
qed

text \<open>The packet with which the controller announces the time in a slot.\<close>

definition time_packet :: "('d, control) mcu \<Rightarrow> packet" where
  "time_packet w = stamped (r_ms_ticks w) (ch_packet (time_channel (r_tens_of_minutes w) (channels (app w) ! slot_of w)))"

lemma slot_sends_time:
  fixes w :: "('d, control) mcu"
  assumes "length (channels (app w)) = 6" "5 \<le> r_state w" "in_slot w"
    and "ch_state (channels (app w) ! slot_of w) = 2" "channel_ok (channels (app w) ! slot_of w)"
    and "length (pkt_data w) = 20"
    and "run_state (tx_check_queues E) w = ((), w')" "ch_state (channels (app w') ! slot_of w) = 2"
  shows "\<exists>pre post. spi_log w' = spi_log w @ pre @ tx_events (time_packet w) (word_of_nat (slot_of w)) 3 @ post"
proof -
  let ?i = "slot_of w"
  let ?ch = "time_channel (r_tens_of_minutes w) (channels (app w) ! ?i)"
  let ?u = "w\<lparr>out := out w @ ''C'' @ dec ?i @ ''>state:2\<newline>'',
           app := (app w)\<lparr>channels := (channels (app w))[?i := ?ch], last_modulo := unat (r_ms_ticks w) mod 500\<rparr>\<rparr>"
  have run: "run_state (tx_channel E ?i) ?u = ((), w')"
    using check_queues_slot [OF assms(1-3), of E] assms(4,7) by (simp add: Let_def)
  have "channel_ok ?ch" using assms(5) by (simp add: time_channel_def channel_ok_def packet_ok_def)
  then show ?thesis
    using tx_channel_log [OF _ _ _ _ _ run assms(8)] assms(1,6) by (auto simp: time_channel_def time_packet_def)
qed

end
