(* ===== verification/Control_Theorems.thy ===== *)
theory Control_Theorems
  imports Bench Control_Behaviour
begin

text \<open>
  The properties of the controller, \<^verbatim>\<open>control/\<close>, with their witnesses.
\<close>

section \<open>A controller on the bench\<close>

definition desk :: "(int list, control) env" where
  "desk = control_env bench_hw"

definition desk_state :: "int list \<Rightarrow> channel list \<Rightarrow> (int list, control) mcu" where
  "desk_state d chs = (cleared d (zero_control\<lparr>channels := chs\<rparr>))
     \<lparr>r_state := 6, r_slow_period := 16, r_fast_period := 1, r_period := 1, r_tick_count := 5,
      r_main_ticks := 5, r_radio_active := 1, r_my_channel := 2, r_my_node_id := 1\<rparr>"

text \<open>A channel in a given state, with a packet for node 7.\<close>

definition desk_channel :: "u8 \<Rightarrow> u8 \<Rightarrow> u8 \<Rightarrow> channel" where
  "desk_channel st p c = \<lparr>ch_state = st, ch_priority = p, ch_packet = bench_packet c [42]\<rparr>"

lemma desk_state_sel [simp]:
  "dev (desk_state d chs) = d" "stopped (desk_state d chs) = None" "r_state (desk_state d chs) = 6"
  "r_my_node_id (desk_state d chs) = 1" "channels (app (desk_state d chs)) = chs"
  "in_state (app (desk_state d chs)) = 0" "resp_chp (app (desk_state d chs)) = None"
  "r_ms_ticks (desk_state d chs) = 0"
  by (simp_all add: desk_state_def cleared_def zero_control_def libradio.defs zero_libradio_def)

lemma desk_channel_sel [simp]:
  "ch_state (desk_channel st p c) = st" "ch_priority (desk_channel st p c) = p"
  "node (ch_packet (desk_channel st p c)) = 7" "cmd (ch_packet (desk_channel st p c)) = c"
  "channel_ok (desk_channel st p c)"
  by (simp_all add: desk_channel_def bench_packet_def channel_ok_def packet_ok_def)

section \<open>The controller's variables\<close>

text \<open>C22: In every state the controller can reach, whatever the hardware does, the array has its six
  channels with well-formed packets; a channel is in one of the states of a pending response only if
  it is the one channel \<^verbatim>\<open>resp_chp\<close> points to; that pointer and \<^verbatim>\<open>curr_chp\<close> point into the array, and
  \<^verbatim>\<open>curr_chp\<close> is set whenever the interpreter is about to use it.\<close>

theorem controller_reachable:
  assumes "control_run H w"
  shows "length (channels (app w)) = MAX_RADIO_CHANNELS \<and>
    (\<forall>i < MAX_RADIO_CHANNELS. channel_ok (channels (app w) ! i) \<and>
       ch_state (channels (app w) ! i) \<le> LIBRADIO_CHSTATE_RXRESPONSE4 \<and>
       (LIBRADIO_CHSTATE_RXRESPONSE1 \<le> ch_state (channels (app w) ! i) \<longrightarrow> resp_chp (app w) = Some i)) \<and>
    (\<forall>i. resp_chp (app w) = Some i \<or> curr_chp (app w) = Some i \<longrightarrow> i < MAX_RADIO_CHANNELS) \<and>
    (IO_STATE_WAITNODE \<le> in_state (app w) \<longrightarrow> curr_chp (app w) \<noteq> None) \<and>
    in_state (app w) \<le> IO_STATE_WAITDATA"
proof -
  have ok: "ctl_ok (app w)" by (rule control_run_ok [OF assms])
  have "resp_chp (app w) = Some i" if "i < 6" "6 \<le> ch_state (channels (app w) ! i)" for i
  proof (rule ccontr)
    assume "resp_chp (app w) \<noteq> Some i"
    from ctl_okD(3) [OF ok that(1) this] that(2) show False by (simp add: word_le_nat_alt)
  qed
  then have "\<forall>i < 6. channel_ok (channels (app w) ! i) \<and> ch_state (channels (app w) ! i) \<le> 9 \<and>
      (6 \<le> ch_state (channels (app w) ! i) \<longrightarrow> resp_chp (app w) = Some i)"
    using ctl_okD(1,2) [OF ok] by blast
  moreover have m: "length (channels (app w)) = 6" "in_state (app w) \<le> 5" "\<forall>i. resp_chp (app w) = Some i \<longrightarrow> i < 6"
      "case curr_chp (app w) of None \<Rightarrow> in_state (app w) < 3 | Some i \<Rightarrow> i < 6"
    using ok unfolding ctl_ok_def ctl_shape_def by blast+
  moreover have "3 \<le> in_state (app w) \<longrightarrow> curr_chp (app w) \<noteq> None" "\<forall>i. curr_chp (app w) = Some i \<longrightarrow> i < 6"
    using m(4) by (auto split: option.splits)
  ultimately show ?thesis by blast
qed

lemma controller_reachable_witness:
  "length (channels (app (snd (run_state (control_start desk) (cleared [] zero_control))))) = 6"
proof -
  obtain w' where r: "run_state (control_start (control_env bench_hw)) (cleared [] zero_control) = ((), w')"
    by (rule unit_run)
  have "mcu_ok (cleared [] zero_control)" "stopped (cleared [] zero_control) = None" "app (cleared [] zero_control) = zero_control"
    by (simp_all add: cleared_def libradio.defs mcu_ok_def channel_ok_def packet_ok_def zero_channel_def zero_packet_def)
  from control_boot [OF this r] have "control_run bench_hw w'" .
  from controller_reachable [OF this] r show ?thesis by (simp add: desk_def)
qed

text \<open>C23: Out of a time slot the controller transmits on the channel that has the highest priority
  among those with something to send, and on the first of them if there are several.\<close>

theorem pick_channel_best:
  "pick_channel chs = Some i \<longleftrightarrow> i < length chs \<and> ready_ch (chs ! i) \<and>
     (\<forall>j < length chs. ready_ch (chs ! j) \<longrightarrow> ch_priority (chs ! j) \<le> ch_priority (chs ! i)) \<and>
     (\<forall>j < i. ready_ch (chs ! j) \<longrightarrow> ch_priority (chs ! j) < ch_priority (chs ! i))"
  unfolding pick_channel_iff picked_def ..

lemma pick_channel_best_witness:
  "pick_channel [desk_channel 4 8 5, desk_channel 4 9 5, desk_channel 3 99 5] = Some 1 \<and>
   ready_ch ([desk_channel 4 8 5, desk_channel 4 9 5, desk_channel 3 99 5] ! 1)"
proof -
  let ?chs = "[desk_channel 4 8 5, desk_channel 4 9 5, desk_channel 3 99 5]"
  have "pick_channel ?chs = Some 1" by code_simp
  with pick_channel_best [of ?chs 1] show ?thesis by blast
qed

text \<open>C24: A channel that waits for a response and never gets one is given up by exactly the fourth
  turn of the main loop; the channel is empty again and no response is expected any more.\<close>

theorem response_times_out:
  assumes "resp_chp (app w) = Some i" "i < length (channels (app w))"
    and "ch_state (channels (app w) ! i) = LIBRADIO_CHSTATE_RXRESPONSE1"
    and "\<And>j. j < 4 \<Longrightarrow> \<not> fst (run_state (libradio_check_rx E) (response_turns E j w))"
    and "k \<le> 4"
  shows "(resp_chp (app (response_turns E k w)) = None \<longleftrightarrow> k = 4) \<and>
    ch_state (channels (app (response_turns E k w)) ! i) =
      (if k = 4 then LIBRADIO_CHSTATE_EMPTY else LIBRADIO_CHSTATE_RXRESPONSE1 + word_of_nat k)"
proof -
  have t: "turns_left (app w) = 4" using assms(1-3) by (simp add: turns_left_def)
  have a: "app (response_turns E k w) = (quiet_turn ^^ k) (app w)"
    using assms by (intro run_response_turns) auto
  have iter: "(quiet_turn ^^ 2) c = quiet_turn (quiet_turn c)" "(quiet_turn ^^ 3) c = quiet_turn (quiet_turn (quiet_turn c))"
      "(quiet_turn ^^ 4) c = quiet_turn (quiet_turn (quiet_turn (quiet_turn c)))" for c
    by (simp_all add: numeral_eq_Suc)
  have "k = 0 \<or> k = 1 \<or> k = 2 \<or> k = 3 \<or> k = 4" using assms(5) by auto
  then have "ch_state (channels ((quiet_turn ^^ k) (app w)) ! i) = (if k = 4 then 2 else 6 + word_of_nat k)"
    using assms(1-3) by (elim disjE) (simp_all add: iter quiet_turn_def)
  then show ?thesis using a await.fires_exactly [of "app w" k] assms(1,5) t by simp
qed

text \<open>A chip whose bus never answers.\<close>

definition dead_hw :: "unit hw" where
  "dead_hw = \<lparr>e_spi_byte = (\<lambda>_ d. (-1, d)), e_ss = (\<lambda>_ d. d), e_analog_read = (\<lambda>_ d. (0, d)),
     e_sleep = (\<lambda>d. ([Timer1_CompA], d))\<rparr>"

lemma dead_sel [simp]: "e_spi_byte (control_env dead_hw) b d = (-1, d)"
  by (simp add: control_env_def dead_hw_def hw.defs env.defs)

lemma dead_silent: "\<not> fst (run_state (libradio_check_rx (control_env dead_hw)) w)"
proof -
  have wr: "fst (run_state (pkt_write_loop (control_env dead_hw) [0..<2]) v) = False" for v
    by (cases "run_state (pkt_load 0) v") (simp add: upt_rec)
  have "fst (run_state (pkt_send (control_env dead_hw) 2 2) v) = 1" for v
  proof -
    obtain u where u: "run_state (setss (control_env dead_hw) 1) v = ((), u)" by (rule unit_run)
    obtain x where "run_state (pkt_write_loop (control_env dead_hw) [0..<2]) u = (False, x)"
      using wr [of u] by (metis prod.collapse)
    moreover obtain y where "run_state (setss (control_env dead_hw) 0) x = ((), y)" by (rule unit_run)
    ultimately show ?thesis using u by (simp add: pkt_send_def del: pkt_write_loop.simps)
  qed
  then have send: "yields (\<lambda>_. True) (pkt_send (control_env dead_hw) 2 2) (\<lambda>i. i = 1)"
    by (simp add: yields_def)
  have "yields (\<lambda>_. True) (libradio_get_fifo_info (control_env dead_hw) 0) (\<lambda>n. n = 0)"
    unfolding libradio_get_fifo_info_def
    by (intro yields_bind_preserves [OF preserves_True] yields_bind [OF send]) (simp add: yields_return)
  then have "yields (\<lambda>_. True) (libradio_check_rx (control_env dead_hw)) (\<lambda>r. \<not> r)"
    unfolding libradio_check_rx_def by (rule yields_bind) (simp add: yields_return)
  then show ?thesis by (simp add: yields_def)
qed

lemma response_times_out_witness:
  "resp_chp (app (response_turns (control_env dead_hw) 4 (cleared ()
     (zero_control\<lparr>channels := [desk_channel 6 2 2], resp_chp := Some 0\<rparr>)))) = None"
proof -
  let ?w = "cleared () (zero_control\<lparr>channels := [desk_channel 6 2 2], resp_chp := Some 0\<rparr>)"
  have "resp_chp (app ?w) = Some 0" "0 < length (channels (app ?w))" "ch_state (channels (app ?w) ! 0) = 6"
    by (simp_all add: cleared_def libradio.defs)
  from response_times_out [OF this dead_silent, of 4] show ?thesis by simp
qed

section \<open>The serial interpreter\<close>

text \<open>C25: The text \<^verbatim>\<open>>Cn:k:d,...,d.\<close> of a command with at most ten data bytes, given to an interpreter
  at the start of a line, fills the packet of a free channel C with exactly the node, the command and the
  bytes printed, and hands the channel to \<^verbatim>\<open>enqueue\<close>.\<close>

theorem serial_command:
  assumes "c < MAX_RADIO_CHANNELS" "length (channels (app w)) = MAX_RADIO_CHANNELS"
    and "channel_ok (channels (app w) ! c)" "ch_state (channels (app w) ! c) \<le> LIBRADIO_CHSTATE_EMPTY"
    and "in_state (app w) = IO_STATE_NEWLINE" "length ds \<le> MAX_PAYLOAD_SIZE"
  shows "\<exists>v. run_state (for_each (command_text c n k ds) (\<lambda>x. process_char E (of_char x))) w =
      run_state (do { enqueue E c; set_in_state IO_STATE_WAITNL }) v \<and>
    (\<exists>st. v = w\<lparr>app := (app w)\<lparr>channels := (channels (app w))[c := (channels (app w) ! c)
        \<lparr>ch_state := LIBRADIO_CHSTATE_ADDING, ch_packet := (ch_packet (channels (app w) ! c))
          \<lparr>node := n, cmd := k, len := word_of_nat (length ds),
           data := ds @ drop (length ds) (data (ch_packet (channels (app w) ! c)))\<rparr>\<rparr>],
       in_state := st, in_value := 0, curr_chp := Some c\<rparr>\<rparr>)"
  using feed_command [OF assms, of E n k] by (auto simp: feed_def ctl_set_def filled_def)

lemma serial_command_witness:
  "\<exists>v. run_state (for_each (command_text 2 7 5 [1, 200]) (\<lambda>x. process_char desk (of_char x)))
        (desk_state [] (replicate 6 zero_channel)) =
      run_state (do { enqueue desk 2; set_in_state IO_STATE_WAITNL }) v \<and>
    command_text 2 7 5 [1, 200] = ''>C7:5:1,200.''"
proof -
  have "command_text 2 7 5 [1, 200] = ''>C7:5:1,200.''" by code_simp
  moreover have "channel_ok zero_channel" by (simp add: zero_channel_def zero_packet_def channel_ok_def packet_ok_def)
  ultimately show ?thesis
    using serial_command [of 2 "desk_state [] (replicate 6 zero_channel)" "[1, 200]" 7 5 desk]
    by (auto simp: zero_channel_def)
qed

text \<open>C26: A command to another node on an active controller is queued: its channel waits to be sent, with
  a response expected exactly if it asks for the status; a channel that was not queued gets the priority
  of its position and one that was gets one more, and the sender is told \<^verbatim>\<open><+\<close>.\<close>

theorem enqueue_accepts:
  fixes w :: "('d, control) mcu"
  assumes "length (channels (app w)) = MAX_RADIO_CHANNELS" "i < MAX_RADIO_CHANNELS"
    and "r_state w = LIBRADIO_STATE_ACTIVE" "node (ch_packet (channels (app w) ! i)) \<noteq> r_my_node_id w"
    and "run_state (enqueue E i) w = ((), w')"
  shows "app w' = (app w)\<lparr>channels := (channels (app w))[i := (channels (app w) ! i)
        \<lparr>ch_state := (if cmd (ch_packet (channels (app w) ! i)) = RADIO_CMD_STATUS
           then LIBRADIO_CHSTATE_TXRESPOND else LIBRADIO_CHSTATE_TRANSMIT),
         ch_priority := (let p = ch_priority (channels (app w) ! i) in
           if p = 0 then word_of_nat ((6 - i) * 8) else if p < 0xfc then p + 1 else p)\<rparr>],
      in_state := IO_STATE_WAITNL\<rparr> \<and> (\<exists>s. out w' = s @ ''<+\<newline>'')"
  using assms(5) unfolding enqueue_remote [OF assms(1-4)] by auto

lemma enqueue_accepts_witness:
  "ch_priority (channels (app (snd (run_state (enqueue desk 2) (desk_state [] (replicate 6 (desk_channel 3 0 2)))))) ! 2) = 32"
proof -
  let ?w = "desk_state [] (replicate 6 (desk_channel 3 0 2))"
  obtain w' where r: "run_state (enqueue desk 2) ?w = ((), w')" by (rule unit_run)
  from enqueue_accepts [OF _ _ _ _ r] show ?thesis by (simp add: r)
qed

text \<open>C27: Unless the controller is active, a command that it does not execute itself is dropped, the
  channel is free again and the sender is told that the controller is not active.\<close>

theorem enqueue_refuses:
  fixes w :: "('d, control) mcu"
  assumes "length (channels (app w)) = MAX_RADIO_CHANNELS" "i < MAX_RADIO_CHANNELS"
    and "r_state w \<noteq> LIBRADIO_STATE_ACTIVE" "node (ch_packet (channels (app w) ! i)) \<noteq> r_my_node_id w"
    and "cmd (ch_packet (channels (app w) ! i)) = RADIO_CMD_ACTIVATE \<Longrightarrow> LIBRADIO_STATE_ACTIVE \<le> r_state w"
    and "run_state (enqueue E i) w = ((), w')"
  shows "app w' = (app w)\<lparr>channels := (channels (app w))[i := (channels (app w) ! i)\<lparr>ch_state := LIBRADIO_CHSTATE_EMPTY\<rparr>],
      in_state := IO_STATE_WAITNL\<rparr> \<and> (\<exists>s. out w' = s @ ''<-6/'' @ dec (unat (r_state w)) @ ''\<newline>'')"
proof -
  note run = enqueue_inactive [OF assms(1-4), of E]
  show ?thesis using assms(6) by (subst (asm) run) (use assms(5) in auto)
qed

lemma enqueue_refuses_witness:
  "ch_state (channels (app (snd (run_state (enqueue desk 2)
     ((desk_state [] (replicate 6 (desk_channel 3 0 2)))\<lparr>r_state := 4\<rparr>)))) ! 2) = 2"
proof -
  let ?w = "(desk_state [] (replicate 6 (desk_channel 3 0 2)))\<lparr>r_state := 4\<rparr>"
  obtain w' where r: "run_state (enqueue desk 2) ?w = ((), w')" by (rule unit_run)
  from enqueue_refuses [OF _ _ _ _ _ r] show ?thesis by (simp add: r)
qed


section \<open>The scheduler\<close>

text \<open>C28: One transmission, on the controller's variables: the packet is handed to the radio; if that is
  done, the channel is free again, or waits for the response it asked for, and its priority is cleared. Then,
  whatever the outcome, every channel that has something to send or waits for a response and whose priority is below 252
  gets two more; no priority of another channel wraps around or falls.\<close>

theorem transmission_outcome:
  assumes "length (channels (app w)) = MAX_RADIO_CHANNELS" "i < MAX_RADIO_CHANNELS"
    and "LIBRADIO_CHSTATE_EMPTY \<le> ch_state (channels (app w) ! i)"
    and "run_state (libradio_send E (channels (app w) ! i) (word_of_nat i))
      (w\<lparr>out := out w @ tx_text i (channels (app w) ! i)\<rparr>) = ((s, ch'), v)"
    and "run_state (tx_channel E i) w = ((), w')"
  shows "app w' = (app w)\<lparr>
     channels := map (\<lambda>ch. if LIBRADIO_CHSTATE_TRANSMIT \<le> ch_state ch \<and> unat (ch_priority ch) < 252
         then ch\<lparr>ch_priority := ch_priority ch + 2\<rparr> else ch)
       ((channels (app w))[i := (if s = 0 then ch'
         else ch'\<lparr>ch_state := (if ch_state ch' = LIBRADIO_CHSTATE_TXRESPOND then LIBRADIO_CHSTATE_RXRESPONSE1
           else LIBRADIO_CHSTATE_EMPTY), ch_priority := 0\<rparr>)]),
     resp_chp := (if s \<noteq> 0 \<and> ch_state ch' = LIBRADIO_CHSTATE_TXRESPOND then Some i else resp_chp (app w))\<rparr> \<and>
    (\<forall>j < MAX_RADIO_CHANNELS. j \<noteq> i \<longrightarrow> ch_priority (channels (app w) ! j) \<le> ch_priority (channels (app w') ! j))"
proof -
  note a = tx_outcome [OF assms]
  have "bump_priority = (\<lambda>ch. if LIBRADIO_CHSTATE_TRANSMIT \<le> ch_state ch \<and> unat (ch_priority ch) < 252
         then ch\<lparr>ch_priority := ch_priority ch + 2\<rparr> else ch)"
    by (rule ext) (simp add: bump_priority_def word_less_nat_alt)
  moreover have "\<forall>j < MAX_RADIO_CHANNELS. j \<noteq> i \<longrightarrow> ch_priority (channels (app w) ! j) \<le> ch_priority (channels (app w') ! j)"
    using assms(1) a by (simp add: bump_priority_grows)
  ultimately show ?thesis using a by (simp only: sent_channel_def simp_thms)
qed

text \<open>Transmissions on the bench succeed.\<close>

abbreviation (input) desk_ready :: "u8 \<Rightarrow> (int list, control) mcu" where
  "desk_ready st \<equiv> desk_state ready_chip (replicate 6 (desk_channel st 8 2))"

definition desk_slot :: "u8 \<Rightarrow> (int list, control) mcu" where
  "desk_slot st = (desk_ready st)\<lparr>app := (app (desk_ready st))\<lparr>last_modulo := 499\<rparr>\<rparr>"

lemma desk_slot_sel [simp]:
  "channels (app (desk_slot st)) = replicate 6 (desk_channel st 8 2)" "r_state (desk_slot st) = 6"
  "r_ms_ticks (desk_slot st) = 0" "last_modulo (app (desk_slot st)) = 499" "slot_of (desk_slot st) = 0"
  by (simp_all add: desk_slot_def slot_of_def)

lemma desk_sends:
  "fst (fst (run_state (libradio_send desk (desk_channel 5 8 2) 1)
     ((desk_ready 5)\<lparr>out := out (desk_ready 5) @ tx_text 1 (desk_channel 5 8 2)\<rparr>))) = 1"
  "fst (fst (run_state (libradio_send desk (desk_channel 3 8 2) 0)
     ((desk_slot 3)\<lparr>app := (app (desk_slot 3))\<lparr>last_modulo := 0\<rparr>,
       out := out (desk_slot 3) @ tx_text 0 (desk_channel 3 8 2)\<rparr>))) = 1"
  by code_simp+

lemma desk_sent:
  assumes "fst (fst (run_state (libradio_send desk (desk_channel st p c) i) w)) = 1"
  obtains ch' v where "run_state (libradio_send desk (desk_channel st p c) i) w = ((1, ch'), v)" "ch_state ch' = st"
proof -
  obtain r ch' v where run: "run_state (libradio_send desk (desk_channel st p c) i) w = ((r, ch'), v)"
    by (metis prod.collapse)
  then show ?thesis using assms yieldsD [OF send_channel_state _ run] by (intro that) auto
qed

lemma transmission_outcome_witness:
  "ch_priority (channels (app (snd (run_state (tx_channel desk 1) (desk_ready 5)))) ! 0) = 10"
proof -
  obtain ch' v where s: "run_state (libradio_send desk (desk_channel 5 8 2) 1)
     ((desk_ready 5)\<lparr>out := out (desk_ready 5) @ tx_text 1 (desk_channel 5 8 2)\<rparr>) = ((1, ch'), v)" "ch_state ch' = 5"
    by (rule desk_sent [OF desk_sends(1)])
  obtain w' where r: "run_state (tx_channel desk 1) (desk_ready 5) = ((), w')" by (rule unit_run)
  have "channels (app w') = map (\<lambda>ch. if 4 \<le> ch_state ch \<and> unat (ch_priority ch) < 252
      then ch\<lparr>ch_priority := ch_priority ch + 2\<rparr> else ch)
    ((replicate 6 (desk_channel 5 8 2))[1 := ch'\<lparr>ch_state := 6, ch_priority := 0\<rparr>])"
    using transmission_outcome [OF _ _ _ _ r, of 1 ch' v] s by auto
  then show ?thesis using r by simp
qed

text \<open>At the first look after the clock has passed a multiple of 500 ticks, the controller serves the
  channel whose turn it is and no other: if the channel is free it sends the time of day on it,
  otherwise whatever the channel holds.\<close>

lemma time_slot_served:
  fixes w :: "('d, control) mcu"
  assumes "length (channels (app w)) = MAX_RADIO_CHANNELS" "LIBRADIO_STATE_LISTEN \<le> r_state w"
    and "unat (r_ms_ticks w) mod 500 < last_modulo (app w)"
  shows "\<exists>v. run_state (tx_check_queues E) w = run_state (tx_channel E (slot_of w)) v \<and>
    app v = (app w)\<lparr>last_modulo := unat (r_ms_ticks w) mod 500,
      channels := (if ch_state (channels (app w) ! slot_of w) = LIBRADIO_CHSTATE_EMPTY
        then (channels (app w))[slot_of w := time_channel (r_tens_of_minutes w) (channels (app w) ! slot_of w)]
        else channels (app w))\<rparr>"
proof (cases "ch_state (channels (app w) ! slot_of w) = 2")
  case True
  then show ?thesis using check_queues_slot [of w E] assms
    by (intro exI [of _ "w\<lparr>out := out w @ ''C'' @ dec (slot_of w) @ ''>state:2\<newline>'',
       app := (app w)\<lparr>channels := (channels (app w))[slot_of w := time_channel (r_tens_of_minutes w) (channels (app w) ! slot_of w)],
         last_modulo := unat (r_ms_ticks w) mod 500\<rparr>\<rparr>"]) (simp add: in_slot_def Let_def)
next
  case False
  then show ?thesis using check_queues_slot [of w E] assms
    by (intro exI [of _ "w\<lparr>app := (app w)\<lparr>last_modulo := unat (r_ms_ticks w) mod 500\<rparr>\<rparr>"])
      (simp add: in_slot_def Let_def)
qed

text \<open>C29: The time in the network: when the controller's clock enters a slot whose channel is free and the transmission
  is done, the bus has carried a packet, and an active client that finds the frame of this packet in its FIFO and handles it
  has the controller's clock afterwards, both the ticks and the tens of minutes.\<close>

theorem time_broadcast:
  fixes w :: "('d, control) mcu"
  assumes "length (channels (app w)) = MAX_RADIO_CHANNELS" "LIBRADIO_STATE_LISTEN \<le> r_state w" "in_slot w"
    and "ch_state (channels (app w) ! slot_of w) = LIBRADIO_CHSTATE_EMPTY" "channel_ok (channels (app w) ! slot_of w)"
    and "length (pkt_data w) = 20"
    and "run_state (tx_check_queues E) w = ((), w')" "ch_state (channels (app w') ! slot_of w) = LIBRADIO_CHSTATE_EMPTY"
    and "r_state v = LIBRADIO_STATE_ACTIVE" "packet_ok (ch_packet (rxchan v))"
    and "run_state (libradio_check_rx E') v = (True, v1)"
    and "dev_serves E' (frame (time_packet w)) (snd (e_spi_byte E' SI4463_READ_RX_FIFO (e_ss E' True (dev v1))))"
    and "run_state (libradio_handle_packet E') v = ((), v')"
  shows "(\<exists>pre post. spi_log w' = spi_log w @ pre @ tx_events (time_packet w) (word_of_nat (slot_of w)) SI4463_STATE_READY @ post) \<and>
    r_ms_ticks v' = r_ms_ticks w \<and> r_tens_of_minutes v' = r_tens_of_minutes w"
  using slot_sends_time [OF assms(1-8)] handle_time [OF assms(5,9-11) assms(12) [unfolded time_packet_def] assms(13)] by blast

text \<open>A client on the bench with the packet in its FIFO.\<close>

definition listener :: "(int list, control) mcu \<Rightarrow> (int list, oiltank) mcu" where
  "listener w = bench_state ([0, 0, 0, 255, 16, 0, 0] @ map uint (frame (time_packet w)))"

definition announcing :: "(int list, control) mcu" where
  "announcing = (desk_slot 2)\<lparr>r_tens_of_minutes := 87, out := out (desk_slot 2) @ ''C'' @ dec 0 @ ''>state:2\<newline>'',
     app := (app (desk_slot 2))\<lparr>channels := (replicate 6 (desk_channel 2 8 2))[0 := time_channel 87 (desk_channel 2 8 2)], last_modulo := 0\<rparr>\<rparr>"

lemma announcing_sends:
  "fst (fst (run_state (libradio_send desk (time_channel 87 (desk_channel 2 8 2)) 0)
     (announcing\<lparr>out := out announcing @ tx_text 0 (time_channel 87 (desk_channel 2 8 2))\<rparr>))) = 1"
  by code_simp

lemma desk_announces:
  assumes "run_state (tx_check_queues desk) ((desk_slot 2)\<lparr>r_tens_of_minutes := 87\<rparr>) = ((), w')"
  shows "ch_state (channels (app w') ! slot_of ((desk_slot 2)\<lparr>r_tens_of_minutes := 87\<rparr>)) = 2"
proof -
  let ?w = "(desk_slot 2)\<lparr>r_tens_of_minutes := 87\<rparr>" and ?ch = "time_channel 87 (desk_channel 2 8 2)"
  have w: "in_slot ?w" "slot_of ?w = 0" by (simp_all add: in_slot_def slot_of_def)
  have "run_state (tx_channel desk 0) announcing = ((), w')"
    using check_queues_slot [OF _ _ w(1), of desk] assms by (simp add: Let_def w(2) announcing_def)
  moreover obtain s ch' v where send: "run_state (libradio_send desk ?ch 0)
      (announcing\<lparr>out := out announcing @ tx_text 0 ?ch\<rparr>) = ((s, ch'), v)" by (metis prod.collapse)
  moreover have "s = 1" using announcing_sends send by simp
  moreover have "ch_state ch' = 4" using yieldsD [OF send_channel_state _ send] by (simp add: time_channel_def)
  ultimately show ?thesis
    using tx_outcome [of announcing 0 desk s ch' v w'] w(2)
    by (simp add: announcing_def sent_channel_def bump_priority_def time_channel_def)
qed

lemma time_broadcast_witness:
  "r_tens_of_minutes (snd (run_state (libradio_handle_packet bench) (listener ((desk_slot 2)\<lparr>r_tens_of_minutes := 87\<rparr>)))) = 87"
proof -
  let ?w = "(desk_slot 2)\<lparr>r_tens_of_minutes := 87\<rparr>"
  obtain w' where r: "run_state (tx_check_queues desk) ?w = ((), w')" by (rule unit_run)
  have w: "in_slot ?w" "slot_of ?w = 0" by (simp_all add: in_slot_def slot_of_def desk_slot_def)
  have s: "ch_state (channels (app w') ! slot_of ?w) = 2" by (rule desk_announces [OF r])
  obtain a v1 where c: "run_state (libradio_check_rx bench) (listener ?w) = (a, v1)" by fastforce
  have "fst (run_state (libradio_check_rx bench) (listener ?w)) = True" by code_simp
  then have a: "a" using c by simp
  have "dev (snd (run_state (libradio_check_rx bench) (listener ?w))) = 0 # map uint (frame (time_packet ?w))" by code_simp
  then have d: "dev v1 = 0 # map uint (frame (time_packet ?w))" using c by simp
  obtain v' where h: "run_state (libradio_handle_packet bench) (listener ?w) = ((), v')" by (rule unit_run)
  have srv: "dev_serves bench (frame (time_packet ?w)) (snd (e_spi_byte bench 0x77 (e_ss bench True (dev v1))))"
    using bench_serves [of _ "[]"] by (simp add: d)
  have p: "length (pkt_data ?w) = 20" by (simp add: desk_slot_def desk_state_def cleared_def libradio.defs)
  have l: "r_state (listener ?w) = 6" "packet_ok (ch_packet (rxchan (listener ?w)))"
    by (simp_all add: listener_def bench_defs packet_ok_def)
  show ?thesis
    using time_broadcast [OF _ _ w(1) _ _ p r s l _ srv h] c a h by (simp add: w(2))
qed

text \<open>C30: A time slot does not spare a channel whose command is still being typed: if the radio takes it, the
  unfinished packet goes over the bus into the transmit FIFO as it is, stamped, followed by the start command for its
  channel, and the channel is marked free under the interpreter, which goes on filling it.\<close>

theorem unfinished_command_is_sent:
  fixes w :: "('d, control) mcu"
  assumes "length (channels (app w)) = MAX_RADIO_CHANNELS" "LIBRADIO_STATE_LISTEN \<le> r_state w" "in_slot w"
    and "ch_state (channels (app w) ! slot_of w) = LIBRADIO_CHSTATE_ADDING"
    and "channel_ok (channels (app w) ! slot_of w)" "length (pkt_data w) = 20"
    and "run_state (libradio_send E (channels (app w) ! slot_of w) (word_of_nat (slot_of w)))
      (w\<lparr>app := (app w)\<lparr>last_modulo := unat (r_ms_ticks w) mod 500\<rparr>,
         out := out w @ tx_text (slot_of w) (channels (app w) ! slot_of w)\<rparr>) = ((s, ch'), v)" "s \<noteq> 0"
    and "run_state (tx_check_queues E) w = ((), w')"
  shows "(\<exists>pre post. spi_log w' = spi_log w @ pre @ tx_events (stamped (r_ms_ticks w) (ch_packet (channels (app w) ! slot_of w)))
      (word_of_nat (slot_of w)) SI4463_STATE_READY @ post) \<and>
    ch_state (channels (app w') ! slot_of w) = LIBRADIO_CHSTATE_EMPTY \<and>
    in_state (app w') = in_state (app w) \<and> curr_chp (app w') = curr_chp (app w)"
proof -
  let ?u = "w\<lparr>app := (app w)\<lparr>last_modulo := unat (r_ms_ticks w) mod 500\<rparr>\<rparr>"
  have run: "run_state (tx_channel E (slot_of w)) ?u = ((), w')"
    using check_queues_slot [OF assms(1-3), of E] assms(4,9) by (simp add: Let_def)
  have st: "ch_state ch' = 3"
    using yieldsD [OF send_channel_state _ assms(7)] assms(4) by simp
  have "app w' = (app ?u)\<lparr>channels := map bump_priority ((channels (app ?u))[slot_of w := sent_channel s ch']),
    resp_chp := (if s \<noteq> 0 \<and> ch_state ch' = 5 then Some (slot_of w) else resp_chp (app ?u))\<rparr>"
    by (rule tx_outcome [OF _ _ _ _ run, of s ch' v]) (use assms(1,4,7) in \<open>simp_all add: word_le_nat_alt\<close>)
  moreover have "spi_log w' = spi_log v"
    by (rule tx_channel_bus [OF _ _ _ _ run, of s ch' v]) (use assms(1,4,7) in \<open>simp_all add: word_le_nat_alt\<close>)
  moreover have "\<exists>pre post. spi_log v = spi_log w @ pre @ tx_events (stamped (r_ms_ticks w) (ch_packet (channels (app w) ! slot_of w)))
      (word_of_nat (slot_of w)) SI4463_STATE_READY @ post"
    using send_on_bus [OF assms(7,8,5)] assms(4,6) by simp
  ultimately show ?thesis using assms(1,8) st by (simp add: sent_channel_def bump_priority_def)
qed

lemma unfinished_command_is_sent_witness:
  "\<exists>w' pre post. run_state (tx_check_queues desk) (desk_slot 3) = ((), w') \<and> ch_state (channels (app w') ! 0) = 2 \<and>
     spi_log w' = spi_log (desk_slot 3) @ pre @ tx_events (stamped 0 (ch_packet (desk_channel 3 8 2))) 0 SI4463_STATE_READY @ post"
proof -
  obtain ch' v where s: "run_state (libradio_send desk (desk_channel 3 8 2) 0)
     ((desk_slot 3)\<lparr>app := (app (desk_slot 3))\<lparr>last_modulo := 0\<rparr>,
       out := out (desk_slot 3) @ tx_text 0 (desk_channel 3 8 2)\<rparr>) = ((1, ch'), v)"
    by (rule desk_sent [OF desk_sends(2)])
  obtain w' where r: "run_state (tx_check_queues desk) (desk_slot 3) = ((), w')" by (rule unit_run)
  have i: "in_slot (desk_slot 3)" by (simp add: in_slot_def)
  have p: "length (pkt_data (desk_slot 3)) = 20" by (simp add: desk_slot_def desk_state_def cleared_def libradio.defs)
  from unfinished_command_is_sent [OF _ _ i _ _ p _ _ r, of 1 ch' v] s show ?thesis by (auto simp: r)
qed

text \<open>C31: A status exchange leaves its channel behind: the priority of the channel, cleared when the request is
  sent, is raised while the response is pending and is still 2 when the exchange is over, so that the next
  command typed for it is queued with priority 3, behind every channel that was idle.\<close>

theorem status_exchange_demotes:
  fixes w w1 w2 u u' :: "('d, control) mcu"
  assumes "length (channels (app w)) = MAX_RADIO_CHANNELS" "i < MAX_RADIO_CHANNELS"
    and "LIBRADIO_CHSTATE_EMPTY \<le> ch_state (channels (app w) ! i)" "channel_ok (channels (app w) ! i)"
    and "run_state (libradio_send E (channels (app w) ! i) (word_of_nat i))
      (w\<lparr>out := out w @ tx_text i (channels (app w) ! i)\<rparr>) = ((s, ch'), v)" "s \<noteq> 0"
      "ch_state ch' = LIBRADIO_CHSTATE_TXRESPOND"
    and "run_state (tx_channel E i) w = ((), w1)" "run_state (response_end i) w1 = ((), w2)"
    and "length (channels (app u)) = MAX_RADIO_CHANNELS" "channels (app u) ! i = channels (app w2) ! i"
    and "r_state u = LIBRADIO_STATE_ACTIVE" "n \<noteq> r_my_node_id u" "in_state (app u) = IO_STATE_NEWLINE"
    and "length ds \<le> MAX_PAYLOAD_SIZE"
    and "run_state (for_each (command_text i n k ds) (\<lambda>x. process_char E (of_char x))) u = ((), u')"
  shows "ch_priority (channels (app w2) ! i) = 2 \<and> ch_priority (channels (app u') ! i) = 3"
proof -
  note one = status_sent [OF assms(1-3,5-8)]
  have two: "w2 = w1\<lparr>app := (app w1)\<lparr>channels := (channels (app w1))[i := (channels (app w1) ! i)\<lparr>ch_state := 2\<rparr>], resp_chp := None\<rparr>\<rparr>"
    by (rule run_response_end [OF _ assms(9)]) (use one assms(2) in simp)
  have ok: "channel_ok ch'" using yieldsD [OF send_shape [OF assms(4)] _ assms(5)] by simp
  have c: "channels (app w2) ! i = ch'\<lparr>ch_state := 2, ch_priority := 2\<rparr>"
    using one assms(2) by (simp add: two)
  have "ch_priority (channels (app u') ! i) =
    (let p = ch_priority (channels (app u) ! i) in
     if p = 0 then word_of_nat ((6 - i) * 8) else if p < 0xfc then p + 1 else p)"
    by (rule text_priority [OF assms(2,10) _ _ assms(14,15,12,13), of E k])
      (use c ok assms(11,16) in \<open>simp_all add: channel_ok_def feed_def\<close>)
  then show ?thesis using c assms(11) by simp
qed

lemma status_exchange_demotes_witness:
  "\<exists>ch u'. run_state (for_each (command_text 1 7 5 []) (\<lambda>x. process_char desk (of_char x)))
      (desk_state [] (replicate 6 ch)) = ((), u') \<and> ch_priority (channels (app u') ! 1) = 3"
proof -
  obtain ch' v where s: "run_state (libradio_send desk (desk_channel 5 8 2) 1)
     ((desk_ready 5)\<lparr>out := out (desk_ready 5) @ tx_text 1 (desk_channel 5 8 2)\<rparr>) = ((1, ch'), v)" "ch_state ch' = 5"
    by (rule desk_sent [OF desk_sends(1)])
  obtain w1 where r1: "run_state (tx_channel desk 1) (desk_ready 5) = ((), w1)" by (rule unit_run)
  obtain w2 where r2: "run_state (response_end 1) w1 = ((), w2)" by (rule unit_run)
  let ?u = "desk_state [] (replicate 6 (channels (app w2) ! 1))"
  obtain u' where r3: "run_state (for_each (command_text 1 7 5 []) (\<lambda>x. process_char desk (of_char x))) ?u = ((), u')"
    by (rule unit_run)
  from status_exchange_demotes [OF _ _ _ _ _ _ _ r1 r2 _ _ _ _ _ _ r3, of 1 ch' v] s r3 show ?thesis
    by auto
qed

text \<open>C32: A command that is broken off (here by a character that cannot follow) leaves its channel reserved: the
  same channel is then refused as busy, and the scheduler never picks it.\<close>

theorem abandoned_command_blocks:
  fixes w :: "('d, control) mcu"
  assumes "c < MAX_RADIO_CHANNELS" "length (channels (app w)) = MAX_RADIO_CHANNELS"
    and "ch_state (channels (app w) ! c) \<le> LIBRADIO_CHSTATE_EMPTY" "in_state (app w) = IO_STATE_NEWLINE"
    and "of_char x \<notin> {10, 13} \<union> {48..(58::nat)}"
    and "run_state (for_each (''>'' @ [char_of (65 + c)] @ [x, CHR 0x0A] @ ''>'' @ [char_of (65 + c)])
      (\<lambda>x. process_char E (of_char x))) w = ((), w')"
  shows "ch_state (channels (app w') ! c) = LIBRADIO_CHSTATE_ADDING \<and> pick_channel (channels (app w')) \<noteq> Some c \<and>
    out w' = out w @ reply_text RADIO_CTLERR_NEWLINE (r_state w) @ reply_text RADIO_CTLERR_BUSY (r_state w)"
  by (rule abandoned_blocks [OF assms(1-5)]) (use assms(6) in \<open>simp only: feed_def\<close>)

lemma abandoned_command_blocks_witness:
  "out (snd (run_state (for_each (''>'' @ ''C'' @ ''x'' @ [CHR 0x0A] @ ''>'' @ ''C'') (\<lambda>x. process_char desk (of_char x)))
     (desk_state [] (replicate 6 zero_channel)))) = ''<-5/6'' @ [CHR 0x0A] @ ''<-2/6'' @ [CHR 0x0A]"
proof -
  have c: "CHR ''C'' = (char_of (65 + 2 :: nat) :: char)" by code_simp
  obtain w' where run: "run_state (for_each (''>'' @ [char_of (65 + 2 :: nat)] @ [CHR ''x'', CHR 0x0A] @ ''>'' @ [char_of (65 + 2 :: nat)])
      (\<lambda>x. process_char desk (of_char x))) (desk_state [] (replicate 6 zero_channel)) = ((), w')"
    by (rule unit_run)
  from abandoned_command_blocks [OF _ _ _ _ _ run]
  have "out w' = out (desk_state [] (replicate 6 zero_channel)) @ reply_text 5 6 @ reply_text 2 6"
    by (simp add: zero_channel_def)
  moreover have "reply_text 5 6 = ''<-5/6'' @ [CHR 0x0A]" "reply_text 2 6 = ''<-2/6'' @ [CHR 0x0A]"
    by code_simp+
  moreover have "out (desk_state [] (replicate 6 zero_channel)) = []"
    by (simp add: desk_state_def cleared_def libradio.defs)
  ultimately show ?thesis using run by simp
qed

text \<open>C33: \<^verbatim>\<open>SET_CHANNEL\<close> writes into the array only below its size, although the check of the command admits one
  number more, and it sets only the states a channel can be parked in.\<close>

theorem set_channel_in_bounds:
  fixes w :: "('d, control) mcu"
  assumes "length (channels (app w)) = MAX_RADIO_CHANNELS" "packet_ok pp" "cmd pp = RADIO_CMD_SET_CHANNEL" "len pp = 2"
    and "run_state (mycommand E pp) w = (r, w')"
  shows "r = 0 \<and> stopped w' = stopped w \<and> app w' = (app w)\<lparr>channels :=
    (if unat (data pp ! 0) < MAX_RADIO_CHANNELS
     then (channels (app w))[unat (data pp ! 0) := (channels (app w) ! unat (data pp ! 0))
        \<lparr>ch_state := (if data pp ! 1 < 3 then data pp ! 1 else ch_state (channels (app w) ! unat (data pp ! 0))),
         ch_priority := 0\<rparr>]
     else channels (app w))\<rparr>"
  by (rule set_channel_bounded [OF assms])

lemma set_channel_in_bounds_witness:
  "channels (app (snd (run_state (mycommand desk (bench_packet 16 [6, 2])) (desk_state [] (replicate 6 zero_channel))))) =
     replicate 6 zero_channel"
proof -
  obtain r w' where run: "run_state (mycommand desk (bench_packet 16 [6, 2])) (desk_state [] (replicate 6 zero_channel)) = (r, w')"
    by fastforce
  from set_channel_in_bounds [OF _ bench_packet_ok _ _ run] run show ?thesis
    by (simp add: bench_packet_def)
qed

end
