(* ===== verification/Lrmon_State.thy ===== *)
theory Lrmon_State
  imports Prelude
begin

text \<open>
  The daemon on the host that drives the controller over its serial line, \<^verbatim>\<open>lrmon/\<close>: its variables,
  the timer queue (\<^verbatim>\<open>timer.c\<close>), the serial output (\<^verbatim>\<open>serial.c\<close>), the commands (\<^verbatim>\<open>command.c\<close>) and
  the start-up state machine (\<^verbatim>\<open>state.c\<close>).

  The host's \<^verbatim>\<open>int\<close> is \<open>int\<close>: the values the daemon computes stay far below its 32 bits. A
  \<^verbatim>\<open>char\<close> that stores a byte is \<open>u8\<close>. The queue is a list of (seconds, function) pairs and the free
  list is the number of its elements; the two functions that are ever queued are the constructors of
  \<open>timer_fn\<close>. The time of day, the bytes waiting at the serial port and the bytes written to it are
  fields of the state; the time is after 1970, so that the C operators \<^verbatim>\<open>/\<close> and \<^verbatim>\<open>%\<close> on it are \<open>div\<close>
  and \<open>mod\<close>. \<open>published\<close> lists the messages given to \<^verbatim>\<open>rmq_publish\<close>, whose own sending is compiled
  out. \<^verbatim>\<open>syslog\<close> is left out, and so are the system calls that fail once the serial port is open,
  after which the daemon exits.
\<close>

section \<open>State\<close>

datatype timer_fn = State_machine | Dynamic_status_timer

record sstatus =
  ss_c1 :: u8
  ss_c2 :: u8
  ss_n1 :: u8
  ss_n2 :: u8
  ss_fw_h :: u8
  ss_fw_l :: u8

record dstatus =
  ds_radio_state :: u8
  ds_tens_of_minutes :: u8
  ds_battery_voltage :: int
  ds_npacket_rx :: int
  ds_npacket_tx :: int

record lrmon =
  timerq :: "(int \<times> timer_fn) list"
  tq_free :: nat
  tv_sec :: int
  tv_usec :: int
  lr_state :: int
  retries :: int
  response_received :: int
  response_node :: int
  failure_status :: int
  lr_sstatus :: sstatus
  lr_dstatus :: dstatus
  sio_buf :: string
  sio_in :: string
  sio_out :: string
  published :: "string list"
  siofd :: int
  mrfds :: "int set"
  maxfd :: int
  now_sec :: int
  now_usec :: int

abbreviation (input) DEFAULT_TIMEOUT :: int where "DEFAULT_TIMEOUT \<equiv> 60"

abbreviation (input) STATE_UNKNOWN :: int where "STATE_UNKNOWN \<equiv> 0"
abbreviation (input) STATE_SREQUEST :: int where "STATE_SREQUEST \<equiv> 1"
abbreviation (input) STATE_SEND_RESET :: int where "STATE_SEND_RESET \<equiv> 2"
abbreviation (input) STATE_DREQUEST :: int where "STATE_DREQUEST \<equiv> 3"
abbreviation (input) STATE_ACTIVATE :: int where "STATE_ACTIVATE \<equiv> 4"
abbreviation (input) STATE_SET_TIME :: int where "STATE_SET_TIME \<equiv> 5"
abbreviation (input) STATE_SET_DATE :: int where "STATE_SET_DATE \<equiv> 6"
abbreviation (input) STATE_ACTIVATE_CH0 :: int where "STATE_ACTIVATE_CH0 \<equiv> 7"
abbreviation (input) STATE_ACTIVATE_CH3 :: int where "STATE_ACTIVATE_CH3 \<equiv> 10"
abbreviation (input) STATE_READY :: int where "STATE_READY \<equiv> 11"

section \<open>Timers\<close>

definition timer_init :: "lrmon \<Rightarrow> lrmon" where
  "timer_init w = w\<lparr>timerq := [], tq_free := 0, tv_sec := DEFAULT_TIMEOUT, tv_usec := 0\<rparr>"

text \<open>The search for the place of a timer behind the head of the queue.\<close>

fun insert_after :: "int \<Rightarrow> timer_fn \<Rightarrow> (int \<times> timer_fn) list \<Rightarrow> (int \<times> timer_fn) list" where
  "insert_after secs f [] = [(secs, f)]"
| "insert_after secs f [a] = [a, (secs, f)]"
| "insert_after secs f (a # b # q) =
     (if fst b > secs then a # (secs, f) # b # q else a # insert_after (secs - fst a) f (b # q))"

definition timer_insert :: "timer_fn \<Rightarrow> int \<Rightarrow> lrmon \<Rightarrow> lrmon" where
  "timer_insert f secs w =
     (let w = w\<lparr>tq_free := tq_free w - 1\<rparr> in
      case timerq w of
        [] \<Rightarrow> w\<lparr>timerq := [(0, f)], tv_sec := secs, tv_usec := 0\<rparr>
      | (m, g) # q \<Rightarrow>
          (if m > secs
           then w\<lparr>timerq := (0, f) # (m - secs, g) # q, tv_sec := secs, tv_usec := 0\<rparr>
           else w\<lparr>timerq := insert_after secs f (timerq w)\<rparr>))"

fun remove_first :: "timer_fn \<Rightarrow> (int \<times> timer_fn) list \<Rightarrow> (int \<times> timer_fn) list" where
  "remove_first f [] = []"
| "remove_first f ((s, g) # q) = (if g = f then q else (s, g) # remove_first f q)"

definition timer_remove :: "timer_fn \<Rightarrow> lrmon \<Rightarrow> lrmon" where
  "timer_remove f w = w\<lparr>timerq := remove_first f (timerq w),
     tq_free := tq_free w + (if f \<in> snd ` set (timerq w) then 1 else 0)\<rparr>"

section \<open>Commands\<close>

definition sio_send :: "string \<Rightarrow> lrmon \<Rightarrow> lrmon" where
  "sio_send msg w = w\<lparr>sio_out := sio_out w @ msg @ [CHR 0x0D, CHR 0x0A]\<rparr>"

fun send_data :: "nat \<Rightarrow> int list \<Rightarrow> string" where
  "send_data i [] = []"
| "send_data i (d # ds) = (if i = 0 then '':'' else '','') @ dec_int d @ send_data (i + 1) ds"

definition send_command :: "int \<Rightarrow> int \<Rightarrow> int \<Rightarrow> int list \<Rightarrow> lrmon \<Rightarrow> lrmon" where
  "send_command chan node_no cmd_no ds =
     sio_send (''>'' @ [char_of (nat (chan + 65))] @ dec_int node_no @ '':'' @ dec_int cmd_no @ send_data 0 ds @ ''.'')"

definition local_activate :: "lrmon \<Rightarrow> lrmon" where
  "local_activate = send_command 0 0 3 [0, 1, 0]"

definition client_activate :: "int list \<Rightarrow> lrmon \<Rightarrow> lrmon" where
  "client_activate ds = send_command 0 0 3 ds"

definition request_local_status :: "int \<Rightarrow> lrmon \<Rightarrow> lrmon" where
  "request_local_status stype = sio_send (''>'' @ [char_of (nat (stype + 83))])"

definition request_client_status :: "int \<Rightarrow> int \<Rightarrow> int \<Rightarrow> lrmon \<Rightarrow> lrmon" where
  "request_client_status chan node_no stype = send_command chan node_no 2 [1, 1, stype]"

definition set_time :: "lrmon \<Rightarrow> lrmon" where
  "set_time w =
     (let t = now_sec w mod (60 * 60 * 24);
          tod = t div 600;
          t = t mod 600 * 100 + now_usec w div 10000
      in send_command 0 1 5 [t div 256 mod 256, t mod 256, tod] w)"

definition set_date :: "lrmon \<Rightarrow> lrmon" where
  "set_date w =
     (let date = now_sec w div (60 * 60 * 24)
      in send_command 0 1 6 [date div 256 mod 256, date mod 256] w)"

definition set_channel_cmd :: "int \<Rightarrow> int \<Rightarrow> lrmon \<Rightarrow> lrmon" where
  "set_channel_cmd chan st = send_command 0 1 16 [chan, st]"

definition reset_controller :: "lrmon \<Rightarrow> lrmon" where
  "reset_controller = sio_send ''>R''"

section \<open>The state machine\<close>

definition state_ready :: "lrmon \<Rightarrow> bool" where
  "state_ready w \<longleftrightarrow> lr_state w = STATE_READY"

definition dynamic_status_timer :: "lrmon \<Rightarrow> lrmon" where
  "dynamic_status_timer w = timer_insert Dynamic_status_timer 300 (request_local_status 1 w)"

definition retry :: "lrmon \<Rightarrow> lrmon" where
  "retry w = w\<lparr>retries := retries w + 1\<rparr>"

text \<open>
  The cases of the \<^verbatim>\<open>switch\<close> of \<open>state_machine\<close>, from the last to the first: each ends in a
  \<^verbatim>\<open>break\<close>, with the state and the next timeout, or falls through to the one after it.
\<close>

definition sm_channel :: "lrmon \<Rightarrow> lrmon \<times> int" where
  "sm_channel w =
     (let i = lr_state w - STATE_ACTIVATE_CH0; chstate = (if i = 3 then 1 else 2) in
      if failure_status w \<noteq> 0 then (retry (set_channel_cmd i chstate w), 5)
      else
        let w = w\<lparr>retries := 0\<rparr> in
        if lr_state w = STATE_ACTIVATE_CH3
        then (dynamic_status_timer (w\<lparr>lr_state := STATE_READY\<rparr>), 5)
        else
          let w = w\<lparr>failure_status := -1, lr_state := lr_state w + 1\<rparr>;
              chstate = (if i = 3 then 1 else 2)
          in (set_channel_cmd (lr_state w - STATE_ACTIVATE_CH0) chstate w, 5))"

definition sm_set_date :: "lrmon \<Rightarrow> lrmon \<times> int" where
  "sm_set_date w =
     (if failure_status w \<noteq> 0 then (retry (set_date w), 5)
      else sm_channel (w\<lparr>failure_status := -1, lr_state := STATE_ACTIVATE_CH0, retries := 0\<rparr>))"

definition sm_set_time :: "lrmon \<Rightarrow> lrmon \<times> int" where
  "sm_set_time w =
     (if failure_status w \<noteq> 0 then (retry (set_time w), 5)
      else sm_set_date (w\<lparr>failure_status := -1, lr_state := STATE_SET_DATE, retries := 0\<rparr>))"

definition sm_activate :: "lrmon \<Rightarrow> lrmon \<times> int" where
  "sm_activate w =
     (if failure_status w \<noteq> 0 then (retry (local_activate w), 5)
      else sm_set_time (w\<lparr>failure_status := -1, lr_state := STATE_SET_TIME, retries := 0\<rparr>))"

definition sm_drequest :: "lrmon \<Rightarrow> lrmon \<times> int" where
  "sm_drequest w =
     (if response_received w = 0 then (retry (request_local_status 1 w), 5)
      else
        let w = w\<lparr>retries := 0\<rparr> in
        if response_node w = 1 then (set_time (w\<lparr>lr_state := STATE_SET_TIME, failure_status := -1\<rparr>), 5)
        else sm_activate (w\<lparr>lr_state := STATE_ACTIVATE, failure_status := -1\<rparr>))"

definition sm_srequest :: "lrmon \<Rightarrow> lrmon \<times> int" where
  "sm_srequest w =
     (if response_received w = 0 then (retry (request_local_status 0 w), 3)
      else sm_drequest (w\<lparr>lr_state := STATE_DREQUEST, response_received := 0, retries := 0\<rparr>))"

definition sm_switch :: "lrmon \<Rightarrow> lrmon \<times> int" where
  "sm_switch w =
     (let st = lr_state w in
      if st = STATE_SEND_RESET then ((reset_controller w)\<lparr>lr_state := STATE_UNKNOWN, retries := 0\<rparr>, 5)
      else if st = STATE_UNKNOWN
      then sm_srequest (w\<lparr>response_received := 0, retries := 0, lr_state := STATE_SREQUEST\<rparr>)
      else if st = STATE_SREQUEST then sm_srequest w
      else if st = STATE_DREQUEST then sm_drequest w
      else if st = STATE_ACTIVATE then sm_activate w
      else if st = STATE_SET_TIME then sm_set_time w
      else if st = STATE_SET_DATE then sm_set_date w
      else if STATE_ACTIVATE_CH0 \<le> st \<and> st \<le> STATE_ACTIVATE_CH3 then sm_channel w
      else (w\<lparr>lr_state := STATE_UNKNOWN\<rparr>, 600))"

definition state_machine :: "lrmon \<Rightarrow> lrmon" where
  "state_machine w =
     (let w = timer_remove State_machine w in
      if lr_state w = STATE_READY then w
      else
        let w = (if retries w > 10 then w\<lparr>lr_state := STATE_SEND_RESET\<rparr> else w);
            (w, next_timeout) = sm_switch w
        in timer_insert State_machine next_timeout w)"

definition state_init :: "lrmon \<Rightarrow> lrmon" where
  "state_init w = timer_insert State_machine 3 (w\<lparr>lr_state := STATE_UNKNOWN, retries := 0\<rparr>)"

section \<open>Expiry of timers\<close>

text \<open>
  \<^verbatim>\<open>while (runq->next != NULL && runq->next->seconds == 0) runq = runq->next\<close>: the function of the last
  timer reached and the queue behind it.
\<close>

fun last_expired :: "timer_fn \<Rightarrow> (int \<times> timer_fn) list \<Rightarrow> timer_fn \<times> (int \<times> timer_fn) list" where
  "last_expired f [] = (f, [])"
| "last_expired f ((s, g) # q) = (if s = 0 then last_expired g q else (f, (s, g) # q))"

definition call_timer :: "timer_fn \<Rightarrow> lrmon \<Rightarrow> lrmon" where
  "call_timer f = (case f of State_machine \<Rightarrow> state_machine | Dynamic_status_timer \<Rightarrow> dynamic_status_timer)"

definition timer_expiry :: "lrmon \<Rightarrow> lrmon" where
  "timer_expiry w =
     (case timerq w of
        [] \<Rightarrow> w\<lparr>tv_sec := DEFAULT_TIMEOUT, tv_usec := 0\<rparr>
      | (_, f) # q \<Rightarrow>
          (case last_expired f q of (g, rest) \<Rightarrow>
             let w = (case rest of
                 [] \<Rightarrow> w\<lparr>timerq := [], tv_sec := DEFAULT_TIMEOUT\<rparr>
               | (s, h) # q' \<Rightarrow> w\<lparr>timerq := (0, h) # q', tv_sec := s\<rparr>);
                 w = call_timer g w
             in w\<lparr>tq_free := tq_free w + 1\<rparr>))"

end
