(* ===== verification/Lrmon_Input.thy ===== *)
theory Lrmon_Input
  imports Lrmon_State
begin

text \<open>
  The input side of the daemon: the reading of lines from the serial port (\<^verbatim>\<open>serial.c\<close>), their
  parsing (\<^verbatim>\<open>main.c\<close>), the status responses (\<^verbatim>\<open>response.c\<close>), the connection to the message queue
  (\<^verbatim>\<open>rmq.c\<close>), the options and the main loop. A C string is the list of its characters before the
  terminating zero; the numbers in it fit in an \<^verbatim>\<open>int\<close>.
\<close>

section \<open>Numbers and fields\<close>

definition is_digit :: "char \<Rightarrow> bool" where
  "is_digit c \<longleftrightarrow> 48 \<le> (of_char c :: nat) \<and> (of_char c :: nat) \<le> 57"

definition digits_value :: "string \<Rightarrow> int" where
  "digits_value s = foldl (\<lambda>v c. v * 10 + (of_char c - 48)) 0 (takeWhile is_digit s)"

text \<open>The standard library's \<^verbatim>\<open>atoi\<close>.\<close>

definition atoi :: "string \<Rightarrow> int" where
  "atoi s = (case dropWhile (\<lambda>c. c = CHR '' '' \<or> 9 \<le> (of_char c :: nat) \<and> (of_char c :: nat) \<le> 13) s of
      [] \<Rightarrow> 0
    | c # r \<Rightarrow> (if c = CHR ''-'' then - digits_value r
                else if c = CHR ''+'' then digits_value r else digits_value (c # r)))"

fun crack :: "nat \<Rightarrow> char \<Rightarrow> string \<Rightarrow> string list" where
  "crack 0 delim line = []"
| "crack (Suc n) delim line =
     takeWhile (\<lambda>c. c \<noteq> delim) line #
     (if delim \<in> set line then crack n delim (tl (dropWhile (\<lambda>c. c \<noteq> delim) line)) else [])"

section \<open>Responses\<close>

definition local_response :: "string \<Rightarrow> lrmon \<Rightarrow> lrmon" where
  "local_response argp w =
     (let idata = map atoi (crack 16 (CHR '','') argp); n = length idata;
          w = (if idata ! 0 = 0 \<and> n = 7
               then w\<lparr>lr_sstatus := \<lparr>ss_c1 = word_of_int (idata ! 1), ss_c2 = word_of_int (idata ! 2),
                 ss_n1 = word_of_int (idata ! 3), ss_n2 = word_of_int (idata ! 4),
                 ss_fw_h = word_of_int (idata ! 5), ss_fw_l = word_of_int (idata ! 6)\<rparr>\<rparr>
               else w)
      in (if idata ! 0 = 1 \<and> n = 9
          then w\<lparr>lr_dstatus := \<lparr>ds_radio_state = word_of_int (idata ! 1),
            ds_tens_of_minutes = word_of_int (idata ! 2),
            ds_battery_voltage = push_bit 8 (idata ! 3) OR idata ! 4,
            ds_npacket_rx = push_bit 8 (idata ! 5) OR idata ! 6,
            ds_npacket_tx = push_bit 8 (idata ! 7) OR idata ! 8\<rparr>\<rparr>
          else w))"

definition quoted :: "string \<Rightarrow> string" where
  "quoted s = [CHR 0x22] @ s @ [CHR 0x22]"

definition rmq_publish :: "string \<Rightarrow> lrmon \<Rightarrow> lrmon" where
  "rmq_publish msg w = w\<lparr>published := published w @ [msg]\<rparr>"

definition response :: "int \<Rightarrow> int \<Rightarrow> int \<Rightarrow> string \<Rightarrow> lrmon \<Rightarrow> lrmon" where
  "response chan node_no tcks argp w =
     (let w = w\<lparr>response_received := response_received w + 1, response_node := node_no\<rparr>;
          w = rmq_publish (''{'' @ quoted ''chan'' @ '':'' @ dec_int chan @ '','' @ quoted ''node'' @ '':'' @
            dec_int node_no @ '','' @ quoted ''cmd'' @ '':'' @ dec_int 9 @ '','' @ quoted ''ticks'' @ '':'' @
            dec_int tcks @ '','' @ quoted ''data'' @ '':['' @ argp @ '']}'') w
      in (if node_no < 2 then local_response argp w else w))"

section \<open>Lines\<close>

definition parse_good :: "lrmon \<Rightarrow> lrmon" where
  "parse_good w = state_machine (w\<lparr>failure_status := 0\<rparr>)"

definition parse_bad :: "string \<Rightarrow> lrmon \<Rightarrow> lrmon" where
  "parse_bad code w =
     (let n = atoi (takeWhile (\<lambda>c. c \<noteq> CHR ''/'') code)
      in state_machine (w\<lparr>failure_status := (if n < 1 then 99 else n)\<rparr>))"

definition parse_report :: "string \<Rightarrow> lrmon \<Rightarrow> lrmon" where
  "parse_report s w =
     (let args = crack 8 (CHR '':'') s in
      if length args \<noteq> 4 then w
      else if args ! 0 = [] \<or> of_char (hd (args ! 0)) < (65 :: nat) \<or> of_char (hd (args ! 0)) > (80 :: nat) then w
      else
        let chan = of_char (hd (args ! 0)) - 65; node_no = atoi (tl (args ! 0)) in
        if node_no < 0 \<or> node_no > 255 then w
        else
          let tcks = atoi (args ! 1) in
          if tcks < 0 then w
          else
            let cmd_no = atoi (args ! 2) in
            if cmd_no < 0 \<or> cmd_no > 255 then w
            else if cmd_no = 9
            then state_machine (response chan node_no tcks (args ! 3) (w\<lparr>failure_status := 0\<rparr>))
            else w)"

definition parse_data :: "string \<Rightarrow> lrmon \<Rightarrow> lrmon" where
  "parse_data line w =
     (case line of
        [] \<Rightarrow> w
      | c # s \<Rightarrow>
          (if c \<noteq> CHR ''<'' then w
           else case s of
             [] \<Rightarrow> parse_report [] w
           | d # t \<Rightarrow>
               (if d = CHR ''+'' then parse_good w
                else if d = CHR ''-'' then parse_bad t w
                else parse_report s w)))"

definition is_nl :: "char \<Rightarrow> bool" where
  "is_nl c \<longleftrightarrow> c = CHR 0x0D \<or> c = CHR 0x0A"

lemma drop_line_length:
  assumes "list_ex is_nl s"
  shows "length (dropWhile is_nl (dropWhile (\<lambda>c. \<not> is_nl c) s)) < length s"
proof -
  let ?t = "dropWhile (\<lambda>c. \<not> is_nl c) s"
  have "?t \<noteq> []" using assms by (auto simp: list_ex_iff)
  moreover from this have "is_nl (hd ?t)" using hd_dropWhile [of "\<lambda>c. \<not> is_nl c" s] by simp
  ultimately have "length (dropWhile is_nl ?t) < length ?t"
    using length_dropWhile_le [of is_nl "tl ?t"] by (cases ?t) auto
  then show ?thesis using length_dropWhile_le [of "\<lambda>c. \<not> is_nl c" s] by linarith
qed

text \<open>The loop of \<open>process_sio\<close>: what is left of the buffer, and the state after the lines before it.\<close>

function parse_lines :: "string \<Rightarrow> lrmon \<Rightarrow> string \<times> lrmon" where
  "parse_lines s w =
     (if \<not> list_ex is_nl s then (s, w)
      else
        let line = takeWhile (\<lambda>c. \<not> is_nl c) s;
            w = (if line \<noteq> [] then parse_data line w else w)
        in parse_lines (dropWhile is_nl (dropWhile (\<lambda>c. \<not> is_nl c) s)) w)"
  by pat_completeness auto

termination
  by (relation "measure (\<lambda>(s, w). length s)") (auto intro: drop_line_length)

declare parse_lines.simps [simp del]

definition process_sio :: "lrmon \<Rightarrow> lrmon" where
  "process_sio w =
     (let room = 1024 - length (sio_buf w) - 1;
          got = take room (sio_in w);
          w = w\<lparr>sio_in := drop room (sio_in w)\<rparr>
      in if got = [] then w
         else case parse_lines (takeWhile (\<lambda>c. c \<noteq> CHR 0x00) (sio_buf w @ got)) w of
           (rest, w) \<Rightarrow> w\<lparr>sio_buf := rest\<rparr>)"

section \<open>The program\<close>

definition speeds :: "int list" where
  "speeds = [50, 75, 110, 134, 150, 200, 300, 600, 1200, 1800, 2400, 4800, 9600, 19200, 38400, 57600,
     115200, 230400]"

text \<open>\<^verbatim>\<open>FD_SET(fd, &mrfds); if (maxfd < fd) maxfd = fd\<close>\<close>

definition watch_fd :: "int \<Rightarrow> lrmon \<Rightarrow> lrmon" where
  "watch_fd fd w = w\<lparr>mrfds := insert fd (mrfds w), maxfd := (if maxfd w < fd then fd else maxfd w)\<rparr>"

text \<open>
  Opening the port, where \<open>fd\<close> is what \<^verbatim>\<open>open\<close> returns; its terminal settings are left out. \<open>None\<close>: the
  program exits.
\<close>

definition sio_init :: "int \<Rightarrow> int \<Rightarrow> lrmon \<Rightarrow> lrmon option" where
  "sio_init fd speed w =
     (if speed \<notin> set speeds then None
      else if fd < 0 then None
      else let w = watch_fd fd (w\<lparr>siofd := fd\<rparr>)
           in Some (w\<lparr>sio_out := sio_out w @ ''R'' @ [CHR 0x0D, CHR 0x0A], sio_buf := []\<rparr>))"

definition sio_close :: "lrmon \<Rightarrow> lrmon" where
  "sio_close w = w\<lparr>mrfds := mrfds w - {siofd w}\<rparr>"

text \<open>
  The message queue: what the calls of the AMQP library return, that is whether \<^verbatim>\<open>amqp_tcp_socket_new\<close> gives a
  socket, the status of \<^verbatim>\<open>amqp_socket_open\<close> for a host and a port (0 is \<^verbatim>\<open>AMQP_STATUS_OK\<close>), whether the reply
  of \<^verbatim>\<open>amqp_login\<close> is normal, and the descriptor.
\<close>

record amqp =
  a_socket_new :: bool
  a_socket_open :: "string \<Rightarrow> int \<Rightarrow> int"
  a_login_normal :: bool
  a_get_sockfd :: int

definition rmq_address :: "string \<Rightarrow> string \<times> int" where
  "rmq_address rmq_host =
     (if CHR '':'' \<in> set rmq_host
      then (takeWhile (\<lambda>c. c \<noteq> CHR '':'') rmq_host, atoi (tl (dropWhile (\<lambda>c. c \<noteq> CHR '':'') rmq_host)))
      else (rmq_host, 5672))"

definition rmq_init :: "amqp \<Rightarrow> string \<Rightarrow> lrmon \<Rightarrow> lrmon option" where
  "rmq_init A rmq_host w =
     (case rmq_address rmq_host of (host, port) \<Rightarrow>
        if \<not> a_socket_new A then None
        else if a_socket_open A host port \<noteq> 0 then None
        else if \<not> a_login_normal A then None
        else if a_get_sockfd A < 0 then None
        else Some (watch_fd (a_get_sockfd A) w))"

text \<open>The options, as \<^verbatim>\<open>getopt\<close> returns them: a letter and its argument.\<close>

record config =
  cf_speed :: int
  cf_device :: string
  cf_rmqhost :: string

definition default_config :: config where
  "default_config = \<lparr>cf_speed = 38400, cf_device = ''/dev/ttyUSB0'', cf_rmqhost = ''localhost:5672''\<rparr>"

fun options :: "(char \<times> string) list \<Rightarrow> config \<Rightarrow> config option" where
  "options [] c = Some c"
| "options ((i, optarg) # os) c =
     (if i = CHR ''r'' then options os (c\<lparr>cf_rmqhost := optarg\<rparr>)
      else if i = CHR ''s'' then
        (if atoi optarg \<le> 0 then None else options os (c\<lparr>cf_speed := atoi optarg\<rparr>))
      else if i = CHR ''l'' then options os (c\<lparr>cf_device := optarg\<rparr>)
      else None)"

text \<open>\<^verbatim>\<open>main\<close> up to the loop, where \<open>devfd\<close> gives the descriptor of a device.\<close>

definition lrmon_start :: "(string \<Rightarrow> int) \<Rightarrow> amqp \<Rightarrow> (char \<times> string) list \<Rightarrow> lrmon \<Rightarrow> lrmon option" where
  "lrmon_start devfd A os w =
     Option.bind (options os default_config) (\<lambda>c.
     Option.bind (sio_init (devfd (cf_device c)) (cf_speed c) (timer_init (w\<lparr>maxfd := 0, mrfds := {}\<rparr>))) (\<lambda>w.
     Option.bind (rmq_init A (cf_rmqhost c) w) (\<lambda>w. Some (state_init w))))"

text \<open>
  One turn of \<open>main_loop\<close>, given what \<^verbatim>\<open>select\<close> reports: the number of ready descriptors, whether the
  serial port is one of them, and the time left of the timeout, which it stores in \<^verbatim>\<open>tval\<close>.
\<close>

definition main_turn :: "nat \<Rightarrow> bool \<Rightarrow> int \<times> int \<Rightarrow> lrmon \<Rightarrow> lrmon" where
  "main_turn n ready left w =
     (let w = w\<lparr>tv_sec := fst left, tv_usec := snd left\<rparr>;
          w = (if tv_sec w = 0 \<and> tv_usec w = 0 then timer_expiry w else w)
      in if n = 0 then w else if ready then process_sio w else w)"

definition zero_lrmon :: lrmon where
  "zero_lrmon = \<lparr>timerq = [], tq_free = 0, tv_sec = 0, tv_usec = 0, lr_state = 0, retries = 0,
     response_received = 0, response_node = 0, failure_status = 0,
     lr_sstatus = \<lparr>ss_c1 = 0, ss_c2 = 0, ss_n1 = 0, ss_n2 = 0, ss_fw_h = 0, ss_fw_l = 0\<rparr>,
     lr_dstatus = \<lparr>ds_radio_state = 0, ds_tens_of_minutes = 0, ds_battery_voltage = 0,
       ds_npacket_rx = 0, ds_npacket_tx = 0\<rparr>,
     sio_buf = [], sio_in = [], sio_out = [], published = [], siofd = 0, mrfds = {}, maxfd = 0,
     now_sec = 0, now_usec = 0\<rparr>"

text \<open>
  The runs of the daemon: between two turns time passes and bytes arrive at the serial port.
\<close>

inductive lrmon_run :: "lrmon \<Rightarrow> bool" where
  lrmon_boot: "lrmon_start devfd A os (zero_lrmon\<lparr>now_sec := t, now_usec := u\<rparr>) = Some w \<Longrightarrow> lrmon_run w"
| lrmon_loop: "lrmon_run w \<Longrightarrow>
    lrmon_run (main_turn n ready left (w\<lparr>sio_in := sio_in w @ s, now_sec := t, now_usec := u\<rparr>))"

end
