(* ===== verification/Lrmon_Text.thy ===== *)
theory Lrmon_Text
  imports Lrmon_Input
begin

text \<open>
  The reading of the serial port by the daemon as a division of the text into lines: what has been read is the
  same however the text is cut into the pieces that arrive (the locale \<open>chunked_reader\<close>).
\<close>

section \<open>The serial buffers are not touched by the parser\<close>

text \<open>\<open>io b s\<close> replaces what has been buffered and what waits at the port.\<close>

definition io :: "string \<Rightarrow> string \<Rightarrow> lrmon \<Rightarrow> lrmon" where
  "io b s w = w\<lparr>sio_buf := b, sio_in := s\<rparr>"

named_theorems io_rules \<open>operations commute with the serial buffers\<close>

lemma io_sel [simp]:
  "timerq (io b s w) = timerq w" "tq_free (io b s w) = tq_free w" "lr_state (io b s w) = lr_state w"
  "retries (io b s w) = retries w" "response_received (io b s w) = response_received w"
  "response_node (io b s w) = response_node w" "failure_status (io b s w) = failure_status w"
  "sio_out (io b s w) = sio_out w" "published (io b s w) = published w" "now_sec (io b s w) = now_sec w"
  "now_usec (io b s w) = now_usec w" "sio_buf (io b s w) = b" "sio_in (io b s w) = s"
  "lr_dstatus (io b s w) = lr_dstatus w" "lr_sstatus (io b s w) = lr_sstatus w"
  by (simp_all add: io_def)

lemma io_io [simp]: "io b s (io b' s' w) = io b s w"
  by (simp add: io_def)

lemma io_update [io_rules]:
  "(io b s w)\<lparr>timerq := a\<rparr> = io b s (w\<lparr>timerq := a\<rparr>)"
  "(io b s w)\<lparr>tq_free := n\<rparr> = io b s (w\<lparr>tq_free := n\<rparr>)"
  "(io b s w)\<lparr>tv_sec := i\<rparr> = io b s (w\<lparr>tv_sec := i\<rparr>)"
  "(io b s w)\<lparr>tv_usec := i\<rparr> = io b s (w\<lparr>tv_usec := i\<rparr>)"
  "(io b s w)\<lparr>lr_state := i\<rparr> = io b s (w\<lparr>lr_state := i\<rparr>)"
  "(io b s w)\<lparr>retries := i\<rparr> = io b s (w\<lparr>retries := i\<rparr>)"
  "(io b s w)\<lparr>response_received := i\<rparr> = io b s (w\<lparr>response_received := i\<rparr>)"
  "(io b s w)\<lparr>response_node := i\<rparr> = io b s (w\<lparr>response_node := i\<rparr>)"
  "(io b s w)\<lparr>failure_status := i\<rparr> = io b s (w\<lparr>failure_status := i\<rparr>)"
  "(io b s w)\<lparr>sio_out := t\<rparr> = io b s (w\<lparr>sio_out := t\<rparr>)"
  "(io b s w)\<lparr>published := l\<rparr> = io b s (w\<lparr>published := l\<rparr>)"
  "(io b s w)\<lparr>lr_sstatus := x\<rparr> = io b s (w\<lparr>lr_sstatus := x\<rparr>)"
  "(io b s w)\<lparr>lr_dstatus := y\<rparr> = io b s (w\<lparr>lr_dstatus := y\<rparr>)"
  by (simp_all add: io_def)

lemma io_timers [io_rules]:
  "timer_insert f n (io b s w) = io b s (timer_insert f n w)"
  "timer_remove f (io b s w) = io b s (timer_remove f w)"
  by (simp_all add: timer_insert_def timer_remove_def Let_def io_rules split: list.split)

lemma io_commands [io_rules]:
  "send_command c n k ds (io b s w) = io b s (send_command c n k ds w)"
  "request_local_status t (io b s w) = io b s (request_local_status t w)"
  "reset_controller (io b s w) = io b s (reset_controller w)"
  by (simp_all add: send_command_def request_local_status_def reset_controller_def sio_send_def io_rules)

lemma io_requests [io_rules]:
  "set_time (io b s w) = io b s (set_time w)" "set_date (io b s w) = io b s (set_date w)"
  "set_channel_cmd c t (io b s w) = io b s (set_channel_cmd c t w)"
  "local_activate (io b s w) = io b s (local_activate w)" "retry (io b s w) = io b s (retry w)"
  "dynamic_status_timer (io b s w) = io b s (dynamic_status_timer w)"
  by (simp_all add: set_time_def set_date_def set_channel_cmd_def local_activate_def retry_def
      dynamic_status_timer_def Let_def io_rules)

lemma io_sm_channel: "sm_channel (io b s w) = map_prod (io b s) id (sm_channel w)"
  by (simp add: sm_channel_def Let_def io_rules)

lemma io_sm_set_date: "sm_set_date (io b s w) = map_prod (io b s) id (sm_set_date w)"
  by (simp add: sm_set_date_def io_rules io_sm_channel)

lemma io_sm_set_time: "sm_set_time (io b s w) = map_prod (io b s) id (sm_set_time w)"
  by (simp add: sm_set_time_def io_rules io_sm_set_date)

lemma io_sm_activate: "sm_activate (io b s w) = map_prod (io b s) id (sm_activate w)"
  by (simp add: sm_activate_def io_rules io_sm_set_time)

lemma io_sm_drequest: "sm_drequest (io b s w) = map_prod (io b s) id (sm_drequest w)"
  by (simp add: sm_drequest_def Let_def io_rules io_sm_activate)

lemma io_sm_srequest: "sm_srequest (io b s w) = map_prod (io b s) id (sm_srequest w)"
  by (simp add: sm_srequest_def io_rules io_sm_drequest)

lemma io_sm_switch: "sm_switch (io b s w) = map_prod (io b s) id (sm_switch w)"
  by (simp add: sm_switch_def Let_def io_rules io_sm_srequest io_sm_drequest io_sm_activate io_sm_set_time
      io_sm_set_date io_sm_channel)

lemma io_state_machine [io_rules]: "state_machine (io b s w) = io b s (state_machine w)"
  by (simp add: state_machine_def Let_def io_rules io_sm_switch split: prod.split)

lemma io_response [io_rules]:
  "local_response a (io b s w) = io b s (local_response a w)"
  "response c n t a (io b s w) = io b s (response c n t a w)"
  by (simp_all add: local_response_def response_def rmq_publish_def Let_def io_rules)

lemma io_parse [io_rules]:
  "parse_good (io b s w) = io b s (parse_good w)" "parse_bad t (io b s w) = io b s (parse_bad t w)"
  "parse_report t (io b s w) = io b s (parse_report t w)"
proof -
  show "parse_report t (io b s w) = io b s (parse_report t w)"
    by (simp only: parse_report_def Let_def io_rules if_distrib [of "io b s"])
qed (simp_all add: parse_good_def parse_bad_def Let_def io_rules)

lemma io_parse_data [io_rules]: "parse_data l (io b s w) = io b s (parse_data l w)"
  by (simp add: parse_data_def io_rules split: list.split)

lemma io_fold [io_rules]: "fold parse_data ls (io b s w) = io b s (fold parse_data ls w)"
  by (induction ls arbitrary: w) (simp_all add: io_rules)

section \<open>Lines\<close>

fun split_nl :: "string \<Rightarrow> string list" where
  "split_nl [] = [[]]"
| "split_nl (c # s) = (if is_nl c then [] # split_nl s
     else (c # hd (split_nl s)) # tl (split_nl s))"

definition text_lines :: "string \<Rightarrow> string list" where
  "text_lines s = filter (\<lambda>l. l \<noteq> []) (butlast (split_nl s))"

definition text_rest :: "string \<Rightarrow> string" where
  "text_rest s = last (split_nl s)"

lemma split_nl_nonempty [simp]: "split_nl s \<noteq> []"
  by (induction s) auto

lemma split_no_nl: "\<not> list_ex is_nl s \<Longrightarrow> split_nl s = [s]"
  by (induction s) auto

lemma split_line: "list_ex is_nl s \<Longrightarrow>
    split_nl s = takeWhile (\<lambda>c. \<not> is_nl c) s # split_nl (tl (dropWhile (\<lambda>c. \<not> is_nl c) s))"
  by (induction s) (auto split: if_splits)

lemma text_skip_nl: "text_lines (dropWhile is_nl s) = text_lines s" "text_rest (dropWhile is_nl s) = text_rest s"
  by (induction s) (auto simp: text_lines_def text_rest_def)

lemma text_line:
  assumes "list_ex is_nl s"
  shows "text_lines s = filter (\<lambda>l. l \<noteq> []) [takeWhile (\<lambda>c. \<not> is_nl c) s] @
      text_lines (dropWhile is_nl (dropWhile (\<lambda>c. \<not> is_nl c) s))"
    "text_rest s = text_rest (dropWhile is_nl (dropWhile (\<lambda>c. \<not> is_nl c) s))"
proof -
  let ?t = "dropWhile (\<lambda>c. \<not> is_nl c) s"
  obtain c u where t: "?t = c # u" "is_nl c"
    using assms hd_dropWhile [of "\<lambda>c. \<not> is_nl c" s] by (cases ?t) (auto simp: list_ex_iff)
  note sp = split_line [OF assms, unfolded t list.sel]
  show "text_lines s = filter (\<lambda>l. l \<noteq> []) [takeWhile (\<lambda>c. \<not> is_nl c) s] @ text_lines (dropWhile is_nl ?t)"
    using sp t(2) by (simp add: t(1) text_skip_nl) (simp add: text_lines_def)
  show "text_rest s = text_rest (dropWhile is_nl ?t)"
    using sp t(2) by (simp add: t(1) text_skip_nl) (simp add: text_rest_def)
qed

lemma parse_lines_text: "parse_lines s w = (text_rest s, fold parse_data (text_lines s) w)"
proof (induction s w rule: parse_lines.induct)
  case (1 s w)
  show ?case
  proof (cases "list_ex is_nl s")
    case False
    then show ?thesis by (subst parse_lines.simps) (simp add: text_rest_def text_lines_def split_no_nl)
  next
    case True
    show ?thesis
      by (subst parse_lines.simps) (use "1.IH" [OF _ refl refl] True text_line [OF True] in \<open>auto simp: Let_def\<close>)
  qed
qed

lemma split_nl_append: "split_nl (a @ t) = butlast (split_nl a) @ split_nl (last (split_nl a) @ t)"
proof (induction a)
  case (Cons c a)
  obtain l ls where sp: "split_nl a = l # ls" by (cases "split_nl a") auto
  show ?case
  proof (cases "is_nl c")
    case True
    then show ?thesis using Cons by simp
  next
    case False
    have h: "split_nl (c # a) = (c # l) # ls" using False sp by simp
    show ?thesis
    proof (cases "ls = []")
      case True
      have "split_nl (a @ t) = split_nl (l @ t)" using Cons sp True by simp
      then show ?thesis using False sp True by simp
    next
      case ne: False
      have "split_nl (a @ t) = (l # butlast ls) @ split_nl (last ls @ t)" using Cons sp ne by simp
      then show ?thesis using False sp ne by simp
    qed
  qed
qed simp

lemma text_append:
  "text_lines (a @ t) = text_lines a @ text_lines (text_rest a @ t)"
  "text_rest (a @ t) = text_rest (text_rest a @ t)"
  unfolding text_lines_def text_rest_def split_nl_append [of a t] by (simp_all add: butlast_append)

lemma set_split_nl: "\<forall>l \<in> set (split_nl s). set l \<subseteq> set s"
proof (induction s)
  case (Cons c s)
  then show ?case by (cases "split_nl s") auto
qed simp

lemma length_split_nl: "l \<in> set (split_nl s) \<Longrightarrow> length l \<le> length s"
proof (induction s arbitrary: l)
  case (Cons c s)
  then show ?case by (cases "split_nl s") (fastforce split: if_splits)+
qed simp

lemma text_rest_bounds: "set (text_rest s) \<subseteq> set s" "length (text_rest s) \<le> length s"
  unfolding text_rest_def using set_split_nl [of s] by (auto simp: length_split_nl)

lemma split_nl_no_nl: "l \<in> set (split_nl s) \<Longrightarrow> \<not> list_ex is_nl l"
proof (induction s arbitrary: l)
  case (Cons c s)
  then show ?case by (cases "split_nl s") (auto split: if_splits)
qed simp

lemma process_text:
  assumes "length (sio_buf w) + length s \<le> 1023" "CHR 0x00 \<notin> set (sio_buf w @ s)" "s \<noteq> []"
  shows "process_sio (w\<lparr>sio_in := s\<rparr>) =
    io (text_rest (sio_buf w @ s)) [] (fold parse_data (text_lines (sio_buf w @ s)) w)"
proof -
  have t: "take (1023 - length (sio_buf w)) s = s" "drop (1023 - length (sio_buf w)) s = []"
    "\<not> 1023 \<le> length (sio_buf w)"
    using assms(1,3) by (simp_all add: Suc_le_eq neq_Nil_conv) auto
  have n: "takeWhile (\<lambda>c. c \<noteq> CHR 0x00) (sio_buf w @ s) = sio_buf w @ s"
    using assms(2) by (intro takeWhile_eq_all_conv [THEN iffD2]) auto
  have i: "w\<lparr>sio_in := []\<rparr> = io (sio_buf w) [] w" by (simp add: io_def)
  have "(io b [] v)\<lparr>sio_buf := r\<rparr> = io r [] v" for b r v by (simp add: io_def)
  then show ?thesis
    unfolding process_sio_def Let_def using assms(3)
    by (simp add: t n i parse_lines_text io_rules del: takeWhile_append)
qed

lemma process_nothing: "process_sio (w\<lparr>sio_in := []\<rparr>) = w\<lparr>sio_in := []\<rparr>"
  by (simp add: process_sio_def Let_def)

lemma process_chunks:
  assumes "length (sio_buf w) + length s + length t \<le> 1023" "CHR 0x00 \<notin> set (sio_buf w @ s @ t)"
  shows "process_sio ((process_sio (w\<lparr>sio_in := s\<rparr>))\<lparr>sio_in := t\<rparr>) = process_sio (w\<lparr>sio_in := s @ t\<rparr>)"
proof (cases "s = [] \<or> t = []")
  case True
  then show ?thesis
  proof
    assume "s = []"
    then show ?thesis by (simp add: process_nothing)
  next
    assume t: "t = []"
    show ?thesis
    proof (cases "s = []")
      case False
      then show ?thesis using assms t
        by (simp add: process_text) (simp add: io_def process_nothing [unfolded io_def])
    qed (simp add: t process_nothing)
  qed
next
  case False
  let ?u = "sio_buf w @ s"
  let ?w1 = "io (text_rest ?u) [] (fold parse_data (text_lines ?u) w)"
  have one: "process_sio (w\<lparr>sio_in := s\<rparr>) = ?w1"
    using assms False by (intro process_text) auto
  have "process_sio (?w1\<lparr>sio_in := t\<rparr>) = io (text_rest (text_rest ?u @ t)) [] (fold parse_data (text_lines (text_rest ?u @ t)) ?w1)"
    using process_text [of ?w1 t] text_rest_bounds [of ?u] assms False by auto
  moreover have "process_sio (w\<lparr>sio_in := s @ t\<rparr>) = io (text_rest (?u @ t)) [] (fold parse_data (text_lines (?u @ t)) w)"
    using process_text [of w "s @ t"] assms False by simp
  ultimately show ?thesis
    unfolding one by (simp add: text_append [of ?u t] io_rules del: append_assoc)
qed

definition buffer_ok :: "lrmon \<Rightarrow> bool" where
  "buffer_ok w \<longleftrightarrow> length (sio_buf w) \<le> 1023 \<and> CHR 0x00 \<notin> set (sio_buf w) \<and> \<not> list_ex is_nl (sio_buf w)"

lemma process_general:
  "process_sio w = (let room = 1023 - length (sio_buf w); got = take room (sio_in w);
     all = takeWhile (\<lambda>c. c \<noteq> CHR 0x00) (sio_buf w @ got) in
     if got = [] then io (sio_buf w) (drop room (sio_in w)) w
     else io (text_rest all) (drop room (sio_in w)) (fold parse_data (text_lines all) w))"
proof -
  have i: "w\<lparr>sio_in := x\<rparr> = io (sio_buf w) x w" for x by (simp add: io_def)
  have j: "(io b x v)\<lparr>sio_buf := r\<rparr> = io r x v" for b x r v by (simp add: io_def)
  show ?thesis
    unfolding process_sio_def Let_def parse_lines_text i
    by (simp add: io_rules j)
qed

section \<open>Input in pieces\<close>

text \<open>
  A device that is given its input in pieces, and a meaning of the input that does not depend on them: a piece
  has its meaning if it \<open>fits\<close>.
\<close>

locale chunked_reader =
  fixes put :: "string \<Rightarrow> 's \<Rightarrow> 's" and spec :: "string \<Rightarrow> 's \<Rightarrow> 's"
    and good :: "'s \<Rightarrow> bool" and fits :: "string \<Rightarrow> 's \<Rightarrow> bool"
  assumes put_spec: "good w \<Longrightarrow> fits s w \<Longrightarrow> put s w = spec s w"
    and spec_Nil: "good w \<Longrightarrow> spec [] w = w"
    and spec_append: "good w \<Longrightarrow> spec (s @ t) w = spec t (spec s w)"
    and spec_good: "good w \<Longrightarrow> fits s w \<Longrightarrow> good (spec s w)"
begin

fun all_fit :: "string list \<Rightarrow> 's \<Rightarrow> bool" where
  "all_fit [] w = True"
| "all_fit (s # ss) w = (fits s w \<and> all_fit ss (spec s w))"

lemma chunks: "good w \<Longrightarrow> all_fit ss w \<Longrightarrow> fold put ss w = spec (concat ss) w"
proof (induction ss arbitrary: w)
  case (Cons s ss)
  then show ?case by (simp add: put_spec spec_append spec_good)
qed (simp add: spec_Nil)

end

text \<open>The lines of the text that has been read, and what is left of it.\<close>

definition read_text :: "string \<Rightarrow> lrmon \<Rightarrow> lrmon" where
  "read_text s w = io (text_rest (sio_buf w @ s)) [] (fold parse_data (text_lines (sio_buf w @ s)) w)"

definition serial_put :: "string \<Rightarrow> lrmon \<Rightarrow> lrmon" where
  "serial_put s w = process_sio (w\<lparr>sio_in := sio_in w @ s\<rparr>)"

definition reading :: "lrmon \<Rightarrow> bool" where
  "reading w \<longleftrightarrow> sio_in w = [] \<and> buffer_ok w"

definition serial_fits :: "string \<Rightarrow> lrmon \<Rightarrow> bool" where
  "serial_fits s w \<longleftrightarrow> length (sio_buf w) + length s \<le> 1023 \<and> CHR 0x00 \<notin> set s"

lemma io_self: "sio_buf w = b \<Longrightarrow> sio_in w = s \<Longrightarrow> io b s w = w"
  by (auto simp: io_def)

interpretation serial: chunked_reader serial_put read_text reading serial_fits
proof unfold_locales
  fix w s assume w: "reading w" and f: "serial_fits s w"
  show p: "serial_put s w = read_text s w"
  proof (cases "s = []")
    case True
    have "\<not> list_ex is_nl (sio_buf w)" using w by (simp add: reading_def buffer_ok_def)
    then show ?thesis using w True
      by (simp add: serial_put_def read_text_def text_lines_def text_rest_def split_no_nl reading_def io_self process_sio_def Let_def)
  next
    case False
    then show ?thesis using w f process_text [of w s]
      by (simp add: serial_put_def read_text_def reading_def buffer_ok_def serial_fits_def)
  qed
  show "reading (read_text s w)"
    using w f text_rest_bounds [of "sio_buf w @ s"] split_nl_no_nl [of "text_rest (sio_buf w @ s)" "sio_buf w @ s"]
    by (auto simp: read_text_def reading_def buffer_ok_def serial_fits_def text_rest_def)
next
  fix w assume "reading w"
  then show "read_text [] w = w"
    by (simp add: reading_def read_text_def buffer_ok_def text_lines_def text_rest_def split_no_nl io_self)
next
  fix w s t assume "reading w"
  show "read_text (s @ t) w = read_text t (read_text s w)"
    by (simp add: read_text_def text_append [of "sio_buf w @ s" t, simplified] io_rules)
qed

text \<open>Lines of at most 511 characters read in pieces of at most 512.\<close>

lemma hd_split_nl: "\<not> list_ex is_nl r \<Longrightarrow> hd (split_nl (r @ t)) = r @ hd (split_nl t)"
  by (induction r) simp_all

lemma rest_line: "\<exists>l \<in> set (split_nl (a @ t)). length (text_rest a) \<le> length l"
proof -
  have "\<not> list_ex is_nl (text_rest a)" unfolding text_rest_def by (rule split_nl_no_nl [of _ a]) simp
  then have "hd (split_nl (text_rest a @ t)) = text_rest a @ hd (split_nl t)" by (rule hd_split_nl)
  moreover have "hd (split_nl (text_rest a @ t)) \<in> set (split_nl (text_rest a @ t))" by simp
  moreover have "set (split_nl (text_rest a @ t)) \<subseteq> set (split_nl (a @ t))"
    using split_nl_append [of a t] by (simp add: text_rest_def)
  ultimately show ?thesis by (metis le_add1 length_append subsetD)
qed

lemma short_lines_fit:
  assumes "reading w" "\<forall>l \<in> set (split_nl (sio_buf w @ concat ss)). length l \<le> 511" "\<forall>s \<in> set ss. length s \<le> 512 \<and> CHR 0x00 \<notin> set s"
  shows "serial.all_fit ss w"
  using assms
proof (induction ss arbitrary: w)
  case (Cons s ss)
  have nn: "\<not> list_ex is_nl (sio_buf w)" using Cons.prems(1) by (simp add: reading_def buffer_ok_def)
  then have "text_rest (sio_buf w) = sio_buf w" by (simp add: text_rest_def split_no_nl)
  then have "length (sio_buf w) \<le> 511"
    using rest_line [of "sio_buf w" "concat (s # ss)"] Cons.prems(2) by fastforce
  then have f: "serial_fits s w" using Cons.prems(3) by (simp add: serial_fits_def)
  have "sio_buf (read_text s w) = text_rest (sio_buf w @ s)" by (simp add: read_text_def)
  moreover have "set (split_nl (text_rest (sio_buf w @ s) @ concat ss)) \<subseteq> set (split_nl (sio_buf w @ concat (s # ss)))"
    using split_nl_append [of "sio_buf w @ s" "concat ss"] by (simp add: text_rest_def)
  ultimately have "serial.all_fit ss (read_text s w)"
    using Cons.prems serial.spec_good [OF Cons.prems(1) f] by (intro Cons.IH) auto
  with f show ?case by simp
qed simp

lemma process_full: "length (sio_buf w) = 1023 \<Longrightarrow> process_sio w = w"
  by (simp add: process_sio_def Let_def)

text \<open>The reads of the serial port, with what arrives before each of them.\<close>

definition reads :: "string list \<Rightarrow> lrmon \<Rightarrow> lrmon" where
  "reads ss w = fold serial_put ss w"

lemma reads_full: "length (sio_buf w) = 1023 \<Longrightarrow> reads ss w = w\<lparr>sio_in := sio_in w @ concat ss\<rparr>"
  by (induction ss arbitrary: w) (simp_all add: reads_def serial_put_def process_full)

lemma one_line: "\<not> list_ex is_nl l \<Longrightarrow> l \<noteq> [] \<Longrightarrow> text_lines (l @ [CHR 0x0A]) = [l]"
proof -
  assume l: "\<not> list_ex is_nl l" "l \<noteq> []"
  from l(1) have "split_nl (l @ [CHR 0x0A]) = [l, []]" by (induction l) (simp_all add: is_nl_def)
  with l(2) show ?thesis by (simp add: text_lines_def)
qed

lemma process_line:
  assumes "sio_buf m = []" "\<not> list_ex is_nl l" "CHR 0x00 \<notin> set l" "l \<noteq> []" "length l < 1023"
  shows "process_sio (m\<lparr>sio_in := l @ [CHR 0x0A]\<rparr>) = io (text_rest (l @ [CHR 0x0A])) [] (parse_data l m)"
  using assms process_text [of m "l @ [CHR 0x0A]"] one_line [of l] by simp

end
