(* ===== verification/Lrmon_Behaviour.thy ===== *)
theory Lrmon_Behaviour
  imports Lrmon_Text
begin

text \<open>
  What the daemon does: the invariant of its variables, its start-up, and the fields of a status line.
\<close>

section \<open>What the timers and the commands leave alone\<close>

lemma timer_insert_sel [simp]:
  "lr_state (timer_insert f n w) = lr_state w" "retries (timer_insert f n w) = retries w"
  "failure_status (timer_insert f n w) = failure_status w" "sio_out (timer_insert f n w) = sio_out w"
  "now_sec (timer_insert f n w) = now_sec w" "now_usec (timer_insert f n w) = now_usec w"
  "lr_dstatus (timer_insert f n w) = lr_dstatus w" "sio_buf (timer_insert f n w) = sio_buf w"
  by (simp_all add: timer_insert_def Let_def split: list.split)

lemma timer_remove_sel [simp]:
  "lr_state (timer_remove f w) = lr_state w" "retries (timer_remove f w) = retries w"
  "failure_status (timer_remove f w) = failure_status w" "sio_out (timer_remove f w) = sio_out w"
  "now_sec (timer_remove f w) = now_sec w" "now_usec (timer_remove f w) = now_usec w"
  "lr_dstatus (timer_remove f w) = lr_dstatus w" "timerq (timer_remove f w) = remove_first f (timerq w)"
  "response_received (timer_remove f w) = response_received w" "response_node (timer_remove f w) = response_node w"
  by (simp_all add: timer_remove_def)

lemma timerq_insert: "timerq (timer_insert f n w) =
   (case timerq w of [] \<Rightarrow> [(0, f)]
    | (m, g) # q \<Rightarrow> if m > n then (0, f) # (m - n, g) # q else insert_after n f (timerq w))"
  by (simp add: timer_insert_def Let_def split: list.split)

lemmas daemon_sends = set_time_def set_date_def set_channel_cmd_def local_activate_def request_local_status_def
  reset_controller_def send_command_def sio_send_def

lemma commands_sel [simp]:
  "timerq (set_time w) = timerq w" "timerq (set_date w) = timerq w" "timerq (set_channel_cmd c s w) = timerq w"
  "timerq (local_activate w) = timerq w" "timerq (request_local_status t w) = timerq w" "timerq (reset_controller w) = timerq w"
  "lr_state (set_time w) = lr_state w" "lr_state (set_date w) = lr_state w" "lr_state (set_channel_cmd c s w) = lr_state w"
  "lr_state (local_activate w) = lr_state w" "lr_state (request_local_status t w) = lr_state w" "lr_state (reset_controller w) = lr_state w"
  "retries (set_time w) = retries w" "retries (set_date w) = retries w" "retries (set_channel_cmd c s w) = retries w"
  "retries (local_activate w) = retries w" "retries (request_local_status t w) = retries w" "retries (reset_controller w) = retries w"
  "failure_status (set_time w) = failure_status w" "failure_status (set_date w) = failure_status w"
  "failure_status (set_channel_cmd c s w) = failure_status w" "failure_status (request_local_status t w) = failure_status w"
  by (simp_all add: daemon_sends Let_def)

lemma retry_sel [simp]:
  "timerq (retry w) = timerq w" "lr_state (retry w) = lr_state w" "retries (retry w) = retries w + 1"
  "sio_out (retry w) = sio_out w" "failure_status (retry w) = failure_status w"
  by (simp_all add: retry_def)

section \<open>The invariant of the daemon\<close>

definition queue_ok :: "lrmon \<Rightarrow> bool" where
  "queue_ok w \<longleftrightarrow> (if lr_state w = STATE_READY
     then timerq w \<in> {[(0, Dynamic_status_timer), (5, State_machine)], [(0, Dynamic_status_timer)],
       [(0, State_machine), (300, Dynamic_status_timer)], [(300, Dynamic_status_timer)]}
     else timerq w = [(0, State_machine)])"

definition daemon_ok :: "lrmon \<Rightarrow> bool" where
  "daemon_ok w \<longleftrightarrow> queue_ok w \<and> 0 \<le> lr_state w \<and> lr_state w \<le> STATE_READY \<and> 0 \<le> retries w \<and> retries w \<le> 11"

text \<open>The same where the timer of the state machine has been taken off the queue.\<close>

definition daemon_pre :: "lrmon \<Rightarrow> bool" where
  "daemon_pre w \<longleftrightarrow> 0 \<le> lr_state w \<and> lr_state w \<le> STATE_READY \<and> 0 \<le> retries w \<and> retries w \<le> 11 \<and>
     (if lr_state w = STATE_READY
      then remove_first State_machine (timerq w) \<in> {[(0, Dynamic_status_timer)], [(300, Dynamic_status_timer)]}
      else remove_first State_machine (timerq w) = [])"

lemma daemon_ok_pre: "daemon_ok w \<Longrightarrow> daemon_pre w"
  by (auto simp: daemon_ok_def daemon_pre_def queue_ok_def)

definition switched :: "lrmon \<times> int \<Rightarrow> bool" where
  "switched p \<longleftrightarrow> (case p of (w, n) \<Rightarrow> 0 \<le> lr_state w \<and> lr_state w \<le> STATE_READY \<and> 0 \<le> retries w \<and> retries w \<le> 11 \<and>
     (if lr_state w = STATE_READY then timerq w = [(0, Dynamic_status_timer)] \<and> n = 5 else timerq w = []))"

definition startable :: "lrmon \<Rightarrow> bool" where
  "startable w \<longleftrightarrow> timerq w = [] \<and> 0 \<le> retries w \<and> retries w \<le> 10 \<and> 0 \<le> lr_state w \<and> lr_state w < STATE_READY"

lemma switched_channel: "startable w \<Longrightarrow> 7 \<le> lr_state w \<Longrightarrow> switched (sm_channel w)"
  by (auto simp: startable_def switched_def sm_channel_def Let_def dynamic_status_timer_def timerq_insert)

lemma switched_date: "startable w \<Longrightarrow> switched (sm_set_date w)"
  using switched_channel [of "w\<lparr>failure_status := -1, lr_state := 7, retries := 0\<rparr>"]
  by (auto simp: sm_set_date_def startable_def) (simp add: switched_def)

lemma switched_time: "startable w \<Longrightarrow> switched (sm_set_time w)"
  using switched_date [of "w\<lparr>failure_status := -1, lr_state := 6, retries := 0\<rparr>"]
  by (auto simp: sm_set_time_def startable_def) (simp add: switched_def)

lemma switched_activate: "startable w \<Longrightarrow> switched (sm_activate w)"
  using switched_time [of "w\<lparr>failure_status := -1, lr_state := 5, retries := 0\<rparr>"]
  by (auto simp: sm_activate_def startable_def) (simp add: switched_def)

lemma switched_drequest: "startable w \<Longrightarrow> switched (sm_drequest w)"
  using switched_activate [of "w\<lparr>retries := 0, lr_state := 4, failure_status := -1\<rparr>"]
  by (auto simp: sm_drequest_def startable_def Let_def) (simp_all add: switched_def)

lemma switched_srequest: "startable w \<Longrightarrow> switched (sm_srequest w)"
  using switched_drequest [of "w\<lparr>lr_state := 3, response_received := 0, retries := 0\<rparr>"]
  by (auto simp: sm_srequest_def startable_def Let_def) (simp_all add: switched_def)

lemma switched_switch:
  assumes "timerq w = []" "0 \<le> lr_state w" "lr_state w < 11" "0 \<le> retries w" "retries w \<le> 11" "retries w > 10 \<Longrightarrow> lr_state w = 2"
  shows "switched (sm_switch w)"
proof (cases "lr_state w = 2")
  case True
  then show ?thesis using assms by (simp add: sm_switch_def Let_def) (simp add: switched_def)
next
  case False
  then have "retries w \<le> 10" using assms(6) by (metis not_less)
  then have s: "startable w" using assms by (simp add: startable_def)
  have z: "startable (w\<lparr>response_received := 0, retries := 0, lr_state := 1\<rparr>)" using assms by (simp add: startable_def)
  show ?thesis
    using s z False switched_srequest switched_drequest switched_activate switched_time switched_date switched_channel
    by (auto simp: sm_switch_def Let_def) (auto simp: switched_def startable_def)
qed

lemma state_machine_ok:
  assumes "daemon_pre w"
  shows "daemon_ok (state_machine w)"
proof (cases "lr_state w = 11")
  case True
  then show ?thesis using assms by (auto simp: state_machine_def daemon_pre_def daemon_ok_def queue_ok_def)
next
  case False
  let ?v = "timer_remove State_machine w"
  let ?u = "if retries ?v > 10 then ?v\<lparr>lr_state := 2\<rparr> else ?v"
  have "switched (sm_switch ?u)"
    by (rule switched_switch) (use assms False in \<open>auto simp: daemon_pre_def\<close>)
  moreover obtain x n where x: "sm_switch ?u = (x, n)" by fastforce
  moreover have "state_machine w = timer_insert State_machine n x"
    using False x by (simp add: state_machine_def Let_def)
  ultimately show ?thesis
    by (auto simp: switched_def daemon_ok_def queue_ok_def timerq_insert)
qed


lemma timer_expiry_ok:
  assumes "daemon_ok w"
  shows "daemon_ok (timer_expiry w)"
proof -
  have free: "daemon_ok (v\<lparr>tq_free := n\<rparr>) = daemon_ok v" for v n
    by (simp add: daemon_ok_def queue_ok_def)
  show ?thesis
  proof (cases "lr_state w = 11")
    case False
    then have "timerq w = [(0, State_machine)]" using assms by (simp add: daemon_ok_def queue_ok_def)
    moreover have "daemon_ok (state_machine (w\<lparr>timerq := [], tv_sec := 60\<rparr>))"
      by (rule state_machine_ok) (use assms False in \<open>simp add: daemon_pre_def daemon_ok_def\<close>)
    ultimately show ?thesis by (simp add: timer_expiry_def call_timer_def Let_def free)
  next
    case True
    have m: "daemon_ok (state_machine (w\<lparr>timerq := [(0, Dynamic_status_timer)], tv_sec := t\<rparr>))" for t
      by (rule state_machine_ok) (use assms True in \<open>simp add: daemon_pre_def daemon_ok_def\<close>)
    have d: "daemon_ok (dynamic_status_timer (w\<lparr>timerq := q, tv_sec := t\<rparr>))" if "q = [] \<or> q = [(0, State_machine)]" for q t
      using that assms True by (auto simp: dynamic_status_timer_def daemon_ok_def queue_ok_def timerq_insert)
    have "timerq w \<in> {[(0, Dynamic_status_timer), (5, State_machine)], [(0, Dynamic_status_timer)],
       [(0, State_machine), (300, Dynamic_status_timer)], [(300, Dynamic_status_timer)]}"
      using assms True by (simp add: daemon_ok_def queue_ok_def)
    then show ?thesis by (auto simp: timer_expiry_def call_timer_def Let_def free m d)
  qed
qed

lemma daemon_ok_cong:
  "lr_state w = lr_state v \<Longrightarrow> retries w = retries v \<Longrightarrow> timerq w = timerq v \<Longrightarrow> daemon_ok w = daemon_ok v"
  by (simp add: daemon_ok_def queue_ok_def)

lemma local_response_sel [simp]:
  "lr_state (local_response a w) = lr_state w" "retries (local_response a w) = retries w"
  "timerq (local_response a w) = timerq w" "failure_status (local_response a w) = failure_status w"
  by (simp_all add: local_response_def Let_def)

lemma response_sel [simp]:
  "lr_state (response c n t a w) = lr_state w" "retries (response c n t a w) = retries w"
  "timerq (response c n t a w) = timerq w" "failure_status (response c n t a w) = failure_status w"
  "sio_out (response c n t a w) = sio_out w" "now_sec (response c n t a w) = now_sec w" "now_usec (response c n t a w) = now_usec w"
  "response_received (response c n t a w) = response_received w + 1" "response_node (response c n t a w) = n"
  by (simp_all add: response_def rmq_publish_def local_response_def Let_def)

lemma machine_after:
  "lr_state v = lr_state w \<Longrightarrow> retries v = retries w \<Longrightarrow> timerq v = timerq w \<Longrightarrow> daemon_ok w \<Longrightarrow>
    daemon_ok (state_machine v)"
  by (intro state_machine_ok daemon_ok_pre) (simp add: daemon_ok_cong [of v w])

lemma parse_data_ok:
  assumes "daemon_ok w"
  shows "daemon_ok (parse_data l w)"
proof -
  have "daemon_ok (parse_report t w)" for t
    unfolding parse_report_def Let_def
    by (simp only: split: if_split) (auto intro: assms machine_after [OF _ _ _ assms])
  moreover have "daemon_ok (parse_good w)" "daemon_ok (parse_bad t w)" for t
    unfolding parse_good_def parse_bad_def Let_def by (auto intro: machine_after [OF _ _ _ assms])
  ultimately show ?thesis using assms by (simp add: parse_data_def split: list.split)
qed

lemma fold_parse_ok: "daemon_ok w \<Longrightarrow> daemon_ok (fold parse_data ls w)"
  by (induction ls arbitrary: w) (simp_all add: parse_data_ok)

lemma process_sio_ok:
  assumes "daemon_ok w" "buffer_ok w"
  shows "daemon_ok (process_sio w) \<and> buffer_ok (process_sio w)"
proof -
  let ?got = "take (1023 - length (sio_buf w)) (sio_in w)"
  let ?all = "takeWhile (\<lambda>c. c \<noteq> CHR 0x00) (sio_buf w @ ?got)"
  have l: "length ?all \<le> 1023"
    using length_takeWhile_le [of "\<lambda>c. c \<noteq> CHR 0x00" "sio_buf w @ ?got"] assms(2)
    by (auto simp: buffer_ok_def min_def split: if_splits)
  have n: "CHR 0x00 \<notin> set ?all" by (auto dest: set_takeWhileD)
  have "length (text_rest ?all) \<le> 1023" "CHR 0x00 \<notin> set (text_rest ?all)"
    using text_rest_bounds [of ?all] l n by auto
  moreover have "\<not> list_ex is_nl (text_rest ?all)"
    unfolding text_rest_def by (rule split_nl_no_nl [of _ ?all]) simp
  moreover have "daemon_ok (io b s v) = daemon_ok v" for b s v by (rule daemon_ok_cong) simp_all
  ultimately show ?thesis
    using assms fold_parse_ok [OF assms(1)] by (simp add: process_general Let_def buffer_ok_def)
qed

lemma io_timer_expiry: "timer_expiry (io b s w) = io b s (timer_expiry w)"
  by (simp add: timer_expiry_def call_timer_def Let_def io_rules split: list.split prod.split timer_fn.split)

lemma timer_expiry_buf: "sio_buf (timer_expiry w) = sio_buf w"
proof -
  have "sio_buf (timer_expiry (io (sio_buf w) (sio_in w) w)) = sio_buf w" by (simp only: io_timer_expiry io_sel)
  moreover have "io (sio_buf w) (sio_in w) w = w" by (simp add: io_def)
  ultimately show ?thesis by (simp only:)
qed

lemma lrmon_run_ok: "lrmon_run w \<Longrightarrow> daemon_ok w \<and> buffer_ok w"
proof (induction rule: lrmon_run.induct)
  case (lrmon_boot devfd A os t u w)
  then show ?case
    by (auto simp: lrmon_start_def sio_init_def rmq_init_def watch_fd_def timer_init_def state_init_def daemon_ok_def
        queue_ok_def buffer_ok_def timerq_insert Let_def bind_eq_Some_conv split: if_splits prod.splits)
next
  case (lrmon_loop w n ready left u t s)
  let ?v = "w\<lparr>sio_in := sio_in w @ s, now_sec := t, now_usec := u\<rparr>\<lparr>tv_sec := fst left, tv_usec := snd left\<rparr>"
  let ?x = "if tv_sec ?v = 0 \<and> tv_usec ?v = 0 then timer_expiry ?v else ?v"
  have v: "daemon_ok ?v" using lrmon_loop by (subst daemon_ok_cong [of _ w]) simp_all
  have "daemon_ok (if b then timer_expiry ?v else ?v)" for b
    using v timer_expiry_ok [OF v] by (cases b) (simp_all only: if_True if_False)
  then have "daemon_ok ?x" .
  moreover have "sio_buf (if b then timer_expiry ?v else ?v) = sio_buf w" for b
    using timer_expiry_buf [of ?v] by (cases b) (simp_all only: if_True if_False, simp_all)
  then have "sio_buf ?x = sio_buf w" .
  then have "buffer_ok ?x" using lrmon_loop by (simp only: buffer_ok_def simp_thms)
  ultimately show ?case
    using process_sio_ok by (simp add: main_turn_def Let_def)
qed

section \<open>The lines the daemon sends\<close>

definition command_line :: "int \<Rightarrow> int \<Rightarrow> int \<Rightarrow> int list \<Rightarrow> string" where
  "command_line chan n k ds = ''>'' @ [char_of (nat (chan + 65))] @ dec_int n @ '':'' @ dec_int k @ send_data 0 ds @ ''.'' @
     [CHR 0x0D, CHR 0x0A]"

definition time_data :: "int \<Rightarrow> int \<Rightarrow> int list" where
  "time_data t u = (let d = t mod 86400; k = d mod 600 * 100 + u div 10000
     in [k div 256 mod 256, k mod 256, d div 600])"

definition date_data :: "int \<Rightarrow> int list" where
  "date_data t = [t div 86400 div 256 mod 256, t div 86400 mod 256]"

lemma run_send_command: "send_command c n k ds w = w\<lparr>sio_out := sio_out w @ command_line c n k ds\<rparr>"
  by (simp add: send_command_def sio_send_def command_line_def)

lemma run_commands:
  "set_time w = w\<lparr>sio_out := sio_out w @ command_line 0 1 5 (time_data (now_sec w) (now_usec w))\<rparr>"
  "set_date w = w\<lparr>sio_out := sio_out w @ command_line 0 1 6 (date_data (now_sec w))\<rparr>"
  "set_channel_cmd c s w = w\<lparr>sio_out := sio_out w @ command_line 0 1 16 [c, s]\<rparr>"
  "local_activate w = w\<lparr>sio_out := sio_out w @ command_line 0 0 3 [0, 1, 0]\<rparr>"
  by (simp_all add: set_time_def set_date_def set_channel_cmd_def local_activate_def run_send_command time_data_def
      date_data_def Let_def)

section \<open>Starting the controller\<close>

text \<open>What a positive answer changes: the state, the tries, and what is sent.\<close>

definition progress :: "lrmon \<Rightarrow> int \<Rightarrow> int \<Rightarrow> string \<Rightarrow> lrmon \<Rightarrow> bool" where
  "progress w st r s v \<longleftrightarrow> lr_state v = st \<and> retries v = r \<and> sio_out v = sio_out w @ s \<and>
     now_sec v = now_sec w \<and> now_usec v = now_usec w"

lemma parse_good_answer: "parse_data ''<+'' w = state_machine (w\<lparr>failure_status := 0\<rparr>)"
  by (simp add: parse_data_def parse_good_def)

lemma good_activate: "lr_state w = 4 \<Longrightarrow> retries w \<le> 10 \<Longrightarrow>
    progress w 5 1 (command_line 0 1 5 (time_data (now_sec w) (now_usec w))) (parse_data ''<+'' w)"
  by (simp add: parse_good_answer progress_def state_machine_def sm_switch_def sm_activate_def sm_set_time_def run_commands
      retry_def Let_def)

lemma good_set_time: "lr_state w = 5 \<Longrightarrow> retries w \<le> 10 \<Longrightarrow>
    progress w 6 1 (command_line 0 1 6 (date_data (now_sec w))) (parse_data ''<+'' w)"
  by (simp add: parse_good_answer progress_def state_machine_def sm_switch_def sm_set_time_def sm_set_date_def run_commands
      retry_def Let_def)

lemma good_set_date: "lr_state w = 6 \<Longrightarrow> retries w \<le> 10 \<Longrightarrow>
    progress w 7 1 (command_line 0 1 16 [0, 2]) (parse_data ''<+'' w)"
  by (simp add: parse_good_answer progress_def state_machine_def sm_switch_def sm_channel_def sm_set_date_def run_commands
      retry_def Let_def)

lemma good_channel: "7 \<le> lr_state w \<Longrightarrow> lr_state w < 10 \<Longrightarrow> retries w \<le> 10 \<Longrightarrow>
    progress w (lr_state w + 1) 0 (command_line 0 1 16 [lr_state w - 6, 2]) (parse_data ''<+'' w)"
  by (simp add: parse_good_answer progress_def state_machine_def sm_switch_def sm_channel_def run_commands Let_def)

lemma char_T: "char_of (84 :: nat) = CHR ''T''"
  by code_simp

lemma good_last: "lr_state w = 10 \<Longrightarrow> retries w \<le> 10 \<Longrightarrow>
    progress w 11 0 (''>T'' @ [CHR 0x0D, CHR 0x0A]) (parse_data ''<+'' w)"
  by (simp add: parse_good_answer progress_def state_machine_def sm_switch_def sm_channel_def dynamic_status_timer_def
      request_local_status_def sio_send_def Let_def char_T)

lemma start_up:
  assumes "lr_state w = 4" "retries w \<le> 10"
  shows "progress w 11 0 (command_line 0 1 5 (time_data (now_sec w) (now_usec w)) @
     command_line 0 1 6 (date_data (now_sec w)) @ concat (map (\<lambda>i. command_line 0 1 16 [i, 2]) [0, 1, 2, 3]) @
     ''>T'' @ [CHR 0x0D, CHR 0x0A]) (((parse_data ''<+'') ^^ 7) w)"
proof -
  let ?f = "parse_data ''<+''"
  obtain w1 w2 w3 w4 w5 w6 where d: "w1 = ?f w" "w2 = ?f w1" "w3 = ?f w2" "w4 = ?f w3" "w5 = ?f w4" "w6 = ?f w5" by blast
  have "progress w 5 1 (command_line 0 1 5 (time_data (now_sec w) (now_usec w))) w1"
    unfolding d(1) by (rule good_activate [OF assms])
  note p1 = this [unfolded progress_def]
  have "progress w1 6 1 (command_line 0 1 6 (date_data (now_sec w1))) w2"
    unfolding d(2) by (rule good_set_time) (use p1 in auto)
  note p2 = this [unfolded progress_def]
  have "progress w2 7 1 (command_line 0 1 16 [0, 2]) w3"
    unfolding d(3) by (rule good_set_date) (use p2 in auto)
  note p3 = this [unfolded progress_def]
  have "progress w3 8 0 (command_line 0 1 16 [1, 2]) w4"
    unfolding d(4) using good_channel [of w3] p3 by simp
  note p4 = this [unfolded progress_def]
  have "progress w4 9 0 (command_line 0 1 16 [2, 2]) w5"
    unfolding d(5) using good_channel [of w4] p4 by simp
  note p5 = this [unfolded progress_def]
  have "progress w5 10 0 (command_line 0 1 16 [3, 2]) w6"
    unfolding d(6) using good_channel [of w5] p5 by simp
  note p6 = this [unfolded progress_def]
  have "progress w6 11 0 (''>T'' @ [CHR 0x0D, CHR 0x0A]) (?f w6)"
    by (rule good_last) (use p6 in auto)
  note p7 = this [unfolded progress_def]
  have "(?f ^^ 7) w = ?f w6" unfolding d by (simp add: numeral_eq_Suc)
  then show ?thesis using p1 p2 p3 p4 p5 p6 p7 by (simp add: progress_def)
qed

section \<open>The fields of a status line\<close>

lemma crack_field: "delim \<notin> set x \<Longrightarrow> crack (Suc n) delim (x @ delim # y) = x # crack n delim y"
  by (subst crack.simps(2)) (simp add: takeWhile_append dropWhile_append)

lemma crack_last: "delim \<notin> set x \<Longrightarrow> crack (Suc n) delim x = [x]"
  by (auto simp: takeWhile_eq_all_conv)

lemma dec_digits: "c \<in> set (dec n) \<Longrightarrow> is_digit c"
proof (induction n rule: dec.induct)
  case (1 n)
  then show ?case by (cases "n < 10") (auto simp: dec_large is_digit_def digit_char_def)
qed

lemma dec_no: "\<not> is_digit c \<Longrightarrow> c \<notin> set (dec n)"
  using dec_digits by blast

lemma not_digit [simp]: "\<not> is_digit (CHR '':'')" "\<not> is_digit (CHR '','')" "\<not> is_digit (CHR 0x0A)" "\<not> is_digit (CHR ''-'')"
  "\<not> is_digit (CHR ''+'')" "\<not> is_digit (CHR '' '')"
  by (simp_all add: is_digit_def)

lemma digits_value_dec: "digits_value (dec n) = int n"
proof -
  have t: "takeWhile is_digit (dec n) = dec n" using dec_digits by (simp add: takeWhile_eq_all_conv)
  have "foldl (\<lambda>v c. v * 10 + (of_char c - 48)) 0 (dec n) = int n"
  proof (induction n rule: dec.induct)
    case (1 n)
    have v: "of_char (digit_char d) = (48 + int d)" if "d < 10" for d
    proof -
      have "(of_char (digit_char d) :: int) = int (of_char (digit_char d))" by (simp only: of_nat_of_char)
      then show ?thesis using that by (simp add: digit_char_def)
    qed
    have "int (n div 10) * 10 + int (n mod 10) = int n" by presburger
    then show ?case using 1 by (cases "n < 10") (simp_all add: dec_large v del: of_nat_div of_nat_mod zdiv_int zmod_int)
  qed
  then show ?thesis by (simp add: digits_value_def t)
qed

lemma dec_not_Nil: "dec n \<noteq> []"
  by (cases "n < 10") (simp_all add: dec_large)

lemma atoi_dec [simp]: "atoi (dec n) = int n"
proof -
  obtain c r where d: "dec n = c # r" using dec_not_Nil by (cases "dec n") auto
  then have "is_digit c" using dec_digits [of c n] by simp
  then have c: "c \<noteq> CHR '' ''" "\<not> (of_char c :: nat) \<le> 13" "c \<noteq> CHR ''-''" "c \<noteq> CHR ''+''"
    by (auto simp: is_digit_def)
  show ?thesis using digits_value_dec [of n] c by (simp add: atoi_def d)
qed

lemma dec_has_no [simp]: "CHR '':'' \<notin> set (dec n)" "CHR '','' \<notin> set (dec n)"
  by (simp_all add: dec_no)

definition comma_list :: "u8 list \<Rightarrow> string" where
  "comma_list bs = concat (map (\<lambda>b. '','' @ dec (unat b)) bs)"

lemma crack_commas: "length bs < n \<Longrightarrow> CHR '','' \<notin> set x \<Longrightarrow>
   crack n (CHR '','') (x @ comma_list bs) = x # map (\<lambda>b. dec (unat b)) bs"
proof (induction bs arbitrary: n x)
  case Nil
  then show ?case using crack_last by (cases n) (auto simp: comma_list_def simp del: crack.simps)
next
  case (Cons b bs)
  then obtain m where m: "n = Suc m" by (cases n) auto
  have "crack m (CHR '','') (dec (unat b) @ comma_list bs) = dec (unat b) # map (\<lambda>b. dec (unat b)) bs"
    using Cons m by (intro Cons.IH) simp_all
  moreover have "x @ comma_list (b # bs) = x @ CHR '','' # (dec (unat b) @ comma_list bs)" by (simp add: comma_list_def)
  ultimately show ?case using Cons.prems m crack_field by simp
qed

lemma comma_list_no: "CHR '':'' \<notin> set (comma_list bs)"
  by (auto simp: comma_list_def)

lemma char_of_neq: "m mod 256 \<noteq> of_char c \<Longrightarrow> char_of m \<noteq> (c :: char)" for m :: nat
  by auto

definition status_line :: "u8 \<Rightarrow> u8 \<Rightarrow> nat \<Rightarrow> nat \<Rightarrow> u8 list \<Rightarrow> string" where
  "status_line c n tcks st bs = ''<'' @ [char_of (unat c + 65)] @ dec (unat n) @ '':'' @ dec tcks @ '':'' @ dec 9 @ '':'' @ dec st @ comma_list bs"

lemma crack_status:
  assumes "unat c \<le> 15"
  shows "crack 8 (CHR '':'') (tl (status_line c n tcks st bs)) =
     [char_of (unat c + 65) # dec (unat n), dec tcks, dec 9, dec st @ comma_list bs]"
proof -
  have "char_of (unat c + 65) \<noteq> CHR '':''" using assms by (intro char_of_neq) simp
  then have n: "CHR '':'' \<notin> set (char_of (unat c + 65) # dec (unat n))" by auto
  have e: "(8::nat) = Suc (Suc (Suc (Suc 4)))" by simp
  have f: "tl (status_line c n tcks st bs) = (char_of (unat c + 65) # dec (unat n)) @ CHR '':'' # (dec tcks @ CHR '':'' # (dec 9 @ CHR '':'' # (dec st @ comma_list bs)))"
    by (simp add: status_line_def)
  have "crack (Suc 4) (CHR '':'') (dec st @ comma_list bs) = [dec st @ comma_list bs]"
    by (rule crack_last) (simp add: comma_list_no del: dec_small)
  then show ?thesis unfolding f e
    by (simp only: crack_field [OF n] crack_field dec_has_no not_False_eq_True)
qed

lemma commands_dstatus [simp]:
  "lr_dstatus (set_time w) = lr_dstatus w" "lr_dstatus (set_date w) = lr_dstatus w"
  "lr_dstatus (set_channel_cmd c s w) = lr_dstatus w" "lr_dstatus (local_activate w) = lr_dstatus w"
  "lr_dstatus (request_local_status t w) = lr_dstatus w" "lr_dstatus (reset_controller w) = lr_dstatus w"
  "lr_dstatus (retry w) = lr_dstatus w" "lr_dstatus (dynamic_status_timer w) = lr_dstatus w"
  by (simp_all add: daemon_sends Let_def retry_def dynamic_status_timer_def)

lemma switch_dstatus [simp]: "lr_dstatus (fst (sm_switch w)) = lr_dstatus w"
proof -
  have 1: "lr_dstatus (fst (sm_channel w)) = lr_dstatus w" for w by (simp add: sm_channel_def Let_def)
  have 2: "lr_dstatus (fst (sm_set_date w)) = lr_dstatus w" for w by (simp add: sm_set_date_def 1)
  have 3: "lr_dstatus (fst (sm_set_time w)) = lr_dstatus w" for w by (simp add: sm_set_time_def 2)
  have 4: "lr_dstatus (fst (sm_activate w)) = lr_dstatus w" for w by (simp add: sm_activate_def 3)
  have 5: "lr_dstatus (fst (sm_drequest w)) = lr_dstatus w" for w by (simp add: sm_drequest_def Let_def 4)
  have 6: "lr_dstatus (fst (sm_srequest w)) = lr_dstatus w" for w by (simp add: sm_srequest_def Let_def 5)
  show ?thesis by (simp add: sm_switch_def Let_def 1 2 3 4 5 6)
qed

lemma state_machine_dstatus [simp]: "lr_dstatus (state_machine w) = lr_dstatus w"
  by (simp add: state_machine_def Let_def case_prod_beta)

definition dynamic_status :: "u8 list \<Rightarrow> dstatus" where
  "dynamic_status bs = \<lparr>ds_radio_state = bs ! 0, ds_tens_of_minutes = bs ! 1,
      ds_battery_voltage = push_bit 8 (uint (bs ! 2)) OR uint (bs ! 3),
      ds_npacket_rx = push_bit 8 (uint (bs ! 4)) OR uint (bs ! 5),
      ds_npacket_tx = push_bit 8 (uint (bs ! 6)) OR uint (bs ! 7)\<rparr>"

lemma local_dynamic:
  assumes "length bs = 8"
  shows "lr_dstatus (local_response (dec 1 @ comma_list bs) w) = dynamic_status bs"
proof -
  have "map atoi (crack 16 (CHR '','') (dec 1 @ comma_list bs)) = 1 # map (\<lambda>b. int (unat b)) bs"
    using assms by (subst crack_commas) (simp_all del: dec_small)
  then show ?thesis using assms by (simp add: local_response_def Let_def dynamic_status_def del: dec_small)
qed

lemma parse_status:
  assumes c: "unat c \<le> 15"
  shows "parse_data (status_line c n tcks st bs) w =
    state_machine (response (of_char (char_of (unat c + 65) :: char) - 65) (uint n) (int tcks) (dec st @ comma_list bs)
      (w\<lparr>failure_status := 0\<rparr>))"
proof -
  have u: "\<not> 255 < uint n" using uint_bounded [of n] by simp
  define k :: char where "k = char_of (unat c + 65)"
  have o: "of_char k = unat c + 65" unfolding k_def using c by simp
  have "k \<noteq> CHR ''+''" "k \<noteq> CHR ''-''" unfolding k_def using c by (intro char_of_neq; simp)+
  then have "parse_data (status_line c n tcks st bs) w = parse_report (tl (status_line c n tcks st bs)) w"
    unfolding status_line_def parse_data_def append.simps list.case list.sel k_def [symmetric]
    by (simp only: if_False if_True simp_thms)
  moreover have "\<not> (of_char k :: nat) < 65" "\<not> 80 < (of_char k :: nat)" using o c by linarith+
  ultimately show ?thesis
    unfolding parse_report_def crack_status [OF c] k_def [symmetric] using u by (simp add: Let_def del: dec_small)
qed

lemma parse_dynamic:
  assumes "unat c \<le> 15" "unat n < 2" "length bs = 8"
  shows "lr_dstatus (parse_data (status_line c n tcks 1 bs) w) = dynamic_status bs"
proof -
  have "int (unat n) < 2" using assms(2) by linarith
  then have "uint n < 2" by simp
  then show ?thesis
    unfolding parse_status [OF assms(1)] using local_dynamic [OF assms(3)]
    by (simp add: response_def Let_def del: dec_small)
qed

lemma length_dec: "n < 10 ^ k \<Longrightarrow> 0 < k \<Longrightarrow> length (dec n) \<le> k"
proof (induction k arbitrary: n)
  case (Suc k)
  show ?case
  proof (cases "n < 10")
    case False
    then have "n div 10 < 10 ^ k" "0 < k" using Suc.prems by (cases k; auto simp: less_mult_imp_div_less mult.commute)+
    then show ?thesis using Suc.IH [of "n div 10"] False by (simp add: dec_large)
  qed simp
qed simp

lemma length_dec_u8: "length (dec (unat (b :: u8))) \<le> 3"
  by (rule length_dec) (use u8_bound [of b] in simp_all)

lemma length_dec_u16: "length (dec (unat (v :: u16))) \<le> 5"
proof -
  have "unat v < 2 ^ 16" using unsigned_less [of v, where 'a = nat] by simp
  then show ?thesis by (intro length_dec) simp_all
qed

lemma length_comma_list: "length (comma_list bs) \<le> 4 * length bs"
proof (induction bs)
  case (Cons b bs)
  then show ?case using length_dec_u8 [of b] by (simp add: comma_list_def)
qed (simp add: comma_list_def)

lemma length_status_line:
  assumes "length bs \<le> 8" "tcks < 65536" "st < 10"
  shows "length (status_line c n tcks st bs) \<le> 50"
proof -
  have "length (dec tcks) \<le> 5" using assms(2) by (intro length_dec) simp_all
  then show ?thesis
    using length_comma_list [of bs] length_dec_u8 [of n] assms(1,3) by (simp add: status_line_def)
qed

lemma set_status_line:
  assumes "x \<in> set (status_line c n tcks st bs)"
  shows "x = CHR ''<'' \<or> x = CHR '':'' \<or> x = CHR '','' \<or> x = char_of (unat c + 65) \<or> is_digit x"
  using assms dec_digits by (auto simp: status_line_def comma_list_def simp del: dec_small split: if_splits)

lemma status_line_clean:
  assumes "unat c \<le> 15"
  shows "CHR 0x00 \<notin> set (status_line c n tcks st bs)" "\<not> list_ex is_nl (status_line c n tcks st bs)"
proof -
  have k: "char_of (unat c + 65) \<noteq> CHR 0x00" "char_of (unat c + 65) \<noteq> CHR 0x0D" "char_of (unat c + 65) \<noteq> CHR 0x0A"
    using assms by (intro char_of_neq; simp)+
  then show "CHR 0x00 \<notin> set (status_line c n tcks st bs)"
    using set_status_line [of "CHR 0x00" c n tcks st bs] by (auto simp: is_digit_def)
  have "\<not> is_digit (CHR 0x0D)" "\<not> is_digit (CHR 0x0A)" by (simp_all add: is_digit_def)
  then show "\<not> list_ex is_nl (status_line c n tcks st bs)"
    using k set_status_line [of _ c n tcks st bs] by (force simp: list_ex_iff is_nl_def)
qed

end
