(* ===== verification/Lrmon_Link.thy ===== *)
theory Lrmon_Link
  imports Lrmon_Behaviour Control_Behaviour
begin

text \<open>
  The daemon and the controller at the two ends of the serial line: the controller's interpreter on what the
  daemon sends, and its reports as the daemon reads them.
\<close>

section \<open>The daemon's commands at the controller\<close>

lemma dec_int_uint [simp]: "dec_int (uint x) = dec (unat x)"
  by (simp add: dec_int_def)

lemma data_text_Cons: "data_text (d # ds) = dec (unat d) @ (if ds = [] then ''.'' else '','' @ data_text ds)"
  by (cases ds) simp_all

lemma send_data_text:
  "send_data (Suc i) (map uint ds) @ ''.'' @ z = (if ds = [] then ''.'' else '','' @ data_text ds) @ z"
  by (induction ds arbitrary: i) (simp_all add: data_text_Cons)

lemma command_line_text:
  "command_line (int c) (uint n) (uint k) (map uint ds) = command_text c n k ds @ [CHR 0x0D, CHR 0x0A]"
proof -
  have "nat (int c + 65) = 65 + c" by simp
  then show ?thesis
    using send_data_text [of _ _ "[CHR 0x0D, CHR 0x0A]"]
    by (cases ds) (simp_all add: command_line_def command_text_def data_text_Cons)
qed

lemma uint_hi8: "uint (hi8 v) = uint v div 256 mod 256"
proof -
  have "uint (hi8 v) = take_bit 8 (uint (drop_bit 8 v))" by (simp only: hi8_def unsigned_ucast_eq) simp
  also have "uint (drop_bit 8 v) = drop_bit 8 (uint v)" by (simp add: drop_bit_eq_div uint_div)
  finally show ?thesis by (simp add: take_bit_eq_mod drop_bit_eq_div)
qed

lemma uint_lo8: "uint (lo8 v) = uint v mod 256"
  by (simp add: lo8_def unsigned_ucast_eq take_bit_eq_mod)

text \<open>The clock values of a time of day: hundredths of a second in ten minutes, and tens of minutes in a day.\<close>

definition day_ticks :: "int \<Rightarrow> int \<Rightarrow> u16" where
  "day_ticks t u = word_of_int (t mod 86400 mod 600 * 100 + u div 10000)"

definition day_tens :: "int \<Rightarrow> u8" where
  "day_tens t = word_of_int (t mod 86400 div 600)"

lemma day_values:
  assumes "0 \<le> u" "u < 1000000"
  shows "uint (day_ticks t u) = t mod 86400 mod 600 * 100 + u div 10000" "uint (day_tens t) = t mod 86400 div 600"
    "uint (day_ticks t u) < 60000"
proof -
  let ?d = "t mod 86400"
  have d: "0 \<le> ?d" "?d < 86400" by simp_all
  have "u div 10000 \<le> 999999 div 10000" using assms(2) by (intro zdiv_mono1) simp_all
  then have y: "0 \<le> u div 10000" "u div 10000 \<le> 99" using assms(1) by simp_all
  have x: "0 \<le> ?d mod 600" "?d mod 600 < 600" by simp_all
  have "0 \<le> ?d mod 600 * 100 + u div 10000" "?d mod 600 * 100 + u div 10000 < 65536"
    using x y by linarith+
  moreover have "uint (word_of_int k :: u16) = k" if "0 \<le> k" "k < 65536" for k
    using that by (simp add: uint_word_of_int)
  ultimately show v: "uint (day_ticks t u) = ?d mod 600 * 100 + u div 10000"
    unfolding day_ticks_def by blast
  show "uint (day_ticks t u) < 60000" unfolding v using x y by linarith
  show "uint (day_tens t) = ?d div 600"
    using d by (simp add: day_tens_def uint_word_of_int)
qed

text \<open>The time of day, in hundredths of a second, that the controller's clock shows.\<close>

definition clock_hundredths :: "('d, 'a) mcu \<Rightarrow> int" where
  "clock_hundredths w = uint (r_tens_of_minutes w) * 60000 + uint (r_ms_ticks w)"

lemma clock_of_day:
  assumes "0 \<le> u" "u < 1000000" "r_ms_ticks c = day_ticks t u" "r_tens_of_minutes c = day_tens t"
  shows "clock_hundredths c = t mod 86400 * 100 + u div 10000" "unat (r_ms_ticks c) < 60000"
proof -
  note v = day_values [OF assms(1,2), of t]
  have "t mod 86400 div 600 * 600 + t mod 86400 mod 600 = t mod 86400" by (rule div_mult_mod_eq)
  then show "clock_hundredths c = t mod 86400 * 100 + u div 10000"
    unfolding clock_hundredths_def assms(3,4) v(1,2) by linarith
  have "int (unat (day_ticks t u)) < 60000" using v(3) by simp
  then show "unat (r_ms_ticks c) < 60000" unfolding assms(3) by linarith
qed

lemma time_data_words:
  assumes "0 \<le> u" "u < 1000000"
  shows "time_data t u = map uint [hi8 (day_ticks t u), lo8 (day_ticks t u), day_tens t]"
  by (simp add: time_data_def Let_def uint_hi8 uint_lo8 day_values [OF assms])

lemma enqueue_set_time:
  fixes w :: "('d, control) mcu"
  assumes "length (channels (app w)) = 6" "i < 6" "node (ch_packet (channels (app w) ! i)) = r_my_node_id w"
    "cmd (ch_packet (channels (app w) ! i)) = 5" "len (ch_packet (channels (app w) ! i)) = 3"
    "length (data (ch_packet (channels (app w) ! i))) = 10"
    and run: "run_state (enqueue E i) w = ((), w')"
  shows "r_ms_ticks w' = be16 (data (ch_packet (channels (app w) ! i)) ! 0) (data (ch_packet (channels (app w) ! i)) ! 1) \<and>
    r_tens_of_minutes w' = data (ch_packet (channels (app w) ! i)) ! 2 \<and>
    app w' = (app w)\<lparr>channels := (channels (app w))[i := (channels (app w) ! i)\<lparr>ch_state := 2\<rparr>], in_state := 1\<rparr>"
proof -
  let ?p = "ch_packet (channels (app w) ! i)"
  have d: "run_state (data_at ?p 0) v = (data ?p ! 0, v)" "run_state (data_at ?p (Suc 0)) v = (data ?p ! 1, v)"
     "run_state (data_at ?p 2) v = (data ?p ! 2, v)" for v :: "('d, control) mcu"
    using assms(6) by (simp_all add: run_data_at)
  show ?thesis using run assms(1-5)
    by (auto simp: enqueue_def mycommand_def Let_def d)
qed

section \<open>The time of day reaches the controller\<close>

lemma feed_newline:
  assumes "in_state (app w) < 4"
  shows "run_state (feed E [CHR 0x0D, CHR 0x0A]) w = ((), w\<lparr>app := (app w)\<lparr>in_state := 0\<rparr>\<rparr>)"
proof -
  have "\<not> 4 \<le> in_state (app w)" using assms by (simp add: not_le)
  then show ?thesis by (simp add: feed_Cons run_process_char char_step_def)
qed

lemma time_feeds:
  fixes c :: "('d, control) mcu"
  assumes len: "length (channels (app c)) = 6" and ch: "channel_ok (channels (app c) ! 0)"
    "ch_state (channels (app c) ! 0) \<le> 2" and st: "in_state (app c) = 0" and n: "r_my_node_id c = 1"
    and run: "run_state (feed E (command_text 0 1 5 [hi8 v, lo8 v, t] @ [CHR 0x0D, CHR 0x0A])) c = ((), c')"
  shows "r_ms_ticks c' = v \<and> r_tens_of_minutes c' = t \<and> in_state (app c') = 0 \<and>
     channels (app c') = (channels (app c))[0 := (filled 1 5 [hi8 v, lo8 v, t] (channels (app c) ! 0))\<lparr>ch_state := 2\<rparr>]"
proof -
  let ?x = "c\<lparr>app := ctl_set (app c) ((channels (app c))[0 := filled 1 5 [hi8 v, lo8 v, t] (channels (app c) ! 0)]) 5 0 (Some 0)\<rparr>"
  obtain y where y: "run_state (enqueue E 0) ?x = ((), y)" by (rule unit_run)
  have p: "data (ch_packet (channels (app ?x) ! 0)) = hi8 v # lo8 v # t # drop 3 (data (ch_packet (channels (app c) ! 0)))"
    "node (ch_packet (channels (app ?x) ! 0)) = 1" "cmd (ch_packet (channels (app ?x) ! 0)) = 5"
    "len (ch_packet (channels (app ?x) ! 0)) = 3" "length (data (ch_packet (channels (app ?x) ! 0))) = 10"
    using len ch by (simp_all add: filled_def channel_ok_def packet_ok_def numeral_3_eq_3)
  have e: "r_ms_ticks y = v \<and> r_tens_of_minutes y = t \<and>
    app y = (app ?x)\<lparr>channels := (channels (app ?x))[0 := (channels (app ?x) ! 0)\<lparr>ch_state := 2\<rparr>], in_state := 1\<rparr>"
    using enqueue_set_time [OF _ _ _ p(3,4,5) y] p(1,2) len n by simp
  have "run_state (feed E (command_text 0 1 5 [hi8 v, lo8 v, t])) c = ((), y\<lparr>app := (app y)\<lparr>in_state := 1\<rparr>\<rparr>)"
    using feed_command [of 0 c "[hi8 v, lo8 v, t]" E 1 5] len ch st y by simp
  then have "c' = y\<lparr>app := (app y)\<lparr>in_state := 0\<rparr>\<rparr>"
    using run feed_newline [of "y\<lparr>app := (app y)\<lparr>in_state := 1\<rparr>\<rparr>" E] by (simp only: feed_append snd_conv) simp
  then show ?thesis using e len by simp
qed

interpretation console: chunked_reader "\<lambda>s w. snd (run_state (feed E s) w)"
  "fold (\<lambda>c w. snd (run_state (process_char E (of_char c)) w))" "\<lambda>_. True" "\<lambda>_ _. True" for E
proof unfold_locales
  fix s w
  show "snd (run_state (feed E s) w) = fold (\<lambda>c w. snd (run_state (process_char E (of_char c)) w)) s w"
    by (induction s arbitrary: w) (simp_all add: feed_Cons)
qed simp_all

section \<open>Status reports\<close>

lemma run_dynamic_status:
  fixes w :: "('d, control) mcu"
  assumes "e_analog_read E 3 (dev w) = (v, d)"
  shows "run_state (local_status E 1) w = ((), w\<lparr>dev := d, out := out w @
    status_line (r_my_channel w) (r_my_node_id w) (unat (r_ms_ticks w)) 1
     [r_state w, r_tens_of_minutes w, hi8 (word_of_int v), lo8 (word_of_int v),
      hi8 (r_npacket_rx w), lo8 (r_npacket_rx w), hi8 (r_npacket_tx w), lo8 (r_npacket_tx w)] @ ''\<newline>''\<rparr>)"
  using assms by (simp add: local_status_def status_line_def comma_list_def Let_def printf_def)

lemma feed_status:
  assumes "in_state (app w) = 0"
  shows "run_state (feed E ''>T'') w =
     (let v = snd (run_state (local_status E 1) (w\<lparr>app := (app w)\<lparr>in_state := 2\<rparr>\<rparr>))
      in ((), v\<lparr>app := (app v)\<lparr>in_state := 0\<rparr>\<rparr>))"
  using assms by (simp add: feed_Cons run_process_char char_step_def Let_def case_prod_beta)

lemma words_joined: "push_bit 8 (uint (hi8 v)) OR uint (lo8 v) = uint v"
proof -
  have "uint (be16 (hi8 v) (lo8 v)) = push_bit 8 (uint (hi8 v)) OR uint (lo8 v)"
    by (rule bit_eqI) (auto simp: be16_def bit_simps dest: bit_imp_le_length)
  then show ?thesis by simp
qed

end
