(* ===== verification/Lrmon_Exchange.thy ===== *)
theory Lrmon_Exchange
  imports Lrmon_Link
begin

text \<open>
  Exchanges over the serial line (\<open>exchange\<close>): the controller's interpreter is given all that the daemon has
  sent, and the daemon reads all that the controller prints meanwhile, in pieces of any size its buffer takes. Among
  the lines the controller prints only those that begin with \<^verbatim>\<open><\<close> are for the daemon; a text of other
  lines is \<open>quiet\<close>. The answer to every line of the start-up is worked out here: \<open>accepts\<close> for a command
  that is answered with \<^verbatim>\<open><+\<close>, \<open>reports\<close> for one that is answered with a line of its own.
\<close>

section \<open>Lines that are not for the daemon\<close>

definition quiet :: "string \<Rightarrow> bool" where
  "quiet s \<longleftrightarrow> text_rest s = [] \<and> CHR 0x00 \<notin> set s \<and>
     (\<forall>l \<in> set (split_nl s). length l \<le> 511 \<and> (l \<noteq> [] \<longrightarrow> hd l \<noteq> CHR ''<''))"

lemma quiet_Nil [simp]: "quiet []"
  by (simp add: quiet_def text_rest_def)

lemma split_nl_complete: "text_rest a = [] \<Longrightarrow> split_nl (a @ t) = butlast (split_nl a) @ split_nl t"
  using split_nl_append [of a t] by (simp add: text_rest_def)

lemma quiet_append: "quiet a \<Longrightarrow> quiet b \<Longrightarrow> quiet (a @ b)"
  by (auto simp: quiet_def split_nl_complete text_rest_def dest: in_set_butlastD)

definition plain :: "string \<Rightarrow> bool" where
  "plain l \<longleftrightarrow> \<not> list_ex is_nl l \<and> CHR 0x00 \<notin> set l"

lemma plain_simps [simp]: "plain []" "plain (c # l) = (\<not> is_nl c \<and> c \<noteq> CHR 0x00 \<and> plain l)"
  "plain (a @ b) = (plain a \<and> plain b)"
  by (auto simp: plain_def)

lemma plain_dec [simp]: "plain (dec n)"
  using dec_digits [of _ n] by (fastforce simp: plain_def list_ex_iff is_nl_def is_digit_def)

lemma split_plain_line: "plain l \<Longrightarrow> split_nl (l @ [CHR 0x0A]) = [l, []]"
  by (induction l) (simp_all add: is_nl_def)

lemma quiet_line: "plain l \<Longrightarrow> length l \<le> 511 \<Longrightarrow> l = [] \<or> hd l \<noteq> CHR ''<'' \<Longrightarrow> quiet (l @ [CHR 0x0A])"
  by (auto simp: quiet_def text_rest_def split_plain_line) (simp add: plain_def)

lemma quiet_text: "quiet s \<Longrightarrow> plain l \<Longrightarrow> l \<noteq> [] \<Longrightarrow> text_rest (s @ l @ [CHR 0x0A]) = [] \<and>
   text_lines (s @ l @ [CHR 0x0A]) = text_lines s @ [l]"
  by (simp add: quiet_def text_rest_def text_lines_def split_nl_complete split_plain_line butlast_append)

lemma fold_quiet: "quiet s \<Longrightarrow> fold parse_data (text_lines s) w = w"
proof -
  assume s: "quiet s"
  have "fold parse_data ls w = w" if "\<forall>l \<in> set ls. l \<noteq> [] \<and> hd l \<noteq> CHR ''<''" for ls
    using that by (induction ls) (auto simp: parse_data_def split: list.splits)
  moreover have "\<forall>l \<in> set (text_lines s). l \<noteq> [] \<and> hd l \<noteq> CHR ''<''"
    using s by (auto simp: text_lines_def quiet_def dest: in_set_butlastD)
  ultimately show ?thesis .
qed

lemma reads_answer:
  assumes m: "sio_buf m = []" "sio_in m = []" and s: "quiet s" and l: "plain l" "l \<noteq> []" "length l \<le> 511"
    and ss: "concat ss = s @ l @ [CHR 0x0A]" "\<forall>x \<in> set ss. length x \<le> 512"
  shows "reads ss m = parse_data l m"
proof -
  have r: "reading m" using m by (simp add: reading_def buffer_ok_def)
  have "CHR 0x00 \<notin> set (concat ss)" using s l(1) by (simp add: ss(1) plain_def quiet_def)
  then have "\<forall>x \<in> set ss. CHR 0x00 \<notin> set x" by (simp only: set_concat) blast
  then have f: "\<forall>x \<in> set ss. length x \<le> 512 \<and> CHR 0x00 \<notin> set x" using ss(2) by blast
  have g: "\<forall>x \<in> set (split_nl (sio_buf m @ concat ss)). length x \<le> 511"
    using s l m by (auto simp: ss(1) quiet_def split_nl_complete split_plain_line dest: in_set_butlastD)
  have "reads ss m = io [] [] (parse_data l m)"
    using serial.chunks [OF r short_lines_fit [OF r g f]] quiet_text [OF s l(1,2)] fold_quiet [OF s] m
    by (simp add: reads_def read_text_def ss(1))
  also have "\<dots> = parse_data l (io [] [] m)" by (simp only: io_parse_data)
  finally show ?thesis using m by (simp add: io_self)
qed


section \<open>Exchanges\<close>

text \<open>How the controller's output is cut into the daemon's reads.\<close>

definition chops :: "(string \<Rightarrow> string list) \<Rightarrow> bool" where
  "chops chop \<longleftrightarrow> (\<forall>s. concat (chop s) = s \<and> (\<forall>x \<in> set (chop s). length x \<le> 512))"

definition exchange :: "('d, control) env \<Rightarrow> (string \<Rightarrow> string list) \<Rightarrow> lrmon \<times> ('d, control) mcu \<Rightarrow> lrmon \<times> ('d, control) mcu" where
  "exchange E chop = (\<lambda>(m, c). let c' = snd (run_state (feed E (sio_out m)) (c\<lparr>out := []\<rparr>))
     in (reads (chop (out c')) (m\<lparr>sio_out := []\<rparr>), c'))"

lemma exchange_answer:
  assumes "chops chop" "sio_buf m = []" "sio_in m = []" "run_state (feed E (sio_out m)) (c\<lparr>out := []\<rparr>) = ((), c')"
    "out c' = s @ l @ [CHR 0x0A]" "quiet s" "plain l" "l \<noteq> []" "length l \<le> 511"
  shows "exchange E chop (m, c) = (parse_data l (m\<lparr>sio_out := []\<rparr>), c')"
  using reads_answer [of "m\<lparr>sio_out := []\<rparr>" s l "chop (out c')"] assms by (simp add: exchange_def chops_def)

lemma parse_io: "sio_buf m = [] \<Longrightarrow> sio_in m = [] \<Longrightarrow> sio_buf (parse_data l m) = [] \<and> sio_in (parse_data l m) = []"
  using io_parse_data [of l "[]" "[]" m] by (metis io_self io_sel)

section \<open>A command for the controller itself\<close>

text \<open>The controller between two lines, with channel 0 free.\<close>

definition desk_at :: "('d, control) mcu \<Rightarrow> bool" where
  "desk_at c \<longleftrightarrow> length (channels (app c)) = 6 \<and> (\<forall>ch \<in> set (channels (app c)). channel_ok ch) \<and>
     ch_state (channels (app c) ! 0) \<le> 2 \<and> in_state (app c) = 0 \<and> unat (r_my_channel c) \<le> 15"

text \<open>The controller when a command has been read from the line into channel 0 and is carried out.\<close>

definition asked :: "u8 \<Rightarrow> u8 \<Rightarrow> u8 list \<Rightarrow> ('d, control) mcu \<Rightarrow> ('d, control) mcu" where
  "asked n k ds c = c\<lparr>out := out c @ enq_text (r_state c) (r_my_node_id c) (ch_packet (filled n k ds (channels (app c) ! 0))),
     app := ctl_set (app c) ((channels (app c))[0 := (filled n k ds (channels (app c) ! 0))\<lparr>ch_state := 4\<rparr>])
       (if ds = [] then 4 else 5) 0 (Some 0)\<rparr>"

definition answered :: "('d, control) mcu \<Rightarrow> ('d, control) mcu" where
  "answered v = v\<lparr>out := out v @ ''<+\<newline>'', app := (app v)\<lparr>channels := (channels (app v))
     [0 := (channels (app v) ! 0)\<lparr>ch_state := 2\<rparr>], in_state := 0\<rparr>\<rparr>"

lemma filled_sel [simp]: "cmd (ch_packet (filled n k ds ch)) = k" "node (ch_packet (filled n k ds ch)) = n"
  "len (ch_packet (filled n k ds ch)) = word_of_nat (length ds)"
  "data (ch_packet (filled n k ds ch)) = ds @ drop (length ds) (data (ch_packet ch))"
  by (simp_all add: filled_def)

lemma own_command:
  assumes d: "desk_at c" and n: "r_my_node_id c = n" and ds: "length ds \<le> 10"
    and my: "run_state (mycommand E (ch_packet (filled n k ds (channels (app c) ! 0)))) (asked n k ds c) = (0, v)"
      "length (channels (app v)) = 6"
  shows "run_state (feed E (command_text 0 n k ds @ [CHR 0x0D, CHR 0x0A])) c = ((), answered v)"
proof -
  let ?w = "c\<lparr>app := ctl_set (app c) ((channels (app c))[0 := filled n k ds (channels (app c) ! 0)]) (if ds = [] then 4 else 5) 0 (Some 0)\<rparr>"
  have ch: "length (channels (app c)) = 6" "channel_ok (channels (app c) ! 0)" "ch_state (channels (app c) ! 0) \<le> 2" "in_state (app c) = 0"
    using d by (auto simp: desk_at_def)
  have e: "run_state (enqueue E 0) ?w = ((), v\<lparr>out := out v @ ''<+\<newline>'', app := (app v)\<lparr>channels := (channels (app v))
     [0 := (channels (app v) ! 0)\<lparr>ch_state := 2\<rparr>], in_state := 1\<rparr>\<rparr>)"
    using ch n my by (simp add: enqueue_def Let_def asked_def reply_text_def)
  show ?thesis unfolding feed_append feed_command [OF _ ch ds, simplified]
    by (simp add: e feed_newline answered_def)
qed

lemma desk_at_answered:
  assumes "length (channels (app v)) = 6" "\<forall>ch \<in> set (channels (app v)). channel_ok ch" "unat (r_my_channel v) \<le> 15"
  shows "desk_at (answered v)"
proof -
  have "channel_ok ((channels (app v) ! 0)\<lparr>ch_state := 2\<rparr>)" using assms by (auto simp: channel_ok_def)
  then show ?thesis using assms by (auto simp: desk_at_def answered_def dest!: set_update_subset_insert [THEN subsetD])
qed

lemma asked_ok:
  assumes "desk_at c" "length ds \<le> 10"
  shows "length (channels (app (asked n k ds c))) = 6" "\<forall>ch \<in> set (channels (app (asked n k ds c))). channel_ok ch"
    "packet_ok (ch_packet (filled n k ds (channels (app c) ! 0)))"
proof -
  have "channel_ok (channels (app c) ! 0)" using assms by (auto simp: desk_at_def)
  then have "channel_ok ((filled n k ds (channels (app c) ! 0))\<lparr>ch_state := 4\<rparr>)"
    "packet_ok (ch_packet (filled n k ds (channels (app c) ! 0)))"
    using assms(2) by (auto simp: filled_def channel_ok_def packet_ok_def)
  then show "length (channels (app (asked n k ds c))) = 6" "\<forall>ch \<in> set (channels (app (asked n k ds c))). channel_ok ch"
    "packet_ok (ch_packet (filled n k ds (channels (app c) ! 0)))"
    using assms by (auto simp: desk_at_def asked_def dest!: set_update_subset_insert [THEN subsetD])
qed

lemma quiet_lines:
  "quiet (enq_text st me p)"
proof -
  have l: "length (dec (unat (b :: u8))) \<le> 3" for b by (rule length_dec_u8)
  have "quiet ((''ENQ:S'' @ dec (unat st) @ '',N'' @ dec (unat (node p)) @ '',C'' @ dec (unat (cmd p)) @ '',M'' @ dec (unat me)) @ [CHR 0x0A])"
    by (rule quiet_line) (use l [of st] l [of "node p"] l [of "cmd p"] l [of me] in \<open>simp_all add: is_nl_def\<close>)
  then show ?thesis by (simp add: enq_text_def)
qed

lemma hundredths_line: "quiet (''>> Ctlr Time:'' @ dec (unat (v :: u16)) @ ''/'' @ dec (unat (t :: u8)) @ ''\<newline>'')"
proof -
  have "quiet ((''>> Ctlr Time:'' @ dec (unat v) @ ''/'' @ dec (unat t)) @ [CHR 0x0A])"
    by (intro quiet_line) (use length_dec_u16 [of v] length_dec_u8 [of t] in \<open>simp_all add: is_nl_def\<close>)
  then show ?thesis by simp
qed

lemma date_line: "quiet (''>> Set Date: '' @ dec (unat (v :: u16)) @ ''\<newline>'')"
proof -
  have "quiet ((''>> Set Date: '' @ dec (unat v)) @ [CHR 0x0A])"
    by (intro quiet_line) (use length_dec_u16 [of v] in \<open>simp_all add: is_nl_def\<close>)
  then show ?thesis by simp
qed

text \<open>What the daemon sets in the controller.\<close>

definition station :: "('d, control) mcu \<Rightarrow> _" where
  "station c = (r_state c, r_my_channel c, r_my_node_id c, r_ms_ticks c, r_tens_of_minutes c, r_date c,
     map ch_state (channels (app c)))"

definition accepts :: "('d, control) env \<Rightarrow> string \<Rightarrow> ('d, control) mcu \<Rightarrow> ('d, control) mcu \<Rightarrow> bool" where
  "accepts E l c c' \<longleftrightarrow> run_state (feed E l) (c\<lparr>out := []\<rparr>) = ((), c') \<and> desk_at c' \<and>
     (\<exists>s. quiet s \<and> out c' = s @ ''<+\<newline>'')"

lemma desk_at_out [simp]: "desk_at (c\<lparr>out := s\<rparr>) = desk_at c" "station (c\<lparr>out := s\<rparr>) = station c"
  by (simp_all add: desk_at_def station_def)

lemma station_answered: "0 < length (channels (app v)) \<Longrightarrow> station (answered v) =
   (r_state v, r_my_channel v, r_my_node_id v, r_ms_ticks v, r_tens_of_minutes v, r_date v, (map ch_state (channels (app v)))[0 := 2])"
  by (simp add: station_def answered_def map_update)

lemma accepts_own:
  assumes d: "desk_at c" and n: "r_my_node_id c = n" and ds: "length ds \<le> 10"
    and my: "run_state (mycommand E (ch_packet (filled n k ds (channels (app c) ! 0)))) (asked n k ds (c\<lparr>out := []\<rparr>)) = (0, v)"
    and v: "length (channels (app v)) = 6" "\<forall>ch \<in> set (channels (app v)). channel_ok ch" "unat (r_my_channel v) \<le> 15"
      "out v = enq_text (r_state c) n (ch_packet (filled n k ds (channels (app c) ! 0))) @ s" "quiet s"
  shows "accepts E (command_text 0 n k ds @ [CHR 0x0D, CHR 0x0A]) c (answered v)"
proof -
  let ?c = "c\<lparr>out := []\<rparr>"
  have "run_state (feed E (command_text 0 n k ds @ [CHR 0x0D, CHR 0x0A])) ?c = ((), answered v)"
    by (rule own_command) (use d n ds my v in simp_all)
  moreover have "out (answered v) = (enq_text (r_state c) n (ch_packet (filled n k ds (channels (app c) ! 0))) @ s) @ ''<+\<newline>''"
    using v(4) by (simp add: answered_def)
  ultimately show ?thesis using desk_at_answered [OF v(1-3)] quiet_append [OF quiet_lines v(5)] unfolding accepts_def by metis
qed

lemma asked_sel [simp]:
  "r_state (asked n k ds c) = r_state c" "r_my_channel (asked n k ds c) = r_my_channel c"
  "r_my_node_id (asked n k ds c) = r_my_node_id c" "r_ms_ticks (asked n k ds c) = r_ms_ticks c"
  "r_tens_of_minutes (asked n k ds c) = r_tens_of_minutes c" "r_date (asked n k ds c) = r_date c"
  "out (asked n k ds c) = out c @ enq_text (r_state c) (r_my_node_id c) (ch_packet (filled n k ds (channels (app c) ! 0)))"
  by (simp_all add: asked_def)

lemma asked_states [simp]: "map ch_state (channels (app (asked n k ds c))) = (map ch_state (channels (app c)))[0 := 4]"
  by (simp add: asked_def map_update)

lemma asked_out [simp]: "asked n k ds (c\<lparr>out := s\<rparr>) = (asked n k ds c)\<lparr>out := s @ enq_text (r_state c) (r_my_node_id c) (ch_packet (filled n k ds (channels (app c) ! 0)))\<rparr>"
  by (simp add: asked_def)

lemma accepts_time:
  fixes c :: "('d, control) mcu"
  assumes d: "desk_at c" and n: "r_my_node_id c = 1"
  shows "\<exists>c'. accepts E (command_text 0 1 5 [hi8 v, lo8 v, t] @ [CHR 0x0D, CHR 0x0A]) c c' \<and>
    station c' = (r_state c, r_my_channel c, 1, v, t, r_date c, (map ch_state (channels (app c)))[0 := 2])"
proof -
  let ?ds = "[hi8 v, lo8 v, t]"
  let ?p = "ch_packet (filled 1 5 ?ds (channels (app c) ! 0))"
  let ?w = "asked 1 5 ?ds (c\<lparr>out := []\<rparr>)"
  let ?v = "?w\<lparr>r_ms_ticks := v, r_tens_of_minutes := t, out := out ?w @ ''>> Ctlr Time:'' @ dec (unat v) @ ''/'' @ dec (unat t) @ ''\<newline>''\<rparr>"
  have my: "run_state (mycommand E ?p) ?w = (0, ?v)"
    by (simp add: mycommand_def data_at_def printf_def)
  have a: "accepts E (command_text 0 1 5 ?ds @ [CHR 0x0D, CHR 0x0A]) c (answered ?v)"
    by (rule accepts_own [OF d n _ my]) (use asked_ok [OF d, of ?ds 1 5] d n hundredths_line [of v t] in \<open>simp_all add: desk_at_def\<close>)
  have "length (channels (app (asked 1 5 ?ds c))) = 6" using asked_ok [OF d] by simp
  then have "station (answered ?v) = (r_state c, r_my_channel c, 1, v, t, r_date c, (map ch_state (channels (app c)))[0 := 2])"
    using n by (simp add: station_answered)
  with a show ?thesis by blast
qed

lemma accepts_date:
  fixes c :: "('d, control) mcu"
  assumes d: "desk_at c" and n: "r_my_node_id c = 1" "r_state c = 6"
  shows "\<exists>c'. accepts E (command_text 0 1 6 [hi8 v, lo8 v] @ [CHR 0x0D, CHR 0x0A]) c c' \<and>
    station c' = (6, r_my_channel c, 1, r_ms_ticks c, r_tens_of_minutes c, v, (map ch_state (channels (app c)))[0 := 2])"
proof -
  let ?ds = "[hi8 v, lo8 v]"
  let ?p = "ch_packet (filled 1 6 ?ds (channels (app c) ! 0))"
  let ?w = "asked 1 6 ?ds (c\<lparr>out := []\<rparr>)"
  let ?v = "?w\<lparr>r_date := v, out := out ?w @ ''>> Set Date: '' @ dec (unat v) @ ''\<newline>''\<rparr>"
  have my: "run_state (mycommand E ?p) ?w = (0, ?v)"
    using n by (simp add: mycommand_def libradio_command_def data_at_def printf_def)
  have a: "accepts E (command_text 0 1 6 ?ds @ [CHR 0x0D, CHR 0x0A]) c (answered ?v)"
    by (rule accepts_own [OF d n(1) _ my]) (use asked_ok [OF d, of ?ds 1 6] d n date_line [of v] in \<open>simp_all add: desk_at_def\<close>)
  have "length (channels (app (asked 1 6 ?ds c))) = 6" using asked_ok [OF d] by simp
  then have "station (answered ?v) = (6, r_my_channel c, 1, r_ms_ticks c, r_tens_of_minutes c, v, (map ch_state (channels (app c)))[0 := 2])"
    using n by (simp add: station_answered)
  with a show ?thesis by blast
qed

lemma channels_line:
  fixes h :: u16 and g :: "nat \<Rightarrow> u8"
  shows "quiet (''CHn:'' @ concat (map (\<lambda>i. dec (unat (g i)) @ ''.'') [0..<6]) @ ''..'' @ dec (unat h) @ ''\<newline>'')"
proof -
  have n: "[0..<6] = [0, 1, 2, 3, 4, 5 :: nat]" by (simp add: upt_rec)
  have "quiet ((''CHn:'' @ concat (map (\<lambda>i. dec (unat (g i)) @ ''.'') [0..<6]) @ ''..'' @ dec (unat h)) @ [CHR 0x0A])"
    by (intro quiet_line) (use length_dec_u16 [of h] length_dec_u8 [of "g 0"] length_dec_u8 [of "g 1"] length_dec_u8 [of "g 2"] 
      length_dec_u8 [of "g 3"] length_dec_u8 [of "g 4"] length_dec_u8 [of "g 5"] in \<open>simp_all add: n is_nl_def\<close>)
  then show ?thesis by simp
qed

lemma accepts_channel:
  fixes c :: "('d, control) mcu"
  assumes d: "desk_at c" and n: "r_my_node_id c = 1" and i: "i < 6"
  shows "\<exists>c'. accepts E (command_text 0 1 16 [word_of_nat i, 2] @ [CHR 0x0D, CHR 0x0A]) c c' \<and>
    station c' = (r_state c, r_my_channel c, 1, r_ms_ticks c, r_tens_of_minutes c, r_date c,
      (map ch_state (channels (app c)))[i := 2, 0 := 2])"
proof -
  let ?ds = "[word_of_nat i, 2] :: u8 list"
  let ?p = "ch_packet (filled 1 16 ?ds (channels (app c) ! 0))"
  let ?w = "asked 1 16 ?ds (c\<lparr>out := []\<rparr>)"
  let ?C = "channels (app (asked 1 16 ?ds c))"
  let ?D = "?C[i := (?C ! i)\<lparr>ch_state := 2, ch_priority := 0\<rparr>]"
  let ?s = "''CHn:'' @ concat (map (\<lambda>i. dec (unat (ch_state (?D ! i))) @ ''.'') [0..<6]) @ ''..'' @ dec (unat (r_heart_beat ?w)) @ ''\<newline>''"
  let ?v = "?w\<lparr>app := (app ?w)\<lparr>channels := ?D\<rparr>, out := out ?w @ ?s\<rparr>"
  have u: "unat (word_of_nat i :: u8) = i" using i by (simp add: unat_of_nat)
  note ok = asked_ok [OF d, of ?ds 1 16]
  have l: "length ?C = 6" using ok by simp
  have my: "run_state (mycommand E ?p) ?w = (0, ?v)"
    using i l by (simp add: mycommand_def data_at_def u set_channel_def run_report_channels [where f = "\<lambda>ch. dec (unat (ch_state ch)) @ [CHR 0x2E]"])
  have oks: "\<forall>ch \<in> set ?D. channel_ok ch"
    using ok(2) i l by (auto simp: channel_ok_def dest!: set_update_subset_insert [THEN subsetD])
  have a: "accepts E (command_text 0 1 16 ?ds @ [CHR 0x0D, CHR 0x0A]) c (answered ?v)"
    by (rule accepts_own [OF d n(1) _ my, where s = ?s])
      (use d n l oks channels_line [of "\<lambda>i. ch_state (?D ! i)" "r_heart_beat ?w"] in \<open>simp_all add: desk_at_def\<close>)
  have e: "xs[0 := a, i := b, 0 := b] = xs[i := b, 0 := b]" for xs :: "u8 list" and a b
    by (cases xs; cases i) simp_all
  have "station (answered ?v) = (r_state c, r_my_channel c, 1, r_ms_ticks c, r_tens_of_minutes c, r_date c,
      (map ch_state (channels (app c)))[i := 2, 0 := 2])"
    using n l by (simp add: station_answered map_update e)
  with a show ?thesis by blast
qed

section \<open>Output of the library\<close>

text \<open>The output has grown by lines that are not for the daemon.\<close>

definition adds :: "string \<Rightarrow> ('d, 'a) mcu \<Rightarrow> bool" where
  "adds L w \<longleftrightarrow> (\<exists>s. quiet s \<and> out w = L @ s)"

lemma adds_cong: "out w' = out w \<Longrightarrow> adds L w \<Longrightarrow> adds L w'"
  by (simp add: adds_def)

lemma adds_more: "adds L w \<Longrightarrow> quiet s \<Longrightarrow> adds L (w\<lparr>out := out w @ s\<rparr>)"
  unfolding adds_def using quiet_append by force

lemma adds_line: "quiet s \<Longrightarrow> preserves (adds L) (printf s)"
  by (simp add: preserves_def adds_more)

lemma adds_error [keep_rules]: "preserves (adds L) (pkt_error i)"
proof -
  have "quiet ((''spi error '' @ dec (unat i)) @ [CHR 0x0A])"
    by (intro quiet_line) (use length_dec_u8 [of i] in \<open>simp_all add: is_nl_def\<close>)
  then show ?thesis by (auto simp: pkt_error_def intro!: keep_rules adds_line)
qed

lemma adds_modify: "(\<And>w. out (f w) = out w) \<Longrightarrow> preserves (adds L) (modify f)"
  by (simp add: preserves_def adds_def)

lemma adds_keeps: "keeps out m \<Longrightarrow> preserves (adds L) m"
  by (simp add: preserves_def keeps_def adds_def)

lemma out_stop [simp]: "out (stop_with r w) = out w"
  by (simp add: stop_with_def split: option.splits)

lemma keeps_out_primitives [keep_rules]:
  "keeps out (pkt_store i v)" "keeps out (pkt_load i)" "keeps out (setss E x)" "keeps out (spi_byte E b)"
  "keeps out (div_by n f)" "keeps out (libradio_set_delay d)" "keeps out (libradio_set_song ns)"
  by (auto simp: keeps_def pkt_store_def pkt_load_def div_by_def libradio_set_delay_def
      libradio_set_song_def split: prod.splits)

lemma keeps_out_loops [keep_rules]: "keeps out (pkt_write_loop E is)" "keeps out (pkt_read_loop E is)" "keeps out (pkt_poll_loop E rl n)"
proof -
  show "keeps out (pkt_write_loop E is)" by (induction "is") (auto intro!: keep_rules)
  show r: "keeps out (pkt_read_loop E is)" for "is" by (induction "is") (auto intro!: keep_rules)
  show "keeps out (pkt_poll_loop E rl n)" by (induction n) (auto intro!: keep_rules r)
qed

lemma keeps_out_send [keep_rules]: "keeps out (pkt_send E sl rl)"
  by (auto simp: pkt_send_def intro!: keep_rules)

lemma keeps_out_chip [keep_rules]:
  "keeps out (libradio_get_part_info E)" "keeps out (libradio_get_func_info E)" "keeps out (libradio_get_chip_status E)"
  "keeps out (libradio_get_fifo_info E c)" "keeps out (libradio_get_int_status E)" "keeps out libradio_ircal"
  unfolding chip_ops by (intro keep_rules keeps_modify; simp)+

lemma adds_status: "preserves (adds L) (libradio_request_device_status E)"
  unfolding chip_ops by (intro keep_rules adds_modify keeps_out_primitives [THEN adds_keeps] keeps_out_send [THEN adds_keeps]; simp)

lemma keeps_out_set_error: "keeps out (libradio_set_state E LIBRADIO_STATE_ERROR)"
  by (auto simp: libradio_set_state_def intro!: keep_rules keeps_modify)

lemma adds_config: "preserves (adds L) (config_loop E c)"
proof (induction E c rule: config_loop.induct)
  case (2 E n rest)
  then show ?case
    by (auto intro!: keep_rules adds_modify keeps_out_primitives [THEN adds_keeps] keeps_out_send [THEN adds_keeps]
        keeps_out_set_error [THEN adds_keeps])
qed (auto intro!: keep_rules adds_modify)

lemma adds_power_up: "preserves (adds L) (libradio_power_up E)"
proof -
  have "quiet (''PowerUp!'' @ [CHR 0x0A])" "quiet (''Radio Active'' @ [CHR 0x0A])"
    by (intro quiet_line; simp add: is_nl_def)+
  then show ?thesis unfolding libradio_power_up_def
    by (intro keep_rules adds_line adds_config adds_status adds_modify keeps_out_chip [THEN adds_keeps]) simp_all
qed


lemma adds_activate:
  "preserves (adds L) (libradio_set_state (control_env H) LIBRADIO_STATE_ACTIVE)"
  "preserves (adds L) (libradio_set_delay d)" "preserves (adds L) (e_power_mode (control_env H) h)"
proof -
  have p: "keeps out (e_power_mode (control_env H) h)" for h
    by (auto simp: libradio_power_mode_def control_env_sel intro!: keep_rules keeps_modify)
  then show "preserves (adds L) (e_power_mode (control_env H) h)" by (rule adds_keeps)
  show "preserves (adds L) (libradio_set_delay d)" by (intro adds_keeps keep_rules)
  have "keeps out (libradio_set_state (control_env H) LIBRADIO_STATE_ACTIVE)"
    by (auto simp: libradio_set_state_def intro!: keep_rules keeps_modify p)
  then show "preserves (adds L) (libradio_set_state (control_env H) LIBRADIO_STATE_ACTIVE)" by (rule adds_keeps)
qed

lemma power_up_station:
  assumes "run_state (libradio_power_up E) w = (0, w')"
  shows "station w' = station w" "app w' = app w"
  using power_up_outcome [OF assms] by (auto simp: core_view_def station_def)

lemma going_active:
  assumes "run_state (do { libradio_set_state (control_env H) 6; libradio_set_delay 1; e_power_mode (control_env H) 1 }) w = ((), w')"
  shows "station w' = (6, r_my_channel w, r_my_node_id w, r_ms_ticks w, r_tens_of_minutes w, r_date w, map ch_state (channels (app w)))"
    "app w' = app w"
proof -
  obtain v where v: "run_state (libradio_set_state (control_env H) 6) w = ((), v)" by (rule unit_run)
  note a = ctl.set_state_active [OF v] and b = keeps_run [OF ctl.set_state_ident v]
  have w': "w' = snd (run_state (do { libradio_set_delay 1; libradio_power_mode 1 }) v)"
    using assms v by (simp add: control_env_sel)
  have "station w' = station v" "app w' = app v"
    unfolding w' by (simp_all add: libradio_set_delay_def libradio_power_mode_def station_def when_op_def)
  then show "station w' = (6, r_my_channel w, r_my_node_id w, r_ms_ticks w, r_tens_of_minutes w, r_date w, map ch_state (channels (app w)))"
    "app w' = app w"
    using a b by (auto simp: station_def ident_view_def)
qed

lemma activate_lines: "quiet (''M-Actvt! ch:'' @ dec (unat (a :: u8)) @ '',node:'' @ dec (unat (b :: u8)) @ ''\<newline>'')"
  "quiet ''Going to ACTIVE state.\<newline>''"
proof -
  have "quiet ((''M-Actvt! ch:'' @ dec (unat a) @ '',node:'' @ dec (unat b)) @ [CHR 0x0A])"
    by (intro quiet_line) (use length_dec_u8 [of a] length_dec_u8 [of b] in \<open>simp_all add: is_nl_def\<close>)
  then show "quiet (''M-Actvt! ch:'' @ dec (unat a) @ '',node:'' @ dec (unat b) @ ''\<newline>'')" by simp
  have "quiet (''Going to ACTIVE state.'' @ [CHR 0x0A])" by (intro quiet_line) (simp_all add: is_nl_def)
  then show "quiet ''Going to ACTIVE state.\<newline>''" by simp
qed

section \<open>Activation\<close>

lemma accepts_activate:
  fixes c :: "('d, control) mcu"
  assumes d: "desk_at c" and n: "r_my_node_id c = 0"
    and up: "\<forall>w. fst (run_state (libradio_power_up (control_env H)) w) = 0"
  shows "\<exists>c'. accepts (control_env H) (command_text 0 0 3 [0, 1, 0] @ [CHR 0x0D, CHR 0x0A]) c c' \<and>
    station c' = (6, 0, 1, r_ms_ticks c, r_tens_of_minutes c, r_date c, (map ch_state (channels (app c)))[0 := 2])"
proof -
  let ?E = "control_env H" and ?ds = "[0, 1, 0] :: u8 list"
  let ?p = "ch_packet (filled 0 3 ?ds (channels (app c) ! 0))"
  let ?w = "asked 0 3 ?ds (c\<lparr>out := []\<rparr>)"
  let ?s1 = "''M-Actvt! ch:'' @ dec 0 @ '',node:'' @ dec 1 @ ''\<newline>''" and ?s2 = "''Going to ACTIVE state.\<newline>''"
  let ?w1 = "?w\<lparr>out := out ?w @ ?s1, r_my_channel := 0, r_my_node_id := 1\<rparr>"
  obtain w2 where w2: "run_state (libradio_power_up ?E) ?w1 = (0, w2)" using up by (metis prod.collapse)
  let ?w3 = "w2\<lparr>out := out w2 @ ?s2\<rparr>"
  let ?go = "do { libradio_set_state ?E 6; libradio_set_delay 1; e_power_mode ?E 1 }"
  obtain v where v: "run_state ?go ?w3 = ((), v)" by (rule unit_run)
  have my: "run_state (mycommand ?E ?p) ?w = (0, v)"
  proof -
    have "run_state (mycommand ?E ?p) ?w = run_state (do { ?go; State_Monad.return 0 }) ?w3"
      using w2 by (simp add: mycommand_def data_at_def)
    then show ?thesis using v by (simp add: case_prod_beta)
  qed
  have q: "quiet ?s1" "quiet ?s2" using activate_lines(1) [of 0 1] activate_lines(2) by simp_all
  have "adds (out ?w) ?w1" using q by (auto simp: adds_def)
  then have "adds (out ?w) w2" by (rule preserves_run [OF adds_power_up _ w2])
  then have "adds (out ?w) ?w3" using preservesD [OF adds_line [OF q(2)], of _ w2] by simp
  moreover have "preserves (adds L) ?go" for L by (intro keep_rules adds_activate)
  ultimately have "adds (out ?w) v" using v by (blast intro: preserves_run)
  then obtain s where s: "quiet s" "out v = out ?w @ s" by (auto simp: adds_def)
  note g = going_active [OF v] and u = power_up_station [OF w2]
  have av: "app v = app (asked 0 3 ?ds c)" using g u by simp
  have sv: "station v = (6, 0, 1, r_ms_ticks c, r_tens_of_minutes c, r_date c, map ch_state (channels (app (asked 0 3 ?ds c))))"
    using g(1) u by (simp add: station_def)
  note ok = asked_ok [OF d, of ?ds 0 3]
  have a: "accepts ?E (command_text 0 0 3 ?ds @ [CHR 0x0D, CHR 0x0A]) c (answered v)"
    by (rule accepts_own [OF d n _ my, where s = s]) (use ok av sv s n in \<open>simp_all add: station_def\<close>)
  moreover have "station (answered v) = (6, 0, 1, r_ms_ticks c, r_tens_of_minutes c, r_date c, (map ch_state (channels (app c)))[0 := 2])"
  proof -
    have "0 < length (channels (app v))" using av ok(1) by simp
    then show ?thesis using sv av by (simp only: station_answered) (simp add: station_def)
  qed
  ultimately show ?thesis by blast
qed

text \<open>A line that is not a command, and the status requests.\<close>

definition reports :: "('d, control) env \<Rightarrow> string \<Rightarrow> string \<Rightarrow> ('d, control) mcu \<Rightarrow> ('d, control) mcu \<Rightarrow> bool" where
  "reports E l r c c' \<longleftrightarrow> run_state (feed E l) (c\<lparr>out := []\<rparr>) = ((), c') \<and> desk_at c' \<and> station c' = station c \<and>
     out c' = r @ ''\<newline>''"

lemma reports_error:
  assumes "desk_at c"
  shows "\<exists>c'. reports E (''R'' @ [CHR 0x0D, CHR 0x0A]) (''<-5/'' @ dec (unat (r_state c))) c c'"
proof -
  have i: "in_state (app c) = 0" using assms by (simp add: desk_at_def)
  have five: "digit_char 5 = CHR ''5''" by code_simp
  let ?c = "c\<lparr>out := ''<-5/'' @ dec (unat (r_state c)) @ ''\<newline>'', app := (app c)\<lparr>in_state := 0\<rparr>\<rparr>"
  have "run_state (feed E ''R'') (c\<lparr>out := []\<rparr>) = ((), ?c\<lparr>app := (app c)\<lparr>in_state := 1\<rparr>\<rparr>)"
    using i by (simp add: run_process_char char_step_def reply_text_def five)
  then have "run_state (feed E (''R'' @ [CHR 0x0D, CHR 0x0A])) (c\<lparr>out := []\<rparr>) = ((), ?c)"
    by (simp only: feed_append) (simp add: feed_newline)
  then show ?thesis using assms by (auto simp: reports_def desk_at_def station_def)
qed

lemma reports_dynamic:
  assumes "desk_at c" "e_analog_read E 3 (dev c) = (v, d)"
  shows "\<exists>c'. reports E (''>T'' @ [CHR 0x0D, CHR 0x0A]) (status_line (r_my_channel c) (r_my_node_id c) (unat (r_ms_ticks c)) 1
     [r_state c, r_tens_of_minutes c, hi8 (word_of_int v), lo8 (word_of_int v),
      hi8 (r_npacket_rx c), lo8 (r_npacket_rx c), hi8 (r_npacket_tx c), lo8 (r_npacket_tx c)]) c c'"
proof -
  have i: "in_state (app (c\<lparr>out := []\<rparr>)) = 0" using assms by (simp add: desk_at_def)
  show ?thesis unfolding reports_def feed_append feed_status [OF i]
    using assms by (simp add: run_dynamic_status [where d = d and v = v] feed_newline Let_def) (simp add: desk_at_def station_def)
qed

lemma run_static_status:
  "run_state (local_status E 0) w = ((), w\<lparr>out := out w @
    status_line (r_my_channel w) (r_my_node_id w) (unat (r_ms_ticks w)) 0 [1, 1, 1, 1, 3, 1] @ ''\<newline>''\<rparr>)"
  by (simp add: local_status_def status_line_def comma_list_def Let_def)

lemma reports_static:
  assumes "desk_at c"
  shows "\<exists>c'. reports E (''>S'' @ [CHR 0x0D, CHR 0x0A]) (status_line (r_my_channel c) (r_my_node_id c) (unat (r_ms_ticks c)) 0
     [1, 1, 1, 1, 3, 1]) c c'"
proof -
  have i: "in_state (app c) = 0" using assms by (simp add: desk_at_def)
  have "run_state (feed E ''>S'') (c\<lparr>out := []\<rparr>) = ((), c\<lparr>app := (app c)\<lparr>in_state := 0\<rparr>, out := status_line (r_my_channel c) (r_my_node_id c) (unat (r_ms_ticks c)) 0
     [1, 1, 1, 1, 3, 1] @ ''\<newline>''\<rparr>)"
    using i by (simp add: feed_Cons run_process_char char_step_def run_static_status)
  then show ?thesis using assms unfolding reports_def feed_append
    by (simp add: feed_newline) (simp add: desk_at_def station_def)
qed

end
