(* ===== verification/Lrmon_Startup.thy ===== *)
theory Lrmon_Startup
  imports Lrmon_Exchange
begin

text \<open>
  The start-up of the daemon against the controller, one exchange after the other. \<open>link t u k\<close> describes the two
  ends after \<open>k\<close> exchanges, at the time of day \<open>t\<close>, \<open>u\<close>; \<open>link_run\<close> goes through
  them up to the status request with which the daemon ends its start-up.
\<close>

section \<open>The daemon's answers\<close>

lemma char_S: "char_of (83 :: nat) = CHR ''S''"
  by code_simp

lemma bad_unknown: "lr_state w = 0 \<Longrightarrow> retries w \<le> 10 \<Longrightarrow>
    progress w 1 1 (''>S'' @ [CHR 0x0D, CHR 0x0A]) (parse_data (''<-'' @ s) w) \<and> response_received (parse_data (''<-'' @ s) w) = 0"
  by (simp add: parse_data_def parse_bad_def progress_def state_machine_def sm_switch_def sm_srequest_def
      request_local_status_def sio_send_def retry_def Let_def char_S timer_insert_def split: list.split)

lemma report_static: "lr_state w = 1 \<Longrightarrow> retries w \<le> 10 \<Longrightarrow> response_received w = 0 \<Longrightarrow> unat c \<le> 15 \<Longrightarrow>
    progress w 3 1 (''>T'' @ [CHR 0x0D, CHR 0x0A]) (parse_data (status_line c n tcks st bs) w) \<and>
    response_received (parse_data (status_line c n tcks st bs) w) = 0"
  unfolding parse_status
  by (simp add: progress_def state_machine_def sm_switch_def sm_srequest_def sm_drequest_def
      request_local_status_def sio_send_def retry_def Let_def char_T timer_insert_def split: list.split)

lemma report_dynamic: "lr_state w = 3 \<Longrightarrow> retries w \<le> 10 \<Longrightarrow> response_received w = 0 \<Longrightarrow> unat c \<le> 15 \<Longrightarrow> uint n \<noteq> 1 \<Longrightarrow>
    progress w 4 1 (command_line 0 0 3 [0, 1, 0]) (parse_data (status_line c n tcks st bs) w)"
  unfolding parse_status
  by (simp add: progress_def state_machine_def sm_switch_def sm_drequest_def sm_activate_def run_commands retry_def Let_def)

lemma report_ready: "lr_state w = 11 \<Longrightarrow> unat c \<le> 15 \<Longrightarrow>
    progress w 11 (retries w) [] (parse_data (status_line c n tcks st bs) w)"
  unfolding parse_status by (simp add: progress_def state_machine_def Let_def)

definition daemon_at :: "int \<Rightarrow> int \<Rightarrow> lrmon \<Rightarrow> bool" where
  "daemon_at t u m \<longleftrightarrow> sio_buf m = [] \<and> sio_in m = [] \<and> now_sec m = t \<and> now_usec m = u \<and> retries m \<le> 10"

lemma exchange_report:
  assumes "chops chop" "daemon_at t u m" "reports E (sio_out m) l c c'" "plain l" "l \<noteq> []" "length l \<le> 511"
    and "progress (m\<lparr>sio_out := []\<rparr>) st n s (parse_data l (m\<lparr>sio_out := []\<rparr>))" "n \<le> 10"
  shows "\<exists>m'. exchange E chop (m, c) = (m', c') \<and> m' = parse_data l (m\<lparr>sio_out := []\<rparr>) \<and> daemon_at t u m' \<and>
     lr_state m' = st \<and> sio_out m' = s"
  using exchange_answer [OF assms(1), of m E c c' "[]" l] parse_io [of "m\<lparr>sio_out := []\<rparr>" l] assms(2-8)
  by (simp add: daemon_at_def reports_def progress_def)

lemma exchange_accept:
  assumes "chops chop" "daemon_at t u m" "accepts E (sio_out m) c c'"
    and "progress (m\<lparr>sio_out := []\<rparr>) st n s (parse_data ''<+'' (m\<lparr>sio_out := []\<rparr>))" "n \<le> 10"
  shows "\<exists>m'. exchange E chop (m, c) = (m', c') \<and> daemon_at t u m' \<and> lr_state m' = st \<and> sio_out m' = s"
proof -
  obtain s' where s: "quiet s'" "out c' = s' @ ''<+'' @ [CHR 0x0A]" using assms(3) by (auto simp: accepts_def)
  have p: "plain ''<+''" by (simp add: is_nl_def)
  show ?thesis
    using exchange_answer [OF assms(1), of m E c c' s' "''<+''"] parse_io [of "m\<lparr>sio_out := []\<rparr>" "''<+''"] assms(2-) s p
    by (simp add: daemon_at_def accepts_def progress_def)
qed

lemma plain_status: "unat c \<le> 15 \<Longrightarrow> length bs \<le> 8 \<Longrightarrow> st < 10 \<Longrightarrow> plain (status_line c n (unat (v :: u16)) st bs) \<and>
   status_line c n (unat v) st bs \<noteq> [] \<and> length (status_line c n (unat v) st bs) \<le> 511"
proof -
  assume a: "unat c \<le> 15" "length bs \<le> 8" "st < 10"
  have "unat v < 65536" using unsigned_less [of v, where 'a = nat] by simp
  then show ?thesis using status_line_clean [OF a(1)] length_status_line [OF a(2) _ a(3), of "unat v" c n]
    by (auto simp: plain_def status_line_def)
qed

section \<open>The exchanges of the start-up\<close>

text \<open>What the daemon sends in the exchange \<open>k\<close>, and its state then.\<close>

definition link_lines :: "int \<Rightarrow> int \<Rightarrow> string list" where
  "link_lines t u = [''R'' @ [CHR 0x0D, CHR 0x0A], ''>S'' @ [CHR 0x0D, CHR 0x0A], ''>T'' @ [CHR 0x0D, CHR 0x0A],
     command_line 0 0 3 [0, 1, 0], command_line 0 1 5 (time_data t u), command_line 0 1 6 (date_data t)] @
     map (\<lambda>i. command_line 0 1 16 [int i, 2]) [0..<4] @ [''>T'' @ [CHR 0x0D, CHR 0x0A], []]"

definition link_states :: "int list" where
  "link_states = [0, 1, 3, 4, 5, 6, 7, 8, 9, 10, 11, 11]"

definition link_daemon :: "int \<Rightarrow> int \<Rightarrow> nat \<Rightarrow> lrmon \<Rightarrow> bool" where
  "link_daemon t u k m \<longleftrightarrow> daemon_at t u m \<and> sio_out m = link_lines t u ! k \<and> lr_state m = link_states ! k \<and>
     (k = 1 \<or> k = 2 \<longrightarrow> response_received m = 0)"

definition link_control :: "int \<Rightarrow> int \<Rightarrow> nat \<Rightarrow> ('d, control) mcu \<Rightarrow> bool" where
  "link_control t u k c \<longleftrightarrow> desk_at c \<and>
     (if k \<le> 3 then r_my_node_id c = 0
      else r_state c = 6 \<and> r_my_channel c = 0 \<and> r_my_node_id c = 1) \<and>
     (5 \<le> k \<longrightarrow> r_ms_ticks c = day_ticks t u \<and> r_tens_of_minutes c = day_tens t) \<and>
     (6 \<le> k \<longrightarrow> r_date c = word_of_int (t div 86400)) \<and>
     (\<forall>i < min (k - 6) 4. ch_state (channels (app c) ! i) = 2)"

definition link :: "int \<Rightarrow> int \<Rightarrow> nat \<Rightarrow> lrmon \<times> ('d, control) mcu \<Rightarrow> bool" where
  "link t u k x \<longleftrightarrow> link_daemon t u k (fst x) \<and> link_control t u k (snd x)"

lemma link_linesI:
  "link_lines t u ! 0 = ''R'' @ [CHR 0x0D, CHR 0x0A]" "link_lines t u ! Suc 0 = ''>S'' @ [CHR 0x0D, CHR 0x0A]"
  "link_lines t u ! 2 = ''>T'' @ [CHR 0x0D, CHR 0x0A]" "link_lines t u ! 3 = command_line 0 0 3 [0, 1, 0]"
  "link_lines t u ! 4 = command_line 0 1 5 (time_data t u)" "link_lines t u ! 5 = command_line 0 1 6 (date_data t)"
  "link_lines t u ! 10 = ''>T'' @ [CHR 0x0D, CHR 0x0A]" "link_lines t u ! 11 = []"
  by (simp_all add: link_lines_def nth_append)

lemma link_lines_channel: "i < 4 \<Longrightarrow> link_lines t u ! (6 + i) = command_line 0 1 16 [int i, 2]"
  by (simp add: link_lines_def nth_append)

lemma link_states_channel: "i < 5 \<Longrightarrow> link_states ! (6 + i) = 7 + int i"
  by (auto simp: link_states_def nth_Cons' less_Suc_eq numeral_eq_Suc)

lemma station_eq: "station c = (a, b, n, v, t, d, ss) \<longleftrightarrow> r_state c = a \<and> r_my_channel c = b \<and> r_my_node_id c = n \<and> r_ms_ticks c = v \<and>
   r_tens_of_minutes c = t \<and> r_date c = d \<and> map ch_state (channels (app c)) = ss"
  by (simp add: station_def)

lemma station_same: "station c' = station c \<Longrightarrow> r_state c' = r_state c \<and> r_my_channel c' = r_my_channel c \<and> r_my_node_id c' = r_my_node_id c \<and>
   r_ms_ticks c' = r_ms_ticks c \<and> r_tens_of_minutes c' = r_tens_of_minutes c \<and> r_date c' = r_date c \<and>
   map ch_state (channels (app c')) = map ch_state (channels (app c))"
  by (simp add: station_def)

lemma link_first:
  assumes p: "chops chop" and l: "link t u 0 (m, c)"
  shows "link t u 1 (exchange E chop (m, c))"
proof -
  have d: "desk_at c" "daemon_at t u m" "r_my_node_id c = 0" "lr_state m = 0" "sio_out m = ''R'' @ [CHR 0x0D, CHR 0x0A]"
    using l by (simp_all add: link_def link_daemon_def link_control_def link_linesI link_states_def)
  let ?l = "''<-5/'' @ dec (unat (r_state c))"
  obtain c' where r: "reports E (''R'' @ [CHR 0x0D, CHR 0x0A]) ?l c c'" using reports_error [OF d(1)] by blast
  have n: "lr_state (m\<lparr>sio_out := []\<rparr>) = 0" "retries (m\<lparr>sio_out := []\<rparr>) \<le> 10" using d by (simp_all add: daemon_at_def)
  have pl: "plain ?l" "?l \<noteq> []" "length ?l \<le> 511" using length_dec_u8 [of "r_state c"] by (simp_all add: is_nl_def)
  have "?l = ''<-'' @ ''5/'' @ dec (unat (r_state c))" by simp
  then obtain m' where m': "exchange E chop (m, c) = (m', c')" "daemon_at t u m'" "lr_state m' = 1"
      "sio_out m' = ''>S'' @ [CHR 0x0D, CHR 0x0A]" "response_received m' = 0"
    using exchange_report [OF p d(2) _ pl, of E c c' 1 1 "''>S'' @ [CHR 0x0D, CHR 0x0A]"] r d(5) bad_unknown [OF n] by auto
  then show ?thesis using r d(3) station_same [of c' c]
    by (simp add: link_def link_daemon_def link_control_def link_linesI link_states_def reports_def)
qed

lemmas link_defs = link_def link_daemon_def link_control_def link_linesI link_states_def

lemma link_static:
  assumes p: "chops chop" and l: "link t u 1 (m, c)"
  shows "link t u 2 (exchange E chop (m, c))"
proof -
  let ?m = "m\<lparr>sio_out := []\<rparr>"
  have d: "desk_at c" "daemon_at t u m" "r_my_node_id c = 0" "sio_out m = ''>S'' @ [CHR 0x0D, CHR 0x0A]"
    using l by (simp_all add: link_defs)
  let ?l = "status_line (r_my_channel c) (r_my_node_id c) (unat (r_ms_ticks c)) 0 [1, 1, 1, 1, 3, 1]"
  obtain c' where r: "reports E (''>S'' @ [CHR 0x0D, CHR 0x0A]) ?l c c'" using reports_static [OF d(1)] by blast
  have n: "lr_state ?m = 1" "retries ?m \<le> 10" "response_received ?m = 0" "unat (r_my_channel c) \<le> 15"
    using l by (simp_all add: link_defs daemon_at_def desk_at_def)
  have pl: "plain ?l" "?l \<noteq> []" "length ?l \<le> 511" using plain_status [OF n(4), of "[1, 1, 1, 1, 3, 1]"] by simp_all
  obtain m' where m': "exchange E chop (m, c) = (m', c')" "daemon_at t u m'" "lr_state m' = 3"
      "sio_out m' = ''>T'' @ [CHR 0x0D, CHR 0x0A]" "response_received m' = 0"
    using exchange_report [OF p d(2) _ pl, of E c c' 3 1 "''>T'' @ [CHR 0x0D, CHR 0x0A]"] r d(4) report_static [OF n] by auto
  then show ?thesis using r d(3) station_same [of c' c] by (simp add: link_defs reports_def)
qed

lemma link_dynamic:
  assumes p: "chops chop" and l: "link t u 2 (m, c)"
  shows "link t u 3 (exchange E chop (m, c))"
proof -
  let ?m = "m\<lparr>sio_out := []\<rparr>"
  have d: "desk_at c" "daemon_at t u m" "r_my_node_id c = 0" "sio_out m = ''>T'' @ [CHR 0x0D, CHR 0x0A]"
    using l by (simp_all add: link_defs)
  obtain v e where "e_analog_read E 3 (dev c) = (v, e)" by fastforce
  from reports_dynamic [OF d(1) this] obtain c' bs where r: "reports E (''>T'' @ [CHR 0x0D, CHR 0x0A])
      (status_line (r_my_channel c) (r_my_node_id c) (unat (r_ms_ticks c)) 1 bs) c c'" "length bs \<le> 8" by fastforce
  let ?l = "status_line (r_my_channel c) (r_my_node_id c) (unat (r_ms_ticks c)) 1 bs"
  have n: "lr_state ?m = 3" "retries ?m \<le> 10" "response_received ?m = 0" "unat (r_my_channel c) \<le> 15" "uint (r_my_node_id c) \<noteq> 1"
    using l by (simp_all add: link_defs daemon_at_def desk_at_def)
  have pl: "plain ?l" "?l \<noteq> []" "length ?l \<le> 511" using plain_status [OF n(4) r(2)] by simp_all
  obtain m' where m': "exchange E chop (m, c) = (m', c')" "daemon_at t u m'" "lr_state m' = 4"
      "sio_out m' = command_line 0 0 3 [0, 1, 0]"
    using exchange_report [OF p d(2) _ pl, of E c c' 4 1 "command_line 0 0 3 [0, 1, 0]"] r(1) d(4) report_dynamic [OF n] by auto
  then show ?thesis using r d(3) station_same [of c' c] by (simp add: link_defs reports_def)
qed

lemma link_activate:
  assumes p: "chops chop" and l: "link t u 3 (m, c)"
    and up: "\<forall>w. fst (run_state (libradio_power_up (control_env H)) w) = 0"
  shows "link t u 4 (exchange (control_env H) chop (m, c))"
proof -
  let ?m = "m\<lparr>sio_out := []\<rparr>"
  have d: "desk_at c" "daemon_at t u m" "r_my_node_id c = 0" "sio_out m = command_line 0 0 3 [0, 1, 0]"
    using l by (simp_all add: link_defs)
  have e: "command_line 0 0 3 [0, 1, 0] = command_text 0 0 3 [0, 1, 0] @ [CHR 0x0D, CHR 0x0A]"
    using command_line_text [of 0 0 3 "[0, 1, 0]"] by simp
  have n: "lr_state ?m = 4" "retries ?m \<le> 10" "now_sec ?m = t" "now_usec ?m = u"
    using l by (simp_all add: link_defs daemon_at_def)
  from accepts_activate [OF d(1,3) up] obtain c' where r: "accepts (control_env H) (sio_out m) c c'"
      "station c' = (6, 0, 1, r_ms_ticks c, r_tens_of_minutes c, r_date c, (map ch_state (channels (app c)))[0 := 2])"
    unfolding d(4) e by blast
  from exchange_accept [OF p d(2) r(1) good_activate [OF n(1,2)]] n(3,4) obtain m' where
      "exchange (control_env H) chop (m, c) = (m', c')" "daemon_at t u m'" "lr_state m' = 5"
      "sio_out m' = command_line 0 1 5 (time_data t u)" by auto
  then show ?thesis using r by (simp add: link_defs accepts_def station_eq)
qed

lemma link_time:
  assumes p: "chops chop" and l: "link t u 4 (m, c)" and u: "0 \<le> u" "u < 1000000"
  shows "link t u 5 (exchange E chop (m, c))"
proof -
  let ?m = "m\<lparr>sio_out := []\<rparr>" and ?v = "day_ticks t u"
  have d: "desk_at c" "daemon_at t u m" "r_my_node_id c = 1" "r_state c = 6" "r_my_channel c = 0"
     "sio_out m = command_line 0 1 5 (time_data t u)"
    using l by (simp_all add: link_defs)
  have e: "command_line 0 1 5 (time_data t u) = command_text 0 1 5 [hi8 ?v, lo8 ?v, day_tens t] @ [CHR 0x0D, CHR 0x0A]"
    using command_line_text [of 0 1 5 "[hi8 ?v, lo8 ?v, day_tens t]"] by (simp add: time_data_words [OF u])
  have n: "lr_state ?m = 5" "retries ?m \<le> 10" "now_sec ?m = t"
    using l by (simp_all add: link_defs daemon_at_def)
  from accepts_time [OF d(1,3)] obtain c' where r: "accepts E (sio_out m) c c'"
      "station c' = (6, 0, 1, ?v, day_tens t, r_date c, (map ch_state (channels (app c)))[0 := 2])"
    unfolding d(4-6) e by blast
  from exchange_accept [OF p d(2) r(1) good_set_time [OF n(1,2)]] n(3) obtain m' where
      "exchange E chop (m, c) = (m', c')" "daemon_at t u m'" "lr_state m' = 6" "sio_out m' = command_line 0 1 6 (date_data t)" by auto
  then show ?thesis using r by (simp add: link_defs accepts_def station_eq)
qed

lemma date_data_words: "date_data t = map uint [hi8 (word_of_int (t div 86400)), lo8 (word_of_int (t div 86400))]"
proof -
  have m: "x mod 65536 = 256 * (x div 256 mod 256) + x mod 256" for x :: int
    using zmod_zmult2_eq [of 256 x 256] by simp
  show ?thesis by (simp add: date_data_def uint_hi8 uint_lo8 uint_word_of_int m)
qed

lemma link_date:
  assumes p: "chops chop" and l: "link t u 5 (m, c)"
  shows "link t u 6 (exchange E chop (m, c))"
proof -
  let ?m = "m\<lparr>sio_out := []\<rparr>" and ?v = "word_of_int (t div 86400) :: u16"
  have d: "desk_at c" "daemon_at t u m" "r_my_node_id c = 1" "r_state c = 6" "r_my_channel c = 0" "r_ms_ticks c = day_ticks t u"
     "r_tens_of_minutes c = day_tens t" "sio_out m = command_line 0 1 6 (date_data t)"
    using l by (simp_all add: link_defs)
  have e: "command_line 0 1 6 (date_data t) = command_text 0 1 6 [hi8 ?v, lo8 ?v] @ [CHR 0x0D, CHR 0x0A]"
    using command_line_text [of 0 1 6 "[hi8 ?v, lo8 ?v]"] by (simp add: date_data_words)
  have n: "lr_state ?m = 6" "retries ?m \<le> 10" using l by (simp_all add: link_defs daemon_at_def)
  from accepts_date [OF d(1,3,4)] obtain c' where r: "accepts E (sio_out m) c c'"
      "station c' = (6, 0, 1, day_ticks t u, day_tens t, ?v, (map ch_state (channels (app c)))[0 := 2])"
    unfolding d(5-8) e by blast
  from exchange_accept [OF p d(2) r(1) good_set_date [OF n(1,2)]] obtain m' where
      "exchange E chop (m, c) = (m', c')" "daemon_at t u m'" "lr_state m' = 7" "sio_out m' = command_line 0 1 16 [0, 2]" by auto
  then show ?thesis using r link_lines_channel [of 0 t u] by (simp add: link_defs accepts_def station_eq)
qed

lemma channels_done:
  assumes "i < 4" "length ss = 6" "\<forall>j < i. ss ! j = 2"
  shows "\<forall>j < Suc i. (ss[i := 2, 0 := 2]) ! j = (2 :: u8)"
  using assms by (auto simp: nth_list_update less_Suc_eq)

lemma link_channel:
  assumes p: "chops chop" and i: "i < 4" and l: "link t u (6 + i) (m, c)"
  shows "link t u (7 + i) (exchange E chop (m, c))"
proof -
  let ?m = "m\<lparr>sio_out := []\<rparr>"
  have d: "desk_at c" "daemon_at t u m" "r_my_node_id c = 1" "r_state c = 6" "r_my_channel c = 0" "r_ms_ticks c = day_ticks t u"
     "r_tens_of_minutes c = day_tens t" "r_date c = word_of_int (t div 86400)" "sio_out m = command_line 0 1 16 [int i, 2]"
     "lr_state m = 7 + int i"
    using l i link_lines_channel [OF i] link_states_channel [of i] by (simp_all add: link_def link_daemon_def link_control_def)
  have "unat (word_of_nat i :: u8) = i" using i by (simp add: unat_of_nat)
  then have ui: "uint (word_of_nat i :: u8) = int i" by (metis uint_nat)
  have e: "command_line 0 1 16 [int i, 2] = command_text 0 1 16 [word_of_nat i, 2] @ [CHR 0x0D, CHR 0x0A]"
    using command_line_text [of 0 1 16 "[word_of_nat i, 2]"] by (simp add: ui)
  from accepts_channel [OF d(1,3), of i] i obtain c' where r: "accepts E (sio_out m) c c'"
      "station c' = (6, 0, 1, day_ticks t u, day_tens t, word_of_int (t div 86400), (map ch_state (channels (app c)))[i := 2, 0 := 2])"
    unfolding d(4-9) e by fastforce
  have n: "retries ?m \<le> 10" using l by (simp add: link_defs daemon_at_def)
  have good: "\<exists>n \<le> 10. progress ?m (link_states ! (7 + i)) n (link_lines t u ! (7 + i)) (parse_data ''<+'' ?m)"
  proof (cases "i = 3")
    case True
    then show ?thesis using good_last [of ?m] n d(10) by (intro exI [of _ 0]) (simp add: link_linesI link_states_def)
  next
    case False
    then show ?thesis using good_channel [of ?m] n d(10) i link_states_channel [of "Suc i"] link_lines_channel [of "Suc i" t u]
      by (intro exI [of _ 0]) (simp add: add.commute)
  qed
  then obtain m' where m': "exchange E chop (m, c) = (m', c')" "daemon_at t u m'" "lr_state m' = link_states ! (7 + i)"
      "sio_out m' = link_lines t u ! (7 + i)" using exchange_accept [OF p d(2) r(1)] by blast
  have "length (map ch_state (channels (app c))) = 6" "\<forall>j < i. map ch_state (channels (app c)) ! j = 2"
    using l i by (simp_all add: link_def link_control_def desk_at_def)
  from channels_done [OF i this] have "\<forall>j < Suc i. map ch_state (channels (app c')) ! j = 2" using r(2) by (simp only: station_eq)
  moreover have "length (channels (app c')) = 6" using r(1) by (simp add: accepts_def desk_at_def)
  ultimately have "\<forall>j < Suc i. ch_state (channels (app c') ! j) = 2" using i by simp
  then show ?thesis using m' r i by (simp add: link_def link_daemon_def link_control_def accepts_def station_eq)
qed

lemma link_control_same:
  assumes "link_control t u k c" "desk_at c'" "station c' = station c"
  shows "link_control t u k c'"
proof -
  have "length (channels (app c)) = 6" using assms(1) by (simp add: link_control_def desk_at_def)
  moreover have "length (channels (app c')) = 6" using assms(2) by (simp add: desk_at_def)
  ultimately have "ch_state (channels (app c') ! i) = ch_state (channels (app c) ! i)" if "i < 4" for i
    using station_same [OF assms(3)] that nth_map [of i "channels (app c)" ch_state] nth_map [of i "channels (app c')" ch_state] by simp
  then show ?thesis using assms station_same [OF assms(3)] by (simp add: link_control_def)
qed

lemma link_status:
  assumes p: "chops chop" and l: "link t u 10 (m, c)" and x: "exchange E chop (m, c) = (m', c')"
  shows "link t u 11 (m', c') \<and> ds_radio_state (lr_dstatus m') = 6 \<and> ds_tens_of_minutes (lr_dstatus m') = day_tens t"
proof -
  let ?m = "m\<lparr>sio_out := []\<rparr>"
  have d: "desk_at c" "daemon_at t u m" "r_my_node_id c = 1" "sio_out m = ''>T'' @ [CHR 0x0D, CHR 0x0A]" "r_state c = 6" "r_tens_of_minutes c = day_tens t"
    using l by (simp_all add: link_defs)
  obtain v e where "e_analog_read E 3 (dev c) = (v, e)" by fastforce
  from reports_dynamic [OF d(1) this] obtain c1 bs where r: "reports E (''>T'' @ [CHR 0x0D, CHR 0x0A])
      (status_line (r_my_channel c) (r_my_node_id c) (unat (r_ms_ticks c)) 1 bs) c c1" and b: "length bs = 8" "bs ! 0 = 6" "bs ! 1 = day_tens t"
    using d(5,6) by fastforce
  let ?l = "status_line (r_my_channel c) (r_my_node_id c) (unat (r_ms_ticks c)) 1 bs"
  have n: "lr_state ?m = 11" "unat (r_my_channel c) \<le> 15" "unat (r_my_node_id c) < 2" "retries ?m \<le> 10"
    using l by (simp_all add: link_defs daemon_at_def desk_at_def)
  have pl: "plain ?l" "?l \<noteq> []" "length ?l \<le> 511" using plain_status [OF n(2)] b(1) by simp_all
  obtain m1 where m1: "exchange E chop (m, c) = (m1, c1)" "m1 = parse_data ?l ?m" "daemon_at t u m1" "lr_state m1 = 11" "sio_out m1 = []"
    using exchange_report [OF p d(2) _ pl report_ready [OF n(1,2)], of E c c1] r d(4) n(4) by auto
  then have "lr_dstatus m1 = dynamic_status bs" using parse_dynamic [OF n(2,3) b(1)] by simp
  moreover have "link t u 11 (m1, c1)" 
  proof -
    have "link_control t u 10 c" "desk_at c1" "station c1 = station c" using l r unfolding link_def reports_def by simp_all
    then have "link_control t u 10 c1" by (rule link_control_same)
    then show ?thesis using m1 by (simp add: link_defs)
  qed
  ultimately show ?thesis using x m1(1) b by (simp add: dynamic_status_def)
qed

lemma link_run:
  assumes p: "chops chop" and u: "0 \<le> u" "u < 1000000" and l: "link t u 0 x"
    and up: "\<forall>w. fst (run_state (libradio_power_up (control_env H)) w) = 0"
  shows "k \<le> 10 \<Longrightarrow> link t u k ((exchange (control_env H) chop ^^ k) x)"
proof (induction k)
  case (Suc k)
  let ?x = "(exchange (control_env H) chop ^^ k) x"
  obtain m c where x: "?x = (m, c)" by fastforce
  have h: "link t u k (m, c)" using Suc x by simp
  consider "k = 0" | "k = 1" | "k = 2" | "k = 3" | "k = 4" | "k = 5" | "6 \<le> k" by linarith
  then have "link t u (Suc k) (exchange (control_env H) chop (m, c))"
  proof cases
    case 7
    then have "k - 6 < 4" "6 + (k - 6) = k" "7 + (k - 6) = Suc k" using Suc.prems by simp_all
    then show ?thesis using link_channel [OF p, of "k - 6" t u m c] h by metis
  qed (use h link_first [OF p] link_static [OF p] link_dynamic [OF p] link_activate [OF p _ up] link_time [OF p _ u]
      link_date [OF p] in \<open>simp_all add: eval_nat_numeral\<close>)
  then show ?case using x by simp
qed (use l in simp)

section \<open>The two ends as they start\<close>

definition fresh :: "('d, control) mcu \<Rightarrow> bool" where
  "fresh w \<longleftrightarrow> app w = zero_control \<and> r_my_node_id w = 0 \<and> r_my_channel w = 0"

lemma fresh_keeps: "keeps core_view m \<Longrightarrow> preserves fresh m"
  by (auto simp: preserves_def keeps_def fresh_def core_view_def)

lemma fresh_stop [simp]: "fresh (stop_with r w) = fresh w"
  by (simp add: fresh_def stop_with_def split: option.splits)

lemma fresh_set_state:
  fixes H :: "'d hw"
  shows "preserves fresh (libradio_set_state (control_env H) s)"
proof -
  have "preserves fresh (libradio_set_song s :: ('d, control, unit) op)" "preserves fresh (div_by n f)"
     "preserves fresh (libradio_set_delay d :: ('d, control, unit) op)"
     "preserves fresh (libradio_power_mode h :: ('d, control, unit) op)" for s n d h and f :: "('d, control) mcu \<Rightarrow> u8"
    by (auto simp: preserves_def libradio_set_song_def div_by_def libradio_set_delay_def libradio_power_mode_def Let_def) (auto simp: fresh_def)
  then show ?thesis
    by (auto simp: libradio_set_state_def fresh_def intro!: keep_rules preserves_modify)
qed

lemma fresh_init:
  assumes "app w = zero_control" "run_state (libradio_init (control_env H) a b n k) w = ((), v)"
  shows "fresh v"
proof -
  let ?E = "control_env H" and ?w = "libradio.extend zero_libradio (libradio.more w)"
  let ?m = "do {
     libradio_set_state ?E LIBRADIO_STATE_STARTUP;
     libradio_set_clock 1 16;
     modify (\<lambda>w. w\<lparr>r_period := r_fast_period w\<rparr>);
     modify (\<lambda>w. w\<lparr>r_tens_of_minutes := 0xff\<rparr>);
     modify (\<lambda>w. w\<lparr>r_tick_count := 5, r_main_ticks := 5\<rparr>);
     modify (\<lambda>w. w\<lparr>r_curr_state := SI4463_STATE_SLEEP\<rparr>);
     modify (\<lambda>w. w\<lparr>r_cat1 := a, r_cat2 := b, r_num1 := n, r_num2 := k\<rparr>);
     pkt_init;
     libradio_get_fifo_info ?E 3;
     State_Monad.return () }"
  have "fresh ?w" using assms(1) by (cases w) (simp add: fresh_def libradio.defs zero_libradio_def)
  moreover have "preserves fresh ?m"
    unfolding libradio_set_clock_def pkt_init_def
    by (intro keep_rules fresh_set_state preserves_modify fresh_keeps) (simp_all add: fresh_def)
  moreover have "run_state ?m ?w = ((), v)" using assms(2) by (simp add: libradio_init_def)
  ultimately show ?thesis by (blast intro: preserves_run)
qed

lemma fresh_tx_init: "preserves fresh tx_init"
proof -
  have z: "zero_control\<lparr>channels := (channels zero_control)[0 := (channels zero_control ! 0)\<lparr>ch_state := 0, ch_priority := 0\<rparr>]\<rparr> = zero_control"
     "zero_control\<lparr>resp_chp := None\<rparr> = zero_control" "channels zero_control \<noteq> []"
    by (simp_all add: zero_control_def zero_channel_def numeral_eq_Suc)
  then show ?thesis unfolding tx_init_def modify_ctl_def chan_update_def
    by (intro keep_rules preserves_modify) (auto simp: fresh_def z)
qed

lemma keeps_app_status: "keeps app (local_status E 0)" "keeps app (local_status E 1)"
proof -
  show "keeps app (local_status E 0)" by (simp add: keeps_def run_static_status)
  have "app (snd (run_state (local_status E 1) w)) = app w" for w
    by (cases "e_analog_read E 3 (dev w)") (simp add: run_dynamic_status)
  then show "keeps app (local_status E 1)" by (simp add: keeps_def)
qed

lemma fresh_start:
  assumes "app w = zero_control" "run_state (control_start (control_env H)) w = ((), c)"
  shows "fresh c"
proof -
  let ?E = "control_env H"
  let ?pre = "do { setled 1; clock_init; serial_init; m \<leftarrow> gets mcusr;
     printf (''MCUSR'' @ hex (unat m) @ ''\<newline>'');
     modify (\<lambda>w. w\<lparr>mcusr := 0\<rparr>);
     printf ''\<newline>Main radio control system v3.1.\<newline>'';
     local_status ?E RADIO_STATUS_DYNAMIC;
     local_status ?E RADIO_STATUS_STATIC }"
  let ?post = "do { tx_init; libradio_set_state ?E LIBRADIO_STATE_WARM }"
  have "keeps app ?pre" by (intro keep_rules keeps_modify keeps_app_status) simp_all
  moreover obtain w1 where w1: "run_state ?pre w = ((), w1)" by (rule unit_run)
  ultimately have "app w1 = zero_control" using assms(1) keeps_run [of app ?pre w "()" w1] by simp
  moreover obtain w2 where w2: "run_state (libradio_init ?E 1 1 1 1) w1 = ((), w2)" by (rule unit_run)
  ultimately have "fresh w2" by (rule fresh_init)
  moreover have "preserves fresh ?post" by (intro keep_rules fresh_tx_init fresh_set_state)
  moreover have "run_state ?post w2 = ((), c)"
    using assms(2) w1 w2 by (simp add: control_start_def case_prod_beta)
  ultimately show ?thesis by (blast intro: preserves_run)
qed

lemma fresh_desk: "fresh c \<Longrightarrow> desk_at c"
  by (simp add: fresh_def desk_at_def zero_control_def zero_channel_def zero_packet_def channel_ok_def packet_ok_def)

lemma link_start: "link_daemon t u 0 m \<Longrightarrow> fresh c \<Longrightarrow> link t u 0 (m, c)"
  using fresh_desk [of c] by (simp add: link_def link_control_def fresh_def)

lemma start_daemon: "lrmon_start devfd A os (zero_lrmon\<lparr>now_sec := t, now_usec := u\<rparr>) = Some m \<Longrightarrow> link_daemon t u 0 m"
  by (auto simp: lrmon_start_def sio_init_def rmq_init_def watch_fd_def timer_init_def state_init_def timer_insert_def zero_lrmon_def
      link_daemon_def daemon_at_def link_linesI link_states_def Let_def bind_eq_Some_conv split: if_splits prod.splits)

end
