(* ===== verification/Lrmon_Theorems.thy ===== *)
theory Lrmon_Theorems
  imports Lrmon_Startup Control_Theorems
begin

text \<open>
  The properties of the daemon, \<^verbatim>\<open>lrmon/\<close>, and of the daemon and the controller together, with their witnesses.
\<close>

section \<open>The daemon's variables\<close>

text \<open>C34: In every state the daemon can reach, whatever arrives at the serial port and whenever its timers run
  out, the start-up state machine is in one of its states with at most eleven tries; until it is ready its
  timer is the only one queued, so that it is called again; once it is ready the timer of the periodic status
  request is queued exactly once; and the buffer holds the beginning of one line, within its bounds.\<close>

theorem daemon_reachable:
  assumes "lrmon_run w"
  shows "STATE_UNKNOWN \<le> lr_state w \<and> lr_state w \<le> STATE_READY \<and> 0 \<le> retries w \<and> retries w \<le> 11 \<and>
    (if state_ready w then count_list (map snd (timerq w)) Dynamic_status_timer = 1
     else map snd (timerq w) = [State_machine]) \<and>
    length (sio_buf w) < 1024 \<and> CHR 0x00 \<notin> set (sio_buf w) \<and> \<not> list_ex is_nl (sio_buf w)"
proof -
  have d: "daemon_ok w" and b: "buffer_ok w" using lrmon_run_ok [OF assms] by simp_all
  have "if state_ready w then count_list (map snd (timerq w)) Dynamic_status_timer = 1
     else map snd (timerq w) = [State_machine]"
    using d by (auto simp: daemon_ok_def queue_ok_def state_ready_def)
  moreover have "length (sio_buf w) < 1024" "CHR 0x00 \<notin> set (sio_buf w)" "\<not> list_ex is_nl (sio_buf w)"
    using b by (simp_all add: buffer_ok_def)
  ultimately show ?thesis using d unfolding daemon_ok_def by blast
qed

text \<open>A message queue that accepts the connection, and the daemon just started.\<close>

definition local_amqp :: amqp where
  "local_amqp = \<lparr>a_socket_new = True, a_socket_open = (\<lambda>_ _. 0), a_login_normal = True, a_get_sockfd = 5\<rparr>"

definition started :: lrmon where
  "started = zero_lrmon\<lparr>timerq := [(0, State_machine)], tv_sec := 3, tv_usec := 0, sio_out := ''R'' @ [CHR 0x0D, CHR 0x0A],
     siofd := 4, mrfds := {4, 5}, maxfd := 5, now_sec := 52419, now_usec := 323578\<rparr>"

lemma starts: "lrmon_start (\<lambda>_. 4) local_amqp [] (zero_lrmon\<lparr>now_sec := 52419, now_usec := 323578\<rparr>) = Some started"
  by (simp add: lrmon_start_def default_config_def sio_init_def speeds_def rmq_init_def rmq_address_def local_amqp_def
      watch_fd_def timer_init_def state_init_def timer_insert_def zero_lrmon_def started_def Let_def insert_commute)

lemma daemon_reachable_witness:
  "lrmon_run started \<and> map snd (timerq started) = [State_machine] \<and> length (sio_buf started) < 1024"
proof -
  have r: "lrmon_run started" by (rule lrmon_boot [OF starts])
  moreover have "\<not> state_ready started" by (simp add: state_ready_def started_def zero_lrmon_def)
  ultimately show ?thesis using daemon_reachable [OF r] by simp
qed

section \<open>The serial port\<close>

text \<open>C36: However a text without zero bytes is cut into pieces of at most 512 bytes when it arrives, as long as its
  lines have at most 511 characters the daemon parses exactly its non-empty lines, each once and in their order, and
  keeps the unfinished line for the next read.\<close>

theorem reads_are_lines:
  assumes "reading w" "\<forall>s \<in> set ss. length s \<le> 512 \<and> CHR 0x00 \<notin> set s"
    and "\<forall>l \<in> set (split_nl (sio_buf w @ concat ss)). length l \<le> 511"
  shows "reads ss w = (fold parse_data (text_lines (sio_buf w @ concat ss)) w)
    \<lparr>sio_buf := text_rest (sio_buf w @ concat ss), sio_in := []\<rparr>"
  using serial.chunks [OF assms(1) short_lines_fit [OF assms(1,3,2)]]
  by (simp add: reads_def read_text_def io_def)

lemma reads_are_lines_witness:
  "reads [''DBG<'', [CHR 0x0D, CHR 0x0A] @ ''<'', ''+''] started =
     (parse_data ''DBG<'' started)\<lparr>sio_buf := ''<+'', sio_in := []\<rparr>"
proof -
  let ?ss = "[''DBG<'', [CHR 0x0D, CHR 0x0A] @ ''<'', ''+'']"
  have b: "sio_buf started = []" "sio_in started = []" by (simp_all add: started_def zero_lrmon_def)
  have s: "split_nl (concat ?ss) = [''DBG<'', [], ''<+'']" by (simp add: is_nl_def)
  have r: "reading started" using b by (simp add: reading_def buffer_ok_def)
  have f: "\<forall>s \<in> set ?ss. length s \<le> 512 \<and> CHR 0x00 \<notin> set s"
    "\<forall>l \<in> set (split_nl (sio_buf started @ concat ?ss)). length l \<le> 511"
    using s b by simp_all
  have "text_lines (concat ?ss) = [''DBG<'']" "text_rest (concat ?ss) = ''<+''"
    unfolding text_lines_def text_rest_def s by simp_all
  then show ?thesis using reads_are_lines [OF r f] b by simp
qed

text \<open>C37: A line of 1023 characters fills the buffer for good: every later read asks for zero bytes and returns, so
  that nothing that arrives is ever parsed. The comment in \<^verbatim>\<open>process_sio\<close> says that such a buffer is dumped.\<close>

theorem full_line_blocks:
  assumes "sio_buf w = []" "sio_in w = []" "length l = 1023" "\<not> list_ex is_nl l" "CHR 0x00 \<notin> set l"
  shows "reads (l # ss) w = w\<lparr>sio_buf := l, sio_in := concat ss\<rparr>"
proof -
  have l: "text_lines l = []" "text_rest l = l"
    using assms(4) by (simp_all add: text_lines_def text_rest_def split_no_nl)
  have "process_sio (w\<lparr>sio_in := l\<rparr>) = w\<lparr>sio_buf := l, sio_in := []\<rparr>"
    using assms process_text [of w l] l by (cases l) (simp_all add: io_def)
  then have "reads (l # ss) w = reads ss (w\<lparr>sio_buf := l, sio_in := []\<rparr>)" using assms(2) by (simp add: reads_def serial_put_def)
  then show ?thesis using reads_full [of "w\<lparr>sio_buf := l, sio_in := []\<rparr>" ss] assms(3) by simp
qed

lemma full_line_blocks_witness:
  "reads [replicate 1023 CHR ''x'', [CHR 0x0A], ''<+'', [CHR 0x0A]] started =
     started\<lparr>sio_buf := replicate 1023 CHR ''x'', sio_in := [CHR 0x0A] @ ''<+'' @ [CHR 0x0A]\<rparr>"
proof -
  have "sio_buf started = []" "sio_in started = []" by (simp_all add: started_def zero_lrmon_def)
  moreover have "length (replicate 1023 CHR ''x'') = 1023" "\<not> list_ex is_nl (replicate 1023 CHR ''x'')"
    "CHR 0x00 \<notin> set (replicate 1023 CHR ''x'')" by (simp_all add: list_ex_iff is_nl_def)
  ultimately show ?thesis using full_line_blocks [of started "replicate 1023 CHR ''x''" "[[CHR 0x0A], ''<+'', [CHR 0x0A]]"]
    by simp
qed

section \<open>Starting the controller\<close>

text \<open>C38: Once the daemon has asked the controller to activate itself, seven positive answers make it ready: it sends
  the time, the date, a setting of each of the channels 0 to 3 and a status request, each once and in this order.
  Channel 3 is set to state 2 (\<^verbatim>\<open>EMPTY\<close>) like the others.\<close>

theorem start_up_completes:
  assumes "lr_state w = STATE_ACTIVATE" "retries w \<le> 10"
  shows "state_ready ((parse_data ''<+'' ^^ 7) w) \<and>
    sio_out ((parse_data ''<+'' ^^ 7) w) = sio_out w @ command_line 0 1 5 (time_data (now_sec w) (now_usec w)) @
     command_line 0 1 6 (date_data (now_sec w)) @ concat (map (\<lambda>i. command_line 0 1 16 [i, 2]) [0, 1, 2, 3]) @
     ''>T'' @ [CHR 0x0D, CHR 0x0A]"
  using start_up [OF assms] by (simp add: progress_def state_ready_def)

lemma start_up_completes_witness:
  "state_ready ((parse_data ''<+'' ^^ 7) (started\<lparr>lr_state := 4\<rparr>))"
proof -
  have "lr_state (started\<lparr>lr_state := 4\<rparr>) = 4" "retries (started\<lparr>lr_state := 4\<rparr>) \<le> 10"
    by (simp_all add: started_def zero_lrmon_def)
  from start_up_completes [OF this] show ?thesis by simp
qed

section \<open>Daemon and controller\<close>





section \<open>The start-up of both ends\<close>







end
