(* ===== verification/Spec2Isabelle.thy ===== *)
theory Spec2Isabelle
  imports Library_Theorems Control_Theorems Lrmon_Theorems
begin

text \<open>
  A model of libradio, a radio network of AVR microcontrollers with a controller and a host, and of what makes
  it correct.

  \<^bold>\<open>The program.\<close> \<^verbatim>\<open>lib/\<close> is the library every node runs: a real-time clock,
  an SPI driver for the Si4463 radio chip, packets with a checksum, a small command set and a state
  machine that saves power. \<^verbatim>\<open>examples/oiltank.c\<close> and \<^verbatim>\<open>monitor/monitor.c\<close> are client
  applications linked with it; they supply the callbacks \<^verbatim>\<open>operate\<close> and \<^verbatim>\<open>fetch_status\<close>.
  \<^verbatim>\<open>control/\<close> is the firmware of the controller, also linked with the library: it reads commands from a serial
  line, keeps one packet per radio channel in a queue, and transmits them by priority and in time slots.
  \<^verbatim>\<open>lrmon/\<close> is the daemon on the host at the other end of the serial line: it starts the controller, sets its
  clock and channels, and collects status reports.

  \<^bold>\<open>The model.\<close> A C function of the firmware that touches global state is a value of
  \<open>('d, 'a, 'r) op\<close>, a state monad over the record \<open>('d, 'a) mcu\<close>: the globals of the library, the
  peripheral registers, the output, and the globals \<open>'a\<close> of the application. The hardware (\<open>hw\<close>: the radio
  chip on the SPI bus, the analog inputs, which interrupts arrive while the processor sleeps) and the callbacks of the
  application (\<open>env\<close>) are parameters: the theorems hold for every hardware, or under the stated assumptions
  on it. An access outside of an array, a reset and a wait that never ends are recorded in the field \<open>stopped\<close>;
  the state after it is not meaningful. Machine integers are words of their width. The daemon is a set of functions
  on the record \<open>lrmon\<close>.

  \<^bold>\<open>The library.\<close> \<open>Prelude\<close>: machine integers, the state monad and its proof calculi (\<open>keeps\<close>,
  \<open>preserves\<close>, \<open>yields\<close>, \<open>ensures\<close>).
  \<open>Mcu\<close>: the data model, \<^verbatim>\<open>struct packet\<close>, \<^verbatim>\<open>struct channel\<close>, \<^verbatim>\<open>struct libradio\<close>, and
  the state of a microcontroller. \<open>Clock\<close>: \<^verbatim>\<open>clock.c\<close>, \<^verbatim>\<open>time.c\<close>, \<^verbatim>\<open>power_mode.c\<close>,
  \<^verbatim>\<open>ioinit.S\<close>.
  \<open>Packet_Io\<close>: \<^verbatim>\<open>packet.c\<close>. \<open>Radio_State\<close>: \<^verbatim>\<open>state.c\<close> and the contracts of an
  application. \<open>Radio_Config\<close>, \<open>Radio_Chip\<close>: \<^verbatim>\<open>radio_config.h\<close>, \<^verbatim>\<open>radio.c\<close>,
  \<^verbatim>\<open>power.c\<close>, \<^verbatim>\<open>init.c\<close>. \<open>Rxtx\<close>: \<^verbatim>\<open>rxtx.c\<close>. \<open>Frames\<close>: frame conditions, and what the bus has carried
  when a transmission is reported.
  \<open>Command\<close>: \<^verbatim>\<open>command.c\<close>, \<^verbatim>\<open>handle.c\<close>. \<open>Bus_Commands\<close>: the commands the chip is
  given, read off the bus, and that none of them transmits a response that is too long. \<open>Client_Loop\<close>: \<^verbatim>\<open>wait.c\<close>,
  \<^verbatim>\<open>loop.c\<close>, \<^verbatim>\<open>debug.c\<close> and the interrupts. \<open>Oiltank\<close>, \<open>Monitor\<close>: the applications.
  \<open>Bench\<close>: a concrete node for the witnesses. \<open>Library_Theorems\<close> shows that packets survive the air and
  corrupted ones are rejected, that the SPI driver implements an exchange with a device, which commands a node obeys
  and what they do, that no buffer is left on responsive hardware, what every reachable state of the oil tank
  client satisfies, that the clock refines one counter, its wake-ups are exact and the LED shows the pattern of the state; and the cases in which
  the code does not do what it means to (EEPROM access, long responses, the missing timeout of listening).

  \<^bold>\<open>The controller.\<close> \<open>Control_Queue\<close>: its variables, \<^verbatim>\<open>enqueue.c\<close>, \<^verbatim>\<open>command.c\<close>,
  \<^verbatim>\<open>init.c\<close>. \<open>Control_Input\<close>: the interpreter of the serial line, \<^verbatim>\<open>input.c\<close>.
  \<open>Control_Tx\<close>: \<^verbatim>\<open>transmit.c\<close>, \<^verbatim>\<open>response.c\<close>, \<^verbatim>\<open>main.c\<close>. \<open>Control_Invariant\<close>: the invariant
  of its variables. \<open>Control_Behaviour\<close>: what the operations do. \<open>Control_Theorems\<close> shows the invariant of every
  reachable state, that the text of a command is read into the packet it describes, how commands are queued or refused,
  which channel is served, what a transmission changes and how the waiting channels age, that the time it sends sets the clocks of its clients, that a missing response is given up, and what happens to
  commands that are broken off or still being typed.

  \<^bold>\<open>The daemon.\<close> \<open>Lrmon_State\<close>: \<^verbatim>\<open>timer.c\<close>, \<^verbatim>\<open>command.c\<close>, \<^verbatim>\<open>state.c\<close>.
  \<open>Lrmon_Input\<close>: \<^verbatim>\<open>serial.c\<close>, \<^verbatim>\<open>response.c\<close>, \<^verbatim>\<open>rmq.c\<close>, \<^verbatim>\<open>main.c\<close>. \<open>Lrmon_Text\<close>:
  the serial input as lines. \<open>Lrmon_Behaviour\<close>: its invariant, its start-up, the fields of a report.
  \<open>Lrmon_Link\<close>: daemon and controller at the two ends of the line. \<open>Lrmon_Exchange\<close>: what the controller prints in
  answer to each line of the start-up, read by the daemon. \<open>Lrmon_Startup\<close>: the sequence of these exchanges.
  \<open>Lrmon_Theorems\<close> shows the invariant of every reachable state, that the input does not depend on how it is cut into
  pieces, that the start-up completes, alone and against the controller, and that the time of day reaches the controller
  and the controller's status reaches the daemon. An exchange takes no time: no timer of the daemon expires and the
  controller does nothing but read its serial line meanwhile.

  \<^bold>\<open>Interfaces.\<close> The locales state what one component needs of another and are interpreted on the model: the
  contracts of an application (\<open>Radio_State\<close>), interpreted by the oil tank, the monitor and the controller; a
  countdown (\<open>countdown\<close>), interpreted by the wake-up of the clock and by the wait for a response; an input in pieces
  (\<open>chunked_reader\<close>), interpreted by the daemon's port and by the controller's console.

  \<^bold>\<open>Bounds.\<close> The loops of the code end by their own counters (\<open>MAX_COUNT\<close> polls of the chip, the length of a
  packet, the number of channels, the length of a text). Three loops have no bound in the code: the wait of a client
  (\<open>wait_loop\<close>), the wait for the end of a transmission (\<open>tx_busy_wait\<close>) and the monitor's reading of all packets
  (\<open>monitor_drain\<close>); they are \<open>partial_function\<close>s whose result \<open>None\<close> stops the machine as diverging, and the theorems
  show under which hardware the first two end.

  \<^bold>\<open>Not modelled.\<close> The watchdog instruction, which has no effect on the state; the masking of interrupts, which are taken
  only where the processor sleeps; the standard streams (\<^verbatim>\<open>fdevopen\<close>); \<^verbatim>\<open>syslog\<close>, the terminal settings,
  \<^verbatim>\<open>fork\<close> and failing system calls of the daemon; the RabbitMQ library, whose results are a parameter; tests, scripts
  and build files.
\<close>

end
